(* ===== verification/Prelude.thy ===== *)
theory Prelude
  imports Main "HOL-Library.Multiset" "HOL-Library.List_Lexorder" "HOL-Library.Char_ord"
begin

text \<open>
  What every component of the model shares: the development's collections of facts, Go's string
  functions on byte strings, the error-or-value results, the maps that a Go loop fills entry by
  entry, and the order in which Go's runtime visits a map or sorts a slice, which the language
  leaves open.

  A Go string is its list of bytes (\<^typ>\<open>string\<close>). \<open>strings.TrimSpace\<close>, \<open>strings.ToLower\<close> and
  \<open>strings.EqualFold\<close> are modelled on ASCII: a byte above 127 is neither white space nor a letter.
  Instants and durations are integers, in nanoseconds.
\<close>

type_synonym time = int
type_synonym duration = int

text \<open>The value an arithmetic operation on \<open>int64\<close> wraps to.\<close>

definition wrap64 :: "int \<Rightarrow> int" where
  "wrap64 i = (i + 2 ^ 63) mod 2 ^ 64 - 2 ^ 63"

lemma wrap64_id [simp]: "- (2 ^ 63) \<le> i \<Longrightarrow> i < 2 ^ 63 \<Longrightarrow> wrap64 i = i"
  by (simp add: wrap64_def)

lemma wrap64_range: "- (2 ^ 63) \<le> wrap64 i \<and> wrap64 i < 2 ^ 63"
  by (simp add: wrap64_def)

named_theorems go_simps \<open>unfoldings of the small definitions of a component\<close>
named_theorems go_intros \<open>introduction rules for the invariants of a component\<close>

section \<open>Results\<close>

text \<open>A Go function that returns a value and an error gives \<^term>\<open>Inl e\<close> or \<^term>\<open>Inr v\<close>.\<close>

fun bindE :: "'e + 'a \<Rightarrow> ('a \<Rightarrow> 'e + 'b) \<Rightarrow> 'e + 'b" where
  "bindE (Inl e) f = Inl e"
| "bindE (Inr x) f = f x"

lemma bindE_eq_Inr [simp]: "bindE m f = Inr y \<longleftrightarrow> (\<exists>x. m = Inr x \<and> f x = Inr y)"
  by (cases m) auto

lemma bindE_eq_Inl: "bindE m f = Inl e \<longleftrightarrow> m = Inl e \<or> (\<exists>x. m = Inr x \<and> f x = Inl e)"
  by (cases m) auto

section \<open>Strings\<close>

definition is_space :: "char \<Rightarrow> bool" where
  "is_space c \<longleftrightarrow> c \<in> {CHR 0x09, CHR 0x0A, CHR 0x0B, CHR 0x0C, CHR 0x0D, CHR '' ''}"

definition TrimSpace :: "string \<Rightarrow> string" where
  "TrimSpace s = rev (dropWhile is_space (rev (dropWhile is_space s)))"

definition lower_char :: "char \<Rightarrow> char" where
  "lower_char c = (let n = (of_char c :: nat) in if 65 \<le> n \<and> n \<le> 90 then char_of (n + 32) else c)"

definition ToLower :: "string \<Rightarrow> string" where
  "ToLower s = map lower_char s"

definition EqualFold :: "string \<Rightarrow> string \<Rightarrow> bool" where
  "EqualFold a b \<longleftrightarrow> ToLower a = ToLower b"

fun HasPrefix :: "string \<Rightarrow> string \<Rightarrow> bool" where
  "HasPrefix s [] = True"
| "HasPrefix [] (c # p) = False"
| "HasPrefix (d # s) (c # p) = (d = c \<and> HasPrefix s p)"

definition HasSuffix :: "string \<Rightarrow> string \<Rightarrow> bool" where
  "HasSuffix s p = HasPrefix (rev s) (rev p)"

fun Contains :: "string \<Rightarrow> string \<Rightarrow> bool" where
  "Contains [] p = (p = [])"
| "Contains (c # s) p = (HasPrefix (c # s) p \<or> Contains s p)"

text \<open>\<open>strings.Join\<close>.\<close>

fun Join :: "string list \<Rightarrow> string \<Rightarrow> string" where
  "Join [] sep = []"
| "Join [s] sep = s"
| "Join (s # t # ts) sep = s @ sep @ Join (t # ts) sep"

text \<open>\<open>strings.Fields\<close>: the maximal runs of characters other than white space.\<close>

function Fields :: "string \<Rightarrow> string list" where
  "Fields s =
     (let t = dropWhile is_space s in
      if t = [] then [] else takeWhile (\<lambda>c. \<not> is_space c) t # Fields (dropWhile (\<lambda>c. \<not> is_space c) t))"
  by pat_completeness auto

termination
proof (relation "measure length")
  fix s t :: string
  assume t: "t = dropWhile is_space s" and ne: "t \<noteq> []"
  then have "\<not> is_space (hd t)" by (metis hd_dropWhile)
  with ne have "length (dropWhile (\<lambda>c. \<not> is_space c) t) < length t"
    by (cases t) (auto intro: le_imp_less_Suc length_dropWhile_le)
  also have "\<dots> \<le> length s" unfolding t by (rule length_dropWhile_le)
  finally show "(dropWhile (\<lambda>c. \<not> is_space c) t, s) \<in> measure length" by simp
qed simp

declare Fields.simps [simp del]

text \<open>Decimal text of a natural number, as \<open>fmt\<close> prints it.\<close>

definition digit_char :: "nat \<Rightarrow> char" where
  "digit_char d = char_of (48 + d mod 10)"

fun dec :: "nat \<Rightarrow> string" where
  "dec n = (if n < 10 then [digit_char n] else dec (n div 10) @ [digit_char n])"

declare dec.simps [simp del]

definition dec_int :: "int \<Rightarrow> string" where
  "dec_int i = (if i < 0 then CHR ''-'' # dec (nat (- i)) else dec (nat i))"

lemma HasPrefix_append: "HasPrefix s p \<longleftrightarrow> (\<exists>t. s = p @ t)"
  by (induction s p rule: HasPrefix.induct) auto

lemma Contains_iff: "Contains s p \<longleftrightarrow> (\<exists>a b. s = a @ p @ b)"
proof (induction s p rule: Contains.induct)
  case (1 p)
  then show ?case by auto
next
  case (2 c s p)
  have "(\<exists>a b. c # s = a @ p @ b) \<longleftrightarrow> (\<exists>b. c # s = p @ b) \<or> (\<exists>a b. s = a @ p @ b)"
    (is "?l \<longleftrightarrow> ?r")
  proof
    assume ?l
    then obtain a b where ab: "c # s = a @ p @ b" by blast
    then show ?r by (cases a) auto
  next
    assume ?r
    then show ?l
    proof
      assume "\<exists>b. c # s = p @ b"
      then obtain b where "c # s = [] @ p @ b" by auto
      then show ?l by blast
    next
      assume "\<exists>a b. s = a @ p @ b"
      then obtain a b where "c # s = (c # a) @ p @ b" by auto
      then show ?l by blast
    qed
  qed
  with 2 show ?case by (simp add: HasPrefix_append)
qed

lemma lower_char_idem [simp]: "lower_char (lower_char c) = lower_char c"
  by (auto simp: lower_char_def Let_def)

lemma ToLower_idem [simp]: "ToLower (ToLower s) = ToLower s"
  by (simp add: ToLower_def)

lemma length_ToLower [simp]: "length (ToLower s) = length s"
  by (simp add: ToLower_def)

lemma ToLower_eq_Nil [simp]: "ToLower s = [] \<longleftrightarrow> s = []"
  by (simp add: ToLower_def)

lemma EqualFold_refl [simp]: "EqualFold s s"
  by (simp add: EqualFold_def)

lemma EqualFold_sym: "EqualFold s t \<longleftrightarrow> EqualFold t s"
  by (auto simp: EqualFold_def)

lemma dropWhile_hd: "dropWhile P xs = y # ys \<Longrightarrow> \<not> P y"
  by (induction xs) (auto split: if_splits)

lemma dropWhile_id: "xs = [] \<or> \<not> P (hd xs) \<Longrightarrow> dropWhile P xs = xs"
  by (cases xs) auto

lemma dropWhile_idem [simp]: "dropWhile P (dropWhile P xs) = dropWhile P xs"
  by (induction xs) auto

lemma TrimSpace_Nil [simp]: "TrimSpace [] = []"
  by (simp add: TrimSpace_def)

lemma hd_TrimSpace: "TrimSpace s \<noteq> [] \<Longrightarrow> \<not> is_space (hd (TrimSpace s))"
proof -
  assume ne: "TrimSpace s \<noteq> []"
  let ?u = "dropWhile is_space s"
  obtain w where w: "?u = TrimSpace s @ w"
    unfolding TrimSpace_def
    by (metis rev_append rev_rev_ident takeWhile_dropWhile_id)
  with ne obtain y ys where y: "?u = y # ys" and "hd (TrimSpace s) = y"
    by (cases "TrimSpace s") auto
  with dropWhile_hd [OF y] show ?thesis by simp
qed

lemma TrimSpace_idem [simp]: "TrimSpace (TrimSpace s) = TrimSpace s"
proof -
  have "dropWhile is_space (TrimSpace s) = TrimSpace s"
    by (rule dropWhile_id) (use hd_TrimSpace in blast)
  then have "TrimSpace (TrimSpace s) = rev (dropWhile is_space (rev (TrimSpace s)))"
    by (simp add: TrimSpace_def)
  also have "\<dots> = TrimSpace s"
    by (simp add: TrimSpace_def)
  finally show ?thesis .
qed

section \<open>Maps filled by a loop\<close>

text \<open>
  \<open>for _, x := range xs { if k, v, ok := f(x); ok { m[k] = v } }\<close>: a later element overwrites
  an earlier one with the same key.
\<close>

fun collect :: "('a \<Rightarrow> ('k \<times> 'v) option) \<Rightarrow> ('k \<rightharpoonup> 'v) \<Rightarrow> 'a list \<Rightarrow> ('k \<rightharpoonup> 'v)" where
  "collect f m [] = m"
| "collect f m (x # xs) =
     collect f (case f x of None \<Rightarrow> m | Some (k, v) \<Rightarrow> m(k \<mapsto> v)) xs"

lemma collect_SomeD:
  "collect f m xs k = Some v \<Longrightarrow> m k = Some v \<or> (\<exists>x\<in>set xs. f x = Some (k, v))"
  by (induction xs arbitrary: m) (force split: option.splits prod.splits if_splits)+

lemma collect_None_iff:
  "collect f m xs k = None \<longleftrightarrow> m k = None \<and> (\<forall>x\<in>set xs. \<forall>v. f x \<noteq> Some (k, v))"
proof (induction xs arbitrary: m)
  case Nil
  then show ?case by simp
next
  case (Cons x xs)
  show ?case
    by (cases "f x") (auto simp: Cons.IH split: if_splits)
qed

lemma collect_Some_unique:
  assumes "\<And>x w. x \<in> set xs \<Longrightarrow> f x = Some (k, w) \<Longrightarrow> w = v"
    and "m k = Some v \<or> (\<exists>x\<in>set xs. f x = Some (k, v))"
  shows "collect f m xs k = Some v"
  using assms
proof (induction xs arbitrary: m)
  case Nil
  then show ?case by simp
next
  case (Cons a as)
  let ?m = "case f a of None \<Rightarrow> m | Some (k, v) \<Rightarrow> m(k \<mapsto> v)"
  have "?m k = Some v \<or> (\<exists>x\<in>set as. f x = Some (k, v))"
    using Cons.prems(2) Cons.prems(1) [of a] by (cases "f a") (auto split: if_splits)
  then have "collect f ?m as k = Some v"
    using Cons.prems(1) by (intro Cons.IH) auto
  then show ?case by simp
qed

section \<open>What the runtime leaves open\<close>

text \<open>
  \<open>range\<close> over a map visits the keys in an unspecified order, and \<open>sort.Slice\<close> is not stable. A
  model that depends on either takes the order or the sort as an argument; a theorem then holds
  for every argument that satisfies one of these two predicates.
\<close>

definition visits :: "('k list \<Rightarrow> 'k list) \<Rightarrow> bool" where
  "visits ord \<longleftrightarrow> (\<forall>ks. mset (ord ks) = mset ks)"

definition sorts :: "('a \<Rightarrow> 'k :: linorder) \<Rightarrow> ('a list \<Rightarrow> 'a list) \<Rightarrow> bool" where
  "sorts key srt \<longleftrightarrow> (\<forall>xs. mset (srt xs) = mset xs \<and> sorted (map key (srt xs)))"

lemma visits_set [simp]: "visits ord \<Longrightarrow> set (ord ks) = set ks"
  unfolding visits_def by (metis set_mset_mset)

lemma visits_distinct [simp]: "visits ord \<Longrightarrow> distinct (ord ks) = distinct ks"
  unfolding visits_def by (metis mset_eq_imp_distinct_iff)

lemma visits_id [simp, intro]: "visits (\<lambda>ks. ks)" "visits id"
  by (simp_all add: visits_def)

lemma visits_rev [simp, intro]: "visits rev"
  by (simp add: visits_def)

lemma sorts_set [simp]: "sorts key srt \<Longrightarrow> set (srt xs) = set xs"
  unfolding sorts_def by (metis set_mset_mset)

lemma sorts_mset: "sorts key srt \<Longrightarrow> mset (srt xs) = mset xs"
  by (simp add: sorts_def)

lemma sorts_length [simp]: "sorts key srt \<Longrightarrow> length (srt xs) = length xs"
  unfolding sorts_def by (metis size_mset)

lemma sorts_sorted: "sorts key srt \<Longrightarrow> sorted (map key (srt xs))"
  by (simp add: sorts_def)

lemma sorts_sort_key [simp, intro]: "sorts key (sort_key key)"
  by (simp add: sorts_def)

text \<open>Two sorts of a list whose keys are all different agree.\<close>

lemma sorts_unique:
  assumes "sorts key srt" and "distinct (map key xs)"
  shows "srt xs = sort_key key xs"
proof -
  have "mset (map key (srt xs)) = mset (map key xs)"
    using assms(1) by (simp add: sorts_def)
  then have d: "distinct (map key (srt xs))"
    using assms(2) mset_eq_imp_distinct_iff by blast
  have "inj_on key (set xs)"
    using assms(2) by (simp add: distinct_map)
  moreover have "mset (srt xs) = mset xs" and "sorted (map key (srt xs))"
    using assms(1) by (simp_all add: sorts_def)
  ultimately show ?thesis
    by (metis properties_for_sort_key sort_key_inj_key_eq)
qed

text \<open>The distinct keys of a list in the order of first appearance: what a Go map that the loop
  fills holds, before its runtime order.\<close>

fun keys_of :: "'k list \<Rightarrow> 'k list" where
  "keys_of [] = []"
| "keys_of (k # ks) = k # filter (\<lambda>j. j \<noteq> k) (keys_of ks)"

lemma set_keys_of [simp]: "set (keys_of ks) = set ks"
  by (induction ks) auto

lemma distinct_keys_of [simp]: "distinct (keys_of ks)"
  by (induction ks) auto

end
