(* ===== verification/Json.thy ===== *)
theory Json
  imports Prelude
begin

text \<open>
  JSON values as trees and \<open>encoding/json\<close> on them: the omission of empty fields when a struct is
  written (\<open>omitempty\<close>), and the rules by which \<open>json.Unmarshal\<close> fills a struct: an input key sets
  the field whose name equals it up to case, \<open>null\<close> leaves a scalar field as it is and clears a
  pointer or a slice, a value of another type is an error whatever follows it, and of several
  values for one field the last one stands. The text of a tree (white space, escapes) is not modelled.
\<close>

datatype json =
    JNull
  | JBool bool
  | JNum int           \<comment> \<open>an integer literal\<close>
  | JReal string       \<comment> \<open>any other number literal, by its text\<close>
  | JStr string
  | JTime time         \<comment> \<open>the RFC 3339 text of an instant\<close>
  | JArr "json list"
  | JObj "(string \<times> json) list"

type_synonym fields = "(string \<times> json) list"

named_theorems json_simps \<open>evaluation of encoders and decoders\<close>

section \<open>Writing\<close>

definition omit_str :: "string \<Rightarrow> string \<Rightarrow> fields" where
  "omit_str k s = (if s = [] then [] else [(k, JStr s)])"

definition omit_int :: "string \<Rightarrow> int \<Rightarrow> fields" where
  "omit_int k i = (if i = 0 then [] else [(k, JNum i)])"

definition omit_list :: "string \<Rightarrow> json list \<Rightarrow> fields" where
  "omit_list k js = (if js = [] then [] else [(k, JArr js)])"

definition omit_ptr :: "string \<Rightarrow> json option \<Rightarrow> fields" where
  "omit_ptr k p = (case p of None \<Rightarrow> [] | Some j \<Rightarrow> [(k, j)])"

text \<open>A \<open>map[string]string\<close> is written with its keys sorted.\<close>

definition omit_map :: "string \<Rightarrow> (string \<times> string) list \<Rightarrow> fields" where
  "omit_map k m = (if m = [] then []
     else [(k, JObj (map (\<lambda>(a, b). (a, JStr b)) (sort_key fst m)))])"

lemmas omit_defs = omit_str_def omit_int_def omit_list_def omit_ptr_def omit_map_def

section \<open>Reading\<close>

text \<open>The values an object gives to the field \<open>name\<close>, in order.\<close>

definition values_for :: "string \<Rightarrow> fields \<Rightarrow> json list" where
  "values_for name fs = map snd (filter (\<lambda>(k, v). EqualFold k name) fs)"

definition non_null :: "json list \<Rightarrow> json list" where
  "non_null vs = filter (\<lambda>v. v \<noteq> JNull) vs"

text \<open>A scalar field: every value must pass \<open>conv\<close>, the last one stands, the default without one.\<close>

definition decode_scalar :: "(json \<Rightarrow> 'a option) \<Rightarrow> 'a \<Rightarrow> json list \<Rightarrow> 'a option" where
  "decode_scalar conv dflt vs =
     (let ns = non_null vs in
      if list_all (\<lambda>v. conv v \<noteq> None) ns
      then Some (if ns = [] then dflt else the (conv (last ns)))
      else None)"

fun str_of :: "json \<Rightarrow> string option" where
  "str_of (JStr s) = Some s"
| "str_of _ = None"

fun int_of_json :: "json \<Rightarrow> int option" where
  "int_of_json (JNum i) = Some i"
| "int_of_json _ = None"

definition decode_str :: "string \<Rightarrow> fields \<Rightarrow> string option" where
  "decode_str name fs = decode_scalar str_of [] (values_for name fs)"

definition decode_int :: "string \<Rightarrow> fields \<Rightarrow> int option" where
  "decode_int name fs = decode_scalar int_of_json 0 (values_for name fs)"

text \<open>A pointer or a slice: \<open>null\<close> gives \<open>nil\<close>; the last value stands.\<close>

definition decode_ptr :: "(json \<Rightarrow> 'a option) \<Rightarrow> string \<Rightarrow> fields \<Rightarrow> 'a option option" where
  "decode_ptr conv name fs =
     (let vs = values_for name fs in
      if list_all (\<lambda>v. v = JNull \<or> conv v \<noteq> None) vs
      then Some (if vs = [] \<or> last vs = JNull then None else conv (last vs))
      else None)"

text \<open>Convert every element or fail; \<open>null\<close> elements are the zero value \<open>dflt\<close>.\<close>

fun conv_all :: "(json \<Rightarrow> 'a option) \<Rightarrow> 'a \<Rightarrow> json list \<Rightarrow> 'a list option" where
  "conv_all conv dflt [] = Some []"
| "conv_all conv dflt (j # js) =
     (case (if j = JNull then Some dflt else conv j) of
        None \<Rightarrow> None
      | Some x \<Rightarrow> map_option (\<lambda>xs. x # xs) (conv_all conv dflt js))"

fun list_of :: "(json \<Rightarrow> 'a option) \<Rightarrow> 'a \<Rightarrow> json \<Rightarrow> 'a list option" where
  "list_of conv dflt (JArr js) = conv_all conv dflt js"
| "list_of conv dflt _ = None"

definition decode_list :: "(json \<Rightarrow> 'a option) \<Rightarrow> 'a \<Rightarrow> string \<Rightarrow> fields \<Rightarrow> 'a list option" where
  "decode_list conv dflt name fs =
     map_option (\<lambda>p. case p of None \<Rightarrow> [] | Some xs \<Rightarrow> xs)
       (decode_ptr (list_of conv dflt) name fs)"

text \<open>A \<open>json.RawMessage\<close> keeps the last value as it is, \<open>null\<close> included.\<close>

definition decode_raw :: "string \<Rightarrow> fields \<Rightarrow> json option" where
  "decode_raw name fs =
     (let vs = values_for name fs in if vs = [] then None else Some (last vs))"

text \<open>A struct is read from an object; \<open>null\<close> leaves the zero struct, which is what the decoders
  give for no fields.\<close>

fun fields_of :: "json \<Rightarrow> fields option" where
  "fields_of (JObj fs) = Some fs"
| "fields_of JNull = Some []"
| "fields_of _ = None"

section \<open>Evaluation of decoders on written objects\<close>

text \<open>A name of lower-case letters and underscores is its own lower-case form, so two such names
  match only when they are equal.\<close>

definition lower_name :: "string \<Rightarrow> bool" where
  "lower_name s \<longleftrightarrow> ToLower s = s"

lemma EqualFold_lower [json_simps]:
  "lower_name a \<Longrightarrow> lower_name b \<Longrightarrow> EqualFold a b \<longleftrightarrow> a = b"
  by (simp add: EqualFold_def lower_name_def)

lemma values_for_Nil [json_simps]: "values_for n [] = []"
  by (simp add: values_for_def)

lemma values_for_Cons [json_simps]:
  "values_for n ((k, v) # fs) = (if EqualFold k n then v # values_for n fs else values_for n fs)"
  by (simp add: values_for_def)

lemma values_for_append [json_simps]:
  "values_for n (fs @ gs) = values_for n fs @ values_for n gs"
  by (simp add: values_for_def)

lemma values_for_omit_str [json_simps]:
  "values_for n (omit_str k s) = (if EqualFold k n \<and> s \<noteq> [] then [JStr s] else [])"
  by (simp add: omit_defs json_simps)

lemma values_for_omit_list [json_simps]:
  "values_for n (omit_list k js) = (if EqualFold k n \<and> js \<noteq> [] then [JArr js] else [])"
  by (simp add: omit_defs json_simps)

lemma values_for_omit_ptr [json_simps]:
  "values_for n (omit_ptr k p) =
     (case p of None \<Rightarrow> [] | Some j \<Rightarrow> if EqualFold k n then [j] else [])"
  by (simp add: omit_defs json_simps split: option.splits)

lemma decode_scalar_none [json_simps]: "decode_scalar conv d [] = Some d"
  by (simp add: decode_scalar_def non_null_def)

lemma decode_scalar_str [json_simps]: "decode_scalar str_of d [JStr s] = Some s"
  by (simp add: decode_scalar_def non_null_def)

lemma decode_scalar_int [json_simps]: "decode_scalar int_of_json d [JNum i] = Some i"
  by (simp add: decode_scalar_def non_null_def)

lemma decode_scalar_omit [json_simps]:
  "decode_scalar str_of [] (if s \<noteq> [] then [JStr s] else []) = Some s"
  by (simp add: json_simps)

lemma conv_all_map:
  assumes "\<And>x. conv (enc x) = Some x" and "\<And>x. enc x \<noteq> JNull"
  shows "conv_all conv d (map enc xs) = Some xs"
  by (induction xs) (simp_all add: assms)

lemma conv_all_str [json_simps]: "conv_all str_of [] (map JStr xs) = Some xs"
  by (rule conv_all_map) simp_all

end
