(* ===== verification/Payloads.thy ===== *)
theory Payloads
  imports Json
begin

text \<open>
  The typed payloads of evidence entries, \<^verbatim>\<open>pkg/evidence/payloads.go\<close>: the verdict and its relation to
  the exit code, the prescription and report payloads with their JSON forms, the legacy risk
  fields, and the payloads of the other entry types. A pointer field is an \<open>option\<close>.
\<close>

type_synonym Verdict = string
type_synonym Flavor = string
type_synonym EvidenceKind = string

definition VerdictSuccess :: Verdict where "VerdictSuccess = ''success''"
definition VerdictFailure :: Verdict where "VerdictFailure = ''failure''"
definition VerdictError :: Verdict where "VerdictError = ''error''"
definition VerdictDeclined :: Verdict where "VerdictDeclined = ''declined''"

lemmas verdict_defs = VerdictSuccess_def VerdictFailure_def VerdictError_def VerdictDeclined_def

definition VerdictFromExitCode :: "int \<Rightarrow> Verdict" where
  "VerdictFromExitCode code =
     (if code = 0 then VerdictSuccess
      else if code < 0 then VerdictError
      else VerdictFailure)"

definition Verdict_Valid :: "Verdict \<Rightarrow> bool" where
  "Verdict_Valid v \<longleftrightarrow> v \<in> {VerdictSuccess, VerdictFailure, VerdictError, VerdictDeclined}"

record DecisionContext =
  dcTrigger :: string
  dcReason :: string

record RiskInput =
  riSource :: string
  riRiskLevel :: string
  riRiskTags :: "string list"
  riDetail :: string

record PrescriptionPayload =
  ppPrescriptionID :: string
  ppCanonicalAction :: "json option"
  ppRiskInputs :: "RiskInput list"
  ppEffectiveRisk :: string
  ppRiskLevel :: string
  ppRiskDetails :: "string list"
  ppRiskTags :: "string list"
  ppTTLMs :: int
  ppCanonSource :: string
  ppFlavor :: Flavor
  ppEvidence :: "EvidenceKind option"
  ppSource :: "string option"

record ExternalRef =
  erType :: string
  erID :: string

record ReportPayload =
  rpReportID :: string
  rpPrescriptionID :: string
  rpExitCode :: "int option"
  rpVerdict :: Verdict
  rpDecisionContext :: "DecisionContext option"
  rpExternalRefs :: "ExternalRef list"
  rpFlavor :: Flavor
  rpEvidence :: "EvidenceKind option"
  rpSource :: "string option"

record FindingPayload =
  fpTool :: string
  fpToolVersion :: string
  fpRuleID :: string
  fpSeverity :: string
  fpResource :: string
  fpMessage :: string

record SignalPayload =
  spSignalName :: string
  spSubSignal :: string
  spEntryRefs :: "string list"
  spDetails :: string

record CanonFailurePayload =
  cfErrorCode :: string
  cfErrorMessage :: string
  cfAdapter :: string
  cfRawDigest :: string

section \<open>Risk tags of a prescription\<close>

definition EffectiveRiskDetails :: "PrescriptionPayload \<Rightarrow> string list" where
  "EffectiveRiskDetails p = (if ppRiskDetails p \<noteq> [] then ppRiskDetails p else ppRiskTags p)"

definition NativeRiskTags :: "PrescriptionPayload \<Rightarrow> string list" where
  "NativeRiskTags p =
     (if ppRiskInputs p \<noteq> []
      then (case find (\<lambda>ri. riSource ri = ''evidra/native'') (ppRiskInputs p) of
              Some ri \<Rightarrow> riRiskTags ri
            | None \<Rightarrow> [])
      else EffectiveRiskDetails p)"

section \<open>JSON forms\<close>

definition decision_json :: "DecisionContext \<Rightarrow> json" where
  "decision_json d = JObj [(''trigger'', JStr (dcTrigger d)), (''reason'', JStr (dcReason d))]"

definition risk_input_json :: "RiskInput \<Rightarrow> json" where
  "risk_input_json r = JObj ([(''source'', JStr (riSource r)), (''risk_level'', JStr (riRiskLevel r))]
     @ omit_list ''risk_tags'' (map JStr (riRiskTags r)) @ omit_str ''detail'' (riDetail r))"

definition external_ref_json :: "ExternalRef \<Rightarrow> json" where
  "external_ref_json r = JObj [(''type'', JStr (erType r)), (''id'', JStr (erID r))]"

definition kind_json :: "EvidenceKind \<Rightarrow> json" where
  "kind_json k = JObj (omit_str ''kind'' k)"

definition system_json :: "string \<Rightarrow> json" where
  "system_json s = JObj (omit_str ''system'' s)"

definition prescription_json :: "PrescriptionPayload \<Rightarrow> json" where
  "prescription_json p = JObj (
     [(''prescription_id'', JStr (ppPrescriptionID p)),
      (''canonical_action'', case ppCanonicalAction p of None \<Rightarrow> JNull | Some j \<Rightarrow> j)]
     @ omit_list ''risk_inputs'' (map risk_input_json (ppRiskInputs p))
     @ omit_str ''effective_risk'' (ppEffectiveRisk p)
     @ omit_str ''risk_level'' (ppRiskLevel p)
     @ omit_list ''risk_details'' (map JStr (ppRiskDetails p))
     @ omit_list ''risk_tags'' (map JStr (ppRiskTags p))
     @ [(''ttl_ms'', JNum (ppTTLMs p)), (''canon_source'', JStr (ppCanonSource p))]
     @ omit_str ''flavor'' (ppFlavor p)
     @ omit_ptr ''evidence'' (map_option kind_json (ppEvidence p))
     @ omit_ptr ''source'' (map_option system_json (ppSource p)))"

definition report_json :: "ReportPayload \<Rightarrow> json" where
  "report_json r = JObj (
     [(''report_id'', JStr (rpReportID r)), (''prescription_id'', JStr (rpPrescriptionID r))]
     @ omit_ptr ''exit_code'' (map_option JNum (rpExitCode r))
     @ [(''verdict'', JStr (rpVerdict r))]
     @ omit_ptr ''decision_context'' (map_option decision_json (rpDecisionContext r))
     @ omit_list ''external_refs'' (map external_ref_json (rpExternalRefs r))
     @ omit_str ''flavor'' (rpFlavor r)
     @ omit_ptr ''evidence'' (map_option kind_json (rpEvidence r))
     @ omit_ptr ''source'' (map_option system_json (rpSource r)))"

definition finding_json :: "FindingPayload \<Rightarrow> json" where
  "finding_json f = JObj ([(''tool'', JStr (fpTool f))] @ omit_str ''tool_version'' (fpToolVersion f)
     @ [(''rule_id'', JStr (fpRuleID f)), (''severity'', JStr (fpSeverity f)),
        (''resource'', JStr (fpResource f)), (''message'', JStr (fpMessage f))])"

definition signal_json :: "SignalPayload \<Rightarrow> json" where
  "signal_json s = JObj ([(''signal_name'', JStr (spSignalName s))]
     @ omit_str ''sub_signal'' (spSubSignal s)
     @ [(''entry_refs'', JArr (map JStr (spEntryRefs s)))]
     @ omit_str ''details'' (spDetails s))"

definition canon_failure_json :: "CanonFailurePayload \<Rightarrow> json" where
  "canon_failure_json c = JObj [(''error_code'', JStr (cfErrorCode c)),
     (''error_message'', JStr (cfErrorMessage c)), (''adapter'', JStr (cfAdapter c)),
     (''raw_digest'', JStr (cfRawDigest c))]"

section \<open>Reading them back\<close>

definition decision_of :: "json \<Rightarrow> DecisionContext option" where
  "decision_of j = (case fields_of j of None \<Rightarrow> None | Some fs \<Rightarrow>
     (case decode_str ''trigger'' fs of None \<Rightarrow> None | Some t \<Rightarrow>
     (case decode_str ''reason'' fs of None \<Rightarrow> None | Some r \<Rightarrow>
        Some \<lparr>dcTrigger = t, dcReason = r\<rparr>)))"

definition zero_risk_input :: RiskInput where
  "zero_risk_input = \<lparr>riSource = [], riRiskLevel = [], riRiskTags = [], riDetail = []\<rparr>"

definition risk_input_of :: "json \<Rightarrow> RiskInput option" where
  "risk_input_of j = (case fields_of j of None \<Rightarrow> None | Some fs \<Rightarrow>
     (case decode_str ''source'' fs of None \<Rightarrow> None | Some s \<Rightarrow>
     (case decode_str ''risk_level'' fs of None \<Rightarrow> None | Some l \<Rightarrow>
     (case decode_list str_of [] ''risk_tags'' fs of None \<Rightarrow> None | Some ts \<Rightarrow>
     (case decode_str ''detail'' fs of None \<Rightarrow> None | Some d \<Rightarrow>
        Some \<lparr>riSource = s, riRiskLevel = l, riRiskTags = ts, riDetail = d\<rparr>)))))"

definition external_ref_of :: "json \<Rightarrow> ExternalRef option" where
  "external_ref_of j = (case fields_of j of None \<Rightarrow> None | Some fs \<Rightarrow>
     (case decode_str ''type'' fs of None \<Rightarrow> None | Some t \<Rightarrow>
     (case decode_str ''id'' fs of None \<Rightarrow> None | Some i \<Rightarrow>
        Some \<lparr>erType = t, erID = i\<rparr>)))"

definition kind_of :: "json \<Rightarrow> EvidenceKind option" where
  "kind_of j = (case fields_of j of None \<Rightarrow> None | Some fs \<Rightarrow> decode_str ''kind'' fs)"

definition system_of :: "json \<Rightarrow> string option" where
  "system_of j = (case fields_of j of None \<Rightarrow> None | Some fs \<Rightarrow> decode_str ''system'' fs)"

definition unmarshal_prescription :: "json \<Rightarrow> PrescriptionPayload option" where
  "unmarshal_prescription j = (case fields_of j of None \<Rightarrow> None | Some fs \<Rightarrow>
     (case decode_str ''prescription_id'' fs of None \<Rightarrow> None | Some pid \<Rightarrow>
     (case decode_list risk_input_of zero_risk_input ''risk_inputs'' fs of None \<Rightarrow> None | Some ris \<Rightarrow>
     (case decode_str ''effective_risk'' fs of None \<Rightarrow> None | Some er \<Rightarrow>
     (case decode_str ''risk_level'' fs of None \<Rightarrow> None | Some rl \<Rightarrow>
     (case decode_list str_of [] ''risk_details'' fs of None \<Rightarrow> None | Some rds \<Rightarrow>
     (case decode_list str_of [] ''risk_tags'' fs of None \<Rightarrow> None | Some rts \<Rightarrow>
     (case decode_int ''ttl_ms'' fs of None \<Rightarrow> None | Some ttl \<Rightarrow>
     (case decode_str ''canon_source'' fs of None \<Rightarrow> None | Some cs \<Rightarrow>
     (case decode_str ''flavor'' fs of None \<Rightarrow> None | Some fl \<Rightarrow>
     (case decode_ptr kind_of ''evidence'' fs of None \<Rightarrow> None | Some ev \<Rightarrow>
     (case decode_ptr system_of ''source'' fs of None \<Rightarrow> None | Some src \<Rightarrow>
        Some \<lparr>ppPrescriptionID = pid, ppCanonicalAction = decode_raw ''canonical_action'' fs,
          ppRiskInputs = ris, ppEffectiveRisk = er, ppRiskLevel = rl, ppRiskDetails = rds,
          ppRiskTags = rts, ppTTLMs = ttl, ppCanonSource = cs, ppFlavor = fl,
          ppEvidence = ev, ppSource = src\<rparr>))))))))))))"

definition unmarshal_report :: "json \<Rightarrow> ReportPayload option" where
  "unmarshal_report j = (case fields_of j of None \<Rightarrow> None | Some fs \<Rightarrow>
     (case decode_str ''report_id'' fs of None \<Rightarrow> None | Some rid \<Rightarrow>
     (case decode_str ''prescription_id'' fs of None \<Rightarrow> None | Some pid \<Rightarrow>
     (case decode_ptr int_of_json ''exit_code'' fs of None \<Rightarrow> None | Some ec \<Rightarrow>
     (case decode_str ''verdict'' fs of None \<Rightarrow> None | Some v \<Rightarrow>
     (case decode_ptr decision_of ''decision_context'' fs of None \<Rightarrow> None | Some dc \<Rightarrow>
     (case decode_list external_ref_of \<lparr>erType = [], erID = []\<rparr> ''external_refs'' fs of
        None \<Rightarrow> None | Some refs \<Rightarrow>
     (case decode_str ''flavor'' fs of None \<Rightarrow> None | Some fl \<Rightarrow>
     (case decode_ptr kind_of ''evidence'' fs of None \<Rightarrow> None | Some ev \<Rightarrow>
     (case decode_ptr system_of ''source'' fs of None \<Rightarrow> None | Some src \<Rightarrow>
        Some \<lparr>rpReportID = rid, rpPrescriptionID = pid, rpExitCode = ec, rpVerdict = v,
          rpDecisionContext = dc, rpExternalRefs = refs, rpFlavor = fl,
          rpEvidence = ev, rpSource = src\<rparr>))))))))))"

section \<open>Round trips\<close>

lemma payload_names [json_simps]:
  "lower_name ''trigger''" "lower_name ''reason''" "lower_name ''source''" "lower_name ''risk_level''"
  "lower_name ''risk_tags''" "lower_name ''detail''" "lower_name ''type''" "lower_name ''id''"
  "lower_name ''kind''" "lower_name ''system''" "lower_name ''prescription_id''"
  "lower_name ''canonical_action''" "lower_name ''risk_inputs''" "lower_name ''effective_risk''"
  "lower_name ''risk_details''" "lower_name ''ttl_ms''" "lower_name ''canon_source''"
  "lower_name ''flavor''" "lower_name ''evidence''" "lower_name ''report_id''"
  "lower_name ''exit_code''" "lower_name ''verdict''" "lower_name ''decision_context''"
  "lower_name ''external_refs''"
  by code_simp+

lemma decision_of_json [simp]: "decision_of (decision_json d) = Some d"
  by (simp add: decision_of_def decision_json_def decode_str_def json_simps)

lemma external_ref_of_json [simp]: "external_ref_of (external_ref_json r) = Some r"
  by (simp add: external_ref_of_def external_ref_json_def decode_str_def json_simps)

lemma kind_of_json [simp]: "kind_of (kind_json k) = Some k"
  by (simp add: kind_of_def kind_json_def decode_str_def json_simps)

lemma system_of_json [simp]: "system_of (system_json s) = Some s"
  by (simp add: system_of_def system_json_def decode_str_def json_simps)

lemma json_not_null [simp]:
  "kind_json k \<noteq> JNull" "system_json s \<noteq> JNull" "decision_json d \<noteq> JNull"
  "external_ref_json r \<noteq> JNull" "risk_input_json ri \<noteq> JNull"
  by (simp_all add: kind_json_def system_json_def decision_json_def external_ref_json_def
      risk_input_json_def)

text \<open>A list field that was written is read back; an empty one was not written.\<close>

lemma decode_list_written:
  assumes "values_for n fs = (if xs \<noteq> [] then [JArr (map enc xs)] else [])"
    and "\<And>x. conv (enc x) = Some x" and "\<And>x. enc x \<noteq> JNull"
  shows "decode_list conv d n fs = Some xs"
  using assms conv_all_map [of conv enc d xs]
  by (cases xs) (simp_all add: decode_list_def decode_ptr_def Let_def)

lemma decode_ptr_written:
  assumes "values_for n fs = (case p of None \<Rightarrow> [] | Some x \<Rightarrow> [enc x])"
    and "\<And>x. conv (enc x) = Some x" and "\<And>x. enc x \<noteq> JNull"
  shows "decode_ptr conv n fs = Some p"
  using assms by (cases p) (simp_all add: decode_ptr_def Let_def)

lemma risk_input_of_json [simp]: "risk_input_of (risk_input_json r) = Some r"
proof -
  let ?fs = "[(''source'', JStr (riSource r)), (''risk_level'', JStr (riRiskLevel r))]
     @ omit_list ''risk_tags'' (map JStr (riRiskTags r)) @ omit_str ''detail'' (riDetail r)"
  have "decode_list str_of [] ''risk_tags'' ?fs = Some (riRiskTags r)"
    by (rule decode_list_written [where enc = JStr]) (simp_all add: json_simps)
  moreover have "decode_str ''source'' ?fs = Some (riSource r)"
    and "decode_str ''risk_level'' ?fs = Some (riRiskLevel r)"
    and "decode_str ''detail'' ?fs = Some (riDetail r)"
    by (simp_all add: decode_str_def json_simps)
  ultimately show ?thesis
    by (simp add: risk_input_of_def risk_input_json_def)
qed

lemma unmarshal_report_json [simp]: "unmarshal_report (report_json r) = Some r"
proof -
  obtain fs where fs: "report_json r = JObj fs"
    by (simp add: report_json_def)
  note fs_def = fs [unfolded report_json_def, simplified, symmetric]
  have "decode_str ''report_id'' fs = Some (rpReportID r)"
    "decode_str ''prescription_id'' fs = Some (rpPrescriptionID r)"
    "decode_str ''verdict'' fs = Some (rpVerdict r)"
    "decode_str ''flavor'' fs = Some (rpFlavor r)"
    by (simp_all add: fs_def decode_str_def json_simps split: option.splits)
  moreover have "decode_ptr int_of_json ''exit_code'' fs = Some (rpExitCode r)"
    by (rule decode_ptr_written [where enc = JNum])
      (simp_all add: fs_def json_simps split: option.splits)
  moreover have "decode_ptr decision_of ''decision_context'' fs = Some (rpDecisionContext r)"
    by (rule decode_ptr_written [where enc = decision_json])
      (simp_all add: fs_def json_simps split: option.splits)
  moreover have "decode_list external_ref_of \<lparr>erType = [], erID = []\<rparr> ''external_refs'' fs
      = Some (rpExternalRefs r)"
    by (rule decode_list_written [where enc = external_ref_json])
      (simp_all add: fs_def json_simps split: option.splits)
  moreover have "decode_ptr kind_of ''evidence'' fs = Some (rpEvidence r)"
    by (rule decode_ptr_written [where enc = kind_json])
      (simp_all add: fs_def json_simps split: option.splits)
  moreover have "decode_ptr system_of ''source'' fs = Some (rpSource r)"
    by (rule decode_ptr_written [where enc = system_json])
      (simp_all add: fs_def json_simps split: option.splits)
  ultimately show ?thesis
    by (simp add: unmarshal_report_def fs)
qed

lemma unmarshal_prescription_json [simp]:
  "unmarshal_prescription (prescription_json p) = Some (p\<lparr>ppCanonicalAction :=
     Some (case ppCanonicalAction p of None \<Rightarrow> JNull | Some j \<Rightarrow> j)\<rparr>)"
proof -
  obtain fs where fs: "prescription_json p = JObj fs"
    by (simp add: prescription_json_def)
  note fs_def = fs [unfolded prescription_json_def, simplified, symmetric]
  have "decode_str ''prescription_id'' fs = Some (ppPrescriptionID p)"
    "decode_str ''effective_risk'' fs = Some (ppEffectiveRisk p)"
    "decode_str ''risk_level'' fs = Some (ppRiskLevel p)"
    "decode_str ''canon_source'' fs = Some (ppCanonSource p)"
    "decode_str ''flavor'' fs = Some (ppFlavor p)"
    "decode_int ''ttl_ms'' fs = Some (ppTTLMs p)"
    by (simp_all add: fs_def decode_str_def decode_int_def json_simps split: option.splits)
  moreover have "decode_raw ''canonical_action'' fs
      = Some (case ppCanonicalAction p of None \<Rightarrow> JNull | Some j \<Rightarrow> j)"
    by (simp add: fs_def decode_raw_def json_simps split: option.splits)
  moreover have "decode_list risk_input_of zero_risk_input ''risk_inputs'' fs = Some (ppRiskInputs p)"
    by (rule decode_list_written [where enc = risk_input_json])
      (simp_all add: fs_def json_simps split: option.splits)
  moreover have "decode_list str_of [] ''risk_details'' fs = Some (ppRiskDetails p)"
    by (rule decode_list_written [where enc = JStr])
      (simp_all add: fs_def json_simps split: option.splits)
  moreover have "decode_list str_of [] ''risk_tags'' fs = Some (ppRiskTags p)"
    by (rule decode_list_written [where enc = JStr])
      (simp_all add: fs_def json_simps split: option.splits)
  moreover have "decode_ptr kind_of ''evidence'' fs = Some (ppEvidence p)"
    by (rule decode_ptr_written [where enc = kind_json])
      (simp_all add: fs_def json_simps split: option.splits)
  moreover have "decode_ptr system_of ''source'' fs = Some (ppSource p)"
    by (rule decode_ptr_written [where enc = system_json])
      (simp_all add: fs_def json_simps split: option.splits)
  ultimately show ?thesis
    by (simp add: unmarshal_prescription_def fs)
qed

text \<open>
  What the service writes is what every reader decodes: marshalling a \<open>ReportPayload\<close> or a
  \<open>PrescriptionPayload\<close> and unmarshalling the result gives it back, every optional field present or
  omitted; only an absent canonical action comes back as an explicit \<open>null\<close>.
\<close>

theorem payload_roundtrip:
  "unmarshal_report (report_json r) = Some r \<and>
   unmarshal_prescription (prescription_json p) = Some (p\<lparr>ppCanonicalAction :=
     Some (case ppCanonicalAction p of None \<Rightarrow> JNull | Some j \<Rightarrow> j)\<rparr>)"
  by simp

lemma VerdictFromExitCode_valid [simp]: "Verdict_Valid (VerdictFromExitCode c)"
  by (simp add: VerdictFromExitCode_def Verdict_Valid_def)

lemma VerdictFromExitCode_not_declined [simp]: "VerdictFromExitCode c \<noteq> VerdictDeclined"
  by (simp add: VerdictFromExitCode_def verdict_defs)

end
