(* ===== verification/Base64.thy ===== *)
theory Base64
  imports Prelude
begin

text \<open>
  The standard base64 encoding of a byte string (\<open>base64.StdEncoding\<close>), as the signature field of
  an evidence entry uses it: the writer pads with \<open>=\<close>, the reader skips carriage returns and line
  feeds, takes groups of four characters, and fails on any other character and on a cut group.
\<close>

definition b64_char :: "nat \<Rightarrow> char" where
  "b64_char i =
     (if i < 26 then char_of (65 + i)
      else if i < 52 then char_of (97 + (i - 26))
      else if i < 62 then char_of (48 + (i - 52))
      else if i = 62 then CHR ''+'' else CHR ''/'')"

definition b64_index :: "char \<Rightarrow> nat option" where
  "b64_index c = (let n = (of_char c :: nat) in
     if 65 \<le> n \<and> n \<le> 90 then Some (n - 65)
     else if 97 \<le> n \<and> n \<le> 122 then Some (n - 97 + 26)
     else if 48 \<le> n \<and> n \<le> 57 then Some (n - 48 + 52)
     else if c = CHR ''+'' then Some 62
     else if c = CHR ''/'' then Some 63
     else None)"

definition ord :: "char \<Rightarrow> nat" where
  "ord c = of_char c"

text \<open>The four sextets of three octets, and the three octets of four sextets.\<close>

definition six1 :: "char \<Rightarrow> nat" where "six1 a = ord a div 4"
definition six2 :: "char \<Rightarrow> nat \<Rightarrow> nat" where "six2 a b = ord a mod 4 * 16 + b div 16"
definition six3 :: "char \<Rightarrow> nat \<Rightarrow> nat" where "six3 b c = ord b mod 16 * 4 + c div 64"
definition six4 :: "char \<Rightarrow> nat" where "six4 c = ord c mod 64"

definition oct1 :: "nat \<Rightarrow> nat \<Rightarrow> char" where "oct1 i j = char_of (i * 4 + j div 16)"
definition oct2 :: "nat \<Rightarrow> nat \<Rightarrow> char" where "oct2 j k = char_of (j mod 16 * 16 + k div 4)"
definition oct3 :: "nat \<Rightarrow> nat \<Rightarrow> char" where "oct3 k l = char_of (k mod 4 * 64 + l)"

fun b64_encode :: "string \<Rightarrow> string" where
  "b64_encode [] = []"
| "b64_encode [a] = [b64_char (six1 a), b64_char (six2 a 0), CHR ''='', CHR ''='']"
| "b64_encode [a, b] =
     [b64_char (six1 a), b64_char (six2 a (ord b)), b64_char (six3 b 0), CHR ''='']"
| "b64_encode (a # b # c # s) =
     b64_char (six1 a) # b64_char (six2 a (ord b)) # b64_char (six3 b (ord c))
     # b64_char (six4 c) # b64_encode s"

fun b64_groups :: "string \<Rightarrow> string option" where
  "b64_groups [] = Some []"
| "b64_groups (w # x # y # z # s) =
     (case (b64_index w, b64_index x) of
        (Some i, Some j) \<Rightarrow>
          (if z = CHR ''='' \<and> s = [] then
             (if y = CHR ''='' then Some [oct1 i j]
              else (case b64_index y of None \<Rightarrow> None
                    | Some k \<Rightarrow> Some [oct1 i j, oct2 j k]))
           else (case (b64_index y, b64_index z) of
                   (Some k, Some l) \<Rightarrow>
                     map_option (\<lambda>r. oct1 i j # oct2 j k # oct3 k l # r) (b64_groups s)
                 | _ \<Rightarrow> None))
      | _ \<Rightarrow> None)"
| "b64_groups _ = None"

definition b64_decode :: "string \<Rightarrow> string option" where
  "b64_decode s = b64_groups (filter (\<lambda>c. c \<noteq> CHR 0x0A \<and> c \<noteq> CHR 0x0D) s)"

lemma ord_bound: "ord c < 256"
  by (simp add: ord_def)

lemma char_of_ord [simp]: "char_of (ord c) = c"
  by (simp add: ord_def)

lemma b64_index_char [simp]: "i < 64 \<Longrightarrow> b64_index (b64_char i) = Some i"
  by (auto simp: b64_index_def b64_char_def Let_def)

lemma b64_index_other:
  "b64_index CHR ''='' = None" "b64_index CHR 0x0A = None" "b64_index CHR 0x0D = None"
  by (simp_all add: b64_index_def Let_def)

lemma b64_char_not:
  assumes "i < 64"
  shows "b64_char i \<noteq> CHR ''=''" "b64_char i \<noteq> CHR 0x0A" "b64_char i \<noteq> CHR 0x0D"
  using b64_index_char [OF assms] b64_index_other by force+

lemma mult_add_bound: "x < m \<Longrightarrow> y < k \<Longrightarrow> x * k + y < m * (k::nat)"
proof -
  assume "x < m" and "y < k"
  then have "x * k + y < Suc x * k" and "Suc x * k \<le> m * k"
    by (simp, intro mult_le_mono1) simp
  then show ?thesis by simp
qed

lemma sextet_bounds:
  "six1 a < 64" "n < 256 \<Longrightarrow> six2 a n < 64" "n < 256 \<Longrightarrow> six3 a n < 64" "six4 a < 64"
proof -
  show "six1 a < 64"
    using ord_bound [of a] by (simp add: six1_def less_mult_imp_div_less)
  show "six4 a < 64"
    by (simp add: six4_def)
  show "n < 256 \<Longrightarrow> six2 a n < 64"
    using mult_add_bound [of "ord a mod 4" 4 "n div 16" 16]
    by (simp add: six2_def less_mult_imp_div_less)
  show "n < 256 \<Longrightarrow> six3 a n < 64"
    using mult_add_bound [of "ord a mod 16" 16 "n div 64" 4]
    by (simp add: six3_def less_mult_imp_div_less)
qed

lemmas sextets [simp] = sextet_bounds(1,4) sextet_bounds(2,3) [OF ord_bound]
  sextet_bounds(2,3) [OF zero_less_numeral]

lemma div_mod_split:
  "y < k \<Longrightarrow> (x * k + y) div k = (x::nat)" "y < k \<Longrightarrow> (x * k + y) mod k = (y::nat)"
  by simp_all

lemma octets [simp]:
  "n < 256 \<Longrightarrow> oct1 (six1 a) (six2 a n) = a"
  "n < 256 \<Longrightarrow> oct2 (six2 a (ord b)) (six3 b n) = b"
  "oct3 (six3 a (ord c)) (six4 c) = c"
proof -
  have bounds: "n div 16 < 16" "n div 64 < 4" if "n < 256" for n :: nat
    using that by (simp_all add: less_mult_imp_div_less)
  show "oct1 (six1 a) (six2 a n) = a" if "n < 256"
  proof -
    have "ord a div 4 * 4 + ord a mod 4 = ord a" by (rule div_mult_mod_eq)
    then show ?thesis
      unfolding oct1_def six1_def six2_def
      by (simp only: div_mod_split(1) [OF bounds(1) [OF that]] char_of_ord)
  qed
  show "oct2 (six2 a (ord b)) (six3 b n) = b" if "n < 256"
  proof -
    have "ord b div 16 * 16 + ord b mod 16 = ord b" by (rule div_mult_mod_eq)
    then show ?thesis
      unfolding oct2_def six2_def six3_def
      by (simp only: div_mod_split(1) [OF bounds(2) [OF that]]
          div_mod_split(2) [OF bounds(1) [OF ord_bound]] char_of_ord)
  qed
  have "ord c div 64 * 64 + ord c mod 64 = ord c" by (rule div_mult_mod_eq)
  then show "oct3 (six3 a (ord c)) (six4 c) = c"
    unfolding oct3_def six3_def six4_def
    by (simp only: div_mod_split(2) [OF bounds(2) [OF ord_bound]] char_of_ord)
qed

lemma b64_groups_encode: "b64_groups (b64_encode s) = Some s"
  by (induction s rule: b64_encode.induct)
    (simp_all add: b64_char_not ord_bound)

lemma b64_encode_clean: "c \<in> set (b64_encode s) \<Longrightarrow> c \<noteq> CHR 0x0A \<and> c \<noteq> CHR 0x0D"
  by (induction s rule: b64_encode.induct) (auto simp: b64_char_not)

lemma b64_decode_encode [simp]: "b64_decode (b64_encode s) = Some s"
proof -
  have "filter (\<lambda>c. c \<noteq> CHR 0x0A \<and> c \<noteq> CHR 0x0D) (b64_encode s) = b64_encode s"
    using b64_encode_clean by (auto simp: filter_id_conv)
  then show ?thesis
    by (simp add: b64_decode_def b64_groups_encode)
qed

lemma b64_encode_eq_Nil [simp]: "b64_encode s = [] \<longleftrightarrow> s = []"
  by (cases s rule: b64_encode.cases) simp_all

end
