(* ===== verification/Entry.thy ===== *)
theory Entry
  imports Payloads Base64
begin

text \<open>
  Evidence entries and their construction: \<^verbatim>\<open>pkg/evidence/entry.go\<close>, \<^verbatim>\<open>entry_builder.go\<close> and
  \<^verbatim>\<open>trace.go\<close>. The SHA-256 digest of a marshalled value is the parameter \<open>digest\<close>, from a JSON tree
  to its \<open>sha256:\<dots>\<close> text or \<^term>\<open>None\<close> where marshalling fails; an Ed25519 key is a
  \<open>Signer\<close>. Fresh identifiers and the clock are arguments.
\<close>

type_synonym EntryType = string

definition EntryTypePrescribe :: EntryType where "EntryTypePrescribe = ''prescribe''"
definition EntryTypeReport :: EntryType where "EntryTypeReport = ''report''"
definition EntryTypeFinding :: EntryType where "EntryTypeFinding = ''finding''"
definition EntryTypeSignal :: EntryType where "EntryTypeSignal = ''signal''"
definition EntryTypeReceipt :: EntryType where "EntryTypeReceipt = ''receipt''"
definition EntryTypeCanonFailure :: EntryType where
  "EntryTypeCanonFailure = ''canonicalization_failure''"
definition EntryTypeSessionStart :: EntryType where "EntryTypeSessionStart = ''session_start''"
definition EntryTypeSessionEnd :: EntryType where "EntryTypeSessionEnd = ''session_end''"
definition EntryTypeAnnotation :: EntryType where "EntryTypeAnnotation = ''annotation''"

lemmas entry_type_defs = EntryTypePrescribe_def EntryTypeReport_def EntryTypeFinding_def
  EntryTypeSignal_def EntryTypeReceipt_def EntryTypeCanonFailure_def EntryTypeSessionStart_def
  EntryTypeSessionEnd_def EntryTypeAnnotation_def

definition EntryType_Valid :: "EntryType \<Rightarrow> bool" where
  "EntryType_Valid et \<longleftrightarrow> et \<in> {EntryTypePrescribe, EntryTypeReport, EntryTypeFinding,
     EntryTypeSignal, EntryTypeReceipt, EntryTypeCanonFailure, EntryTypeSessionStart,
     EntryTypeSessionEnd, EntryTypeAnnotation}"

record Actor =
  acType :: string
  acID :: string
  acProvenance :: string
  acInstanceID :: string
  acVersion :: string
  acSkillVersion :: string

text \<open>\<open>ScopeDimensions\<close>, a map, is an association list; the payload is its JSON tree.\<close>

record EvidenceEntry =
  EntryID :: string
  PreviousHash :: string
  Hash :: string
  Signature :: string
  Type :: EntryType
  TenantID :: string
  SessionID :: string
  OperationID :: string
  Attempt :: int
  TraceID :: string
  SpanID :: string
  ParentSpanID :: string
  EActor :: Actor
  Timestamp :: time
  IntentDigest :: string
  ArtifactDigest :: string
  Payload :: json
  ScopeDimensions :: "(string \<times> string) list"
  SpecVersion :: string
  CanonVersion :: string
  AdapterVersion :: string
  ScoringVersion :: string

record Signer =
  Sign :: "string \<Rightarrow> string"
  Verify :: "string \<Rightarrow> string \<Rightarrow> bool"

definition DefaultTTLMs :: int where
  "DefaultTTLMs = 300000"

section \<open>Digests\<close>

definition is_hex :: "char \<Rightarrow> bool" where
  "is_hex c = (let n = (of_char c :: nat) in
     (48 \<le> n \<and> n \<le> 57) \<or> (97 \<le> n \<and> n \<le> 102) \<or> (65 \<le> n \<and> n \<le> 70))"

text \<open>\<open>strings.Cut(s, ":")\<close>: the parts around the first colon.\<close>

definition cut_colon :: "string \<Rightarrow> string \<times> string" where
  "cut_colon s = (takeWhile (\<lambda>c. c \<noteq> CHR '':'') s, tl (dropWhile (\<lambda>c. c \<noteq> CHR '':'') s))"

definition FormatDigest :: "string \<Rightarrow> string + string" where
  "FormatDigest d =
     (let trimmed = TrimSpace d in
      if trimmed = [] then Inr []
      else
        (let colon = CHR '':'' \<in> set trimmed;
             (prefix, rest) = cut_colon trimmed;
             hexPart = (if colon then rest else trimmed)
         in if colon \<and> \<not> EqualFold prefix ''sha256'' then Inl d
            else if length hexPart \<noteq> 64 then Inl d
            else if \<not> list_all is_hex hexPart then Inl d
            else Inr (''sha256:'' @ ToLower hexPart)))"

section \<open>The hash of an entry\<close>

definition actor_json :: "Actor \<Rightarrow> json" where
  "actor_json a = JObj ([(''type'', JStr (acType a)), (''id'', JStr (acID a)),
      (''provenance'', JStr (acProvenance a))]
     @ omit_str ''instance_id'' (acInstanceID a) @ omit_str ''version'' (acVersion a)
     @ omit_str ''skill_version'' (acSkillVersion a))"

definition hashableEntry :: "EvidenceEntry \<Rightarrow> json" where
  "hashableEntry e = JObj (
     [(''entry_id'', JStr (EntryID e)), (''previous_hash'', JStr (PreviousHash e)),
      (''type'', JStr (Type e))]
     @ omit_str ''tenant_id'' (TenantID e)
     @ omit_str ''session_id'' (SessionID e)
     @ omit_str ''operation_id'' (OperationID e)
     @ omit_int ''attempt'' (Attempt e)
     @ [(''trace_id'', JStr (TraceID e))]
     @ omit_str ''span_id'' (SpanID e)
     @ omit_str ''parent_span_id'' (ParentSpanID e)
     @ [(''actor'', actor_json (EActor e)), (''timestamp'', JTime (Timestamp e))]
     @ omit_str ''intent_digest'' (IntentDigest e)
     @ omit_str ''artifact_digest'' (ArtifactDigest e)
     @ [(''payload'', Payload e)]
     @ omit_map ''scope_dimensions'' (ScopeDimensions e)
     @ [(''spec_version'', JStr (SpecVersion e)), (''canonical_version'', JStr (CanonVersion e)),
        (''adapter_version'', JStr (AdapterVersion e))]
     @ omit_str ''scoring_version'' (ScoringVersion e))"

definition computeEntryHash :: "(json \<Rightarrow> string option) \<Rightarrow> EvidenceEntry \<Rightarrow> string option" where
  "computeEntryHash digest e = digest (hashableEntry e)"

section \<open>Building an entry\<close>

record EntryBuildParams =
  bpEntryID :: string
  bpType :: EntryType
  bpTenantID :: string
  bpSessionID :: string
  bpOperationID :: string
  bpAttempt :: int
  bpTraceID :: string
  bpSpanID :: string
  bpParentSpanID :: string
  bpActor :: Actor
  bpIntentDigest :: string
  bpArtifactDigest :: string
  bpPayload :: json
  bpPreviousHash :: string
  bpScopeDimensions :: "(string \<times> string) list"
  bpSpecVersion :: string
  bpCanonVersion :: string
  bpAdapterVersion :: string
  bpScoringVersion :: string
  bpSigner :: "Signer option"

datatype BuildError =
    SignerRequired
  | InvalidEntryType string
  | InvalidIntentDigest string
  | InvalidArtifactDigest string
  | MarshalFailed

definition BuildEntry ::
  "(json \<Rightarrow> string option) \<Rightarrow> time \<Rightarrow> string \<Rightarrow> EntryBuildParams \<Rightarrow> BuildError + EvidenceEntry" where
  "BuildEntry digest now ulid p =
     (case bpSigner p of None \<Rightarrow> Inl SignerRequired | Some signer \<Rightarrow>
      if \<not> EntryType_Valid (bpType p) then Inl (InvalidEntryType (bpType p)) else
      (case FormatDigest (bpIntentDigest p) of Inl d \<Rightarrow> Inl (InvalidIntentDigest d)
       | Inr intentDigest \<Rightarrow>
      (case FormatDigest (bpArtifactDigest p) of Inl d \<Rightarrow> Inl (InvalidArtifactDigest d)
       | Inr artifactDigest \<Rightarrow>
      (let entry =
         \<lparr>EntryID = (if bpEntryID p = [] then ulid else bpEntryID p),
          PreviousHash = bpPreviousHash p, Hash = [], Signature = [], Type = bpType p,
          TenantID = bpTenantID p, SessionID = bpSessionID p, OperationID = bpOperationID p,
          Attempt = bpAttempt p, TraceID = bpTraceID p, SpanID = bpSpanID p,
          ParentSpanID = bpParentSpanID p, EActor = bpActor p, Timestamp = now,
          IntentDigest = intentDigest, ArtifactDigest = artifactDigest, Payload = bpPayload p,
          ScopeDimensions = bpScopeDimensions p, SpecVersion = bpSpecVersion p,
          CanonVersion = bpCanonVersion p, AdapterVersion = bpAdapterVersion p,
          ScoringVersion = bpScoringVersion p\<rparr>
       in case computeEntryHash digest entry of None \<Rightarrow> Inl MarshalFailed
          | Some hash \<Rightarrow>
              Inr (entry\<lparr>Hash := hash, Signature := b64_encode (Sign signer hash)\<rparr>)))))"

section \<open>Facts\<close>

lemma is_hex_lower: "is_hex c \<Longrightarrow> is_hex (lower_char c)"
  by (auto simp: is_hex_def lower_char_def Let_def)

lemma is_hex_not_space: "is_hex c \<Longrightarrow> \<not> is_space c"
  by (auto simp: is_hex_def is_space_def Let_def)

lemma is_hex_not_colon: "is_hex c \<Longrightarrow> c \<noteq> CHR '':''"
  by (auto simp: is_hex_def Let_def)

text \<open>A digest in normal form: \<open>sha256:\<close> and 64 lower-case hexadecimal digits.\<close>

definition normal_digest :: "string \<Rightarrow> bool" where
  "normal_digest s \<longleftrightarrow> (\<exists>h. s = ''sha256:'' @ h \<and> length h = 64 \<and> list_all is_hex h \<and> ToLower h = h)"

lemma FormatDigest_normal: "FormatDigest d = Inr s \<Longrightarrow> s = [] \<or> normal_digest s"
  by (auto simp: FormatDigest_def normal_digest_def Let_def list_all_iff ToLower_def is_hex_lower
      split: if_splits prod.splits)

lemma normal_digest_trim: "normal_digest s \<Longrightarrow> TrimSpace s = s"
proof -
  assume "normal_digest s"
  then obtain h where s: "s = ''sha256:'' @ h" and h: "length h = 64" "list_all is_hex h"
    by (auto simp: normal_digest_def)
  have "dropWhile is_space s = s"
    by (rule dropWhile_id) (simp add: s is_space_def)
  moreover have "dropWhile is_space (rev s) = rev s"
  proof (rule dropWhile_id)
    from h have "h \<noteq> []" by auto
    then have "hd (rev s) = last h" and "last h \<in> set h"
      by (simp_all add: s hd_rev)
    then show "rev s = [] \<or> \<not> is_space (hd (rev s))"
      using h(2) is_hex_not_space by (auto simp: list_all_iff)
  qed
  ultimately show ?thesis by (simp add: TrimSpace_def)
qed

lemma normal_digest_fixed: "normal_digest s \<Longrightarrow> FormatDigest s = Inr s"
proof -
  assume n: "normal_digest s"
  then obtain h where s: "s = ''sha256:'' @ h" and h: "length h = 64" "list_all is_hex h" "ToLower h = h"
    by (auto simp: normal_digest_def)
  have "EqualFold ''sha256'' ''sha256''" by simp
  moreover have "cut_colon s = (''sha256'', h)"
    by (simp add: cut_colon_def s)
  ultimately show ?thesis
    using normal_digest_trim [OF n] h by (simp add: FormatDigest_def Let_def s)
qed

text \<open>What a successful build returns.\<close>

lemma BuildEntry_Inr:
  assumes "BuildEntry digest now ulid p = Inr e"
  shows "EntryType_Valid (Type e)" "Type e = bpType p" "PreviousHash e = bpPreviousHash p"
    "computeEntryHash digest e = Some (Hash e)" "Payload e = bpPayload p"
    "SessionID e = bpSessionID p" "TraceID e = bpTraceID p" "OperationID e = bpOperationID p"
    "EActor e = bpActor p" "EntryID e = (if bpEntryID p = [] then ulid else bpEntryID p)"
    "FormatDigest (bpIntentDigest p) = Inr (IntentDigest e)"
    "FormatDigest (bpArtifactDigest p) = Inr (ArtifactDigest e)"
    "\<exists>signer. bpSigner p = Some signer \<and> Signature e = b64_encode (Sign signer (Hash e))"
    "Timestamp e = now" "Attempt e = bpAttempt p"
  using assms
  by (auto simp: BuildEntry_def Let_def computeEntryHash_def hashableEntry_def
      split: option.splits if_splits sum.splits)

end
