(* ===== verification/Chain.thy ===== *)
theory Chain
  imports Entry
begin

text \<open>
  The hash chain over the entries of a store: \<open>validateChainEntries\<close> and \<open>validateEntrySignatures\<close>
  of \<^verbatim>\<open>pkg/evidence/entry_store.go\<close>, the declarative \<open>chain_ok\<close> they decide, and what a valid chain
  commits to. \<open>content\<close> is what the hash of an entry covers: every field but the hash and the
  signature, the scope dimensions as a map.
\<close>

section \<open>The validators\<close>

datatype chain_message =
    FirstPreviousNotEmpty
  | PreviousMismatch string string
  | HashFailed
  | HashMismatch string string
  | InvalidBase64
  | SignatureFailed

datatype ChainValidationError = ChainValidationError nat string chain_message

fun validate_loop :: "(json \<Rightarrow> string option) \<Rightarrow> nat \<Rightarrow> string option \<Rightarrow> EvidenceEntry list
    \<Rightarrow> ChainValidationError option" where
  "validate_loop digest i prev [] = None"
| "validate_loop digest i prev (entry # rest) =
     (let linkError = (case prev of
          None \<Rightarrow> (if PreviousHash entry \<noteq> [] then Some FirstPreviousNotEmpty else None)
        | Some h \<Rightarrow> (if PreviousHash entry \<noteq> h
                     then Some (PreviousMismatch (PreviousHash entry) h) else None))
      in case linkError of
           Some msg \<Rightarrow> Some (ChainValidationError i (EntryID entry) msg)
         | None \<Rightarrow>
             (case computeEntryHash digest entry of
                None \<Rightarrow> Some (ChainValidationError i (EntryID entry) HashFailed)
              | Some recomputed \<Rightarrow>
                  if Hash entry \<noteq> recomputed
                  then Some (ChainValidationError i (EntryID entry) (HashMismatch (Hash entry) recomputed))
                  else validate_loop digest (Suc i) (Some (Hash entry)) rest))"

definition validateChainEntries ::
  "(json \<Rightarrow> string option) \<Rightarrow> EvidenceEntry list \<Rightarrow> ChainValidationError option" where
  "validateChainEntries digest entries = validate_loop digest 0 None entries"

datatype SignatureError = BadEntry ChainValidationError | NoSignedEntries nat

fun signature_loop :: "(string \<Rightarrow> string \<Rightarrow> bool) \<Rightarrow> nat \<Rightarrow> nat \<Rightarrow> EvidenceEntry list
    \<Rightarrow> ChainValidationError + nat" where
  "signature_loop verify i signed [] = Inr signed"
| "signature_loop verify i signed (entry # rest) =
     (if Signature entry = [] then signature_loop verify (Suc i) signed rest
      else case b64_decode (Signature entry) of
             None \<Rightarrow> Inl (ChainValidationError i (EntryID entry) InvalidBase64)
           | Some sig \<Rightarrow>
               if \<not> verify (Hash entry) sig
               then Inl (ChainValidationError i (EntryID entry) SignatureFailed)
               else signature_loop verify (Suc i) (Suc signed) rest)"

definition validateEntrySignatures ::
  "EvidenceEntry list \<Rightarrow> (string \<Rightarrow> string \<Rightarrow> bool) \<Rightarrow> SignatureError option" where
  "validateEntrySignatures entries verify =
     (case signature_loop verify 0 0 entries of
        Inl e \<Rightarrow> Some (BadEntry e)
      | Inr signed \<Rightarrow>
          if signed = 0 \<and> length entries > 0 then Some (NoSignedEntries (length entries)) else None)"

section \<open>Valid chains\<close>

fun chain_ok :: "(json \<Rightarrow> string option) \<Rightarrow> string \<Rightarrow> EvidenceEntry list \<Rightarrow> bool" where
  "chain_ok digest prev [] = True"
| "chain_ok digest prev (e # es) =
     (PreviousHash e = prev \<and> computeEntryHash digest e = Some (Hash e) \<and> chain_ok digest (Hash e) es)"

fun last_hash :: "string \<Rightarrow> EvidenceEntry list \<Rightarrow> string" where
  "last_hash prev [] = prev"
| "last_hash prev (e # es) = last_hash (Hash e) es"

lemma validate_loop_iff:
  "validate_loop digest i prev es = None
     \<longleftrightarrow> chain_ok digest (case prev of None \<Rightarrow> [] | Some h \<Rightarrow> h) es"
proof (induction es arbitrary: i prev)
  case Nil
  then show ?case by simp
next
  case (Cons e es)
  show ?case
    by (cases prev; cases "computeEntryHash digest e") (simp_all add: Cons.IH)
qed

lemma validateChainEntries_iff: "validateChainEntries digest es = None \<longleftrightarrow> chain_ok digest [] es"
  by (simp add: validateChainEntries_def validate_loop_iff)

lemma chain_ok_append:
  "chain_ok digest p (es @ fs) \<longleftrightarrow> chain_ok digest p es \<and> chain_ok digest (last_hash p es) fs"
  by (induction es arbitrary: p) auto

lemma last_hash_append [simp]: "last_hash p (es @ fs) = last_hash (last_hash p es) fs"
  by (induction es arbitrary: p) auto

lemma last_hash_snoc: "es \<noteq> [] \<Longrightarrow> last_hash p es = Hash (last es)"
  by (induction es arbitrary: p) auto

lemma chain_ok_hashes: "chain_ok digest p es \<Longrightarrow> e \<in> set es \<Longrightarrow> computeEntryHash digest e = Some (Hash e)"
  by (induction es arbitrary: p) auto

text \<open>Past a valid prefix the validator continues with its last hash.\<close>

lemma validate_loop_append:
  "chain_ok digest (case prev of None \<Rightarrow> [] | Some h \<Rightarrow> h) es \<Longrightarrow>
    validate_loop digest i prev (es @ fs) = validate_loop digest (i + length es)
      (if es = [] then prev else Some (last_hash [] es)) fs"
proof (induction es arbitrary: i prev)
  case Nil
  then show ?case by simp
next
  case (Cons e es)
  have "validate_loop digest (Suc i) (Some (Hash e)) (es @ fs) = validate_loop digest (Suc i + length es)
      (if es = [] then Some (Hash e) else Some (last_hash [] es)) fs"
    using Cons.prems by (intro Cons.IH) simp
  then show ?case
    using Cons.prems by (cases prev) (auto simp: last_hash_snoc)
qed

text \<open>The first record the validator complains about is the first one that is wrong.\<close>

lemma validate_loop_first:
  assumes "validate_loop digest i prev es = Some (ChainValidationError j eid msg)"
  shows "\<exists>k. j = i + k \<and> k < length es \<and> eid = EntryID (es ! k) \<and>
    chain_ok digest (case prev of None \<Rightarrow> [] | Some h \<Rightarrow> h) (take k es) \<and>
    \<not> chain_ok digest (case prev of None \<Rightarrow> [] | Some h \<Rightarrow> h) (take (Suc k) es)"
  using assms
proof (induction es arbitrary: i prev)
  case Nil
  then show ?case by simp
next
  case (Cons e es)
  let ?p = "case prev of None \<Rightarrow> [] | Some h \<Rightarrow> h"
  show ?case
  proof (cases "PreviousHash e = ?p \<and> computeEntryHash digest e = Some (Hash e)")
    case True
    then have "validate_loop digest (Suc i) (Some (Hash e)) es = Some (ChainValidationError j eid msg)"
      using Cons.prems by (auto split: option.splits)
    from Cons.IH [OF this] obtain k where "j = Suc i + k" "k < length es" "eid = EntryID (es ! k)"
      "chain_ok digest (Hash e) (take k es)" "\<not> chain_ok digest (Hash e) (take (Suc k) es)"
      by auto
    with True show ?thesis
      by (intro exI [of _ "Suc k"]) auto
  next
    case False
    then have "j = i \<and> eid = EntryID e"
      using Cons.prems by (auto simp: Let_def split: option.splits if_splits)
    with False show ?thesis
      by (intro exI [of _ 0]) auto
  qed
qed

section \<open>What the hash of an entry covers\<close>

definition content :: "EvidenceEntry \<Rightarrow> EvidenceEntry" where
  "content e = e\<lparr>Hash := [], Signature := [], ScopeDimensions := sort_key fst (ScopeDimensions e)\<rparr>"

fun fetch :: "string \<Rightarrow> fields \<Rightarrow> json option" where
  "fetch k [] = None"
| "fetch k ((n, v) # fs) = (if n = k then Some v else fetch k fs)"

lemma fetch_append [simp]:
  "fetch k (fs @ gs) = (case fetch k fs of None \<Rightarrow> fetch k gs | Some v \<Rightarrow> Some v)"
  by (induction fs) auto

lemma fetch_omit [simp]:
  "fetch k (omit_str n s) = (if n = k \<and> s \<noteq> [] then Some (JStr s) else None)"
  "fetch k (omit_int n i) = (if n = k \<and> i \<noteq> 0 then Some (JNum i) else None)"
  "fetch k (omit_map n m) = (if n = k \<and> m \<noteq> []
     then Some (JObj (map (\<lambda>(a, b). (a, JStr b)) (sort_key fst m))) else None)"
  by (simp_all add: omit_defs)

lemma actor_json_inj: "actor_json a = actor_json b \<longleftrightarrow> a = b"
proof
  assume eq: "actor_json a = actor_json b"
  note f = eq [unfolded actor_json_def json.inject, THEN arg_cong [where f = "fetch k" for k]]
  show "a = b"
    using f [of "''type''"] f [of "''id''"] f [of "''provenance''"] f [of "''instance_id''"]
      f [of "''version''"] f [of "''skill_version''"]
    by (simp split: if_splits)
qed simp

lemma scope_json_inj:
  "map (\<lambda>(a :: 'a, b). (a, JStr b)) xs = map (\<lambda>(a, b). (a, JStr b)) ys \<longleftrightarrow> xs = ys"
proof -
  have "inj (\<lambda>(a :: 'a, b). (a, JStr b))" by (auto simp: inj_def)
  then show ?thesis by (simp add: inj_map_eq_map)
qed

lemma sort_key_eq_Nil [simp]: "sort_key k m = [] \<longleftrightarrow> m = []"
  by (metis length_0_conv length_sort)

lemma hashable_fields:
  assumes "hashableEntry a = hashableEntry b"
  shows "EntryID a = EntryID b" "PreviousHash a = PreviousHash b" "Type a = Type b"
    "TenantID a = TenantID b" "SessionID a = SessionID b" "OperationID a = OperationID b"
    "Attempt a = Attempt b" "TraceID a = TraceID b" "SpanID a = SpanID b"
    "ParentSpanID a = ParentSpanID b" "EActor a = EActor b" "Timestamp a = Timestamp b"
    "IntentDigest a = IntentDigest b" "ArtifactDigest a = ArtifactDigest b" "Payload a = Payload b"
    "sort_key fst (ScopeDimensions a) = sort_key fst (ScopeDimensions b)"
    "SpecVersion a = SpecVersion b" "CanonVersion a = CanonVersion b"
    "AdapterVersion a = AdapterVersion b" "ScoringVersion a = ScoringVersion b"
proof -
  note f = assms [unfolded hashableEntry_def json.inject, THEN arg_cong [where f = "fetch k" for k]]
  show "EntryID a = EntryID b" using f [of "''entry_id''"] by simp
  show "PreviousHash a = PreviousHash b" using f [of "''previous_hash''"] by simp
  show "Type a = Type b" using f [of "''type''"] by simp
  show "TenantID a = TenantID b" using f [of "''tenant_id''"] by (simp split: if_splits)
  show "SessionID a = SessionID b" using f [of "''session_id''"] by (simp split: if_splits)
  show "OperationID a = OperationID b" using f [of "''operation_id''"] by (simp split: if_splits)
  show "Attempt a = Attempt b" using f [of "''attempt''"] by (simp split: if_splits)
  show "TraceID a = TraceID b" using f [of "''trace_id''"] by simp
  show "SpanID a = SpanID b" using f [of "''span_id''"] by (simp split: if_splits)
  show "ParentSpanID a = ParentSpanID b" using f [of "''parent_span_id''"] by (simp split: if_splits)
  show "EActor a = EActor b" using f [of "''actor''"] by (simp add: actor_json_inj)
  show "Timestamp a = Timestamp b" using f [of "''timestamp''"] by simp
  show "IntentDigest a = IntentDigest b" using f [of "''intent_digest''"] by (simp split: if_splits)
  show "ArtifactDigest a = ArtifactDigest b" using f [of "''artifact_digest''"] by (simp split: if_splits)
  show "Payload a = Payload b" using f [of "''payload''"] by simp
  show "sort_key fst (ScopeDimensions a) = sort_key fst (ScopeDimensions b)"
    using f [of "''scope_dimensions''"] by (auto simp: scope_json_inj split: if_splits)
  show "SpecVersion a = SpecVersion b" using f [of "''spec_version''"] by simp
  show "CanonVersion a = CanonVersion b" using f [of "''canonical_version''"] by simp
  show "AdapterVersion a = AdapterVersion b" using f [of "''adapter_version''"] by simp
  show "ScoringVersion a = ScoringVersion b" using f [of "''scoring_version''"] by (simp split: if_splits)
qed

lemma hashable_content: "hashableEntry a = hashableEntry b \<Longrightarrow> content a = content b"
  using hashable_fields [of a b] unfolding content_def by simp

section \<open>What a valid chain commits to\<close>

lemma chain_commits:
  assumes inj: "inj_on digest (hashableEntry ` (set es \<union> set fs))"
    and ne: "\<And>j. digest j \<noteq> Some []"
    and "chain_ok digest [] es" "chain_ok digest [] fs" "last_hash [] es = last_hash [] fs"
  shows "map (\<lambda>e. (content e, Hash e)) es = map (\<lambda>e. (content e, Hash e)) fs"
  using assms
proof (induction es arbitrary: fs rule: rev_induct)
  case Nil
  then have "fs = []"
    using last_hash_snoc [of fs "[]"] chain_ok_hashes [of digest "[]" fs "last fs"] ne
    by (cases fs rule: rev_cases) (auto simp: computeEntryHash_def)
  then show ?case by simp
next
  case (snoc e es)
  have "fs \<noteq> []"
  proof
    assume "fs = []"
    then have "digest (hashableEntry e) = Some []"
      using snoc.prems(3,5) by (auto simp: chain_ok_append computeEntryHash_def)
    with ne show False by blast
  qed
  then obtain gs f where fs: "fs = gs @ [f]" by (meson rev_exhaust)
  have e: "PreviousHash e = last_hash [] es" "digest (hashableEntry e) = Some (Hash e)"
    and f: "PreviousHash f = last_hash [] gs" "digest (hashableEntry f) = Some (Hash f)"
    and ok: "chain_ok digest [] es" "chain_ok digest [] gs"
    using snoc.prems(3,4) by (auto simp: fs chain_ok_append computeEntryHash_def)
  have h: "Hash e = Hash f"
    using snoc.prems(5) by (simp add: fs)
  have "hashableEntry e = hashableEntry f"
  proof (rule inj_onD [OF snoc.prems(1)])
    show "digest (hashableEntry e) = digest (hashableEntry f)"
      using e(2) f(2) h by simp
  qed (simp_all add: fs)
  then have "content e = content f" and "PreviousHash e = PreviousHash f"
    by (rule hashable_content, rule hashable_fields)
  moreover have "map (\<lambda>e. (content e, Hash e)) es = map (\<lambda>e. (content e, Hash e)) gs"
  proof (rule snoc.IH)
    show "inj_on digest (hashableEntry ` (set es \<union> set gs))"
      by (rule inj_on_subset [OF snoc.prems(1)]) (auto simp: fs)
    show "last_hash [] es = last_hash [] gs"
      using e(1) f(1) calculation by simp
  qed (use ne ok in auto)
  ultimately show ?case by (simp add: fs h)
qed

section \<open>Signatures\<close>

lemma signature_loop_signed:
  assumes "\<And>e. e \<in> set es \<Longrightarrow> \<exists>s. s \<noteq> [] \<and> Signature e = b64_encode s \<and> verify (Hash e) s"
  shows "signature_loop verify i n es = Inr (n + length es)"
  using assms
proof (induction es arbitrary: i n)
  case Nil
  then show ?case by simp
next
  case (Cons e es)
  obtain s where "s \<noteq> []" "Signature e = b64_encode s" "verify (Hash e) s"
    using Cons.prems [of e] by auto
  then show ?case using Cons by simp
qed

lemma validateEntrySignatures_signed:
  assumes "\<And>e. e \<in> set es \<Longrightarrow> \<exists>s. s \<noteq> [] \<and> Signature e = b64_encode s \<and> verify (Hash e) s"
  shows "validateEntrySignatures es verify = None"
  using signature_loop_signed [of es verify 0 0] assms by (simp add: validateEntrySignatures_def)

text \<open>Conversely a chain that passes has no entry whose signature fails, and some signed entry.\<close>

lemma signature_loop_Inr:
  "signature_loop verify i n es = Inr m \<Longrightarrow>
    m = n + length (filter (\<lambda>e. Signature e \<noteq> []) es) \<and>
    (\<forall>e\<in>set es. Signature e \<noteq> [] \<longrightarrow> (\<exists>s. b64_decode (Signature e) = Some s \<and> verify (Hash e) s))"
  by (induction es arbitrary: i n) (fastforce split: if_splits option.splits)+

lemma validateEntrySignatures_sound:
  assumes "validateEntrySignatures es verify = None" and "es \<noteq> []"
  shows "\<exists>e\<in>set es. Signature e \<noteq> []"
    "e \<in> set es \<Longrightarrow> Signature e \<noteq> [] \<Longrightarrow> \<exists>s. b64_decode (Signature e) = Some s \<and> verify (Hash e) s"
proof -
  from assms obtain m where m: "signature_loop verify 0 0 es = Inr m" "m \<noteq> 0"
    by (auto simp: validateEntrySignatures_def split: sum.splits if_splits)
  from signature_loop_Inr [OF m(1)] m(2) have "filter (\<lambda>e. Signature e \<noteq> []) es \<noteq> []" by auto
  then show "\<exists>e\<in>set es. Signature e \<noteq> []" by (auto simp: filter_empty_conv)
  show "\<exists>s. b64_decode (Signature e) = Some s \<and> verify (Hash e) s"
    if "e \<in> set es" "Signature e \<noteq> []" using signature_loop_Inr [OF m(1)] that by blast
qed

end
