(* ===== verification/Evidence_Log.thy ===== *)
theory Evidence_Log
  imports Chain
begin

text \<open>
  The interface between the evidence store and the services that write to it. A client reads the
  last hash (\<open>LastHashAtPath\<close>), builds an entry on it (\<open>BuildEntry\<close>) and appends the entry
  (\<open>AppendEntryAtPath\<close>); what the store promises is that the head is the hash of the last entry of
  the log, and that an append that fits adds exactly that entry at the end. The consequences that
  the clients need are proved once here: the log stays a valid hash chain, and it only grows.
\<close>

text \<open>A sequence of appends that stops at the first error.\<close>

fun push_all :: "('e \<Rightarrow> 's \<Rightarrow> 's \<times> ('x + unit)) \<Rightarrow> 'e list \<Rightarrow> 's \<Rightarrow> 's \<times> ('x + unit)" where
  "push_all push [] s = (s, Inr ())"
| "push_all push (e # es) s =
     (case push e s of
        (s', Inl x) \<Rightarrow> (s', Inl x)
      | (s', Inr _) \<Rightarrow> push_all push es s')"

locale evidence_log =
  fixes wf :: "'s \<Rightarrow> bool"
    and log :: "'s \<Rightarrow> EvidenceEntry list"
    and head :: "'s \<Rightarrow> string"
    and fits :: "EvidenceEntry \<Rightarrow> 's \<Rightarrow> bool"
    and push :: "EvidenceEntry \<Rightarrow> 's \<Rightarrow> 's \<times> ('x + unit)"
  assumes head: "wf s \<Longrightarrow> head s = last_hash [] (log s)"
    and push: "wf s \<Longrightarrow> fits e s \<Longrightarrow>
      \<exists>s'. push e s = (s', Inr ()) \<and> wf s' \<and> log s' = log s @ [e]"
begin

lemma pushE:
  assumes "wf s" and "fits e s"
  obtains s' where "push e s = (s', Inr ())" "wf s'" "log s' = log s @ [e]"
  using push [OF assms] by blast

lemma head_after_push:
  assumes "wf s" and "fits e s" and "push e s = (s', r)"
  shows "head s' = Hash e"
  using push [OF assms(1,2)] assms(3) head [of s'] by auto

lemma push_chain:
  assumes "wf s" and "fits e s" and "chain_ok digest [] (log s)"
    and "PreviousHash e = head s" and "computeEntryHash digest e = Some (Hash e)"
    and "push e s = (s', r)"
  shows "wf s' \<and> r = Inr () \<and> log s' = log s @ [e] \<and> chain_ok digest [] (log s')"
  using push [OF assms(1,2)] assms(3-6) head [OF assms(1)] by (auto simp: chain_ok_append)

text \<open>An entry built on the head links to it.\<close>

lemma built_entry_chain:
  assumes "wf s" and "chain_ok digest [] (log s)"
    and "BuildEntry digest now ulid p = Inr e" and "bpPreviousHash p = head s"
    and "fits e s" and "push e s = (s', r)"
  shows "wf s' \<and> r = Inr () \<and> log s' = log s @ [e] \<and> chain_ok digest [] (log s')"
  using push_chain [OF assms(1,5,2) _ _ assms(6)] BuildEntry_Inr(3,4) [OF assms(3)] assms(4)
  by metis

lemma push_all_log:
  assumes "wf s" and "\<And>s e. wf s \<Longrightarrow> e \<in> set es \<Longrightarrow> length (log s) < n \<Longrightarrow> fits e s"
    and "length (log s) + length es \<le> n"
  shows "\<exists>s'. push_all push es s = (s', Inr ()) \<and> wf s' \<and> log s' = log s @ es"
  using assms
proof (induction es arbitrary: s)
  case Nil
  then show ?case by simp
next
  case (Cons e es)
  have "fits e s" using Cons.prems by simp
  with Cons.prems(1) obtain s1 where s1: "push e s = (s1, Inr ())" "wf s1" "log s1 = log s @ [e]"
    by (rule pushE)
  then obtain s' where "push_all push es s1 = (s', Inr ())" "wf s'" "log s' = log s1 @ es"
    using Cons.IH [OF s1(2)] Cons.prems(2,3) by auto
  with s1 show ?case by simp
qed

end

end
