(* ===== verification/Segments.thy ===== *)
theory Segments
  imports Prelude
begin

text \<open>
  The names of segment files, \<^verbatim>\<open>pkg/evidence/segment.go\<close>: \<open>segmentName\<close> prints an index with at
  least six digits, \<open>parseSegmentIndex\<close> reads it back (\<open>Sscanf\<close> with \<open>%06d\<close> reads at most six
  digits), and the store visits its files in the order of their names. Up to index 999999 the order
  of the names is the order of the indices; beyond it neither the scan nor the order works, and
  \<open>max_segments\<close> is the bound that the store's invariant carries.
\<close>

definition pad :: "nat \<Rightarrow> string \<Rightarrow> string" where
  "pad w s = replicate (w - length s) CHR ''0'' @ s"

definition segmentName :: "nat \<Rightarrow> string" where
  "segmentName idx = ''evidence-'' @ pad 6 (dec idx) @ ''.jsonl''"

definition is_digit :: "char \<Rightarrow> bool" where
  "is_digit c = (let n = (of_char c :: nat) in 48 \<le> n \<and> n \<le> 57)"

definition digits_val :: "string \<Rightarrow> nat" where
  "digits_val ds = foldl (\<lambda>v c. v * 10 + (of_char c - 48)) 0 ds"

text \<open>\<open>fmt.Sscanf(name, "evidence-%06d.jsonl", &idx)\<close>: the prefix, one to six digits, the suffix.\<close>

definition scan_segment :: "string \<Rightarrow> nat option" where
  "scan_segment name =
     (if \<not> HasPrefix name ''evidence-'' then None
      else let rest = drop 9 name; ds = takeWhile is_digit (take 6 rest)
           in if ds = [] \<or> \<not> HasPrefix (drop (length ds) rest) ''.jsonl'' then None
              else Some (digits_val ds))"

definition parseSegmentIndex :: "string \<Rightarrow> nat option" where
  "parseSegmentIndex name =
     (case scan_segment name of
        None \<Rightarrow> None
      | Some idx \<Rightarrow> if idx \<le> 0 then None else if name \<noteq> segmentName idx then None else Some idx)"

definition normalizeSealedSegments :: "string list \<Rightarrow> string list" where
  "normalizeSealedSegments ss = sort (keys_of (filter (\<lambda>s. s \<noteq> []) ss))"

definition removeSegment :: "string list \<Rightarrow> string \<Rightarrow> string list" where
  "removeSegment ss segment = filter (\<lambda>s. s \<noteq> segment) ss"

datatype SegmentError =
    MissingSegment string
  | UnexpectedSegmentName string
  | InvalidSegmentName string

fun parse_names :: "string list \<Rightarrow> SegmentError + nat list" where
  "parse_names [] = Inr []"
| "parse_names (m # ms) =
     (case parseSegmentIndex m of
        None \<Rightarrow> Inl (InvalidSegmentName m)
      | Some idx \<Rightarrow> bindE (parse_names ms) (\<lambda>is. Inr (idx # is)))"

fun check_indices :: "nat \<Rightarrow> nat list \<Rightarrow> SegmentError option" where
  "check_indices expected [] = None"
| "check_indices expected (idx # is) =
     (if idx \<noteq> expected then Some (MissingSegment (segmentName expected))
      else check_indices (Suc expected) is)"

fun check_names :: "nat \<Rightarrow> string list \<Rightarrow> SegmentError option" where
  "check_names i [] = None"
| "check_names i (name # names) =
     (if name \<noteq> segmentName i then Some (UnexpectedSegmentName name) else check_names (Suc i) names)"

text \<open>\<open>filepath.Glob\<close> on the segments directory: the matching names, sorted.\<close>

definition glob :: "string list \<Rightarrow> string list" where
  "glob files = sort (filter (\<lambda>f. HasPrefix f ''evidence-'' \<and> HasSuffix f ''.jsonl''
     \<and> 15 \<le> length f) files)"

definition orderedSegmentNames :: "string list \<Rightarrow> SegmentError + (nat list \<times> string list)" where
  "orderedSegmentNames files =
     (let matches = glob files in
      if matches = [] then Inr ([], [])
      else bindE (parse_names matches) (\<lambda>idxs.
        let names = sort matches; indices = sort idxs in
        case check_indices 1 indices of
          Some e \<Rightarrow> Inl e
        | None \<Rightarrow> (case check_names 1 names of
                     Some e \<Rightarrow> Inl e
                   | None \<Rightarrow> Inr (indices, names))))"

section \<open>Fixed-width decimals\<close>

declare upt_Suc [simp del]

definition max_segments :: nat where
  "max_segments = 999999"

fun digs :: "nat \<Rightarrow> nat \<Rightarrow> string" where
  "digs 0 k = []"
| "digs (Suc w) k = digs w (k div 10) @ [digit_char k]"

lemma length_digs [simp]: "length (digs w k) = w"
  by (induction w arbitrary: k) auto

lemma digit_char_val: "of_char (digit_char k) = 48 + k mod 10"
proof -
  have "48 + k mod 10 < 256" using mod_less_divisor [of 10 k] by linarith
  then show ?thesis by (simp add: digit_char_def)
qed

lemma digit_char_digit: "is_digit (digit_char k)"
  by (simp add: is_digit_def digit_char_val Let_def)

lemma digs_zero: "digs w 0 = replicate w CHR ''0''"
proof (induction w)
  case 0
  then show ?case by simp
next
  case (Suc w)
  have "char_of (48 :: nat) = CHR ''0''" by code_simp
  then have "digit_char 0 = CHR ''0''" by (simp add: digit_char_def)
  with Suc show ?case by (simp add: replicate_append_same)
qed

lemma pad_snoc: "pad (Suc w) (s @ [c]) = pad w s @ [c]"
  by (simp add: pad_def)

lemma pad_dec: "0 < w \<Longrightarrow> k < 10 ^ w \<Longrightarrow> pad w (dec k) = digs w k"
proof (induction w arbitrary: k)
  case 0
  then show ?case by simp
next
  case (Suc w)
  show ?case
  proof (cases "k < 10")
    case True
    then have "dec k = [] @ [digit_char k]" by (simp add: dec.simps [of k])
    moreover have "k div 10 = 0" using True by simp
    ultimately show ?thesis by (simp add: pad_snoc pad_def digs_zero)
  next
    case False
    then have "dec k = dec (k div 10) @ [digit_char k]" by (simp add: dec.simps [of k])
    moreover have "k div 10 < 10 ^ w" using Suc.prems by (simp add: less_mult_imp_div_less)
    moreover have "0 < w" using False Suc.prems by (cases w) auto
    ultimately show ?thesis using Suc.IH by (simp add: pad_snoc)
  qed
qed

lemma segmentName_digs: "k \<le> max_segments \<Longrightarrow> segmentName k = ''evidence-'' @ digs 6 k @ ''.jsonl''"
  using pad_dec [of 6 k] by (simp add: segmentName_def max_segments_def)

lemma digits_val_snoc: "digits_val (ds @ [digit_char k]) = digits_val ds * 10 + k mod 10"
  by (simp add: digits_val_def digit_char_val)

lemma digits_val_digs: "k < 10 ^ w \<Longrightarrow> digits_val (digs w k) = k"
proof (induction w arbitrary: k)
  case 0
  then show ?case by (simp add: digits_val_def)
next
  case (Suc w)
  then have "k div 10 < 10 ^ w" by (simp add: less_mult_imp_div_less)
  with Suc.IH show ?case by (simp add: digits_val_snoc)
qed

lemma digs_digits: "list_all is_digit (digs w k)"
  by (induction w arbitrary: k) (simp_all add: digit_char_digit)

lemma scan_segmentName: "k \<le> max_segments \<Longrightarrow> scan_segment (segmentName k) = Some k"
proof -
  assume k: "k \<le> max_segments"
  have "\<forall>x\<in>set (digs 6 k). is_digit x"
    using digs_digits [of 6 k] by (simp add: list_all_iff)
  then have "takeWhile is_digit (digs 6 k) = digs 6 k"
    by (rule takeWhile_eq_all_conv [THEN iffD2])
  moreover have "digs 6 k \<noteq> []" using length_digs [of 6 k] by fastforce
  moreover have "digits_val (digs 6 k) = k"
    using k by (intro digits_val_digs) (simp add: max_segments_def)
  ultimately show ?thesis
    by (simp add: scan_segment_def segmentName_digs [OF k] HasPrefix_append Let_def
        del: takeWhile_eq_all_conv)
qed

lemma parse_segmentName: "0 < k \<Longrightarrow> k \<le> max_segments \<Longrightarrow> parseSegmentIndex (segmentName k) = Some k"
  by (simp add: parseSegmentIndex_def scan_segmentName)

lemma parseSegmentIndex_Some: "parseSegmentIndex name = Some k \<Longrightarrow> 0 < k \<and> name = segmentName k"
  by (auto simp: parseSegmentIndex_def split: option.splits if_splits)

section \<open>The order of names is the order of indices\<close>

lemma lex_same_length:
  fixes xs ys :: string
  shows "length xs = length ys \<Longrightarrow> xs @ s < ys @ t \<longleftrightarrow> xs < ys \<or> xs = ys \<and> s < t"
  by (induction xs ys rule: list_induct2) auto

lemma lex_prefix: "(p :: string) @ xs < p @ ys \<longleftrightarrow> xs < ys"
  by (induction p) auto

lemma digit_char_less: "digit_char k < digit_char l \<longleftrightarrow> k mod 10 < l mod 10"
proof -
  have "digit_char k < digit_char l \<longleftrightarrow> (of_char (digit_char k) :: nat) < of_char (digit_char l)"
    by (simp add: less_char_def)
  then show ?thesis by (simp add: digit_char_val)
qed

lemma digs_less: "k < l \<Longrightarrow> l < 10 ^ w \<Longrightarrow> digs w k < digs w l"
proof (induction w arbitrary: k l)
  case 0
  then show ?case by simp
next
  case (Suc w)
  have l: "l div 10 < 10 ^ w" using Suc.prems by (simp add: less_mult_imp_div_less)
  have "k div 10 < l div 10 \<or> k div 10 = l div 10 \<and> k mod 10 < l mod 10"
    using Suc.prems(1) by (metis div_le_mono div_mult_mod_eq le_neq_implies_less
        less_imp_le_nat nat_add_left_cancel_less)
  with Suc.IH [OF _ l] show ?case
    by (auto simp: lex_same_length digit_char_less)
qed

lemma segmentName_less: "k < l \<Longrightarrow> l \<le> max_segments \<Longrightarrow> segmentName k < segmentName l"
proof -
  assume "k < l" and l: "l \<le> max_segments"
  then have "k \<le> max_segments" by simp
  moreover have "digs 6 k < digs 6 l"
    using \<open>k < l\<close> l by (intro digs_less) (simp_all add: max_segments_def)
  ultimately show ?thesis
    using l by (simp add: segmentName_digs lex_same_length)
qed

lemma segmentName_inj: "k \<le> max_segments \<Longrightarrow> l \<le> max_segments \<Longrightarrow> segmentName k = segmentName l \<Longrightarrow> k = l"
  using segmentName_less [of k l] segmentName_less [of l k] by (cases k l rule: linorder_cases) auto

text \<open>The names of the first \<open>n\<close> segments.\<close>

definition segment_names :: "nat \<Rightarrow> string list" where
  "segment_names n = map segmentName [1..<Suc n]"

lemma segment_names_0 [simp]: "segment_names 0 = []"
  by (simp add: segment_names_def)

lemma segment_names_Suc: "segment_names (Suc n) = segment_names n @ [segmentName (Suc n)]"
  by (simp add: segment_names_def upt_Suc_append)

lemma length_segment_names [simp]: "length (segment_names n) = n"
  by (simp add: segment_names_def)

lemma sorted_segment_names: "n \<le> max_segments \<Longrightarrow> sorted_wrt (<) (segment_names n)"
proof (induction n)
  case (Suc n)
  have "segmentName k < segmentName (Suc n)" if "k \<in> set [1..<Suc n]" for k
    using that Suc.prems by (intro segmentName_less) auto
  with Suc show ?case
    by (simp add: segment_names_Suc sorted_wrt_append) (auto simp: segment_names_def)
qed simp

lemma sort_segment_names [simp]: "n \<le> max_segments \<Longrightarrow> sort (segment_names n) = segment_names n"
  using sorted_segment_names [of n] by (simp add: sorted_sort_id strict_sorted_iff)

lemma distinct_segment_names: "n \<le> max_segments \<Longrightarrow> distinct (segment_names n)"
  using sorted_segment_names [of n] by (simp add: strict_sorted_iff)

lemma segmentName_notin: "n < max_segments \<Longrightarrow> segmentName (Suc n) \<notin> set (segment_names n)"
  using distinct_segment_names [of "Suc n"] by (simp add: segment_names_Suc)

lemma segmentName_not_Nil [simp]: "segmentName k \<noteq> []" "[] \<noteq> segmentName k"
  by (simp_all add: segmentName_def)

lemma parse_names_segment: "n \<le> max_segments \<Longrightarrow> parse_names (segment_names n) = Inr [1..<Suc n]"
proof -
  have "\<forall>k\<in>set ks. 0 < k \<and> k \<le> max_segments \<Longrightarrow> parse_names (map segmentName ks) = Inr ks" for ks
    by (induction ks) (simp_all add: parse_segmentName)
  then show "n \<le> max_segments \<Longrightarrow> parse_names (segment_names n) = Inr [1..<Suc n]"
    unfolding segment_names_def by simp
qed

lemma check_indices_upt: "check_indices a [a..<b] = None"
proof (induction "b - a" arbitrary: a)
  case 0
  then show ?case by simp
next
  case (Suc n)
  then have "[a..<b] = a # [Suc a..<b]" by (simp add: upt_conv_Cons)
  with Suc show ?case by simp
qed

lemma check_names_upt: "check_names a (map segmentName [a..<b]) = None"
proof (induction "b - a" arbitrary: a)
  case 0
  then show ?case by simp
next
  case (Suc n)
  then have "[a..<b] = a # [Suc a..<b]" by (simp add: upt_conv_Cons)
  with Suc show ?case by simp
qed

lemma glob_segment_names: "n \<le> max_segments \<Longrightarrow> glob (segment_names n) = segment_names n"
proof -
  assume n: "n \<le> max_segments"
  have "HasPrefix f ''evidence-'' \<and> HasSuffix f ''.jsonl'' \<and> 15 \<le> length f"
    if "f \<in> set (segment_names n)" for f
  proof -
    from that obtain k where "k < Suc n" "f = segmentName k"
      by (auto simp: segment_names_def)
    with n have "k \<le> max_segments" by simp
    note k = this \<open>f = segmentName k\<close>
    then show ?thesis
      by (simp add: segmentName_digs [OF k(1)] k(2) HasSuffix_def HasPrefix_append)
  qed
  then have "filter (\<lambda>f. HasPrefix f ''evidence-'' \<and> HasSuffix f ''.jsonl'' \<and> 15 \<le> length f)
      (segment_names n) = segment_names n"
    by (simp add: filter_id_conv)
  with n show ?thesis by (simp add: glob_def)
qed

lemma orderedSegmentNames_segment_names:
  assumes n: "n \<le> max_segments"
  shows "orderedSegmentNames (segment_names n) = Inr ([1..<Suc n], segment_names n)"
proof (cases "n = 0")
  case True
  then show ?thesis by (simp add: orderedSegmentNames_def glob_def)
next
  case False
  then have "segment_names n \<noteq> []" using length_segment_names [of n] by fastforce
  moreover have "sort [1..<Suc n] = [1..<Suc n]" by (simp add: sorted_sort_id)
  moreover have "check_names 1 (segment_names n) = None"
    by (simp add: segment_names_def check_names_upt)
  ultimately show ?thesis
    by (simp add: orderedSegmentNames_def glob_segment_names parse_names_segment n
        check_indices_upt Let_def del: One_nat_def)
qed

text \<open>
  Whatever the directory holds, an accepted listing is the first \<open>n\<close> segments without a gap.
\<close>

lemma check_names_None: "check_names a names = None \<Longrightarrow> names = map segmentName [a..<a + length names]"
proof (induction names arbitrary: a)
  case Nil
  then show ?case by simp
next
  case (Cons x xs)
  then have x: "x = segmentName a" and rest: "check_names (Suc a) xs = None"
    by (auto split: if_splits)
  have xs: "xs = map segmentName [Suc a..<Suc a + length xs]"
    using rest by (rule Cons.IH)
  have "[a..<a + length (x # xs)] = a # [Suc a..<Suc a + length xs]"
    by (simp add: upt_conv_Cons)
  then have "map segmentName [a..<a + length (x # xs)]
      = segmentName a # map segmentName [Suc a..<Suc a + length xs]"
    by (simp only: list.map)
  with x xs show ?case by metis
qed

lemma orderedSegmentNames_Inr:
  "orderedSegmentNames files = Inr (is, names) \<Longrightarrow> names = segment_names (length names)"
  using check_names_None [of 1 names]
  by (auto simp: orderedSegmentNames_def Let_def segment_names_def split: if_splits option.splits)

text \<open>The order in which the directory lists its files is immaterial.\<close>

lemma orderedSegmentNames_mset:
  assumes "mset as = mset bs"
  shows "orderedSegmentNames as = orderedSegmentNames bs"
proof -
  have "glob as = glob bs"
    unfolding glob_def by (rule properties_for_sort) (simp_all add: assms)
  then show ?thesis by (simp add: orderedSegmentNames_def)
qed

section \<open>Sealed segments\<close>

lemma normalizeSealedSegments_sorted: "sorted_wrt (<) (normalizeSealedSegments ss)"
  by (simp add: normalizeSealedSegments_def strict_sorted_iff)

lemma set_normalizeSealedSegments: "set (normalizeSealedSegments ss) = set ss - {[]}"
  by (auto simp: normalizeSealedSegments_def)

lemma keys_of_distinct: "distinct ks \<Longrightarrow> keys_of ks = ks"
  by (induction ks) (auto simp: filter_id_conv)

lemma normalizeSealedSegments_id:
  "sorted_wrt (<) ss \<Longrightarrow> [] \<notin> set ss \<Longrightarrow> normalizeSealedSegments ss = ss"
proof -
  assume s: "sorted_wrt (<) ss" and ne: "[] \<notin> set ss"
  from ne have "filter (\<lambda>s. s \<noteq> []) ss = ss" by (auto simp: filter_id_conv)
  with s show ?thesis
    by (simp add: normalizeSealedSegments_def keys_of_distinct strict_sorted_iff sorted_sort_id)
qed

lemma normalize_segment_names [simp]:
  "n \<le> max_segments \<Longrightarrow> normalizeSealedSegments (segment_names n) = segment_names n"
  by (rule normalizeSealedSegments_id [OF sorted_segment_names]) (auto simp: segment_names_def)

lemma removeSegment_notin: "s \<notin> set ss \<Longrightarrow> removeSegment ss s = ss"
  by (auto simp: removeSegment_def filter_id_conv)

end
