(* ===== verification/Store.thy ===== *)
theory Store
  imports Evidence_Log Segments "HOL-Library.AList"
begin

text \<open>
  The segmented evidence store of \<^verbatim>\<open>pkg/evidence\<close>: the manifest (\<^verbatim>\<open>manifest.go\<close>), appending with
  segment rotation, reading, lookup by id with its cache (\<^verbatim>\<open>entry_store.go\<close>, \<^verbatim>\<open>entry_io.go\<close>,
  \<^verbatim>\<open>entry_lookup_cache.go\<close>) and the store lock (\<^verbatim>\<open>lock.go\<close>). The state \<open>store\<close> is the directory: the
  manifest file and the segment files, each a list of lines with their size in bytes. An operation
  returns the new directory and an error or a value (\<open>op\<close>); which system calls fail is the argument
  \<open>Faults\<close>, so that the state an interrupted operation leaves behind is part of the model. Sizes of
  written lines come from the argument \<open>lineSize\<close>. A line written only in part is not modelled.
\<close>

section \<open>The directory\<close>

record StoreManifest =
  smFormat :: string
  smCreatedAt :: time
  smUpdatedAt :: time
  smSegmentsDir :: string
  smCurrentSegment :: string
  smSealedSegments :: "string list"
  smSegmentMaxBytes :: int
  smRecordsTotal :: int
  smLastHash :: string
  smNotes :: string

datatype manifest_file = ManifestFile StoreManifest | CorruptManifest

datatype line_body = EntryText EvidenceEntry | BlankText | GarbageText

type_synonym line = "nat \<times> line_body"

record store =
  manifestFile :: "manifest_file option"
  segFiles :: "(string \<times> line list) list"

definition empty_store :: store where
  "empty_store = \<lparr>manifestFile = None, segFiles = []\<rparr>"

record Faults =
  failReadManifest :: bool
  failCreateFirst :: bool
  failAppendLine :: bool
  failStat :: bool
  failCreateNext :: bool
  failWriteManifest :: bool

definition no_faults :: Faults where
  "no_faults = \<lparr>failReadManifest = False, failCreateFirst = False, failAppendLine = False,
     failStat = False, failCreateNext = False, failWriteManifest = False\<rparr>"

datatype StoreErr =
    SessionIDRequired
  | TraceIDRequired
  | ReadManifestError
  | ParseManifestError
  | NotExist
  | CreateFirstSegment
  | WriteManifestError
  | AppendLineError
  | StatSegmentError
  | SegmentErr SegmentError
  | CreateNextSegment
  | ParseLine nat
  | TokenTooLong
  | StoreBusy
  | LockNotSupported
  | LockFailed
  | ChainInvalid ChainValidationError
  | SignaturesInvalid SignatureError

type_synonym 'a op = "store \<Rightarrow> store \<times> (StoreErr + 'a)"

definition bindS :: "'a op \<Rightarrow> ('a \<Rightarrow> 'b op) \<Rightarrow> 'b op" where
  "bindS m f st = (case m st of (st', Inl e) \<Rightarrow> (st', Inl e) | (st', Inr x) \<Rightarrow> f x st')"

definition returnS :: "'a \<Rightarrow> 'a op" where
  "returnS x st = (st, Inr x)"

definition failS :: "StoreErr \<Rightarrow> 'a op" where
  "failS e st = (st, Inl e)"

lemma bindS_simps [simp]:
  "m st = (st', Inl e) \<Longrightarrow> bindS m f st = (st', Inl e)"
  "m st = (st', Inr x) \<Longrightarrow> bindS m f st = f x st'"
  by (simp_all add: bindS_def)

lemma returnS_simp [simp]: "returnS x st = (st, Inr x)"
  by (simp add: returnS_def)

lemma failS_simp [simp]: "failS e st = (st, Inl e)"
  by (simp add: failS_def)

section \<open>Configuration\<close>

text \<open>\<open>strconv.ParseInt(raw, 10, 64)\<close>: an optional sign, digits, and the range of a signed word.\<close>

definition ParseInt64 :: "string \<Rightarrow> int option" where
  "ParseInt64 s =
     (let neg = HasPrefix s ''-'';
          ds = (if neg \<or> HasPrefix s ''+'' then tl s else s);
          v = (if neg then - int (digits_val ds) else int (digits_val ds))
      in if ds = [] \<or> \<not> list_all is_digit ds then None
         else if - (2 ^ 63) \<le> v \<and> v < 2 ^ 63 then Some v else None)"

definition defaultSegmentMaxBytes :: int where
  "defaultSegmentMaxBytes = 5000000"

definition segmentMaxBytesFromEnv :: "string \<Rightarrow> int" where
  "segmentMaxBytesFromEnv env =
     (let raw = TrimSpace env in
      if raw = [] then defaultSegmentMaxBytes
      else case ParseInt64 raw of
             None \<Rightarrow> defaultSegmentMaxBytes
           | Some v \<Rightarrow> if v \<le> 0 then defaultSegmentMaxBytes else v)"

definition defaultLockTimeoutMS :: int where
  "defaultLockTimeoutMS = 2000"

definition Millisecond :: duration where
  "Millisecond = 1000000"

definition lockTimeoutFromEnv :: "string \<Rightarrow> duration" where
  "lockTimeoutFromEnv env =
     (let raw = TrimSpace env in
      if raw = [] then defaultLockTimeoutMS * Millisecond
      else case ParseInt64 raw of
             None \<Rightarrow> defaultLockTimeoutMS * Millisecond
           | Some ms \<Rightarrow> if ms \<le> 0 then defaultLockTimeoutMS * Millisecond else wrap64 (ms * Millisecond))"

section \<open>The manifest\<close>

definition segmentsDirName :: string where
  "segmentsDirName = ''segments''"

definition manifestFormat :: string where
  "manifestFormat = ''evidra-evidence-manifest-v0.1''"

definition writeManifestAtomic :: "Faults \<Rightarrow> StoreManifest \<Rightarrow> unit op" where
  "writeManifestAtomic f manifest st =
     (let m1 = (if smFormat manifest = [] then manifest\<lparr>smFormat := manifestFormat\<rparr> else manifest);
          m2 = (if smSegmentsDir m1 = [] then m1\<lparr>smSegmentsDir := segmentsDirName\<rparr> else m1);
          m3 = (if smCurrentSegment m2 = [] then m2\<lparr>smCurrentSegment := segmentName 1\<rparr> else m2);
          m4 = m3\<lparr>smSealedSegments := normalizeSealedSegments (smSealedSegments m3)\<rparr>;
          m5 = m4\<lparr>smSealedSegments := removeSegment (smSealedSegments m4) (smCurrentSegment m4)\<rparr>
      in if failWriteManifest f then (st, Inl WriteManifestError)
         else (st\<lparr>manifestFile := Some (ManifestFile m5)\<rparr>, Inr ()))"

text \<open>Creating the first segment truncates a file of that name.\<close>

definition loadOrInitManifest :: "Faults \<Rightarrow> time \<Rightarrow> int \<Rightarrow> bool \<Rightarrow> StoreManifest op" where
  "loadOrInitManifest f now segmentMaxBytes createIfMissing st =
     (if failReadManifest f then (st, Inl ReadManifestError) else
      case manifestFile st of
        Some CorruptManifest \<Rightarrow> (st, Inl ParseManifestError)
      | Some (ManifestFile m) \<Rightarrow>
          (let m1 = (if smSegmentMaxBytes m \<le> 0 then m\<lparr>smSegmentMaxBytes := segmentMaxBytes\<rparr> else m);
               m2 = (if smSegmentsDir m1 = [] then m1\<lparr>smSegmentsDir := segmentsDirName\<rparr> else m1);
               m3 = (if smCurrentSegment m2 = [] then m2\<lparr>smCurrentSegment := segmentName 1\<rparr> else m2)
           in (st, Inr (m3\<lparr>smSealedSegments := normalizeSealedSegments (smSealedSegments m3)\<rparr>)))
      | None \<Rightarrow>
          if \<not> createIfMissing then (st, Inl NotExist)
          else
            (let m = \<lparr>smFormat = manifestFormat, smCreatedAt = now, smUpdatedAt = now,
                   smSegmentsDir = segmentsDirName, smCurrentSegment = segmentName 1,
                   smSealedSegments = [], smSegmentMaxBytes = segmentMaxBytes, smRecordsTotal = 0,
                   smLastHash = [], smNotes = ''Local segmented evidence store''\<rparr>
             in if failCreateFirst f then (st, Inl CreateFirstSegment)
                else bindS (writeManifestAtomic f m) (\<lambda>_. returnS m)
                       (st\<lparr>segFiles := AList.update (smCurrentSegment m) [] (segFiles st)\<rparr>)))"

section \<open>Appending\<close>

definition validatePersistedEntry :: "EvidenceEntry \<Rightarrow> StoreErr option" where
  "validatePersistedEntry entry =
     (if SessionID entry = [] then Some SessionIDRequired
      else if TraceID entry = [] then Some TraceIDRequired
      else None)"

definition seg_lines :: "store \<Rightarrow> string \<Rightarrow> line list" where
  "seg_lines st name = (case map_of (segFiles st) name of None \<Rightarrow> [] | Some ls \<Rightarrow> ls)"

definition seg_bytes :: "store \<Rightarrow> string \<Rightarrow> int" where
  "seg_bytes st name = int (sum_list (map fst (seg_lines st name)))"

definition appendEntryLine ::
  "Faults \<Rightarrow> (EvidenceEntry \<Rightarrow> nat) \<Rightarrow> string \<Rightarrow> EvidenceEntry \<Rightarrow> unit op" where
  "appendEntryLine f lineSize path entry st =
     (if failAppendLine f then (st, Inl AppendLineError)
      else (st\<lparr>segFiles := AList.update path (seg_lines st path @ [(lineSize entry, EntryText entry)])
                 (segFiles st)\<rparr>, Inr ()))"

definition rotateSegment :: "Faults \<Rightarrow> StoreManifest \<Rightarrow> StoreManifest op" where
  "rotateSegment f manifest st =
     (if smSegmentMaxBytes manifest < seg_bytes st (smCurrentSegment manifest) then
        (let m1 = manifest\<lparr>smSealedSegments := normalizeSealedSegments
                    (smSealedSegments manifest @ [smCurrentSegment manifest])\<rparr>
         in case orderedSegmentNames (map fst (segFiles st)) of
              Inl e \<Rightarrow> (st, Inl (SegmentErr e))
            | Inr (_, names) \<Rightarrow>
                (case (if names = [] then Some 0 else parseSegmentIndex (last names)) of
                   None \<Rightarrow> (st, Inl (SegmentErr (InvalidSegmentName (last names))))
                 | Some lastIndex \<Rightarrow>
                     (let current = segmentName (lastIndex + 1);
                          m2 = m1\<lparr>smCurrentSegment := current,
                                 smSealedSegments := removeSegment (smSealedSegments m1) current\<rparr>
                      in if map_of (segFiles st) current = None then
                           (if failCreateNext f then (st, Inl CreateNextSegment)
                            else (st\<lparr>segFiles := AList.update current [] (segFiles st)\<rparr>, Inr m2))
                         else (st, Inr m2))))
      else (st, Inr manifest))"

definition appendEntryUnlocked ::
  "Faults \<Rightarrow> time \<Rightarrow> int \<Rightarrow> (EvidenceEntry \<Rightarrow> nat) \<Rightarrow> EvidenceEntry \<Rightarrow> unit op" where
  "appendEntryUnlocked f now maxBytes lineSize entry st =
     (case validatePersistedEntry entry of
        Some e \<Rightarrow> (st, Inl e)
      | None \<Rightarrow>
          bindS (loadOrInitManifest f now maxBytes True) (\<lambda>m0.
            let m1 = (if smSegmentMaxBytes m0 \<le> 0 then m0\<lparr>smSegmentMaxBytes := maxBytes\<rparr> else m0);
                m2 = (if smCurrentSegment m1 = [] then m1\<lparr>smCurrentSegment := segmentName 1\<rparr> else m1);
                m3 = m2\<lparr>smSealedSegments := normalizeSealedSegments (smSealedSegments m2)\<rparr>
            in bindS (appendEntryLine f lineSize (smCurrentSegment m3) entry) (\<lambda>_.
               let m4 = m3\<lparr>smUpdatedAt := now, smRecordsTotal := smRecordsTotal m3 + 1,
                          smLastHash := Hash entry\<rparr>
               in if failStat f then failS StatSegmentError
                  else bindS (rotateSegment f m4) (writeManifestAtomic f))) st)"

section \<open>Reading\<close>

text \<open>The scanner's buffer: a line with its line feed must fit in it.\<close>

definition MaxScanTokenSize :: nat where
  "MaxScanTokenSize = 64 * 1024"

datatype 'a walk = Finished 'a | Stopped 'a | Broken StoreErr

text \<open>
  \<open>streamFileEntries\<close> with a callback on an accumulator; the callback's first component is whether it
  returned an error, which ends the walk.
\<close>

fun streamFileEntries ::
  "('a \<Rightarrow> EvidenceEntry \<Rightarrow> bool \<times> 'a) \<Rightarrow> nat \<Rightarrow> 'a \<Rightarrow> line list \<Rightarrow> 'a walk" where
  "streamFileEntries fn lineNo acc [] = Finished acc"
| "streamFileEntries fn lineNo acc ((n, body) # ls) =
     (if MaxScanTokenSize < n then Broken TokenTooLong
      else case body of
        BlankText \<Rightarrow> streamFileEntries fn (Suc lineNo) acc ls
      | GarbageText \<Rightarrow> Broken (ParseLine (Suc lineNo))
      | EntryText e \<Rightarrow>
          (case fn acc e of
             (True, acc') \<Rightarrow> Stopped acc'
           | (False, acc') \<Rightarrow> streamFileEntries fn (Suc lineNo) acc' ls))"

fun walk_segments ::
  "('a \<Rightarrow> EvidenceEntry \<Rightarrow> bool \<times> 'a) \<Rightarrow> store \<Rightarrow> 'a \<Rightarrow> string list \<Rightarrow> 'a walk" where
  "walk_segments fn st acc [] = Finished acc"
| "walk_segments fn st acc (name # names) =
     (case streamFileEntries fn 0 acc (seg_lines st name) of
        Finished acc' \<Rightarrow> walk_segments fn st acc' names
      | r \<Rightarrow> r)"

definition forEachEntryAtPathUnlocked ::
  "('a \<Rightarrow> EvidenceEntry \<Rightarrow> bool \<times> 'a) \<Rightarrow> 'a \<Rightarrow> store \<Rightarrow> 'a walk" where
  "forEachEntryAtPathUnlocked fn acc st =
     (case orderedSegmentNames (map fst (segFiles st)) of
        Inl e \<Rightarrow> Broken (SegmentErr e)
      | Inr (_, names) \<Rightarrow> walk_segments fn st acc names)"

definition keep_all :: "EvidenceEntry list \<Rightarrow> EvidenceEntry \<Rightarrow> bool \<times> EvidenceEntry list" where
  "keep_all acc e = (False, acc @ [e])"

definition readAllUnlocked :: "EvidenceEntry list op" where
  "readAllUnlocked st =
     (st, case forEachEntryAtPathUnlocked keep_all [] st of
            Finished es \<Rightarrow> Inr es | Stopped es \<Rightarrow> Inr es | Broken e \<Rightarrow> Inl e)"

section \<open>The lock\<close>

datatype lock_outcome = Acquired | Busy | NotSupported | AcquireFailed

definition withStoreLock :: "lock_outcome \<Rightarrow> 'a op \<Rightarrow> 'a op" where
  "withStoreLock lock fn st =
     (case lock of
        Acquired \<Rightarrow> fn st
      | Busy \<Rightarrow> (st, Inl StoreBusy)
      | NotSupported \<Rightarrow> (st, Inl LockNotSupported)
      | AcquireFailed \<Rightarrow> (st, Inl LockFailed))"

definition ReadAllEntriesAtPath :: "lock_outcome \<Rightarrow> EvidenceEntry list op" where
  "ReadAllEntriesAtPath lock = withStoreLock lock readAllUnlocked"

definition LastHashAtPath :: "lock_outcome \<Rightarrow> Faults \<Rightarrow> int \<Rightarrow> string op" where
  "LastHashAtPath lock f maxBytes = withStoreLock lock (\<lambda>st.
     (case loadOrInitManifest f 0 maxBytes False st of
        (st', Inl NotExist) \<Rightarrow> (st', Inr [])
      | (st', Inl e) \<Rightarrow> (st', Inl e)
      | (st', Inr m) \<Rightarrow> (st', Inr (smLastHash m))))"

definition LoadManifest :: "lock_outcome \<Rightarrow> Faults \<Rightarrow> int \<Rightarrow> StoreManifest op" where
  "LoadManifest lock f maxBytes = withStoreLock lock (loadOrInitManifest f 0 maxBytes False)"

definition ValidateChainAtPath :: "(json \<Rightarrow> string option) \<Rightarrow> lock_outcome \<Rightarrow> unit op" where
  "ValidateChainAtPath digest lock = withStoreLock lock
     (bindS readAllUnlocked (\<lambda>entries.
        case validateChainEntries digest entries of
          None \<Rightarrow> returnS () | Some e \<Rightarrow> failS (ChainInvalid e)))"

definition ValidateChainWithSignatures ::
  "(json \<Rightarrow> string option) \<Rightarrow> (string \<Rightarrow> string \<Rightarrow> bool) \<Rightarrow> lock_outcome \<Rightarrow> unit op" where
  "ValidateChainWithSignatures digest verify lock = withStoreLock lock
     (bindS readAllUnlocked (\<lambda>entries.
        case validateChainEntries digest entries of
          Some e \<Rightarrow> failS (ChainInvalid e)
        | None \<Rightarrow> (case validateEntrySignatures entries verify of
                     None \<Rightarrow> returnS () | Some e \<Rightarrow> failS (SignaturesInvalid e))))"

section \<open>The lookup cache\<close>

type_synonym entry_cache = "string \<rightharpoonup> EvidenceEntry"

definition cacheEntryByID :: "EvidenceEntry \<Rightarrow> entry_cache \<Rightarrow> entry_cache" where
  "cacheEntryByID entry cache = (if EntryID entry = [] then cache else cache(EntryID entry \<mapsto> entry))"

definition lookupCachedEntryByID :: "entry_cache \<Rightarrow> string \<Rightarrow> EvidenceEntry option" where
  "lookupCachedEntryByID cache entryID = (if entryID = [] then None else cache entryID)"

definition match_id :: "string \<Rightarrow> EvidenceEntry option \<Rightarrow> EvidenceEntry \<Rightarrow> bool \<times> EvidenceEntry option" where
  "match_id entryID acc e = (if EntryID e = entryID then (True, Some e) else (False, acc))"

text \<open>\<open>FindEntryByID\<close>: the new cache and the entry, \<^term>\<open>None\<close> where there is none.\<close>

definition FindEntryByID ::
  "lock_outcome \<Rightarrow> string \<Rightarrow> entry_cache \<Rightarrow> store \<Rightarrow> entry_cache \<times> (StoreErr + EvidenceEntry option)" where
  "FindEntryByID lock entryID cache st =
     (case lookupCachedEntryByID cache entryID of
        Some e \<Rightarrow> (cache, Inr (Some e))
      | None \<Rightarrow>
          (case withStoreLock lock (\<lambda>st. (st, Inr (forEachEntryAtPathUnlocked (match_id entryID) None st))) st of
             (_, Inl e) \<Rightarrow> (cache, Inl e)
           | (_, Inr (Broken e)) \<Rightarrow> (cache, Inl e)
           | (_, Inr (Finished r)) \<Rightarrow> (cache, Inr r)
           | (_, Inr (Stopped None)) \<Rightarrow> (cache, Inr None)
           | (_, Inr (Stopped (Some e))) \<Rightarrow> (cacheEntryByID e cache, Inr (Some e))))"

definition AppendEntryAtPath ::
  "lock_outcome \<Rightarrow> Faults \<Rightarrow> time \<Rightarrow> int \<Rightarrow> (EvidenceEntry \<Rightarrow> nat) \<Rightarrow> EvidenceEntry
    \<Rightarrow> entry_cache \<Rightarrow> store \<Rightarrow> entry_cache \<times> store \<times> (StoreErr + unit)" where
  "AppendEntryAtPath lock f now maxBytes lineSize entry cache st =
     (case withStoreLock lock (appendEntryUnlocked f now maxBytes lineSize entry) st of
        (st', Inl e) \<Rightarrow> (cache, st', Inl e)
      | (st', Inr _) \<Rightarrow> (cacheEntryByID entry cache, st', Inr ()))"

end
