(* ===== verification/Store_Correct.thy ===== *)
theory Store_Correct
  imports Store
begin

text \<open>
  The segmented store implements an append-only log. \<open>store_log\<close> reads the abstract log off the
  directory; \<open>store_wf\<close> is what every successful operation keeps: the segments are numbered without a
  gap, every line is a readable entry, the last segment is the current one and the others are
  sealed, and the manifest's counter and last hash are those of the log. A store with fewer than
  \<open>max_segments - 1\<close> entries cannot run out of segment names, since a segment is only closed
  after an append.
\<close>

section \<open>The abstract log and the invariant\<close>

fun body_entries :: "line list \<Rightarrow> EvidenceEntry list" where
  "body_entries [] = []"
| "body_entries ((n, EntryText e) # ls) = e # body_entries ls"
| "body_entries ((n, BlankText) # ls) = body_entries ls"
| "body_entries ((n, GarbageText) # ls) = body_entries ls"

definition store_lines :: "store \<Rightarrow> line list" where
  "store_lines st = concat (map snd (segFiles st))"

definition store_log :: "store \<Rightarrow> EvidenceEntry list" where
  "store_log st = body_entries (store_lines st)"

definition entry_line :: "line \<Rightarrow> bool" where
  "entry_line l \<longleftrightarrow> (case snd l of EntryText e \<Rightarrow> True | _ \<Rightarrow> False)"

definition readable :: "line \<Rightarrow> bool" where
  "readable l \<longleftrightarrow> fst l \<le> MaxScanTokenSize"

definition manifest_ok :: "StoreManifest \<Rightarrow> nat \<Rightarrow> EvidenceEntry list \<Rightarrow> bool" where
  "manifest_ok m n es \<longleftrightarrow> smCurrentSegment m = segmentName n \<and>
     smSealedSegments m = segment_names (n - 1) \<and> smLastHash m = last_hash [] es \<and>
     smRecordsTotal m = int (length es) \<and> 0 < smSegmentMaxBytes m \<and>
     smFormat m \<noteq> [] \<and> smSegmentsDir m \<noteq> []"

definition segments_shape :: "store \<Rightarrow> nat \<Rightarrow> bool" where
  "segments_shape st n \<longleftrightarrow> 1 \<le> n \<and> n \<le> max_segments \<and> n \<le> Suc (length (store_log st)) \<and>
     map fst (segFiles st) = segment_names n \<and> list_all entry_line (store_lines st)"

definition segments_ok :: "store \<Rightarrow> nat \<Rightarrow> bool" where
  "segments_ok st n \<longleftrightarrow> segments_shape st n \<and> list_all readable (store_lines st)"

definition store_wf :: "store \<Rightarrow> bool" where
  "store_wf st \<longleftrightarrow>
     manifestFile st = None \<and> segFiles st = [] \<or>
     (\<exists>m n. manifestFile st = Some (ManifestFile m) \<and> segments_ok st n \<and> manifest_ok m n (store_log st))"

definition entry_accepted :: "EvidenceEntry \<Rightarrow> store \<Rightarrow> bool" where
  "entry_accepted e st \<longleftrightarrow> SessionID e \<noteq> [] \<and> TraceID e \<noteq> [] \<and>
     Suc (length (store_log st)) < max_segments"

definition entry_fits :: "(EvidenceEntry \<Rightarrow> nat) \<Rightarrow> EvidenceEntry \<Rightarrow> store \<Rightarrow> bool" where
  "entry_fits lineSize e st \<longleftrightarrow> entry_accepted e st \<and> lineSize e \<le> MaxScanTokenSize"

lemma store_wf_empty [simp, go_intros]: "store_wf empty_store"
  by (simp add: store_wf_def empty_store_def)

lemma store_log_empty [simp]: "store_log empty_store = []"
  by (simp add: store_log_def store_lines_def empty_store_def)

lemma body_entries_append [simp]: "body_entries (xs @ ys) = body_entries xs @ body_entries ys"
  by (induction xs rule: body_entries.induct) auto

section \<open>Association lists\<close>

lemma update_last:
  "k \<notin> fst ` set al \<Longrightarrow> AList.update k v (al @ [(k, w)]) = al @ [(k, v)]"
  by (induction al) auto

lemma update_new: "k \<notin> fst ` set al \<Longrightarrow> AList.update k v al = al @ [(k, v)]"
  by (induction al) auto

lemma map_of_last: "k \<notin> fst ` set al \<Longrightarrow> map_of (al @ [(k, w)]) k = Some w"
  by (induction al) auto

lemma map_of_not_in: "k \<notin> set (map fst al) \<Longrightarrow> map_of al k = None"
  by (simp add: map_of_eq_None_iff)

text \<open>The current segment is the last file.\<close>

lemma segments_last:
  assumes "segments_shape st n"
  obtains pre ls where "segFiles st = pre @ [(segmentName n, ls)]" "map fst pre = segment_names (n - 1)"
    "segmentName n \<notin> fst ` set pre"
proof -
  from assms obtain k where n: "n = Suc k" and k: "k < max_segments"
    and names: "map fst (segFiles st) = segment_names k @ [segmentName n]"
    by (cases n) (auto simp: segments_shape_def segment_names_Suc)
  from names have "segFiles st \<noteq> []" by auto
  then obtain pre x where files: "segFiles st = pre @ [x]" by (meson rev_exhaust)
  with names have "map fst pre = segment_names k" and "fst x = segmentName n" by auto
  moreover from this(1) have "segmentName n \<notin> fst ` set pre"
    using segmentName_notin [OF k] n by (metis list.set_map)
  ultimately show thesis
    using that [of pre "snd x"] files n by (cases x) auto
qed

section \<open>Reading gives the log\<close>

lemma streamFileEntries_all:
  "list_all entry_line ls \<Longrightarrow> streamFileEntries keep_all k acc ls =
    (if list_all readable ls then Finished (acc @ body_entries ls) else Broken TokenTooLong)"
proof (induction ls arbitrary: k acc)
  case Nil
  then show ?case by simp
next
  case (Cons l ls)
  obtain n e where l: "l = (n, EntryText e)"
    using Cons.prems by (cases l) (auto simp: entry_line_def split: line_body.splits)
  have "list_all entry_line ls" using Cons.prems by simp
  from Cons.IH [OF this] show ?case by (simp add: l keep_all_def readable_def)
qed

lemma walk_segments_all:
  assumes "distinct (map fst files)" and "segFiles st = pre @ files"
    and "set (map fst pre) \<inter> set (map fst files) = {}"
    and "list_all entry_line (concat (map snd files))"
  shows "walk_segments keep_all st acc (map fst files) =
    (if list_all readable (concat (map snd files))
     then Finished (acc @ body_entries (concat (map snd files))) else Broken TokenTooLong)"
  using assms
proof (induction files arbitrary: pre acc)
  case Nil
  then show ?case by simp
next
  case (Cons x files)
  obtain name ls where x: "x = (name, ls)" by (cases x)
  have "map_of pre name = None"
    using Cons.prems(3) by (simp add: x map_of_eq_None_iff)
  then have "map_of (segFiles st) name = Some ls"
    by (simp add: Cons.prems(2) x map_add_Some_iff)
  then have "seg_lines st name = ls" by (simp add: seg_lines_def)
  moreover have "list_all entry_line ls" using Cons.prems(4) x by simp
  moreover have "walk_segments keep_all st acc' (map fst files) =
      (if list_all readable (concat (map snd files))
       then Finished (acc' @ body_entries (concat (map snd files))) else Broken TokenTooLong)" for acc'
    using Cons.prems by (intro Cons.IH [of "pre @ [x]"]) auto
  ultimately show ?case
    using streamFileEntries_all [of ls 0 acc] by (simp add: x)
qed

lemma readAll_shape:
  assumes "segments_shape st n"
  shows "readAllUnlocked st = (st, if list_all readable (store_lines st)
    then Inr (store_log st) else Inl TokenTooLong)"
proof -
  from assms have n: "n \<le> max_segments" and names: "map fst (segFiles st) = segment_names n"
    and el: "list_all entry_line (concat (map snd (segFiles st)))"
    by (auto simp: segments_shape_def store_lines_def)
  have "orderedSegmentNames (map fst (segFiles st)) = Inr ([1..<Suc n], map fst (segFiles st))"
    using orderedSegmentNames_segment_names [OF n] names by simp
  moreover have "distinct (map fst (segFiles st))"
    using distinct_segment_names [OF n] names by simp
  ultimately show ?thesis
    using walk_segments_all [of "segFiles st" st "[]" "[]"] el
    by (simp add: readAllUnlocked_def forEachEntryAtPathUnlocked_def store_log_def store_lines_def)
qed

lemma readAll_segments: "segments_ok st n \<Longrightarrow> readAllUnlocked st = (st, Inr (store_log st))"
  using readAll_shape [of st n] by (auto simp: segments_ok_def)

lemma readAll_wf:
  assumes "store_wf st"
  shows "readAllUnlocked st = (st, Inr (store_log st))"
proof (cases "segFiles st = []")
  case True
  then show ?thesis
    by (simp add: readAllUnlocked_def forEachEntryAtPathUnlocked_def orderedSegmentNames_def
        glob_def store_log_def store_lines_def)
next
  case False
  with assms obtain n where "segments_ok st n" by (auto simp: store_wf_def)
  then show ?thesis by (rule readAll_segments)
qed

lemma ReadAllEntriesAtPath_log:
  "store_wf st \<Longrightarrow> ReadAllEntriesAtPath Acquired st = (st, Inr (store_log st))"
  by (simp add: ReadAllEntriesAtPath_def withStoreLock_def readAll_wf)

lemma ValidateChain_log:
  assumes "readAllUnlocked st = (st, Inr (store_log st))"
  shows "ValidateChainAtPath digest Acquired st =
    (st, case validateChainEntries digest (store_log st) of
           None \<Rightarrow> Inr () | Some e \<Rightarrow> Inl (ChainInvalid e))"
  using assms by (simp add: ValidateChainAtPath_def withStoreLock_def split: option.split)

lemma ValidateChain_ok_iff:
  assumes "store_wf st"
  shows "ValidateChainAtPath digest Acquired st = (st, Inr ()) \<longleftrightarrow> chain_ok digest [] (store_log st)"
  using ValidateChain_log [OF readAll_wf [OF assms], of digest] validateChainEntries_iff [of digest "store_log st"]
  by (auto split: option.splits)

section \<open>The head\<close>

lemma load_existing:
  assumes "manifestFile st = Some (ManifestFile m)" "segments_shape st n" "manifest_ok m n es"
    "\<not> failReadManifest f"
  shows "loadOrInitManifest f now maxBytes c st = (st, Inr m)"
  using assms by (auto simp: loadOrInitManifest_def manifest_ok_def segments_shape_def Let_def)

definition store_head :: "int \<Rightarrow> store \<Rightarrow> string" where
  "store_head maxBytes st =
     (case LastHashAtPath Acquired no_faults maxBytes st of (_, Inr h) \<Rightarrow> h | _ \<Rightarrow> [])"

lemma LastHashAtPath_log:
  assumes "store_wf st"
  shows "LastHashAtPath Acquired no_faults maxBytes st = (st, Inr (last_hash [] (store_log st)))"
proof (cases "manifestFile st")
  case None
  with assms show ?thesis
    by (auto simp: LastHashAtPath_def withStoreLock_def loadOrInitManifest_def store_wf_def
        store_log_def store_lines_def no_faults_def)
next
  case (Some x)
  with assms obtain m n where m: "manifestFile st = Some (ManifestFile m)" "segments_shape st n"
    "manifest_ok m n (store_log st)"
    by (auto simp: store_wf_def segments_ok_def)
  have "loadOrInitManifest no_faults 0 maxBytes False st = (st, Inr m)"
    by (rule load_existing [OF m]) (simp add: no_faults_def)
  with m(3) show ?thesis
    by (simp add: LastHashAtPath_def withStoreLock_def manifest_ok_def)
qed

section \<open>Appending extends the log\<close>

lemma writeManifest_ok:
  assumes "\<not> failWriteManifest f" and "smFormat m \<noteq> []" "smSegmentsDir m \<noteq> []" "smCurrentSegment m \<noteq> []"
    and "normalizeSealedSegments (smSealedSegments m) = smSealedSegments m"
    and "smCurrentSegment m \<notin> set (smSealedSegments m)"
  shows "writeManifestAtomic f m st = (st\<lparr>manifestFile := Some (ManifestFile m)\<rparr>, Inr ())"
  using assms by (simp add: writeManifestAtomic_def Let_def removeSegment_notin)

lemma no_faults_simps [simp]:
  "\<not> failReadManifest no_faults" "\<not> failCreateFirst no_faults" "\<not> failAppendLine no_faults"
  "\<not> failStat no_faults" "\<not> failCreateNext no_faults" "\<not> failWriteManifest no_faults"
  by (simp_all add: no_faults_def)

text \<open>The line is added to the current segment, or, where the append fails, the store is as before.\<close>

lemma append_line_result:
  assumes ok: "segments_shape st n"
  shows "\<exists>st'. appendEntryLine f lineSize (segmentName n) e st
      = (if failAppendLine f then (st, Inl AppendLineError) else (st', Inr ())) \<and>
    segments_shape st' n \<and> store_lines st' = store_lines st @ [(lineSize e, EntryText e)] \<and>
    store_log st' = store_log st @ [e] \<and> manifestFile st' = manifestFile st"
proof -
  obtain pre ls where files: "segFiles st = pre @ [(segmentName n, ls)]"
    and nin: "segmentName n \<notin> fst ` set pre"
    using segments_last [OF ok] by metis
  let ?l = "(lineSize e, EntryText e)"
  let ?st = "st\<lparr>segFiles := pre @ [(segmentName n, ls @ [?l])]\<rparr>"
  have "seg_lines st (segmentName n) = ls"
    using map_of_last [OF nin, of ls] by (simp add: seg_lines_def files del: map_of_append)
  then have "appendEntryLine f lineSize (segmentName n) e st
      = (if failAppendLine f then (st, Inl AppendLineError) else (?st, Inr ()))"
    using update_last [OF nin] by (simp add: appendEntryLine_def files)
  moreover have lines: "store_lines ?st = store_lines st @ [?l]"
    by (simp add: store_lines_def files)
  moreover from this have log: "store_log ?st = store_log st @ [e]"
    by (simp add: store_log_def)
  moreover have "segments_shape ?st n"
    using ok unfolding segments_shape_def log lines
    by (auto simp: files entry_line_def)
  ultimately show ?thesis by auto
qed

text \<open>Rotation, when it happens, opens the next segment and seals the current one.\<close>

lemma rotate_ok:
  assumes ok: "segments_shape st n" and m: "manifest_ok m n es"
    and room: "n < max_segments" and len: "n \<le> length (store_log st)"
  shows "\<exists>st' m' n'. rotateSegment no_faults m st = (st', Inr m') \<and> segments_shape st' n' \<and>
    manifest_ok m' n' es \<and> store_lines st' = store_lines st"
proof (cases "smSegmentMaxBytes m < seg_bytes st (smCurrentSegment m)")
  case False
  with ok m show ?thesis by (auto simp: rotateSegment_def)
next
  case True
  from ok obtain k where n: "n = Suc k" by (cases n) (auto simp: segments_shape_def)
  have names: "map fst (segFiles st) = segment_names n" and n_max: "n \<le> max_segments"
    using ok by (auto simp: segments_shape_def)
  have cur: "smCurrentSegment m = segmentName n" and sealed: "smSealedSegments m = segment_names k"
    using m n by (auto simp: manifest_ok_def)
  have ord: "orderedSegmentNames (map fst (segFiles st)) = Inr ([1..<Suc n], segment_names n)"
    using orderedSegmentNames_segment_names [OF n_max] names by simp
  have last: "segment_names n \<noteq> []" "parseSegmentIndex (last (segment_names n)) = Some n"
    using n n_max by (simp_all add: segment_names_Suc parse_segmentName)
  have new: "segmentName (Suc n) \<notin> fst ` set (segFiles st)"
    using segmentName_notin [OF room] names by (metis list.set_map)
  then have fresh: "map_of (segFiles st) (segmentName (Suc n)) = None"
    by (simp add: map_of_eq_None_iff)
  have sealed': "normalizeSealedSegments (smSealedSegments m @ [smCurrentSegment m]) = segment_names n"
    using n_max by (simp add: sealed cur n flip: segment_names_Suc)
  let ?st = "st\<lparr>segFiles := segFiles st @ [(segmentName (Suc n), [])]\<rparr>"
  let ?m = "m\<lparr>smCurrentSegment := segmentName (Suc n), smSealedSegments := segment_names n\<rparr>"
  have "rotateSegment no_faults m st = (?st, Inr ?m)"
    using True ord last fresh update_new [OF new]
    by (simp add: rotateSegment_def sealed' Let_def removeSegment_notin segmentName_notin [OF room])
  moreover have lines: "store_lines ?st = store_lines st" by (simp add: store_lines_def)
  moreover from this have log: "store_log ?st = store_log st" by (simp add: store_log_def)
  moreover have "segments_shape ?st (Suc n)"
    using ok room len unfolding segments_shape_def log lines
    by (auto simp: names segment_names_Suc)
  moreover have "manifest_ok ?m (Suc n) es"
    using m by (simp add: manifest_ok_def)
  ultimately show ?thesis by blast
qed

lemma manifest_ok_write:
  assumes "manifest_ok m n es" and "n \<le> max_segments" and "1 \<le> n"
  shows "writeManifestAtomic no_faults m st = (st\<lparr>manifestFile := Some (ManifestFile m)\<rparr>, Inr ())"
proof (rule writeManifest_ok)
  from assms obtain k where n: "n = Suc k" by (cases n) auto
  then show "smCurrentSegment m \<notin> set (smSealedSegments m)"
    using segmentName_notin [of k] assms by (simp add: manifest_ok_def)
  show "normalizeSealedSegments (smSealedSegments m) = smSealedSegments m"
    using assms n by (simp add: manifest_ok_def)
qed (use assms in \<open>auto simp: manifest_ok_def\<close>)

lemma segments_manifest [simp]:
  "store_lines (st\<lparr>manifestFile := x\<rparr>) = store_lines st"
  "store_log (st\<lparr>manifestFile := x\<rparr>) = store_log st"
  "segments_shape (st\<lparr>manifestFile := x\<rparr>) n = segments_shape st n"
  by (simp_all add: segments_shape_def store_log_def store_lines_def)

text \<open>
  The common part of an append: from a loaded manifest to the written one. The manifest may lag
  behind the files: it is right about the entries \<open>es\<close>, and then about \<open>es @ [e]\<close>.
\<close>

lemma append_from_manifest:
  assumes ok: "segments_shape st n" and m: "manifest_ok m n es"
    and load: "loadOrInitManifest no_faults now maxBytes True st0 = (st, Inr m)"
    and fits: "entry_accepted e st"
  shows "\<exists>st' m' n'. appendEntryUnlocked no_faults now maxBytes lineSize e st0 = (st', Inr ()) \<and>
    manifestFile st' = Some (ManifestFile m') \<and> segments_shape st' n' \<and> manifest_ok m' n' (es @ [e]) \<and>
    store_lines st' = store_lines st @ [(lineSize e, EntryText e)]"
proof -
  have n: "n \<le> max_segments" "1 \<le> n" "n \<le> Suc (length (store_log st))" and room: "n < max_segments"
    using ok fits by (auto simp: segments_shape_def entry_accepted_def)
  obtain st1 where st1: "appendEntryLine no_faults lineSize (segmentName n) e st = (st1, Inr ())"
    "segments_shape st1 n" "store_log st1 = store_log st @ [e]"
    "store_lines st1 = store_lines st @ [(lineSize e, EntryText e)]"
    using append_line_result [OF ok, of no_faults lineSize e] by auto
  let ?m = "m\<lparr>smUpdatedAt := now, smRecordsTotal := smRecordsTotal m + 1, smLastHash := Hash e\<rparr>"
  have "manifest_ok ?m n (es @ [e])"
    using m by (simp add: manifest_ok_def)
  moreover have "n \<le> length (store_log st1)" using n(3) st1(3) by simp
  ultimately obtain st2 m2 n2 where st2: "rotateSegment no_faults ?m st1 = (st2, Inr m2)"
    "segments_shape st2 n2" "manifest_ok m2 n2 (es @ [e])" "store_lines st2 = store_lines st1"
    using rotate_ok [OF st1(2) _ room] by metis
  have n2: "n2 \<le> max_segments" "1 \<le> n2" using st2(2) by (auto simp: segments_shape_def)
  have same: "m\<lparr>smSealedSegments := normalizeSealedSegments (smSealedSegments m)\<rparr> = m"
    using m n by (cases m) (simp add: manifest_ok_def)
  have "appendEntryUnlocked no_faults now maxBytes lineSize e st0
      = (st2\<lparr>manifestFile := Some (ManifestFile m2)\<rparr>, Inr ())"
    using fits m st1(1) st2(1) manifest_ok_write [OF st2(3) n2] load same
    by (simp add: appendEntryUnlocked_def validatePersistedEntry_def entry_accepted_def manifest_ok_def
        Let_def bindS_def)
  with st2 st1(4) show ?thesis by force
qed

lemma init_manifest:
  assumes "manifestFile st = None" "segFiles st = []" "0 < maxBytes"
  shows "\<exists>st' m. loadOrInitManifest no_faults now maxBytes True st = (st', Inr m) \<and>
    segments_shape st' 1 \<and> manifest_ok m 1 [] \<and> store_lines st' = []"
proof -
  have "segment_names 1 = [segmentName 1]" "segment_names 0 = []"
    using segment_names_Suc [of 0] by simp_all
  then show ?thesis
    using assms
    by (simp add: loadOrInitManifest_def writeManifestAtomic_def Let_def bindS_def segments_shape_def
        manifest_ok_def store_log_def store_lines_def manifestFormat_def segmentsDirName_def
        max_segments_def)
qed

lemma append_accepted:
  assumes wf: "store_wf st" and acc: "entry_accepted e st" and pos: "0 < maxBytes"
  shows "\<exists>st' m' n'. appendEntryUnlocked no_faults now maxBytes lineSize e st = (st', Inr ()) \<and>
    manifestFile st' = Some (ManifestFile m') \<and> segments_shape st' n' \<and>
    manifest_ok m' n' (store_log st @ [e]) \<and>
    store_lines st' = store_lines st @ [(lineSize e, EntryText e)]"
proof (cases "manifestFile st")
  case None
  with wf have files: "segFiles st = []" by (auto simp: store_wf_def)
  then have none: "store_lines st = []" "store_log st = []" by (simp_all add: store_lines_def store_log_def)
  with init_manifest [OF None files pos, of now] obtain st1 m where
    "loadOrInitManifest no_faults now maxBytes True st = (st1, Inr m)"
    "segments_shape st1 1" "manifest_ok m 1 []" "store_lines st1 = []"
    by auto
  then show ?thesis
    using append_from_manifest [of st1 1 m "[]" now maxBytes st e lineSize] acc none
    by (simp add: entry_accepted_def store_log_def)
next
  case (Some x)
  with wf obtain m n where m: "manifestFile st = Some (ManifestFile m)" "segments_shape st n"
    "manifest_ok m n (store_log st)"
    by (auto simp: store_wf_def segments_ok_def)
  have "loadOrInitManifest no_faults now maxBytes True st = (st, Inr m)"
    by (rule load_existing [OF m]) simp
  from append_from_manifest [OF m(2,3) this acc] show ?thesis .
qed

lemma store_wf_readable: "store_wf st \<Longrightarrow> list_all readable (store_lines st)"
  by (auto simp: store_wf_def segments_ok_def store_lines_def)

lemma append_ok:
  assumes wf: "store_wf st" and fits: "entry_fits lineSize e st" and pos: "0 < maxBytes"
  shows "\<exists>st'. appendEntryUnlocked no_faults now maxBytes lineSize e st = (st', Inr ()) \<and>
    store_wf st' \<and> store_log st' = store_log st @ [e] \<and> manifestFile st' \<noteq> None"
proof -
  have acc: "entry_accepted e st" and small: "lineSize e \<le> MaxScanTokenSize"
    using fits by (auto simp: entry_fits_def)
  obtain st' m' n' where st': "appendEntryUnlocked no_faults now maxBytes lineSize e st = (st', Inr ())"
    "manifestFile st' = Some (ManifestFile m')" "segments_shape st' n'"
    "manifest_ok m' n' (store_log st @ [e])"
    "store_lines st' = store_lines st @ [(lineSize e, EntryText e)]"
    using append_accepted [OF wf acc pos, of now lineSize] by blast
  have log: "store_log st' = store_log st @ [e]" by (simp add: store_log_def st'(5))
  moreover have "segments_ok st' n'"
    using st'(3,5) small store_wf_readable [OF wf] by (simp add: segments_ok_def readable_def)
  ultimately show ?thesis using st' by (auto simp: store_wf_def)
qed

section \<open>The store implements the log interface\<close>

definition store_push ::
  "time \<Rightarrow> int \<Rightarrow> (EvidenceEntry \<Rightarrow> nat) \<Rightarrow> EvidenceEntry \<Rightarrow> unit op" where
  "store_push now maxBytes lineSize e =
     withStoreLock Acquired (appendEntryUnlocked no_faults now maxBytes lineSize e)"

text \<open>The size limit that the environment gives is positive.\<close>

lemma segmentMaxBytes_pos: "0 < segmentMaxBytesFromEnv env"
  by (simp add: segmentMaxBytesFromEnv_def defaultSegmentMaxBytes_def Let_def split: option.split)

interpretation store_as_log: evidence_log store_wf store_log "store_head (segmentMaxBytesFromEnv env)"
  "entry_fits lineSize" "store_push now (segmentMaxBytesFromEnv env) lineSize"
  for env now lineSize
proof unfold_locales
  show "store_head (segmentMaxBytesFromEnv env) s = last_hash [] (store_log s)" if "store_wf s" for s
    using LastHashAtPath_log [OF that] by (simp add: store_head_def)
  show "\<exists>s'. store_push now (segmentMaxBytesFromEnv env) lineSize e s = (s', Inr ()) \<and> store_wf s' \<and>
      store_log s' = store_log s @ [e]" if "store_wf s" "entry_fits lineSize e s" for s e
    using append_ok [OF that segmentMaxBytes_pos] by (auto simp: store_push_def withStoreLock_def)
qed

section \<open>Interrupted appends\<close>

text \<open>Where the manifest exists, whatever fails, the log is unchanged or has the new entry at its end.\<close>

lemma rotate_log: "rotateSegment f m st = (st', r) \<Longrightarrow> store_log st' = store_log st"
  by (auto simp: rotateSegment_def Let_def store_log_def store_lines_def update_new map_of_eq_None_iff
      split: if_splits sum.splits option.splits)

lemma writeManifest_log: "writeManifestAtomic f m st = (st', r) \<Longrightarrow> store_log st' = store_log st"
  by (auto simp: writeManifestAtomic_def Let_def split: if_splits)

lemma append_any_faults:
  assumes wf: "store_wf st" and man: "manifestFile st \<noteq> None"
    and app: "appendEntryUnlocked f now maxBytes lineSize e st = (st', r)"
  shows "(store_log st' = store_log st \<or> store_log st' = store_log st @ [e]) \<and>
    (r = Inr () \<longrightarrow> store_log st' = store_log st @ [e])"
proof -
  from wf man obtain m n where m: "manifestFile st = Some (ManifestFile m)" "segments_shape st n"
    "manifest_ok m n (store_log st)"
    by (auto simp: store_wf_def segments_ok_def)
  show ?thesis
  proof (cases "validatePersistedEntry e \<noteq> None \<or> failReadManifest f")
    case True
    then have "st' = st \<and> r \<noteq> Inr ()"
      using app by (auto simp: appendEntryUnlocked_def bindS_def loadOrInitManifest_def
          split: option.splits)
    then show ?thesis by simp
  next
    case False
    then have load: "loadOrInitManifest f now maxBytes True st = (st, Inr m)"
      by (intro load_existing [OF m]) simp
    have cur: "smCurrentSegment m = segmentName n" "\<not> smSegmentMaxBytes m \<le> 0"
      using m(3) by (auto simp: manifest_ok_def)
    obtain st1 where st1: "appendEntryLine f lineSize (segmentName n) e st
        = (if failAppendLine f then (st, Inl AppendLineError) else (st1, Inr ()))"
      "store_log st1 = store_log st @ [e]"
      using append_line_result [OF m(2), of f lineSize e] by blast
    show ?thesis
    proof (cases "failAppendLine f")
      case True
      then have "st' = st \<and> r \<noteq> Inr ()"
        using app False load cur st1 by (auto simp: appendEntryUnlocked_def Let_def bindS_def)
      then show ?thesis by simp
    next
      case noFail: False
      have "store_log st' = store_log st1"
        using app False load cur st1 noFail
        by (auto simp: appendEntryUnlocked_def Let_def bindS_def dest!: rotate_log writeManifest_log
            split: prod.splits sum.splits if_splits)
      with st1 show ?thesis by simp
    qed
  qed
qed

text \<open>An append that stops after the line is written leaves a manifest that does not know the entry.\<close>

lemma append_stat_fault:
  assumes wf: "store_wf st" and man: "manifestFile st \<noteq> None" and acc: "entry_accepted e st"
  shows "\<exists>st'. appendEntryUnlocked (no_faults\<lparr>failStat := True\<rparr>) now maxBytes lineSize e st
      = (st', Inl StatSegmentError) \<and>
    store_log st' = store_log st @ [e] \<and> manifestFile st' = manifestFile st \<and>
    (\<exists>m n. manifestFile st = Some (ManifestFile m) \<and> segments_shape st' n \<and>
      manifest_ok m n (store_log st)) \<and>
    store_lines st' = store_lines st @ [(lineSize e, EntryText e)]"
proof -
  let ?f = "no_faults\<lparr>failStat := True\<rparr>"
  have f: "\<not> failReadManifest ?f" "\<not> failAppendLine ?f" "failStat ?f" by (simp_all add: no_faults_def)
  from wf man obtain m n where m: "manifestFile st = Some (ManifestFile m)" "segments_shape st n"
    "manifest_ok m n (store_log st)"
    by (auto simp: store_wf_def segments_ok_def)
  have load: "loadOrInitManifest ?f now maxBytes True st = (st, Inr m)"
    by (rule load_existing [OF m f(1)])
  obtain st1 where st1: "appendEntryLine ?f lineSize (segmentName n) e st = (st1, Inr ())"
    "segments_shape st1 n" "store_lines st1 = store_lines st @ [(lineSize e, EntryText e)]"
    "store_log st1 = store_log st @ [e]" "manifestFile st1 = manifestFile st"
    using append_line_result [OF m(2), of ?f lineSize e] f(2) by auto
  have "appendEntryUnlocked ?f now maxBytes lineSize e st = (st1, Inl StatSegmentError)"
    using acc m load st1(1) f(3)
    by (simp add: appendEntryUnlocked_def validatePersistedEntry_def entry_accepted_def
        manifest_ok_def Let_def bindS_def)
  with st1 m show ?thesis by blast
qed

end
