(* ===== verification/Lookup.thy ===== *)
theory Lookup
  imports Store_Correct
begin

text \<open>
  Walking the store and looking entries up (\<^verbatim>\<open>entry_io.go\<close>, \<^verbatim>\<open>entry_lookup_cache.go\<close>). A walk over the
  segment files of a well-formed store is a fold over its log that the callback may stop;
  \<open>FindEntryByID\<close> is then \<^const>\<open>find\<close> on the log, and the cache is coherent with the log, which only
  grows.
\<close>

section \<open>Walks are folds over the log\<close>

fun run_entries :: "('a \<Rightarrow> EvidenceEntry \<Rightarrow> bool \<times> 'a) \<Rightarrow> 'a \<Rightarrow> EvidenceEntry list \<Rightarrow> 'a walk" where
  "run_entries fn acc [] = Finished acc"
| "run_entries fn acc (e # es) =
     (case fn acc e of (True, acc') \<Rightarrow> Stopped acc' | (False, acc') \<Rightarrow> run_entries fn acc' es)"

lemma run_entries_append:
  "run_entries fn acc (es @ fs) =
    (case run_entries fn acc es of Finished acc' \<Rightarrow> run_entries fn acc' fs | r \<Rightarrow> r)"
  by (induction es arbitrary: acc) (auto split: prod.split bool.split)

lemma run_entries_not_broken: "run_entries fn acc es \<noteq> Broken x"
  by (induction es arbitrary: acc) (auto split: prod.split bool.split)

lemma stream_run:
  "list_all entry_line ls \<Longrightarrow> list_all readable ls \<Longrightarrow>
    streamFileEntries fn k acc ls = run_entries fn acc (body_entries ls)"
proof (induction ls arbitrary: k acc)
  case Nil
  then show ?case by simp
next
  case (Cons l ls)
  obtain n e where l: "l = (n, EntryText e)"
    using Cons.prems by (cases l) (auto simp: entry_line_def split: line_body.splits)
  have "n \<le> MaxScanTokenSize" using Cons.prems by (simp add: l readable_def)
  with Cons show ?case by (simp add: l split: prod.split bool.split)
qed

lemma walk_run:
  assumes "distinct (map fst files)" and "\<And>x. x \<in> set files \<Longrightarrow> seg_lines st (fst x) = snd x"
    and "list_all entry_line (concat (map snd files))" "list_all readable (concat (map snd files))"
  shows "walk_segments fn st acc (map fst files) = run_entries fn acc (body_entries (concat (map snd files)))"
  using assms
proof (induction files arbitrary: acc)
  case Nil
  then show ?case by simp
next
  case (Cons x files)
  have "seg_lines st (fst x) = snd x" using Cons.prems(2) by simp
  with Cons stream_run [of "snd x" fn 0 acc] show ?case
    by (auto simp: run_entries_append split: walk.split)
qed

lemma forEach_run:
  assumes "store_wf st"
  shows "forEachEntryAtPathUnlocked fn acc st = run_entries fn acc (store_log st)"
proof (cases "segFiles st = []")
  case True
  then show ?thesis
    by (simp add: forEachEntryAtPathUnlocked_def orderedSegmentNames_def glob_def store_log_def
        store_lines_def)
next
  case False
  with assms obtain n where ok: "segments_ok st n" by (auto simp: store_wf_def)
  then have n: "n \<le> max_segments" and names: "map fst (segFiles st) = segment_names n"
    and lines: "list_all entry_line (concat (map snd (segFiles st)))"
      "list_all readable (concat (map snd (segFiles st)))"
    by (auto simp: segments_ok_def segments_shape_def store_lines_def)
  have dist: "distinct (map fst (segFiles st))"
    using distinct_segment_names [OF n] names by simp
  moreover have "orderedSegmentNames (map fst (segFiles st)) = Inr ([1..<Suc n], map fst (segFiles st))"
    using orderedSegmentNames_segment_names [OF n] names by simp
  moreover have "seg_lines st (fst x) = snd x" if "x \<in> set (segFiles st)" for x
    using that map_of_is_SomeI [OF dist, of "fst x" "snd x"] by (simp add: seg_lines_def)
  ultimately show ?thesis
    using walk_run [of "segFiles st" st] lines
    by (simp add: forEachEntryAtPathUnlocked_def store_log_def store_lines_def)
qed

lemma run_match:
  "run_entries (match_id i) None es =
    (case find (\<lambda>e. EntryID e = i) es of None \<Rightarrow> Finished None | Some e \<Rightarrow> Stopped (Some e))"
  by (induction es) (auto simp: match_id_def)

section \<open>The cache\<close>

definition cache_ok :: "entry_cache \<Rightarrow> EvidenceEntry list \<Rightarrow> bool" where
  "cache_ok cache es \<longleftrightarrow> (\<forall>i e. cache i = Some e \<longrightarrow> e \<in> set es \<and> EntryID e = i)"

lemma cache_ok_empty [simp, go_intros]: "cache_ok Map.empty es"
  by (simp add: cache_ok_def)

lemma cache_ok_add [go_intros]:
  "cache_ok cache es \<Longrightarrow> e \<in> set es \<Longrightarrow> cache_ok (cacheEntryByID e cache) es"
  by (simp add: cache_ok_def cacheEntryByID_def)

lemma cache_ok_grow [go_intros]: "cache_ok cache es \<Longrightarrow> cache_ok cache (es @ fs)"
  by (auto simp: cache_ok_def)

lemma find_unique:
  "distinct (map EntryID es) \<Longrightarrow> e \<in> set es \<Longrightarrow> find (\<lambda>x. EntryID x = EntryID e) es = Some e"
  by (induction es) (auto simp: image_iff)

lemma find_in: "find P es = Some e \<Longrightarrow> e \<in> set es \<and> P e"
  by (auto simp: find_Some_iff)

lemma FindEntryByID_cases:
  assumes "store_wf st" and "cache_ok cache (store_log st)"
  shows "\<exists>cache' r. FindEntryByID Acquired i cache st = (cache', Inr r) \<and>
    cache_ok cache' (store_log st) \<and>
    (r = find (\<lambda>e. EntryID e = i) (store_log st) \<or>
     (\<exists>e. r = Some e \<and> e \<in> set (store_log st) \<and> EntryID e = i))"
proof (cases "lookupCachedEntryByID cache i")
  case None
  show ?thesis
    using None assms
    by (cases "find (\<lambda>e. EntryID e = i) (store_log st)")
      (auto simp: FindEntryByID_def withStoreLock_def forEach_run run_match intro: go_intros dest: find_in)
next
  case (Some e)
  then have "e \<in> set (store_log st) \<and> EntryID e = i"
    using assms(2) by (auto simp: lookupCachedEntryByID_def cache_ok_def split: if_splits)
  with Some assms(2) show ?thesis by (simp add: FindEntryByID_def)
qed

lemma AppendEntry_cache:
  assumes "store_wf st" "entry_fits lineSize e st" "cache_ok cache (store_log st)"
  shows "\<exists>cache' st'. AppendEntryAtPath Acquired no_faults now (segmentMaxBytesFromEnv env) lineSize e
      cache st = (cache', st', Inr ()) \<and>
    store_wf st' \<and> store_log st' = store_log st @ [e] \<and> cache_ok cache' (store_log st')"
proof -
  obtain st' where st': "store_push now (segmentMaxBytesFromEnv env) lineSize e st = (st', Inr ())"
    "store_wf st'" "store_log st' = store_log st @ [e]"
    by (rule store_as_log.pushE [OF assms(1,2)])
  moreover have "cache_ok (cacheEntryByID e cache) (store_log st @ [e])"
    by (rule cache_ok_add [OF cache_ok_grow [OF assms(3)]]) simp
  ultimately show ?thesis
    by (simp add: AppendEntryAtPath_def store_push_def)
qed

end
