(* ===== verification/Evidence_Props.thy ===== *)
theory Evidence_Props
  imports Lookup
begin

text \<open>
  The properties of the evidence package that span its parts: appending refines the abstract log,
  services that take turns keep a valid hash chain, services that overlap, appends that are
  interrupted and lines that are too long break it, and a valid chain commits to its whole history.
  The step relation \<open>sys_step\<close> has one rule for each of the two locked calls that a service makes,
  \<open>LastHashAtPath\<close> and \<open>AppendEntryAtPath\<close>; between them the lock is free.
\<close>

section \<open>Services over one store\<close>

record system =
  sysStore :: store
  pending :: "nat \<Rightarrow> string option"

definition init_system :: system where
  "init_system = \<lparr>sysStore = empty_store, pending = (\<lambda>_. None)\<rparr>"

text \<open>
  \<open>turns\<close> says whether the services take turns: a service then reads the head only while no other
  service is between its read and its append.
\<close>

inductive sys_step ::
  "bool \<Rightarrow> (json \<Rightarrow> string option) \<Rightarrow> (EvidenceEntry \<Rightarrow> nat) \<Rightarrow> string \<Rightarrow> system \<Rightarrow> system \<Rightarrow> bool"
  for turns digest lineSize env where
  read_head: "(turns \<longrightarrow> pending s = (\<lambda>_. None)) \<Longrightarrow>
    LastHashAtPath Acquired no_faults (segmentMaxBytesFromEnv env) (sysStore s) = (st, Inr h) \<Longrightarrow>
    sys_step turns digest lineSize env s \<lparr>sysStore = st, pending = (pending s)(c := Some h)\<rparr>"
| append_entry: "pending s c = Some h \<Longrightarrow>
    BuildEntry digest now ulid p = Inr e \<Longrightarrow> bpPreviousHash p = h \<Longrightarrow>
    entry_fits lineSize e (sysStore s) \<Longrightarrow>
    store_push now (segmentMaxBytesFromEnv env) lineSize e (sysStore s) = (st, r) \<Longrightarrow>
    sys_step turns digest lineSize env s \<lparr>sysStore = st, pending = (pending s)(c := None)\<rparr>"

inductive reachable ::
  "bool \<Rightarrow> (json \<Rightarrow> string option) \<Rightarrow> (EvidenceEntry \<Rightarrow> nat) \<Rightarrow> string \<Rightarrow> system \<Rightarrow> bool"
  for turns digest lineSize env where
  start: "reachable turns digest lineSize env init_system"
| step: "reachable turns digest lineSize env s \<Longrightarrow> sys_step turns digest lineSize env s s' \<Longrightarrow>
    reachable turns digest lineSize env s'"

text \<open>What taking turns maintains: a valid chain, and at most one service, holding the current head.\<close>

definition sys_inv :: "(json \<Rightarrow> string option) \<Rightarrow> system \<Rightarrow> bool" where
  "sys_inv digest s \<longleftrightarrow> store_wf (sysStore s) \<and> chain_ok digest [] (store_log (sysStore s)) \<and>
     (pending s = (\<lambda>_. None) \<or>
      (\<exists>c. pending s = (\<lambda>_. None)(c := Some (last_hash [] (store_log (sysStore s))))))"

lemma sys_inv_init: "sys_inv digest init_system"
  by (simp add: sys_inv_def init_system_def)

lemma sys_step_inv:
  assumes "sys_step True digest lineSize env s s'" and inv: "sys_inv digest s"
  shows "sys_inv digest s'"
  using assms(1)
proof (cases rule: sys_step.cases)
  case (read_head st h c)
  then have st: "st = sysStore s" and h: "h = last_hash [] (store_log (sysStore s))"
    using LastHashAtPath_log [of "sysStore s"] inv by (auto simp: sys_inv_def)
  have "pending s = (\<lambda>_. None)" using read_head(2) by simp
  then show ?thesis using inv unfolding read_head(1) sys_inv_def st h by auto
next
  case (append_entry c h now ulid p e st r)
  let ?st = "sysStore s"
  have wf: "store_wf ?st" and ok: "chain_ok digest [] (store_log ?st)"
    using inv by (auto simp: sys_inv_def)
  obtain c' where pend: "pending s = (\<lambda>_. None)(c' := Some (last_hash [] (store_log ?st)))"
    using inv append_entry(2) by (auto simp: sys_inv_def)
  then have "c' = c" and h: "h = last_hash [] (store_log ?st)"
    using append_entry(2) by (simp_all split: if_splits)
  then have alone: "(pending s)(c := None) = (\<lambda>_. None)" using pend by auto
  have "bpPreviousHash p = store_head (segmentMaxBytesFromEnv env) ?st"
    using append_entry(4) h store_as_log.head [OF wf] by simp
  from store_as_log.built_entry_chain [OF wf ok append_entry(3) this append_entry(5,6)]
  have "store_wf st \<and> chain_ok digest [] (store_log st)" by blast
  then show ?thesis by (simp add: append_entry(1) alone sys_inv_def)
qed

lemma reachable_inv: "reachable True digest lineSize env s \<Longrightarrow> sys_inv digest s"
  by (induction rule: reachable.induct) (auto intro: sys_inv_init sys_step_inv)

section \<open>Sample entries\<close>

text \<open>Concrete entries, a digest and a key for the witnesses.\<close>

definition sample_actor :: Actor where
  "sample_actor = \<lparr>acType = ''agent'', acID = ''a1'', acProvenance = ''mcp'', acInstanceID = [],
     acVersion = [], acSkillVersion = []\<rparr>"

fun sample_digest :: "json \<Rightarrow> string option" where
  "sample_digest (JObj ((k, JStr s) # fs)) = Some (''sha256:'' @ s)"
| "sample_digest _ = None"

definition sample_signer :: Signer where
  "sample_signer = \<lparr>Sign = (\<lambda>m. ''k'' @ m), Verify = (\<lambda>m s. s = ''k'' @ m)\<rparr>"

definition sample_params :: "string \<Rightarrow> string \<Rightarrow> EntryBuildParams" where
  "sample_params i prev = \<lparr>bpEntryID = i, bpType = EntryTypeReport, bpTenantID = [],
     bpSessionID = ''s1'', bpOperationID = [], bpAttempt = 0, bpTraceID = ''t1'', bpSpanID = [],
     bpParentSpanID = [], bpActor = sample_actor, bpIntentDigest = [], bpArtifactDigest = [],
     bpPayload = JNull, bpPreviousHash = prev, bpScopeDimensions = [], bpSpecVersion = ''v1.1.0'',
     bpCanonVersion = [], bpAdapterVersion = ''0.5.20'', bpScoringVersion = ''v1.1.0'',
     bpSigner = Some sample_signer\<rparr>"

definition sample_entry :: "string \<Rightarrow> string \<Rightarrow> EvidenceEntry" where
  "sample_entry i prev = \<lparr>EntryID = i, PreviousHash = prev, Hash = ''sha256:'' @ i,
     Signature = b64_encode (''ksha256:'' @ i), Type = EntryTypeReport, TenantID = [],
     SessionID = ''s1'', OperationID = [], Attempt = 0, TraceID = ''t1'', SpanID = [],
     ParentSpanID = [], EActor = sample_actor, Timestamp = 0, IntentDigest = [], ArtifactDigest = [],
     Payload = JNull, ScopeDimensions = [], SpecVersion = ''v1.1.0'', CanonVersion = [],
     AdapterVersion = ''0.5.20'', ScoringVersion = ''v1.1.0''\<rparr>"

lemma sample_built:
  "i \<noteq> [] \<Longrightarrow> BuildEntry sample_digest 0 u (sample_params i prev) = Inr (sample_entry i prev)"
  by (simp add: BuildEntry_def sample_params_def sample_entry_def sample_signer_def EntryType_Valid_def
      FormatDigest_def computeEntryHash_def hashableEntry_def Let_def)

lemma sample_hash [simp]: "computeEntryHash sample_digest (sample_entry i prev) = Some (''sha256:'' @ i)"
  by (simp add: computeEntryHash_def hashableEntry_def sample_entry_def)

lemma sample_fields [simp]:
  "EntryID (sample_entry i prev) = i" "PreviousHash (sample_entry i prev) = prev"
  "Hash (sample_entry i prev) = ''sha256:'' @ i" "SessionID (sample_entry i prev) = ''s1''"
  "TraceID (sample_entry i prev) = ''t1''"
  "Signature (sample_entry i prev) = b64_encode (''ksha256:'' @ i)"
  by (simp_all add: sample_entry_def)

lemma sample_fits:
  "length (store_log st) < 10 \<Longrightarrow> entry_fits (\<lambda>_. 100) (sample_entry i prev) st"
  by (simp add: entry_fits_def entry_accepted_def MaxScanTokenSize_def max_segments_def)

lemma sample_fits_empty [simp]: "entry_fits (\<lambda>_. 100) (sample_entry i prev) empty_store"
  by (simp add: sample_fits)

definition sample_store :: store where
  "sample_store = fst (store_push 0 5000000 (\<lambda>_. 100) (sample_entry ''e1'' []) empty_store)"

lemma sample_store_facts:
  "store_wf sample_store \<and> store_log sample_store = [sample_entry ''e1'' []] \<and>
   manifestFile sample_store \<noteq> None"
  using append_ok [of empty_store "\<lambda>_. 100" "sample_entry ''e1'' []" 5000000 0]
  by (auto simp: sample_store_def store_push_def withStoreLock_def)

lemma sample_store_valid:
  "ValidateChainAtPath sample_digest Acquired sample_store = (sample_store, Inr ())"
  using ValidateChain_ok_iff [of sample_store sample_digest] sample_store_facts by simp

lemma sample_store_head:
  "LastHashAtPath Acquired no_faults n sample_store = (sample_store, Inr ''sha256:e1'')"
  using LastHashAtPath_log [of sample_store] sample_store_facts by simp

lemma env_default: "segmentMaxBytesFromEnv [] = 5000000"
  by (simp add: segmentMaxBytesFromEnv_def defaultSegmentMaxBytes_def)

section \<open>Properties\<close>

text \<open>
  C20. Appending refines the abstract append-only log: in a well-formed store an entry that fits is
  accepted, the store stays well-formed, reading all entries returns the old ones followed by the
  new one, and the head that the next writer links to is the new entry's hash, across segment
  rotation.
\<close>

theorem append_refines_log:
  assumes "store_wf st" and "entry_fits lineSize e st"
  shows "\<exists>st'. store_push now (segmentMaxBytesFromEnv env) lineSize e st = (st', Inr ()) \<and>
    store_wf st' \<and>
    ReadAllEntriesAtPath Acquired st' = (st', Inr (store_log st @ [e])) \<and>
    LastHashAtPath Acquired no_faults (segmentMaxBytesFromEnv env) st' = (st', Inr (Hash e))"
proof -
  obtain st' where st': "store_push now (segmentMaxBytesFromEnv env) lineSize e st = (st', Inr ())"
    "store_wf st'" "store_log st' = store_log st @ [e]"
    by (rule store_as_log.pushE [OF assms])
  then show ?thesis
    using ReadAllEntriesAtPath_log [OF st'(2)] LastHashAtPath_log [OF st'(2)] by simp
qed

theorem append_refines_log_witness:
  "\<exists>st'. store_push 0 (segmentMaxBytesFromEnv []) (\<lambda>_. 100) (sample_entry ''e1'' []) empty_store
      = (st', Inr ()) \<and> store_wf st' \<and>
    ReadAllEntriesAtPath Acquired st' = (st', Inr [sample_entry ''e1'' []]) \<and>
    LastHashAtPath Acquired no_faults (segmentMaxBytesFromEnv []) st' = (st', Inr ''sha256:e1'')"
  using append_refines_log [of empty_store "\<lambda>_. 100" "sample_entry ''e1'' []" 0 "[]"] by simp

text \<open>
  C21. Services that take turns keep a valid hash chain: in every state reachable by services that
  read the head, build an entry on it with \<open>BuildEntry\<close> and append it, each finishing before the
  next starts, \<open>ValidateChainAtPath\<close> accepts the store.
\<close>

theorem turns_keep_chain:
  assumes "reachable True digest lineSize env s"
  shows "ValidateChainAtPath digest Acquired (sysStore s) = (sysStore s, Inr ())"
  using reachable_inv [OF assms] by (simp add: sys_inv_def ValidateChain_ok_iff)

lemma sample_reachable:
  "\<exists>s. reachable True sample_digest (\<lambda>_. 100) [] s \<and> store_log (sysStore s) = [sample_entry ''e1'' []]"
proof -
  let ?s1 = "\<lparr>sysStore = empty_store, pending = (\<lambda>_. None)(0 := Some [])\<rparr>"
  have "sys_step True sample_digest (\<lambda>_. 100) [] init_system
      \<lparr>sysStore = empty_store, pending = (pending init_system)(0 := Some [])\<rparr>"
    by (rule sys_step.read_head)
      (use LastHashAtPath_log [of empty_store] in \<open>simp_all add: init_system_def\<close>)
  then have r1: "reachable True sample_digest (\<lambda>_. 100) [] ?s1"
    using reachable.step [OF reachable.start] by (simp add: init_system_def)
  obtain st where st: "store_push 0 (segmentMaxBytesFromEnv []) (\<lambda>_. 100) (sample_entry ''e1'' [])
      empty_store = (st, Inr ())" "store_log st = [sample_entry ''e1'' []]"
    using store_as_log.push [of empty_store "\<lambda>_. 100" "sample_entry ''e1'' []"] by auto
  have "sys_step True sample_digest (\<lambda>_. 100) [] ?s1
      \<lparr>sysStore = st, pending = (pending ?s1)(0 := None)\<rparr>"
    by (rule sys_step.append_entry [OF _ sample_built [of "''e1''" "''u''" "[]"]])
      (use st in \<open>simp_all add: sample_params_def\<close>)
  from reachable.step [OF r1 this] st(2) show ?thesis by force
qed

theorem turns_keep_chain_witness:
  "\<exists>s. reachable True sample_digest (\<lambda>_. 100) [] s \<and>
    store_log (sysStore s) = [sample_entry ''e1'' []] \<and>
    ValidateChainAtPath sample_digest Acquired (sysStore s) = (sysStore s, Inr ())"
  using sample_reachable turns_keep_chain by metis

text \<open>
  C22. Services that overlap break the chain: when two services read the same head of a store with a
  valid chain and each appends an entry built on it, both appends succeed, and
  \<open>ValidateChainAtPath\<close> reports the second entry (its previous hash is not the hash of the entry
  before it) and rejects the store for good. Each call takes the store lock, but nothing holds it
  between the read of the head and the append.
\<close>

theorem overlapping_appends_break_chain:
  assumes "store_wf st" and "ValidateChainAtPath digest Acquired st = (st, Inr ())"
    and "LastHashAtPath Acquired no_faults (segmentMaxBytesFromEnv env) st = (st, Inr h)"
    and "BuildEntry digest t1 u1 p1 = Inr e1" "bpPreviousHash p1 = h"
    and "BuildEntry digest t2 u2 p2 = Inr e2" "bpPreviousHash p2 = h"
    and "Hash e1 \<noteq> h"
    and "store_push now (segmentMaxBytesFromEnv env) lineSize e1 st = (st1, r1)"
    and "store_push now (segmentMaxBytesFromEnv env) lineSize e2 st1 = (st2, r2)"
    and "entry_fits lineSize e1 st" "entry_fits lineSize e2 st1"
  shows "r1 = Inr () \<and> r2 = Inr () \<and>
    ValidateChainAtPath digest Acquired st2 = (st2, Inl (ChainInvalid
      (ChainValidationError (Suc (length (store_log st))) (EntryID e2) (PreviousMismatch h (Hash e1)))))"
proof -
  have ok: "chain_ok digest [] (store_log st)" and h: "h = last_hash [] (store_log st)"
    using assms(2,3) LastHashAtPath_log [OF assms(1)] ValidateChain_ok_iff [OF assms(1)] by auto
  note b1 = BuildEntry_Inr(3,4) [OF assms(4)] and b2 = BuildEntry_Inr(3,4) [OF assms(6)]
  obtain st1': "r1 = Inr ()" "store_wf st1" "store_log st1 = store_log st @ [e1]"
    using store_as_log.push [OF assms(1,11), of now env] assms(9) by auto
  obtain st2': "r2 = Inr ()" "store_wf st2" "store_log st2 = store_log st1 @ [e2]"
    using store_as_log.push [OF st1'(2) assms(12), of now env] assms(10) by auto
  have "validateChainEntries digest (store_log st @ [e1, e2]) = Some (ChainValidationError
      (Suc (length (store_log st))) (EntryID e2) (PreviousMismatch h (Hash e1)))"
    using b1 b2 assms(5,7,8) ok h by (simp add: validateChainEntries_def validate_loop_append)
  then show ?thesis
    using ValidateChain_log [OF readAll_wf [OF st2'(2)], of digest] st1' st2' by simp
qed

theorem overlapping_appends_break_chain_witness:
  "\<exists>st1 st2.
    store_push 0 (segmentMaxBytesFromEnv []) (\<lambda>_. 100) (sample_entry ''e2'' ''sha256:e1'') sample_store
      = (st1, Inr ()) \<and>
    store_push 0 (segmentMaxBytesFromEnv []) (\<lambda>_. 100) (sample_entry ''e3'' ''sha256:e1'') st1
      = (st2, Inr ()) \<and>
    ValidateChainAtPath sample_digest Acquired st2 = (st2, Inl (ChainInvalid
      (ChainValidationError 2 ''e3'' (PreviousMismatch ''sha256:e1'' ''sha256:e2''))))"
proof -
  let ?push = "\<lambda>i. store_push 0 (segmentMaxBytesFromEnv []) (\<lambda>_. 100) (sample_entry i ''sha256:e1'')"
  have wf: "store_wf sample_store" and log: "store_log sample_store = [sample_entry ''e1'' []]"
    using sample_store_facts by auto
  obtain st1 where st1: "?push ''e2'' sample_store = (st1, Inr ())" "store_wf st1"
    "store_log st1 = store_log sample_store @ [sample_entry ''e2'' ''sha256:e1'']"
    using store_as_log.push [OF wf sample_fits] log by fastforce
  obtain st2 where st2: "?push ''e3'' st1 = (st2, Inr ())"
    using store_as_log.push [OF st1(2) sample_fits] st1(3) log by fastforce
  have "ValidateChainAtPath sample_digest Acquired st2 = (st2, Inl (ChainInvalid
      (ChainValidationError 2 ''e3'' (PreviousMismatch ''sha256:e1'' ''sha256:e2''))))"
    using overlapping_appends_break_chain [OF wf sample_store_valid sample_store_head
        sample_built [of "''e2''" "''u''"] _ sample_built [of "''e3''" "''u''"] _ _ st1(1) st2]
    by (simp add: sample_params_def sample_fits st1(3) log)
  with st1(1) st2 show ?thesis by blast
qed



text \<open>
  C25. An append that is interrupted between the write of the line and the write of the manifest
  (here: \<open>stat\<close> fails) breaks the chain for the next writer: the line is in the log but the
  manifest still has the old last hash, so the next service links to the old head, its append
  succeeds, and \<open>ValidateChainAtPath\<close> rejects the store.
\<close>

theorem interrupted_append_breaks_chain:
  assumes "store_wf st" and "manifestFile st \<noteq> None"
    and "ValidateChainAtPath digest Acquired st = (st, Inr ())"
    and "LastHashAtPath Acquired no_faults maxBytes st = (st, Inr h)"
    and "BuildEntry digest t1 u1 p1 = Inr e1" "bpPreviousHash p1 = h" "entry_fits lineSize e1 st"
    and "appendEntryUnlocked (no_faults\<lparr>failStat := True\<rparr>) now maxBytes lineSize e1 st = (st1, r1)"
    and "BuildEntry digest t2 u2 p2 = Inr e2" "bpPreviousHash p2 = h" "entry_fits lineSize e2 st1"
    and "appendEntryUnlocked no_faults now maxBytes lineSize e2 st1 = (st2, r2)"
    and "Hash e1 \<noteq> h"
  shows "r1 = Inl StatSegmentError \<and>
    LastHashAtPath Acquired no_faults maxBytes st1 = (st1, Inr h) \<and> r2 = Inr () \<and>
    ValidateChainAtPath digest Acquired st2 = (st2, Inl (ChainInvalid
      (ChainValidationError (Suc (length (store_log st))) (EntryID e2) (PreviousMismatch h (Hash e1)))))"
proof -
  have ok: "chain_ok digest [] (store_log st)" and h: "h = last_hash [] (store_log st)"
    using assms(3,4) LastHashAtPath_log [OF assms(1)] ValidateChain_ok_iff [OF assms(1)] by auto
  note b1 = BuildEntry_Inr(3,4) [OF assms(5)] and b2 = BuildEntry_Inr(3,4) [OF assms(9)]
  have fits1: "entry_accepted e1 st" "lineSize e1 \<le> MaxScanTokenSize"
    and fits2: "entry_accepted e2 st1" "lineSize e2 \<le> MaxScanTokenSize"
    using assms(7,11) by (auto simp: entry_fits_def)
  obtain m n where r1: "r1 = Inl StatSegmentError" and log1: "store_log st1 = store_log st @ [e1]"
    and man: "manifestFile st1 = Some (ManifestFile m)" "segments_shape st1 n" "manifest_ok m n (store_log st)"
    and lines1: "store_lines st1 = store_lines st @ [(lineSize e1, EntryText e1)]"
    using append_stat_fault [where now = now and maxBytes = maxBytes and lineSize = lineSize, OF assms(1,2) fits1(1)] assms(8) by auto
  have load: "loadOrInitManifest no_faults t maxBytes c st1 = (st1, Inr m)" for t c
    by (rule load_existing [OF man]) simp
  have head1: "LastHashAtPath Acquired no_faults maxBytes st1 = (st1, Inr h)"
    using man(3) h by (simp add: LastHashAtPath_def withStoreLock_def load manifest_ok_def)
  obtain n2 where r2: "r2 = Inr ()" and shape: "segments_shape st2 n2"
    and lines2: "store_lines st2 = store_lines st1 @ [(lineSize e2, EntryText e2)]"
    using append_from_manifest [where lineSize = lineSize and now = now, OF man(2,3) load fits2(1)] assms(12) by auto
  have "list_all readable (store_lines st2)"
    using store_wf_readable [OF assms(1)] fits1(2) fits2(2) by (simp add: lines2 lines1 readable_def)
  moreover have log2: "store_log st2 = store_log st @ [e1, e2]"
    using log1 by (simp add: store_log_def lines2)
  ultimately have read: "readAllUnlocked st2 = (st2, Inr (store_log st2))"
    using readAll_shape [OF shape] by simp
  have "validateChainEntries digest (store_log st @ [e1, e2]) = Some (ChainValidationError
      (Suc (length (store_log st))) (EntryID e2) (PreviousMismatch h (Hash e1)))"
    using b1 b2 assms(6,10,13) ok h by (simp add: validateChainEntries_def validate_loop_append)
  then show ?thesis
    using ValidateChain_log [OF read, of digest] log2 r1 r2 head1 by simp
qed

theorem interrupted_append_breaks_chain_witness:
  "\<exists>st1 st2.
    appendEntryUnlocked (no_faults\<lparr>failStat := True\<rparr>) 0 5000000 (\<lambda>_. 100)
      (sample_entry ''e2'' ''sha256:e1'') sample_store = (st1, Inl StatSegmentError) \<and>
    appendEntryUnlocked no_faults 0 5000000 (\<lambda>_. 100) (sample_entry ''e3'' ''sha256:e1'') st1
      = (st2, Inr ()) \<and>
    ValidateChainAtPath sample_digest Acquired st2 = (st2, Inl (ChainInvalid
      (ChainValidationError 2 ''e3'' (PreviousMismatch ''sha256:e1'' ''sha256:e2''))))"
proof -
  have wf: "store_wf sample_store" and log: "store_log sample_store = [sample_entry ''e1'' []]"
    and man: "manifestFile sample_store \<noteq> None"
    using sample_store_facts by auto
  have fits: "entry_fits (\<lambda>_. 100) (sample_entry ''e2'' ''sha256:e1'') sample_store"
    by (simp add: sample_fits log)
  obtain st1 where st1: "appendEntryUnlocked (no_faults\<lparr>failStat := True\<rparr>) 0 5000000 (\<lambda>_. 100)
      (sample_entry ''e2'' ''sha256:e1'') sample_store = (st1, Inl StatSegmentError)"
    "store_log st1 = store_log sample_store @ [sample_entry ''e2'' ''sha256:e1'']"
    using append_stat_fault [OF wf man] fits by (fastforce simp: entry_fits_def)
  have fits1: "entry_fits (\<lambda>_. 100) (sample_entry ''e3'' ''sha256:e1'') st1"
    by (simp add: sample_fits st1(2) log)
  obtain st2 r2 where st2: "appendEntryUnlocked no_faults 0 5000000 (\<lambda>_. 100)
      (sample_entry ''e3'' ''sha256:e1'') st1 = (st2, r2)"
    by (meson surj_pair)
  have "r2 = Inr () \<and> ValidateChainAtPath sample_digest Acquired st2 = (st2, Inl (ChainInvalid
      (ChainValidationError 2 ''e3'' (PreviousMismatch ''sha256:e1'' ''sha256:e2''))))"
    using interrupted_append_breaks_chain [OF wf man sample_store_valid sample_store_head
        sample_built [of "''e2''" "''u''"] _ fits st1(1) sample_built [of "''e3''" "''u''"] _ fits1 st2]
    by (simp add: sample_params_def log)
  with st1(1) st2 show ?thesis by auto
qed

text \<open>
  A line longer than the scanner's buffer is accepted and makes the store unreadable: the append
  of an entry whose line exceeds 64 KiB succeeds, and from then on \<open>ReadAllEntriesAtPath\<close> and
  \<open>ValidateChainAtPath\<close> fail with \<open>bufio.Scanner: token too long\<close>, also for the entries before it.
\<close>

theorem long_line_bricks_store:
  assumes "store_wf st" and "entry_accepted e st" and "MaxScanTokenSize < lineSize e"
  shows "\<exists>st'. store_push now (segmentMaxBytesFromEnv env) lineSize e st = (st', Inr ()) \<and>
    ReadAllEntriesAtPath Acquired st' = (st', Inl TokenTooLong) \<and>
    ValidateChainAtPath digest Acquired st' = (st', Inl TokenTooLong)"
proof -
  obtain st' n' where st': "store_push now (segmentMaxBytesFromEnv env) lineSize e st = (st', Inr ())"
    "segments_shape st' n'" "store_lines st' = store_lines st @ [(lineSize e, EntryText e)]"
    using append_accepted [where now = now and lineSize = lineSize, OF assms(1,2) segmentMaxBytes_pos [of env]]
    by (auto simp: store_push_def withStoreLock_def)
  then have "readAllUnlocked st' = (st', Inl TokenTooLong)"
    using readAll_shape [OF st'(2)] assms(3) by (simp add: readable_def)
  with st'(1) show ?thesis
    by (simp add: ReadAllEntriesAtPath_def ValidateChainAtPath_def withStoreLock_def)
qed

theorem long_line_bricks_store_witness:
  "\<exists>st'. store_push 0 (segmentMaxBytesFromEnv []) (\<lambda>_. 70000) (sample_entry ''e2'' ''sha256:e1'')
      sample_store = (st', Inr ()) \<and>
    ReadAllEntriesAtPath Acquired st' = (st', Inl TokenTooLong) \<and>
    ValidateChainAtPath sample_digest Acquired st' = (st', Inl TokenTooLong)"
  by (rule long_line_bricks_store)
    (simp_all add: sample_store_facts entry_accepted_def max_segments_def MaxScanTokenSize_def)

text \<open>
  A store whose manifest is missing is taken for a new one: the next append succeeds, truncates
  the first segment, and the log starts over with the new entry; every entry of the first segment is
  lost, and the entry links to an empty hash, so that a store of one segment validates afterwards.
\<close>

theorem missing_manifest_truncates:
  assumes "segFiles st = [(segmentName 1, ls)]" and "manifestFile st = None"
    and "SessionID e \<noteq> []" "TraceID e \<noteq> []" "lineSize e \<le> MaxScanTokenSize"
    and "BuildEntry digest t u p = Inr e" "bpPreviousHash p = []"
  shows "LastHashAtPath Acquired no_faults (segmentMaxBytesFromEnv env) st = (st, Inr []) \<and>
    (\<exists>st'. store_push now (segmentMaxBytesFromEnv env) lineSize e st = (st', Inr ()) \<and>
      ReadAllEntriesAtPath Acquired st' = (st', Inr [e]) \<and>
      ValidateChainAtPath digest Acquired st' = (st', Inr ()))"
proof -
  let ?max = "segmentMaxBytesFromEnv env"
  let ?st0 = "st\<lparr>segFiles := []\<rparr>"
  have fits: "entry_fits lineSize e ?st0"
    using assms(3-5) by (simp add: entry_fits_def entry_accepted_def max_segments_def store_log_def
        store_lines_def)
  have wf: "store_wf ?st0" and log: "store_log ?st0 = []"
    using assms(2) by (simp_all add: store_wf_def store_log_def store_lines_def)
  have "loadOrInitManifest no_faults now ?max True st = loadOrInitManifest no_faults now ?max True ?st0"
    using assms(1,2) by (simp add: loadOrInitManifest_def)
  then have same: "store_push now ?max lineSize e st = store_push now ?max lineSize e ?st0"
    using assms(3,4)
    by (simp add: store_push_def withStoreLock_def appendEntryUnlocked_def validatePersistedEntry_def
        bindS_def)
  obtain st' where st': "store_push now ?max lineSize e ?st0 = (st', Inr ())" "store_wf st'"
    "store_log st' = [e]"
    using store_as_log.push [OF wf fits, of now env] log by auto
  have "chain_ok digest [] [e]"
    using BuildEntry_Inr(3,4) [OF assms(6)] assms(7) by simp
  then show ?thesis
    using st' same ReadAllEntriesAtPath_log [OF st'(2)] ValidateChain_ok_iff [OF st'(2), of digest]
      assms(2)
    by (simp add: LastHashAtPath_def withStoreLock_def loadOrInitManifest_def)
qed

theorem missing_manifest_truncates_witness:
  "\<exists>st'. store_push 0 (segmentMaxBytesFromEnv []) (\<lambda>_. 100) (sample_entry ''e2'' [])
      \<lparr>manifestFile = None, segFiles = [(segmentName 1, [(100, EntryText (sample_entry ''e1'' []))])]\<rparr>
      = (st', Inr ()) \<and>
    ReadAllEntriesAtPath Acquired st' = (st', Inr [sample_entry ''e2'' []])"
  using missing_manifest_truncates [OF _ _ _ _ _ sample_built [of "''e2''" "''u''" "[]"],
      of "\<lparr>manifestFile = None, segFiles = [(segmentName 1, [(100, EntryText (sample_entry ''e1'' []))])]\<rparr>"
        _ "\<lambda>_. 100" "[]" 0]
  by (auto simp: MaxScanTokenSize_def sample_params_def)

text \<open>
  C23. The head commits to the whole history: when two stores have valid chains and the same last
  hash, and the digest has no collision among their entries, the two logs have the same length and
  agree, entry by entry, on the hash and on every field the hash covers. What may differ is a
  signature.
\<close>

theorem head_commits_to_history:
  assumes "store_wf a" "store_wf b"
    and "ValidateChainAtPath digest Acquired a = (a, Inr ())"
    and "ValidateChainAtPath digest Acquired b = (b, Inr ())"
    and "LastHashAtPath Acquired no_faults maxBytes a = (a, Inr h)"
    and "LastHashAtPath Acquired no_faults maxBytes b = (b, Inr h)"
    and "inj_on digest (hashableEntry ` (set (store_log a) \<union> set (store_log b)))"
    and "\<And>j. digest j \<noteq> Some []"
  shows "map (\<lambda>e. (content e, Hash e)) (store_log a) = map (\<lambda>e. (content e, Hash e)) (store_log b)"
proof (rule chain_commits [OF assms(7,8)])
  show "chain_ok digest [] (store_log a)" "chain_ok digest [] (store_log b)"
    using assms(1-4) ValidateChain_ok_iff by blast+
  show "last_hash [] (store_log a) = last_hash [] (store_log b)"
    using assms(5,6) LastHashAtPath_log [OF assms(1)] LastHashAtPath_log [OF assms(2)] by simp
qed

theorem head_commits_to_history_witness:
  "\<exists>b. store_wf b \<and> store_log b = [sample_entry ''e1'' []\<lparr>Signature := []\<rparr>] \<and>
    map (\<lambda>e. (content e, Hash e)) (store_log sample_store) = map (\<lambda>e. (content e, Hash e)) (store_log b)"
proof -
  let ?e = "sample_entry ''e1'' []\<lparr>Signature := []\<rparr>"
  have a: "store_wf sample_store" "store_log sample_store = [sample_entry ''e1'' []]"
    using sample_store_facts by auto
  have "entry_fits (\<lambda>_. 100) ?e empty_store"
    by (simp add: entry_fits_def entry_accepted_def MaxScanTokenSize_def max_segments_def)
  then obtain b where b: "store_wf b" "store_log b = [?e]"
    using store_as_log.push [of empty_store "\<lambda>_. 100" ?e] by auto
  have same: "hashableEntry ?e = hashableEntry (sample_entry ''e1'' [])"
    by (simp add: hashableEntry_def)
  have hash: "computeEntryHash sample_digest ?e = Some (Hash ?e)"
    using sample_hash [of "''e1''" "[]"] by (simp add: computeEntryHash_def same)
  have "ValidateChainAtPath sample_digest Acquired b = (b, Inr ())"
    using ValidateChain_ok_iff [OF b(1), of sample_digest] b(2) hash by simp
  moreover have "LastHashAtPath Acquired no_faults 1 b = (b, Inr ''sha256:e1'')"
    using LastHashAtPath_log [OF b(1)] b(2) by simp
  moreover have "sample_digest j \<noteq> Some []" for j
    by (cases j rule: sample_digest.cases) simp_all
  ultimately have "map (\<lambda>e. (content e, Hash e)) (store_log sample_store)
      = map (\<lambda>e. (content e, Hash e)) (store_log b)"
    by (intro head_commits_to_history [OF a(1) b(1) sample_store_valid _ sample_store_head])
      (simp_all add: a(2) b(2) same)
  with b show ?thesis by blast
qed

text \<open>
  Signed entries verify: a store whose chain is valid and whose entries were built with one key
  passes \<open>ValidateChainWithSignatures\<close> under that key's verifier. Conversely, in any non-empty store
  that passes, some entry is signed and every signed entry verifies; an entry without a signature
  is passed over.
\<close>

theorem chain_with_signatures:
  assumes wf: "store_wf st"
    and key: "\<And>m. Sign signer m \<noteq> [] \<and> Verify signer m (Sign signer m)"
  shows "(chain_ok digest [] (store_log st) \<and>
      (\<forall>e\<in>set (store_log st). Signature e = b64_encode (Sign signer (Hash e))) \<longrightarrow>
      ValidateChainWithSignatures digest (Verify signer) Acquired st = (st, Inr ())) \<and>
    (ValidateChainWithSignatures digest verify Acquired st = (st, Inr ()) \<longrightarrow> store_log st \<noteq> [] \<longrightarrow>
      chain_ok digest [] (store_log st) \<and> (\<exists>e\<in>set (store_log st). Signature e \<noteq> []) \<and>
      (\<forall>e\<in>set (store_log st). Signature e \<noteq> [] \<longrightarrow>
        (\<exists>s. b64_decode (Signature e) = Some s \<and> verify (Hash e) s)))"
proof (intro conjI)
  have eq: "ValidateChainWithSignatures digest v Acquired st = (st, Inr ()) \<longleftrightarrow>
      chain_ok digest [] (store_log st) \<and> validateEntrySignatures (store_log st) v = None" for v
    using validateChainEntries_iff [of digest "store_log st"]
    by (auto simp: ValidateChainWithSignatures_def withStoreLock_def bindS_def readAll_wf [OF wf]
        split: option.split)
  show "chain_ok digest [] (store_log st) \<and>
      (\<forall>e\<in>set (store_log st). Signature e = b64_encode (Sign signer (Hash e))) \<longrightarrow>
      ValidateChainWithSignatures digest (Verify signer) Acquired st = (st, Inr ())"
    using key by (auto simp: eq intro!: validateEntrySignatures_signed)
  show "ValidateChainWithSignatures digest verify Acquired st = (st, Inr ()) \<longrightarrow> store_log st \<noteq> [] \<longrightarrow>
      chain_ok digest [] (store_log st) \<and> (\<exists>e\<in>set (store_log st). Signature e \<noteq> []) \<and>
      (\<forall>e\<in>set (store_log st). Signature e \<noteq> [] \<longrightarrow>
        (\<exists>s. b64_decode (Signature e) = Some s \<and> verify (Hash e) s))"
    using validateEntrySignatures_sound unfolding eq by metis
qed

theorem chain_with_signatures_witness:
  "ValidateChainWithSignatures sample_digest (Verify sample_signer) Acquired sample_store
    = (sample_store, Inr ())"
  using chain_with_signatures [of sample_store sample_signer sample_digest] sample_store_facts
  by (simp add: sample_signer_def)

text \<open>
  Lookup agrees with the log: with a cache that is coherent with the log and distinct entry ids,
  \<open>FindEntryByID\<close> returns the entry of the log with that id or reports that there is none, whether
  it comes from the cache or from the files, and the cache stays coherent; it also stays coherent
  when an entry is appended.
\<close>

theorem find_entry_by_id:
  assumes "store_wf st" and "cache_ok cache (store_log st)" and "distinct (map EntryID (store_log st))"
    and "entry_fits lineSize e st"
  shows "(\<exists>cache'. FindEntryByID Acquired i cache st
      = (cache', Inr (find (\<lambda>e. EntryID e = i) (store_log st))) \<and> cache_ok cache' (store_log st)) \<and>
    (\<exists>cache' st'. AppendEntryAtPath Acquired no_faults now (segmentMaxBytesFromEnv env) lineSize e
      cache st = (cache', st', Inr ()) \<and> store_log st' = store_log st @ [e] \<and>
      cache_ok cache' (store_log st'))"
proof (intro conjI)
  show "\<exists>cache'. FindEntryByID Acquired i cache st
      = (cache', Inr (find (\<lambda>e. EntryID e = i) (store_log st))) \<and> cache_ok cache' (store_log st)"
    using FindEntryByID_cases [OF assms(1,2), of i] find_unique [OF assms(3)] by metis
  show "\<exists>cache' st'. AppendEntryAtPath Acquired no_faults now (segmentMaxBytesFromEnv env) lineSize e
      cache st = (cache', st', Inr ()) \<and> store_log st' = store_log st @ [e] \<and>
      cache_ok cache' (store_log st')"
    using AppendEntry_cache [OF assms(1,4,2)] by metis
qed

theorem find_entry_by_id_witness:
  "\<exists>cache'. FindEntryByID Acquired ''e1'' Map.empty sample_store
      = (cache', Inr (Some (sample_entry ''e1'' []))) \<and> cache_ok cache' [sample_entry ''e1'' []]"
  using find_entry_by_id [of sample_store Map.empty "\<lambda>_. 100" "sample_entry ''e2'' []" "''e1''"]
    sample_store_facts
  by (simp add: sample_fits)

text \<open>
  C26. \<open>FormatDigest\<close> normalises: a text that it accepts is empty or becomes \<open>sha256:\<close> and 64
  lower-case hexadecimal digits, which it maps to themselves, and \<open>BuildEntry\<close> only returns entries
  whose two digests are in this form, whose hash is the digest of their content and whose signature
  is the signer's over that hash.
\<close>

theorem built_entry_is_sealed:
  assumes "BuildEntry digest now ulid p = Inr e"
  shows "computeEntryHash digest e = Some (Hash e) \<and>
    (\<exists>signer. bpSigner p = Some signer \<and> Signature e = b64_encode (Sign signer (Hash e))) \<and>
    (\<forall>d\<in>{IntentDigest e, ArtifactDigest e}. d = [] \<or> (normal_digest d \<and> FormatDigest d = Inr d))"
proof (intro conjI ballI)
  note b = BuildEntry_Inr [OF assms]
  show "computeEntryHash digest e = Some (Hash e)" by (rule b)
  show "\<exists>signer. bpSigner p = Some signer \<and> Signature e = b64_encode (Sign signer (Hash e))" by (rule b)
  show "d = [] \<or> (normal_digest d \<and> FormatDigest d = Inr d)" if "d \<in> {IntentDigest e, ArtifactDigest e}" for d
    using that FormatDigest_normal [OF b(11)] FormatDigest_normal [OF b(12)] normal_digest_fixed by blast
qed

theorem built_entry_is_sealed_witness:
  "computeEntryHash sample_digest (sample_entry ''e1'' []) = Some ''sha256:e1'' \<and>
   IntentDigest (sample_entry ''e1'' []) = []"
  using built_entry_is_sealed [OF sample_built [of "''e1''" "''u''" "[]"]]
  by (simp add: sample_entry_def)

text \<open>
  Segment files are read in numeric order and without a gap: the names of segments 1 to n are
  accepted in that order, in whatever order the directory lists them, and a directory is accepted
  only when its segment files, sorted, are exactly segments 1 to n.
\<close>

theorem segments_without_gaps:
  shows "(n \<le> max_segments \<and> mset names = mset (segment_names n) \<longrightarrow>
      orderedSegmentNames names = Inr ([1..<Suc n], segment_names n)) \<and>
    (\<forall>idx out. orderedSegmentNames names = Inr (idx, out) \<longrightarrow>
      out = map segmentName [1..<Suc (length out)])"
proof (intro conjI allI impI)
  assume n: "n \<le> max_segments \<and> mset names = mset (segment_names n)"
  then show "orderedSegmentNames names = Inr ([1..<Suc n], segment_names n)"
    using orderedSegmentNames_mset [of names "segment_names n"] orderedSegmentNames_segment_names by simp
next
  fix idx out
  assume "orderedSegmentNames names = Inr (idx, out)"
  from orderedSegmentNames_Inr [OF this] show "out = map segmentName [1..<Suc (length out)]"
    by (simp add: segment_names_def)
qed

theorem segments_without_gaps_witness:
  "orderedSegmentNames [segmentName 2, segmentName 1] = Inr ([1, 2], [segmentName 1, segmentName 2])"
proof -
  have "segment_names 2 = [segmentName 1, segmentName 2]"
    using segment_names_Suc [of 1] segment_names_Suc [of 0] by (simp add: numeral_2_eq_2)
  moreover have "[1..<Suc 2] = [1, 2]" by (simp add: upt_rec)
  ultimately show ?thesis
    using segments_without_gaps [of 2 "[segmentName 2, segmentName 1]"]
    by (simp add: max_segments_def)
qed

end
