(* ===== verification/Float64.thy ===== *)
theory Float64
  imports Complex_Main
begin

text \<open>
  Go's \<open>float64\<close> as the program uses it: finite values only, as rationals, with every result of an
  operation rounded to 53 significant bits, ties to even, gradual underflow (\<open>fl64\<close>). Neither
  infinities nor NaN arise from the values the program computes with (counts, rates and weights of
  small magnitude), and a fused multiply-add, which the compiler may use on some architectures, is
  not modelled. What the components need of the rounding is the interface \<open>rounding\<close>.
\<close>

section \<open>The interface\<close>

locale rounding =
  fixes fl :: "rat \<Rightarrow> rat"
  assumes mono: "x \<le> y \<Longrightarrow> fl x \<le> fl y"
    and zero: "fl 0 = 0"
    and int: "0 \<le> n \<Longrightarrow> n \<le> 2 ^ 53 \<Longrightarrow> fl (of_int n) = of_int n"
begin

lemma nonneg: "0 \<le> x \<Longrightarrow> 0 \<le> fl x"
  using mono [of 0 x] by (simp add: zero)

lemma nonpos: "x \<le> 0 \<Longrightarrow> fl x \<le> 0"
  using mono [of x 0] by (simp add: zero)

lemma one: "fl 1 = 1"
  using int [of 1] by simp

lemma hundred: "fl 100 = 100"
  using int [of 100] by simp

lemma le_one: "x \<le> 1 \<Longrightarrow> fl x \<le> 1"
  using mono [of x 1] by (simp add: one)

lemma le_hundred: "x \<le> 100 \<Longrightarrow> fl x \<le> 100"
  using mono [of x 100] by (simp add: hundred)

text \<open>A sum of rounded terms grows with its terms.\<close>

lemma sum_mono:
  assumes "\<And>k. k \<in> set ks \<Longrightarrow> f k \<le> g k" and "a \<le> b"
  shows "fold (\<lambda>k acc. fl (acc + f k)) ks a \<le> fold (\<lambda>k acc. fl (acc + g k)) ks b"
  using assms
proof (induction ks arbitrary: a b)
  case Nil
  then show ?case by simp
next
  case (Cons k ks)
  have "fl (a + f k) \<le> fl (b + g k)"
    using Cons.prems by (intro mono add_mono) auto
  with Cons show ?case by simp
qed

lemma sum_nonneg:
  "(\<And>k. k \<in> set ks \<Longrightarrow> 0 \<le> f k) \<Longrightarrow> 0 \<le> a \<Longrightarrow> 0 \<le> fold (\<lambda>k acc. fl (acc + f k)) ks a"
  by (induction ks arbitrary: a) (simp_all add: nonneg)

end

section \<open>Rounding to the grid\<close>

definition rne :: "rat \<Rightarrow> int" where
  "rne y = (let f = \<lfloor>y\<rfloor>; d = y - of_int f in
     if d < 1 / 2 then f else if 1 / 2 < d then f + 1 else if even f then f else f + 1)"

lemma rne_int [simp]: "rne (of_int n) = n"
  by (simp add: rne_def)

lemma rne_bounds: "\<lfloor>y\<rfloor> \<le> rne y" "rne y \<le> \<lfloor>y\<rfloor> + 1"
  by (simp_all add: rne_def Let_def)

lemma rne_mono: "x \<le> y \<Longrightarrow> rne x \<le> rne y"
proof -
  assume le: "x \<le> y"
  then have f: "\<lfloor>x\<rfloor> \<le> \<lfloor>y\<rfloor>" by (rule floor_mono)
  show ?thesis
  proof (cases "\<lfloor>x\<rfloor> = \<lfloor>y\<rfloor>")
    case True
    with le show ?thesis by (auto simp: rne_def Let_def)
  next
    case False
    with f rne_bounds [of x] rne_bounds [of y] show ?thesis by linarith
  qed
qed

lemma rne_minus: "rne (- y) = - rne y"
proof (cases "y = of_int \<lfloor>y\<rfloor>")
  case True
  then have "- y = of_int (- \<lfloor>y\<rfloor>)" by simp
  then have "rne (- y) = - \<lfloor>y\<rfloor>" by (metis rne_int)
  moreover have "rne y = \<lfloor>y\<rfloor>" by (metis True rne_int)
  ultimately show ?thesis by simp
next
  case False
  let ?f = "\<lfloor>y\<rfloor>"
  have b: "of_int ?f < y" "y < of_int ?f + 1" using False by linarith+
  then have n: "\<lfloor>- y\<rfloor> = - ?f - 1" by linarith
  show ?thesis
    using b unfolding rne_def Let_def n by auto
qed

section \<open>The exponent\<close>

fun nlog2 :: "nat \<Rightarrow> nat" where
  "nlog2 n = (if n < 2 then 0 else Suc (nlog2 (n div 2)))"

declare nlog2.simps [simp del]

lemma nlog2_bounds: "0 < n \<Longrightarrow> 2 ^ nlog2 n \<le> n \<and> n < 2 ^ Suc (nlog2 n)"
proof (induction n rule: nlog2.induct)
  case (1 n)
  show ?case
  proof (cases "n < 2")
    case True
    with "1.prems" show ?thesis by (simp add: nlog2.simps)
  next
    case False
    then have "2 ^ nlog2 (n div 2) \<le> n div 2 \<and> n div 2 < 2 ^ Suc (nlog2 (n div 2))"
      using "1.IH" by simp
    with False show ?thesis by (subst (1 2) nlog2.simps) auto
  qed
qed

definition expo :: "rat \<Rightarrow> int" where
  "expo x = (case quotient_of x of (a, b) \<Rightarrow>
     let k = int (nlog2 (nat a)) - int (nlog2 (nat b)) in if 2 powi k \<le> x then k else k - 1)"

lemma powi_two_pos [simp]: "0 < (2 :: rat) powi k"
  by simp

lemma powi_two_mono: "j < k \<Longrightarrow> (2 :: rat) powi j < 2 powi k"
  by (rule power_int_strict_increasing) simp_all

lemma powi_two_less: "(2 :: rat) powi j < 2 powi k \<longleftrightarrow> j < k"
  using powi_two_mono [of j k] powi_two_mono [of k j] by (cases j k rule: linorder_cases) auto

lemma powi_two_le: "(2 :: rat) powi j \<le> 2 powi k \<longleftrightarrow> j \<le> k"
  using powi_two_less [of k j] by (simp add: linorder_not_less [symmetric])

lemma powi_two_Suc: "(2 :: rat) powi (k + 1) = 2 * 2 powi k"
  by (simp add: power_int_add)

lemma expo_bounds:
  assumes "0 < x"
  shows "2 powi expo x \<le> x" "x < 2 powi (expo x + 1)"
proof -
  obtain a b where q: "quotient_of x = (a, b)" by (cases "quotient_of x")
  have b: "0 < b" and x: "x = of_int a / of_int b"
    using quotient_of_denom_pos [OF q] quotient_of_div [OF q] by auto
  then have a: "0 < a" using assms by (simp add: zero_less_divide_iff)
  let ?i = "nlog2 (nat a)" and ?j = "nlog2 (nat b)"
  let ?k = "int ?i - int ?j"
  have "(2 :: nat) ^ ?i \<le> nat a \<and> nat a < 2 ^ Suc ?i" and "(2 :: nat) ^ ?j \<le> nat b \<and> nat b < 2 ^ Suc ?j"
    using nlog2_bounds [of "nat a"] nlog2_bounds [of "nat b"] a b by simp_all
  then have "int (2 ^ ?i) \<le> a" "a < int (2 ^ Suc ?i)" "int (2 ^ ?j) \<le> b" "b < int (2 ^ Suc ?j)"
    using a b by linarith+
  then have ai: "(2 :: rat) ^ ?i \<le> of_int a" "of_int a < (2 :: rat) ^ Suc ?i"
    and bi: "(2 :: rat) ^ ?j \<le> of_int b" "of_int b < (2 :: rat) ^ Suc ?j"
    by (metis of_int_le_iff of_int_less_iff of_int_of_nat_eq of_nat_numeral of_nat_power)+
  have k: "(2 :: rat) powi ?k = 2 ^ ?i / 2 ^ ?j"
    by (simp add: power_int_diff)
  have bq: "(0 :: rat) < of_int b" using b by simp
  have up: "x < 2 powi (?k + 1)"
  proof -
    have "x < 2 ^ Suc ?i / 2 ^ ?j"
      unfolding x by (rule frac_less) (use less_imp_le [OF a] bq ai bi in \<open>auto intro: less_imp_le\<close>)
    then show ?thesis by (simp add: powi_two_Suc k)
  qed
  have lo: "2 powi (?k - 1) \<le> x"
  proof -
    have "2 ^ ?i / 2 ^ Suc ?j \<le> x"
      unfolding x by (rule frac_le) (use less_imp_le [OF a] bq ai bi in \<open>auto intro: less_imp_le\<close>)
    then show ?thesis using powi_two_Suc [of "?k - 1"] k by simp
  qed
  show "2 powi expo x \<le> x" "x < 2 powi (expo x + 1)"
    using up lo by (auto simp: expo_def q Let_def)
qed

lemma expo_mono:
  assumes "0 < x" "x \<le> y"
  shows "expo x \<le> expo y"
proof -
  have "2 powi expo x < (2 :: rat) powi (expo y + 1)"
    using expo_bounds [of x] expo_bounds [of y] assms by linarith
  then show ?thesis by (simp only: powi_two_less)
qed

section \<open>Rounding\<close>

definition unit64 :: "rat \<Rightarrow> rat" where
  "unit64 x = 2 powi (max (expo x - 52) (- 1074))"

definition flpos :: "rat \<Rightarrow> rat" where
  "flpos x = of_int (rne (x / unit64 x)) * unit64 x"

definition fl64 :: "rat \<Rightarrow> rat" where
  "fl64 x = (if x = 0 then 0 else if 0 < x then flpos x else - flpos (- x))"

lemma unit64_pos [simp]: "0 < unit64 x"
  by (simp add: unit64_def)

lemma powi_multiple:
  "j \<le> k \<Longrightarrow> \<exists>n. (2 :: rat) powi k = of_int n * 2 powi j"
proof -
  assume "j \<le> k"
  then have "(2 :: rat) powi k = 2 powi (j + int (nat (k - j)))" by simp
  also have "\<dots> = of_int (2 ^ nat (k - j)) * 2 powi j"
    by (simp add: power_int_add del: int_nat_eq)
  finally show ?thesis by blast
qed

lemma flpos_grid:
  assumes "g = of_int n * unit64 x"
  shows "x \<le> g \<Longrightarrow> flpos x \<le> g" "g \<le> x \<Longrightarrow> g \<le> flpos x"
proof -
  have g: "g / unit64 x = of_int n" using assms unit64_pos [of x] by (simp del: unit64_pos)
  show "flpos x \<le> g" if "x \<le> g"
  proof -
    have "rne (x / unit64 x) \<le> rne (of_int n)"
      unfolding g [symmetric] by (intro rne_mono divide_right_mono that less_imp_le unit64_pos)
    then have "rne (x / unit64 x) \<le> n" by simp
    then show ?thesis
      by (simp add: flpos_def assms mult_right_mono less_imp_le)
  qed
  show "g \<le> flpos x" if "g \<le> x"
  proof -
    have "rne (of_int n) \<le> rne (x / unit64 x)"
      unfolding g [symmetric] by (intro rne_mono divide_right_mono that less_imp_le unit64_pos)
    then have "n \<le> rne (x / unit64 x)" by simp
    then show ?thesis
      by (simp add: flpos_def assms mult_right_mono less_imp_le)
  qed
qed

lemma flpos_nonneg: "0 < x \<Longrightarrow> 0 \<le> flpos x"
  using flpos_grid(2) [of 0 0 x] by simp

lemma flpos_mono:
  assumes "0 < x" "x \<le> y"
  shows "flpos x \<le> flpos y"
proof (cases "unit64 x = unit64 y")
  case True
  have "x / unit64 y \<le> y / unit64 y"
    using assms(2) by (simp add: divide_right_mono less_imp_le)
  then show ?thesis
    by (simp add: flpos_def True rne_mono mult_right_mono less_imp_le)
next
  case False
  have le: "expo x \<le> expo y" by (rule expo_mono [OF assms])
  have ne: "expo x \<noteq> expo y" and big: "\<not> (expo x - 52 \<le> - 1074 \<and> expo y - 52 \<le> - 1074)"
    using False by (auto simp: unit64_def)
  with le have lt: "expo x < expo y" "expo y - 52 > - 1074" by linarith+
  let ?g = "(2 :: rat) powi expo y"
  have "x < 2 powi (expo x + 1)" and "?g \<le> y"
    using expo_bounds [of x] expo_bounds [of y] assms by auto
  moreover have "(2 :: rat) powi (expo x + 1) \<le> ?g"
    using lt by (simp only: powi_two_le)
  ultimately have xg: "x \<le> ?g" and gy: "?g \<le> y" by linarith+
  obtain n where "?g = of_int n * unit64 x"
    using powi_multiple [of "max (expo x - 52) (- 1074)" "expo y"] lt by (auto simp: unit64_def)
  from flpos_grid(1) [OF this xg] have "flpos x \<le> ?g" .
  moreover obtain m where "?g = of_int m * unit64 y"
    using powi_multiple [of "max (expo y - 52) (- 1074)" "expo y"] lt by (auto simp: unit64_def)
  from flpos_grid(2) [OF this gy] have "?g \<le> flpos y" .
  ultimately show ?thesis by (rule order_trans)
qed

lemma fl64_mono: "x \<le> y \<Longrightarrow> fl64 x \<le> fl64 y"
  using flpos_mono [of x y] flpos_mono [of "- y" "- x"] flpos_nonneg [of y] flpos_nonneg [of "- x"]
  by (auto simp: fl64_def intro: order_trans [of "- flpos (- x)" 0])

lemma flpos_grid_id: "x = of_int n * unit64 x \<Longrightarrow> flpos x = x"
  using flpos_grid [of x n x] by (simp add: order_antisym)

lemma fl64_int:
  assumes "0 \<le> n" "n \<le> 2 ^ 53"
  shows "fl64 (of_int n) = of_int n"
proof (cases "n = 0")
  case True
  then show ?thesis by (simp add: fl64_def)
next
  case False
  then have pos: "0 < n" using assms(1) by simp
  let ?x = "of_int n :: rat"
  have x: "0 < ?x" using pos by simp
  have grid: "\<exists>k. (2 :: rat) powi j = of_int k * unit64 ?x" if "expo ?x \<le> j + 52" "- 1074 \<le> j" for j
    unfolding unit64_def by (rule powi_multiple) (use that in simp)
  have "\<exists>k. ?x = of_int k * unit64 ?x"
  proof (cases "n = 2 ^ 53")
    case True
    then have eq: "?x = 2 powi 53" by simp
    have "expo ?x \<le> 53"
      using expo_bounds(1) [OF x] unfolding eq by (simp only: powi_two_le)
    with grid [of 53] show ?thesis unfolding eq by simp
  next
    case False
    have "(2 :: rat) powi (expo ?x) \<le> ?x" by (rule expo_bounds [OF x])
    also have "?x < of_int (2 ^ 53)"
      using False assms(2) by (simp only: of_int_less_iff)
    also have "(of_int (2 ^ 53) :: rat) = 2 powi 53" by simp
    finally have "expo ?x < 53" by (simp only: powi_two_less)
    with grid [of 0] obtain k where "1 = of_int k * unit64 ?x" by auto
    then have "?x = of_int (n * k) * unit64 ?x" by (metis mult.assoc mult.right_neutral of_int_mult)
    then show ?thesis by blast
  qed
  then obtain k where "?x = of_int k * unit64 ?x" by blast
  from flpos_grid_id [OF this] show ?thesis using x by (simp add: fl64_def)
qed

lemma rne_nearest:
  assumes "\<bar>y - of_int n\<bar> < 1 / 2 \<or> \<bar>y - of_int n\<bar> = 1 / 2 \<and> even n"
  shows "rne y = n"
proof (cases "of_int n \<le> y")
  case True
  then have "\<lfloor>y\<rfloor> = n" using assms by (intro floor_unique) linarith+
  then show ?thesis using assms True by (auto simp: rne_def Let_def abs_if split: if_splits)
next
  case False
  then have "\<lfloor>y\<rfloor> = n - 1" using assms by (intro floor_unique) (simp_all, linarith+)
  then show ?thesis using assms False by (auto simp: rne_def Let_def abs_if split: if_splits)
qed

text \<open>How to read off a rounded value: scale it to 53 bits and name the nearest integer.\<close>

lemma fl64_cert:
  assumes "2 ^ 52 \<le> x * 2 ^ j" "x * 2 ^ j < 2 ^ 53" "j \<le> 1074" "\<bar>x * 2 ^ j - of_int n\<bar> < 1 / 2 \<or> \<bar>x * 2 ^ j - of_int n\<bar> = 1 / 2 \<and> even n"
  shows "fl64 x = of_int n / 2 ^ j"
proof -
  have "0 < x * 2 ^ j" using assms(1) by (rule less_le_trans [rotated]) simp
  then have x: "0 < x" by (simp add: zero_less_mult_iff)
  let ?k = "- int j"
  have k: "(2 :: rat) powi ?k = 1 / 2 ^ j" by (simp add: power_int_minus divide_inverse)
  have up: "(2 :: rat) powi (?k + 53) = 2 ^ 53 / 2 ^ j" and lo: "(2 :: rat) powi (?k + 52) = 2 ^ 52 / 2 ^ j"
    by (simp_all add: power_int_diff)
  have "x < 2 powi (?k + 53)" "2 powi (?k + 52) \<le> x"
    unfolding up lo using assms(1, 2) by (simp_all add: field_simps)
  with expo_bounds [OF x] have "(2 :: rat) powi (expo x) < 2 powi (?k + 53)" "(2 :: rat) powi (?k + 52) < 2 powi (expo x + 1)"
    by linarith+
  then have "expo x = ?k + 52" unfolding powi_two_less by simp
  then have unit: "unit64 x = 1 / 2 ^ j" using assms(3) by (simp add: unit64_def k)
  have "rne (x * 2 ^ j) = n" using assms(4) by (rule rne_nearest)
  then show ?thesis using x by (simp add: fl64_def flpos_def unit)
qed

interpretation f64: rounding fl64
proof unfold_locales
  show "fl64 0 = 0" by (simp add: fl64_def)
qed (rule fl64_mono fl64_int; assumption)+

end
