(* ===== verification/Canon.thy ===== *)
theory Canon
  imports Json Float64
begin

text \<open>
  Canonicalisation (\<^verbatim>\<open>internal/canon\<close>): from a raw artifact to the action it describes. Decoded YAML is a
  \<open>gval\<close>, Go's \<open>interface{}\<close>; the YAML decoder, the Terraform plan decoder and SHA-256 over bytes,
  over the JSON of an action and over the JSON of decoded values are arguments. \<open>sort.Slice\<close> is not
  stable, so each sort is an argument too (\<^const>\<open>sorts\<close>).
\<close>

section \<open>Decoded values\<close>

datatype gval =
    GNil
  | GBool bool
  | GInt int
  | GFloat rat
  | GStr string
  | GSlice "gval list"
  | GMap "(string \<times> gval) list"
  | GOther   \<comment> \<open>a value the JSON encoder rejects, such as a map with other keys\<close>

type_synonym gmap = "(string \<times> gval) list"

fun as_str :: "gval option \<Rightarrow> string option" where
  "as_str (Some (GStr s)) = Some s"
| "as_str _ = None"

fun as_bool :: "gval option \<Rightarrow> bool option" where
  "as_bool (Some (GBool b)) = Some b"
| "as_bool _ = None"

fun as_map :: "gval option \<Rightarrow> gmap option" where
  "as_map (Some (GMap m)) = Some m"
| "as_map _ = None"

fun as_slice :: "gval option \<Rightarrow> gval list option" where
  "as_slice (Some (GSlice l)) = Some l"
| "as_slice _ = None"

text \<open>\<open>delete(m, k)\<close>.\<close>

definition gdelete :: "string \<Rightarrow> gmap \<Rightarrow> gmap" where
  "gdelete k m = filter (\<lambda>(n, v). n \<noteq> k) m"

section \<open>Actions\<close>

record ResourceID =
  ridAPIVersion :: string
  ridKind :: string
  ridNamespace :: string
  ridName :: string
  ridType :: string
  ridActions :: string

definition no_id :: ResourceID where
  "no_id = \<lparr>ridAPIVersion = [], ridKind = [], ridNamespace = [], ridName = [], ridType = [], ridActions = []\<rparr>"

record CanonicalAction =
  caTool :: string
  caOperation :: string
  caOperationClass :: string
  caResourceIdentity :: "ResourceID list"
  caScopeClass :: string
  caResourceCount :: int
  caResourceShapeHash :: string

definition zero_action :: CanonicalAction where
  "zero_action = \<lparr>caTool = [], caOperation = [], caOperationClass = [], caResourceIdentity = [],
     caScopeClass = [], caResourceCount = 0, caResourceShapeHash = []\<rparr>"

datatype CanonError = SplitYAML | NoObjects | ParsePlanJSON | MarshalAction

record CanonResult =
  crArtifactDigest :: string
  crIntentDigest :: string
  crCanonicalAction :: CanonicalAction
  crCanonVersion :: string
  crRawAction :: "json option"
  crParseError :: "CanonError option"

record Hashes =
  hBytes :: "string \<Rightarrow> string"
  hJson :: "json \<Rightarrow> string"
  hShape :: "gval list \<Rightarrow> string option"

definition resource_json :: "ResourceID \<Rightarrow> json" where
  "resource_json r = JObj (omit_str ''api_version'' (ridAPIVersion r) @ omit_str ''kind'' (ridKind r)
     @ omit_str ''namespace'' (ridNamespace r) @ omit_str ''name'' (ridName r)
     @ omit_str ''type'' (ridType r) @ omit_str ''actions'' (ridActions r))"

text \<open>A \<open>nil\<close> slice is written as \<open>null\<close>; only the plan without changes has one.\<close>

definition resources_json :: "ResourceID list \<Rightarrow> json" where
  "resources_json rs = (if rs = [] then JNull else JArr (map resource_json rs))"

definition action_fields :: "CanonicalAction \<Rightarrow> fields" where
  "action_fields a =
     [(''tool'', JStr (caTool a)), (''operation'', JStr (caOperation a)),
      (''operation_class'', JStr (caOperationClass a)),
      (''resource_identity'', resources_json (caResourceIdentity a)),
      (''scope_class'', JStr (caScopeClass a)), (''resource_count'', JNum (caResourceCount a))]"

definition action_json :: "CanonicalAction \<Rightarrow> json" where
  "action_json a = JObj (action_fields a @ [(''resource_shape_hash'', JStr (caResourceShapeHash a))])"

definition ComputeIntentDigest :: "Hashes \<Rightarrow> CanonicalAction \<Rightarrow> string" where
  "ComputeIntentDigest h a = hJson h (JObj (action_fields a))"

section \<open>Operation classes\<close>

definition k8sOperationClass :: "string \<Rightarrow> string" where
  "k8sOperationClass op =
     (if op \<in> {''apply'', ''create'', ''patch'', ''upgrade'', ''install'', ''replace'', ''set'',
        ''annotate'', ''label'', ''rollout'', ''scale'', ''autoscale'', ''taint'', ''cordon'', ''uncordon''}
      then ''mutate''
      else if op \<in> {''delete'', ''uninstall'', ''drain''} then ''destroy''
      else if op \<in> {''get'', ''describe'', ''logs'', ''top'', ''diff''} then ''read''
      else ''unknown'')"

definition terraformOperationClass :: "string \<Rightarrow> string" where
  "terraformOperationClass op =
     (if op \<in> {''apply'', ''import''} then ''mutate''
      else if op = ''destroy'' then ''destroy''
      else if op \<in> {''plan'', ''validate'', ''refresh'', ''show'', ''state''} then ''plan''
      else ''unknown'')"

definition dockerOperationClass :: "string \<Rightarrow> string" where
  "dockerOperationClass op =
     (if op \<in> {''rm'', ''remove'', ''stop'', ''kill'', ''rmi'', ''down'', ''delete''} then ''destroy''
      else if op \<in> {''run'', ''create'', ''start'', ''restart'', ''update'', ''up'', ''pull'', ''build'', ''push''}
      then ''mutate''
      else ''unknown'')"

definition composeOperationClass :: "string \<Rightarrow> string" where
  "composeOperationClass op =
     (if op \<in> {''down'', ''rm'', ''remove'', ''stop'', ''kill''} then ''destroy''
      else if op \<in> {''up'', ''start'', ''restart'', ''pull'', ''build'', ''push'', ''run'', ''create''}
      then ''mutate''
      else ''unknown'')"

section \<open>Scope classes\<close>

definition NormalizeScopeClass :: "string \<Rightarrow> string" where
  "NormalizeScopeClass scope =
     (let v = ToLower (TrimSpace scope) in
      if v \<in> {''production'', ''prod''} then ''production''
      else if v \<in> {''staging'', ''stage''} then ''staging''
      else if v \<in> {''development'', ''dev'', ''test'', ''sandbox''} then ''development''
      else ''unknown'')"

fun scan_namespaces :: "ResourceID list \<Rightarrow> string" where
  "scan_namespaces [] = ''unknown''"
| "scan_namespaces (r # rs) =
     (let ns = ToLower (ridNamespace r) in
      if ns = [] then scan_namespaces rs
      else if Contains ns ''prod'' then ''production''
      else if Contains ns ''stag'' then ''staging''
      else if Contains ns ''dev'' then ''development''
      else scan_namespaces rs)"

definition ResolveScopeClass :: "string \<Rightarrow> ResourceID list \<Rightarrow> string" where
  "ResolveScopeClass env resources =
     (let envRaw = TrimSpace env; normalized = NormalizeScopeClass envRaw in
      if envRaw \<noteq> [] \<and> normalized \<noteq> ''unknown'' then normalized else scan_namespaces resources)"

section \<open>Kubernetes\<close>

definition k8sNoiseAnnotationPrefixes :: "string list" where
  "k8sNoiseAnnotationPrefixes =
     [''kubectl.kubernetes.io/'', ''deployment.kubernetes.io/'', ''control-plane.alpha.kubernetes.io/'']"

definition noisy_annotation :: "string \<Rightarrow> bool" where
  "noisy_annotation key = list_ex (HasPrefix key) k8sNoiseAnnotationPrefixes"

definition k8sNoiseMetadata :: "string list" where
  "k8sNoiseMetadata = [''uid'', ''resourceVersion'', ''generation'', ''creationTimestamp'',
     ''deletionTimestamp'', ''deletionGracePeriodSeconds'', ''managedFields'', ''selfLink'', ''generateName'']"

definition clean_annotations :: "gmap \<Rightarrow> gmap" where
  "clean_annotations metadata =
     (case as_map (map_of metadata ''annotations'') of
        None \<Rightarrow> metadata
      | Some annotations \<Rightarrow>
          (let kept = filter (\<lambda>(k, v). \<not> noisy_annotation k) annotations in
           if kept = [] then gdelete ''annotations'' metadata
           else map (\<lambda>(k, v). if k = ''annotations'' then (k, GMap kept) else (k, v)) metadata))"

definition removeK8sNoiseFields :: "gmap \<Rightarrow> gmap" where
  "removeK8sNoiseFields obj =
     (let obj1 = gdelete ''status'' obj in
      case as_map (map_of obj1 ''metadata'') of
        None \<Rightarrow> obj1
      | Some metadata \<Rightarrow>
          (let metadata1 = clean_annotations (fold gdelete k8sNoiseMetadata metadata) in
           map (\<lambda>(k, v). if k = ''metadata'' then (k, GMap metadata1) else (k, v)) obj1))"

text \<open>The JSON encoder writes the keys of a map in order.\<close>

fun sort_keys :: "gval \<Rightarrow> gval" where
  "sort_keys (GMap m) = GMap (sort_key fst (map (\<lambda>(k, v). (k, sort_keys v)) m))"
| "sort_keys (GSlice l) = GSlice (map sort_keys l)"
| "sort_keys v = v"

definition extractK8sIdentity :: "gmap \<Rightarrow> ResourceID" where
  "extractK8sIdentity obj =
     (let norm = (\<lambda>v. case as_str v of None \<Rightarrow> [] | Some s \<Rightarrow> ToLower (TrimSpace s));
          meta = (\<lambda>k. case as_map (map_of obj ''metadata'') of None \<Rightarrow> None | Some m \<Rightarrow> map_of m k)
      in no_id\<lparr>ridAPIVersion := norm (map_of obj ''apiVersion''), ridKind := norm (map_of obj ''kind''),
           ridNamespace := norm (meta ''namespace''), ridName := norm (meta ''name'')\<rparr>)"

type_synonym identified = "ResourceID \<times> gmap"

text \<open>The comparison of two identities goes field by field, as that of these lists.\<close>

definition k8s_key :: "identified \<Rightarrow> string list" where
  "k8s_key x = [ridAPIVersion (fst x), ridKind (fst x), ridNamespace (fst x), ridName (fst x)]"

definition computeK8sShapeHash :: "Hashes \<Rightarrow> identified list \<Rightarrow> string" where
  "computeK8sShapeHash h objects =
     (case hShape h (map (\<lambda>(i, obj). sort_keys (GMap (removeK8sNoiseFields obj))) objects) of
        None \<Rightarrow> [] | Some d \<Rightarrow> d)"

text \<open>
  What \<open>splitYAMLDocuments\<close> gets from the decoder: the documents before the end or the first
  error, each an object or \<open>nil\<close>, and whether it stopped at an error.
\<close>

type_synonym yaml_docs = "gmap option list \<times> bool"

definition splitYAMLDocuments :: "(string \<Rightarrow> yaml_docs) \<Rightarrow> string \<Rightarrow> gmap list option" where
  "splitYAMLDocuments yaml raw =
     (case yaml raw of (docs, failed) \<Rightarrow>
        if failed then None else Some (map the (filter (\<lambda>d. d \<noteq> None) docs)))"

definition failed_result :: "string \<Rightarrow> string \<Rightarrow> CanonError \<Rightarrow> CanonResult" where
  "failed_result artifactDigest version err =
     \<lparr>crArtifactDigest = artifactDigest, crIntentDigest = [], crCanonicalAction = zero_action,
      crCanonVersion = version, crRawAction = None, crParseError = Some err\<rparr>"

definition action_result :: "Hashes \<Rightarrow> string \<Rightarrow> string \<Rightarrow> CanonicalAction \<Rightarrow> CanonResult" where
  "action_result h artifactDigest version action =
     \<lparr>crArtifactDigest = artifactDigest, crIntentDigest = ComputeIntentDigest h action,
      crCanonicalAction = action, crCanonVersion = version, crRawAction = Some (action_json action),
      crParseError = None\<rparr>"

definition k8s_action ::
  "Hashes \<Rightarrow> (identified list \<Rightarrow> identified list) \<Rightarrow> string \<Rightarrow> string \<Rightarrow> string \<Rightarrow> gmap list \<Rightarrow> CanonicalAction" where
  "k8s_action h srt tool operation environment objects =
     (let identified = srt (map (\<lambda>obj. (extractK8sIdentity obj, obj)) objects);
          identities = map fst identified
      in \<lparr>caTool = tool, caOperation = operation, caOperationClass = k8sOperationClass operation,
          caResourceIdentity = identities, caScopeClass = ResolveScopeClass environment identities,
          caResourceCount = int (length objects),
          caResourceShapeHash = computeK8sShapeHash h identified\<rparr>)"

definition canonicalizeK8s ::
  "Hashes \<Rightarrow> (identified list \<Rightarrow> identified list) \<Rightarrow> (string \<Rightarrow> yaml_docs)
    \<Rightarrow> string \<Rightarrow> string \<Rightarrow> string \<Rightarrow> string \<Rightarrow> CanonResult" where
  "canonicalizeK8s h srt yaml tool operation environment rawArtifact =
     (let artifactDigest = hBytes h rawArtifact in
      case splitYAMLDocuments yaml rawArtifact of
        None \<Rightarrow> failed_result artifactDigest ''k8s/v1'' SplitYAML
      | Some objects \<Rightarrow>
          if objects = [] then failed_result artifactDigest ''k8s/v1'' NoObjects
          else action_result h artifactDigest ''k8s/v1''
                 (k8s_action h srt tool operation environment objects))"

section \<open>Terraform\<close>

record TfChange =
  tcType :: string
  tcName :: string
  tcActions :: "string list option"   \<comment> \<open>\<^term>\<open>None\<close> where \<open>change\<close> is \<open>nil\<close>\<close>

definition tf_key :: "TfChange \<Rightarrow> string list" where
  "tf_key c = [tcType c, tcName c]"

definition formatTerraformActions :: "string list option \<Rightarrow> string" where
  "formatTerraformActions change =
     (case change of None \<Rightarrow> ''unknown'' | Some actions \<Rightarrow> Join (sort actions) '','')"

definition tf_identity :: "TfChange \<Rightarrow> ResourceID" where
  "tf_identity rc = no_id\<lparr>ridType := tcType rc, ridName := tcName rc,
     ridActions := formatTerraformActions (tcActions rc)\<rparr>"

text \<open>An entry without actions is written with \<open>null\<close>: the slice stays \<open>nil\<close>.\<close>

definition tf_shape_entry :: "TfChange \<Rightarrow> json" where
  "tf_shape_entry rc =
     (let actions = sort (case tcActions rc of None \<Rightarrow> [] | Some as \<Rightarrow> as) in
      JObj [(''type'', JStr (tcType rc)), (''name'', JStr (tcName rc)),
            (''actions'', if actions = [] then JNull else JArr (map JStr actions))])"

definition computeTerraformShapeHash :: "Hashes \<Rightarrow> TfChange list \<Rightarrow> string" where
  "computeTerraformShapeHash h changes = hJson h (JArr (map tf_shape_entry changes))"

definition terraform_action ::
  "Hashes \<Rightarrow> (TfChange list \<Rightarrow> TfChange list) \<Rightarrow> string \<Rightarrow> string \<Rightarrow> string \<Rightarrow> TfChange list \<Rightarrow> CanonicalAction" where
  "terraform_action h srt tool operation environment resourceChanges =
     (if resourceChanges = [] then
        \<lparr>caTool = tool, caOperation = operation, caOperationClass = terraformOperationClass operation,
         caResourceIdentity = [], caScopeClass = ResolveScopeClass environment [],
         caResourceCount = 0, caResourceShapeHash = hBytes h ''empty''\<rparr>
      else
        (let changes = srt resourceChanges; identities = map tf_identity changes in
         \<lparr>caTool = tool, caOperation = operation, caOperationClass = terraformOperationClass operation,
          caResourceIdentity = identities, caScopeClass = ResolveScopeClass environment identities,
          caResourceCount = int (length changes),
          caResourceShapeHash = computeTerraformShapeHash h changes\<rparr>))"

definition canonicalizeTerraform ::
  "Hashes \<Rightarrow> (TfChange list \<Rightarrow> TfChange list) \<Rightarrow> (string \<Rightarrow> TfChange list option)
    \<Rightarrow> string \<Rightarrow> string \<Rightarrow> string \<Rightarrow> string \<Rightarrow> CanonResult" where
  "canonicalizeTerraform h srt plan tool operation environment rawArtifact =
     (let artifactDigest = hBytes h rawArtifact in
      case plan rawArtifact of
        None \<Rightarrow> failed_result artifactDigest ''terraform/v1'' ParsePlanJSON
      | Some changes \<Rightarrow> action_result h artifactDigest ''terraform/v1''
          (terraform_action h srt tool operation environment changes))"

section \<open>Docker\<close>

definition composeTool :: "string \<Rightarrow> bool" where
  "composeTool tool \<longleftrightarrow> tool = ''docker-compose'' \<or> tool = ''compose''"

definition dockerDestroySubcmds :: "string list" where
  "dockerDestroySubcmds = [''rm'', ''remove'', ''stop'', ''kill'', ''rmi'', ''down'']"

definition dockerMutateSubcmds :: "string list" where
  "dockerMutateSubcmds =
     [''run'', ''create'', ''start'', ''restart'', ''update'', ''up'', ''pull'', ''build'', ''push'']"

definition named_resource :: "string \<Rightarrow> string \<Rightarrow> ResourceID" where
  "named_resource typ name = no_id\<lparr>ridName := name, ridType := typ\<rparr>"

fun find_name_flag :: "string list \<Rightarrow> string option" where
  "find_name_flag [] = None"
| "find_name_flag [tok] =
     (if HasPrefix tok ''--name='' then Some (drop (length ''--name='') tok) else None)"
| "find_name_flag (tok # next # toks) =
     (if tok = ''--name'' \<or> tok = ''-n'' then Some next
      else if HasPrefix tok ''--name='' then Some (drop (length ''--name='') tok)
      else find_name_flag (next # toks))"

definition docker_subcommand :: "string \<Rightarrow> string \<Rightarrow> string list \<Rightarrow> string \<times> ResourceID list" where
  "docker_subcommand tool operation tokens =
     (case tokens of
        [] \<Rightarrow> (dockerOperationClass operation, [])
      | subcmd # args \<Rightarrow>
          if subcmd \<in> set dockerDestroySubcmds then
            (''destroy'', map (named_resource tool) (filter (\<lambda>tok. \<not> HasPrefix tok ''-'') args))
          else if subcmd \<in> set dockerMutateSubcmds then
            (''mutate'',
             if subcmd = ''run'' \<or> subcmd = ''create''
             then (case find_name_flag args of None \<Rightarrow> [] | Some name \<Rightarrow> [named_resource tool name])
             else [])
          else (dockerOperationClass operation, []))"

definition parseDockerCommand :: "string \<Rightarrow> string \<Rightarrow> string \<Rightarrow> string \<times> ResourceID list" where
  "parseDockerCommand tool operation cmd =
     (case Fields cmd of
        [] \<Rightarrow> (dockerOperationClass operation, [])
      | first # rest \<Rightarrow>
          docker_subcommand tool operation
            (if first \<in> {tool, ''docker'', ''nerdctl''} then rest else first # rest))"

text \<open>
  \<open>compose\<close> decodes a compose file and gives the names in its \<open>services\<close> map, in the order of the
  map, or \<^term>\<open>None\<close> where it cannot.
\<close>

definition parseComposeServices :: "(string \<Rightarrow> string list option) \<Rightarrow> string \<Rightarrow> ResourceID list" where
  "parseComposeServices compose raw =
     (case compose raw of None \<Rightarrow> [] | Some names \<Rightarrow> map (named_resource ''compose-service'') names)"

definition docker_resources ::
  "(string \<Rightarrow> string list option) \<Rightarrow> string \<Rightarrow> string \<Rightarrow> string \<Rightarrow> string \<times> ResourceID list" where
  "docker_resources compose tool operation rawArtifact =
     (if composeTool tool then (composeOperationClass operation, parseComposeServices compose rawArtifact)
      else parseDockerCommand tool operation (TrimSpace rawArtifact))"

definition canonicalizeDocker ::
  "Hashes \<Rightarrow> (ResourceID list \<Rightarrow> ResourceID list) \<Rightarrow> (string \<Rightarrow> string list option)
    \<Rightarrow> string \<Rightarrow> string \<Rightarrow> string \<Rightarrow> string \<Rightarrow> CanonResult" where
  "canonicalizeDocker h srt compose tool operation environment rawArtifact =
     (let artifactDigest = hBytes h rawArtifact;
          (opClass, found) = docker_resources compose tool operation rawArtifact;
          resources = srt (if found = [] then [named_resource tool artifactDigest] else found)
      in action_result h artifactDigest ''docker/v1''
           \<lparr>caTool = tool, caOperation = operation, caOperationClass = opClass,
            caResourceIdentity = resources, caScopeClass = ResolveScopeClass environment resources,
            caResourceCount = int (length resources),
            caResourceShapeHash = hJson h (JArr (map resource_json resources))\<rparr>)"

section \<open>Generic\<close>

definition canonicalizeGeneric :: "Hashes \<Rightarrow> string \<Rightarrow> string \<Rightarrow> string \<Rightarrow> string \<Rightarrow> CanonResult" where
  "canonicalizeGeneric h tool operation environment rawArtifact =
     (let artifactDigest = hBytes h rawArtifact; identity = [no_id\<lparr>ridName := artifactDigest\<rparr>] in
      action_result h artifactDigest ''generic/v1''
        \<lparr>caTool = tool, caOperation = operation, caOperationClass = ''unknown'',
         caResourceIdentity = identity, caScopeClass = ResolveScopeClass environment identity,
         caResourceCount = 1, caResourceShapeHash = artifactDigest\<rparr>)"

section \<open>Selecting an adapter\<close>

datatype Adapter = K8sAdapter | TerraformAdapter | DockerAdapter | GenericAdapter

definition dockerCompatibleTools :: "string list" where
  "dockerCompatibleTools = [''docker'', ''nerdctl'', ''podman'', ''lima'', ''docker-compose'', ''compose'']"

fun CanHandle :: "Adapter \<Rightarrow> string \<Rightarrow> bool" where
  "CanHandle K8sAdapter tool = (tool \<in> {''kubectl'', ''oc'', ''helm'', ''kustomize''})"
| "CanHandle TerraformAdapter tool = (tool = ''terraform'')"
| "CanHandle DockerAdapter tool = (tool \<in> set dockerCompatibleTools)"
| "CanHandle GenericAdapter tool = True"

definition DefaultAdapters :: "Adapter list" where
  "DefaultAdapters = [K8sAdapter, TerraformAdapter, DockerAdapter, GenericAdapter]"

fun SelectAdapter :: "string \<Rightarrow> Adapter list \<Rightarrow> Adapter" where
  "SelectAdapter tool [] = GenericAdapter"
| "SelectAdapter tool (a # as) = (if CanHandle a tool then a else SelectAdapter tool as)"

text \<open>What canonicalisation takes from outside.\<close>

record CanonEnv =
  ceHashes :: Hashes
  ceYaml :: "string \<Rightarrow> yaml_docs"
  cePlan :: "string \<Rightarrow> TfChange list option"
  ceCompose :: "string \<Rightarrow> string list option"
  ceSortK8s :: "identified list \<Rightarrow> identified list"
  ceSortTf :: "TfChange list \<Rightarrow> TfChange list"
  ceSortRes :: "ResourceID list \<Rightarrow> ResourceID list"

definition canon_env_ok :: "CanonEnv \<Rightarrow> bool" where
  "canon_env_ok c \<longleftrightarrow> sorts k8s_key (ceSortK8s c) \<and> sorts tf_key (ceSortTf c) \<and> sorts ridName (ceSortRes c)"

definition Canonicalize :: "CanonEnv \<Rightarrow> string \<Rightarrow> string \<Rightarrow> string \<Rightarrow> string \<Rightarrow> CanonResult" where
  "Canonicalize c tool operation environment raw =
     (case SelectAdapter tool DefaultAdapters of
        K8sAdapter \<Rightarrow> canonicalizeK8s (ceHashes c) (ceSortK8s c) (ceYaml c) tool operation environment raw
      | TerraformAdapter \<Rightarrow>
          canonicalizeTerraform (ceHashes c) (ceSortTf c) (cePlan c) tool operation environment raw
      | DockerAdapter \<Rightarrow>
          canonicalizeDocker (ceHashes c) (ceSortRes c) (ceCompose c) tool operation environment raw
      | GenericAdapter \<Rightarrow> canonicalizeGeneric (ceHashes c) tool operation environment raw)"

end
