(* ===== verification/Canon_Facts.thy ===== *)
theory Canon_Facts
  imports Canon "HOL-Library.AList"
begin

text \<open>
  Properties of canonicalisation: what every result holds, independence of the order in which an
  artifact lists its resources, and what the shape hash of a Kubernetes object ignores.
\<close>

section \<open>Classes\<close>

definition op_classes :: "string set" where
  "op_classes = {''mutate'', ''destroy'', ''read'', ''plan'', ''unknown''}"

definition scope_classes :: "string set" where
  "scope_classes = {''production'', ''staging'', ''development'', ''unknown''}"

lemma op_class_in [simp, go_intros]:
  "k8sOperationClass op \<in> op_classes" "terraformOperationClass op \<in> op_classes"
  "dockerOperationClass op \<in> op_classes" "composeOperationClass op \<in> op_classes"
  by (simp_all add: op_classes_def k8sOperationClass_def terraformOperationClass_def
      dockerOperationClass_def composeOperationClass_def)

lemma NormalizeScopeClass_in [simp, go_intros]: "NormalizeScopeClass s \<in> scope_classes"
  by (simp add: NormalizeScopeClass_def scope_classes_def Let_def)

lemma NormalizeScopeClass_fixed: "s \<in> scope_classes \<Longrightarrow> NormalizeScopeClass s = s"
  unfolding scope_classes_def by (elim insertE emptyE) (simp_all, code_simp+)

lemma NormalizeScopeClass_idem [simp]:
  "NormalizeScopeClass (NormalizeScopeClass s) = NormalizeScopeClass s"
  by (rule NormalizeScopeClass_fixed) simp

lemma NormalizeScopeClass_trim [simp]: "NormalizeScopeClass (TrimSpace s) = NormalizeScopeClass s"
  by (simp add: NormalizeScopeClass_def)

lemma scan_namespaces_in: "scan_namespaces rs \<in> scope_classes"
  by (induction rs) (simp_all add: scope_classes_def Let_def)

lemma ResolveScopeClass_in [simp, go_intros]: "ResolveScopeClass env rs \<in> scope_classes"
  by (simp add: ResolveScopeClass_def Let_def scan_namespaces_in)

text \<open>An environment that names a class wins over the namespaces.\<close>

lemma ResolveScopeClass_env:
  "NormalizeScopeClass env \<noteq> ''unknown'' \<Longrightarrow> ResolveScopeClass env rs = NormalizeScopeClass env"
proof -
  assume known: "NormalizeScopeClass env \<noteq> ''unknown''"
  then have "TrimSpace env \<noteq> []"
    by (auto simp: NormalizeScopeClass_def Let_def ToLower_def)
  with known show ?thesis by (simp add: ResolveScopeClass_def Let_def)
qed

section \<open>Sorting\<close>

lemma sorts_keys: "sorts key srt \<Longrightarrow> map key (srt xs) = sort (map key xs)"
  by (rule properties_for_sort [symmetric]) (simp_all add: sorts_sorted sorts_mset)

lemma mset_eq_sort_map: "mset xs = mset ys \<Longrightarrow> sort (map f xs) = sort (map f ys)"
  by (rule properties_for_sort) simp_all

lemma sorts_nil [simp]: "sorts key srt \<Longrightarrow> srt xs = [] \<longleftrightarrow> xs = []"
  by (metis length_0_conv sorts_length)

lemma sorts_same:
  assumes "sorts key srt" "sorts key srt'" "mset xs = mset ys" "distinct (map key xs)"
  shows "srt xs = srt' ys"
proof (rule map_inj_on)
  show "map key (srt xs) = map key (srt' ys)"
    unfolding sorts_keys [OF assms(1)] sorts_keys [OF assms(2)] by (rule mset_eq_sort_map [OF assms(3)])
  have "set xs = set ys" using assms(3) by (metis set_mset_mset)
  then show "inj_on key (set (srt xs) \<union> set (srt' ys))"
    using assms(4) by (simp add: sorts_set [OF assms(1)] sorts_set [OF assms(2)] distinct_map)
qed

section \<open>Kubernetes\<close>

text \<open>The identity of an object is determined by its sort key.\<close>

fun id_of_key :: "string list \<Rightarrow> ResourceID" where
  "id_of_key [a, k, n, m] =
     no_id\<lparr>ridAPIVersion := a, ridKind := k, ridNamespace := n, ridName := m\<rparr>"
| "id_of_key _ = no_id"

lemma id_of_key_identity: "id_of_key (k8s_key (extractK8sIdentity obj, obj)) = extractK8sIdentity obj"
  by (simp add: k8s_key_def extractK8sIdentity_def no_id_def Let_def)

lemma k8s_identities:
  assumes "sorts k8s_key srt"
  shows "map fst (srt (map (\<lambda>obj. (extractK8sIdentity obj, obj)) objects)) =
    map id_of_key (sort (map (\<lambda>obj. k8s_key (extractK8sIdentity obj, obj)) objects))"
proof -
  let ?xs = "map (\<lambda>obj. (extractK8sIdentity obj, obj)) objects"
  have "map fst (srt ?xs) = map (\<lambda>x. id_of_key (k8s_key x)) (srt ?xs)"
  proof (rule map_cong [OF refl])
    fix x assume "x \<in> set (srt ?xs)"
    then have "x \<in> set ?xs" using assms by simp
    then show "fst x = id_of_key (k8s_key x)" using id_of_key_identity by auto
  qed
  also have "\<dots> = map id_of_key (map k8s_key (srt ?xs))" by simp
  also have "\<dots> = map id_of_key (sort (map k8s_key ?xs))" by (simp only: sorts_keys [OF assms])
  finally show ?thesis by (simp add: comp_def)
qed

lemma k8s_action_perm:
  assumes "sorts k8s_key srt" "sorts k8s_key srt'" "mset objects = mset objects'"
  shows "action_fields (k8s_action h srt' tool op env objects') = action_fields (k8s_action h srt tool op env objects)
      \<and> caResourceIdentity (k8s_action h srt' tool op env objects')
        = caResourceIdentity (k8s_action h srt tool op env objects)
      \<and> caScopeClass (k8s_action h srt' tool op env objects')
        = caScopeClass (k8s_action h srt tool op env objects)"
    and "distinct (map extractK8sIdentity objects) \<Longrightarrow>
      k8s_action h srt' tool op env objects' = k8s_action h srt tool op env objects"
proof -
  let ?ids = "\<lambda>s os. map fst (s (map (\<lambda>obj. (extractK8sIdentity obj, obj)) os))"
  have ids: "?ids srt objects = ?ids srt' objects'"
    using mset_eq_sort_map [OF assms(3), of "\<lambda>obj. k8s_key (extractK8sIdentity obj, obj)"]
    by (simp add: k8s_identities assms(1,2))
  have len: "length objects = length objects'"
    using assms(3) by (metis size_mset)
  show "action_fields (k8s_action h srt' tool op env objects') = action_fields (k8s_action h srt tool op env objects)
      \<and> caResourceIdentity (k8s_action h srt' tool op env objects')
        = caResourceIdentity (k8s_action h srt tool op env objects)
      \<and> caScopeClass (k8s_action h srt' tool op env objects')
        = caScopeClass (k8s_action h srt tool op env objects)"
    using ids len by (simp add: k8s_action_def action_fields_def Let_def)
  assume d: "distinct (map extractK8sIdentity objects)"
  let ?xs = "map (\<lambda>obj. (extractK8sIdentity obj, obj)) objects"
  have "inj_on (\<lambda>obj. k8s_key (extractK8sIdentity obj, obj)) (set objects)"
    using d unfolding distinct_map by (metis (lifting) id_of_key_identity inj_onD inj_onI)
  moreover have "distinct objects" using d by (simp add: distinct_map)
  ultimately have "distinct (map k8s_key ?xs)" by (simp add: distinct_map comp_def)
  moreover have "mset ?xs = mset (map (\<lambda>obj. (extractK8sIdentity obj, obj)) objects')"
    using assms(3) by simp
  ultimately have "srt ?xs = srt' (map (\<lambda>obj. (extractK8sIdentity obj, obj)) objects')"
    using sorts_same [OF assms(1,2)] by blast
  then show "k8s_action h srt' tool op env objects' = k8s_action h srt tool op env objects"
    using len by (simp add: k8s_action_def Let_def)
qed

section \<open>Noise\<close>

lemma gdelete_comm: "gdelete a (gdelete b m) = gdelete b (gdelete a m)"
  by (auto simp: gdelete_def intro: filter_cong)

lemma gdelete_idem [simp]: "gdelete k (gdelete k m) = gdelete k m"
  by (simp add: gdelete_def)

lemma gdelete_update [simp]: "gdelete k (AList.update k v m) = gdelete k m"
  by (induction m) (auto simp: gdelete_def)

lemma gdelete_update_other: "j \<noteq> k \<Longrightarrow> gdelete j (AList.update k v m) = AList.update k v (gdelete j m)"
  by (induction m) (auto simp: gdelete_def)

lemma map_of_gdelete [simp]: "map_of (gdelete k m) j = (if j = k then None else map_of m j)"
  by (induction m) (auto simp: gdelete_def)

lemma fold_gdelete_comm: "fold gdelete ks (gdelete k m) = gdelete k (fold gdelete ks m)"
  by (induction ks arbitrary: m) (simp_all add: gdelete_comm [of _ k])

lemma fold_gdelete_update: "k \<in> set ks \<Longrightarrow> fold gdelete ks (AList.update k v m) = fold gdelete ks m"
proof (induction ks arbitrary: m)
  case Nil
  then show ?case by simp
next
  case (Cons j ks)
  then show ?case by (cases "j = k") (auto simp: gdelete_update_other)
qed

lemma fold_gdelete_update_other:
  "k \<notin> set ks \<Longrightarrow> fold gdelete ks (AList.update k v m) = AList.update k v (fold gdelete ks m)"
  by (induction ks arbitrary: m) (auto simp: gdelete_update_other)

lemma map_of_fold_gdelete: "map_of (fold gdelete ks m) j = (if j \<in> set ks then None else map_of m j)"
  by (induction ks arbitrary: m) auto

lemma map_replace_update:
  "map (\<lambda>(k, v). if k = n then (k, f) else (k, v)) (AList.update n w m)
    = (if n \<in> fst ` set m then map (\<lambda>(k, v). if k = n then (k, f) else (k, v)) m
       else map (\<lambda>(k, v). if k = n then (k, f) else (k, v)) m @ [(n, f)])"
  by (induction m) auto

lemma map_replace_cong:
  "map (\<lambda>(k, v). if k = n then (k, f) else (k, v)) (AList.update n w m)
    = map (\<lambda>(k, v). if k = n then (k, f) else (k, v)) (AList.update n w' m)"
  by (simp add: map_replace_update)

lemma map_replace_present:
  "map_of m n \<noteq> None \<Longrightarrow> map (\<lambda>(k, v). if k = n then (k, f) else (k, v)) (AList.update n w m)
    = map (\<lambda>(k, v). if k = n then (k, f) else (k, v)) m"
  by (auto simp: map_replace_update map_of_eq_None_iff)

lemma gdelete_absent: "map_of m k = None \<Longrightarrow> gdelete k m = m"
  by (force simp: gdelete_def filter_id_conv map_of_eq_None_iff)

lemma map_replace_absent:
  "map_of m n = None \<Longrightarrow> map (\<lambda>(k, v). if k = n then (k, f) else (k, v)) m = m"
  by (induction m) (auto split: if_splits)

lemma filter_update_noisy:
  "noisy_annotation k \<Longrightarrow> filter (\<lambda>(k, v). \<not> noisy_annotation k) (AList.update k v m)
    = filter (\<lambda>(k, v). \<not> noisy_annotation k) m"
  by (induction m) auto

lemma noise_names [simp]:
  "''annotations'' \<notin> set k8sNoiseMetadata" "''name'' \<notin> set k8sNoiseMetadata"
  "''namespace'' \<notin> set k8sNoiseMetadata"
  by (simp_all add: k8sNoiseMetadata_def)

text \<open>A field of the metadata that is noise, and a noisy annotation, leave the cleaned object alone.\<close>

lemma clean_metadata_noise:
  assumes "k \<in> set k8sNoiseMetadata"
  shows "fold gdelete k8sNoiseMetadata (AList.update k v metadata) = fold gdelete k8sNoiseMetadata metadata"
  using assms by (rule fold_gdelete_update)

lemma clean_annotations_noise:
  assumes "map_of m ''annotations'' = Some (GMap annotations)" and "noisy_annotation k"
  shows "clean_annotations (AList.update ''annotations'' (GMap (AList.update k v annotations)) m)
    = clean_annotations m"
proof -
  let ?m = "AList.update ''annotations'' (GMap (AList.update k v annotations)) m"
  have "map_of ?m ''annotations'' = Some (GMap (AList.update k v annotations))"
    by (simp add: update_conv')
  then show ?thesis
    using assms map_replace_present [of m "''annotations''"]
    by (simp add: clean_annotations_def filter_update_noisy Let_def)
qed

lemma removeK8sNoise_status: "removeK8sNoiseFields (AList.update ''status'' v obj) = removeK8sNoiseFields obj"
  by (simp add: removeK8sNoiseFields_def)

text \<open>Two versions of the metadata that clean to the same leave the cleaned object the same.\<close>

lemma removeK8sNoise_metadata:
  assumes "map_of obj ''metadata'' = Some (GMap metadata)"
    and "clean_annotations (fold gdelete k8sNoiseMetadata metadata')
      = clean_annotations (fold gdelete k8sNoiseMetadata metadata)"
  shows "removeK8sNoiseFields (AList.update ''metadata'' (GMap metadata') obj) = removeK8sNoiseFields obj"
proof -
  have "map_of (gdelete ''status'' obj) ''metadata'' = Some (GMap metadata)"
    using assms(1) by simp
  then show ?thesis
    using assms(2) map_replace_present [of "gdelete ''status'' obj" "''metadata''"]
    by (simp add: removeK8sNoiseFields_def Let_def gdelete_update_other update_conv')
qed

text \<open>The identity does not depend on the noise either.\<close>

lemma extractK8sIdentity_status: "extractK8sIdentity (AList.update ''status'' v obj) = extractK8sIdentity obj"
  by (simp add: extractK8sIdentity_def update_conv')

lemma extractK8sIdentity_metadata:
  assumes "map_of obj ''metadata'' = Some (GMap metadata)"
    and "map_of metadata' ''name'' = map_of metadata ''name''"
      "map_of metadata' ''namespace'' = map_of metadata ''namespace''"
  shows "extractK8sIdentity (AList.update ''metadata'' (GMap metadata') obj) = extractK8sIdentity obj"
  using assms by (simp add: extractK8sIdentity_def update_conv' Let_def)

section \<open>Terraform and Docker\<close>

lemma terraform_action_perm:
  assumes "sorts tf_key srt" "sorts tf_key srt'" "mset cs = mset cs'" "distinct (map tf_key cs)"
  shows "terraform_action h srt' tool op env cs' = terraform_action h srt tool op env cs"
proof -
  have "srt cs = srt' cs'" by (rule sorts_same [OF assms])
  moreover have "cs = [] \<longleftrightarrow> cs' = []" using assms(3) by auto
  ultimately show ?thesis by (simp add: terraform_action_def Let_def)
qed

lemma docker_sorted_unique:
  assumes "sorts ridName srt" "sorts ridName srt'"
  shows "srt (map (named_resource typ) names) = map (named_resource typ) (sort names)"
proof -
  let ?rs = "map (named_resource typ) names"
  have "srt ?rs = map (\<lambda>r. named_resource typ (ridName r)) (srt ?rs)"
    by (rule map_idI [symmetric]) (use assms(1) in \<open>auto simp: named_resource_def no_id_def\<close>)
  also have "\<dots> = map (named_resource typ) (map ridName (srt ?rs))" by simp
  also have "map ridName (srt ?rs) = sort names"
    by (simp add: sorts_keys [OF assms(1)] named_resource_def comp_def)
  finally show ?thesis .
qed

section \<open>Every result\<close>

lemma docker_resources_class: "fst (docker_resources compose tool op raw) \<in> op_classes"
proof -
  have "fst (docker_subcommand tool op tokens) \<in> op_classes" for tokens
    by (cases tokens) (simp_all add: docker_subcommand_def op_classes_def dockerOperationClass_def)
  then have "fst (parseDockerCommand tool op cmd) \<in> op_classes" for cmd
    by (simp add: parseDockerCommand_def split: list.split)
  then show ?thesis by (simp add: docker_resources_def)
qed

text \<open>What holds of the result of a canonicalisation that does not fail.\<close>

definition good_result :: "Hashes \<Rightarrow> string \<Rightarrow> string \<Rightarrow> CanonResult \<Rightarrow> bool" where
  "good_result h tool op r \<longleftrightarrow>
     caTool (crCanonicalAction r) = tool \<and> caOperation (crCanonicalAction r) = op \<and>
     caOperationClass (crCanonicalAction r) \<in> op_classes \<and>
     caScopeClass (crCanonicalAction r) \<in> scope_classes \<and>
     caResourceCount (crCanonicalAction r) = int (length (caResourceIdentity (crCanonicalAction r))) \<and>
     crIntentDigest r = ComputeIntentDigest h (crCanonicalAction r) \<and>
     crRawAction r = Some (action_json (crCanonicalAction r))"

lemma good_action_result:
  "caTool a = tool \<Longrightarrow> caOperation a = op \<Longrightarrow> caOperationClass a \<in> op_classes \<Longrightarrow>
    caScopeClass a \<in> scope_classes \<Longrightarrow> caResourceCount a = int (length (caResourceIdentity a)) \<Longrightarrow>
    good_result h tool op (action_result h d v a)"
  by (simp add: good_result_def action_result_def)

lemma unknown_class [simp]: "''unknown'' \<in> op_classes"
  by (simp add: op_classes_def)

lemma k8s_action_good:
  "sorts k8s_key srt \<Longrightarrow> good_result h tool op (action_result h d v (k8s_action h srt tool op env os))"
  by (rule good_action_result) (simp_all add: k8s_action_def Let_def)

lemma terraform_action_good:
  "sorts tf_key srt \<Longrightarrow>
    good_result h tool op (action_result h d v (terraform_action h srt tool op env cs))"
  by (rule good_action_result) (simp_all add: terraform_action_def Let_def)

lemma failed_result_error [simp]: "crParseError (failed_result d v e) = Some e"
  by (simp add: failed_result_def)

lemma Canonicalize_good:
  assumes "canon_env_ok c" and "crParseError (Canonicalize c tool op env raw) = None"
  shows "good_result (ceHashes c) tool op (Canonicalize c tool op env raw)"
proof (cases "SelectAdapter tool DefaultAdapters")
  case K8sAdapter
  then show ?thesis
    using assms k8s_action_good
    by (auto simp: Canonicalize_def canonicalizeK8s_def canon_env_ok_def Let_def split: option.splits if_splits)
next
  case TerraformAdapter
  then show ?thesis
    using assms terraform_action_good
    by (auto simp: Canonicalize_def canonicalizeTerraform_def canon_env_ok_def Let_def split: option.splits)
next
  case DockerAdapter
  then show ?thesis
    using docker_resources_class [of "ceCompose c" tool op raw]
    by (auto simp: Canonicalize_def canonicalizeDocker_def Let_def split: prod.split
        intro!: good_action_result)
next
  case GenericAdapter
  then show ?thesis
    by (auto simp: Canonicalize_def canonicalizeGeneric_def Let_def intro!: good_action_result)
qed

section \<open>Properties\<close>

definition sample_hashes :: Hashes where
  "sample_hashes = \<lparr>hBytes = (\<lambda>s. ''sha256:'' @ s), hJson = (\<lambda>_. ''sha256:j''),
     hShape = (\<lambda>vs. Some (''sha256:'' @ dec (length vs)))\<rparr>"

definition sample_object :: "string \<Rightarrow> gmap" where
  "sample_object n = [(''kind'', GStr ''Deployment''),
     (''metadata'', GMap [(''name'', GStr n), (''namespace'', GStr ''prod-web'')])]"

definition sample_yaml :: "string \<Rightarrow> yaml_docs" where
  "sample_yaml raw = (if raw = ''ab'' then ([Some (sample_object ''a''), Some (sample_object ''b'')], False)
     else if raw = ''ba'' then ([Some (sample_object ''b''), None, Some (sample_object ''a'')], False)
     else ([], True))"

text \<open>
  C27. A canonicalisation that does not fail returns an action of the given tool and operation, of a
  known operation class and a normalised scope class, whose resource count is the number of its
  identities, with the intent digest and the JSON of that very action; and an explicit environment
  decides the scope class whatever the namespaces say.
\<close>

theorem canonicalize_result:
  assumes "canon_env_ok c" and "crParseError (Canonicalize c tool op env raw) = None"
  shows "good_result (ceHashes c) tool op (Canonicalize c tool op env raw) \<and>
    (\<forall>resources. NormalizeScopeClass env \<noteq> ''unknown'' \<longrightarrow>
      ResolveScopeClass env resources = NormalizeScopeClass env)"
  using Canonicalize_good [OF assms] ResolveScopeClass_env by blast

definition sample_canon_env :: CanonEnv where
  "sample_canon_env = \<lparr>ceHashes = sample_hashes, ceYaml = sample_yaml, cePlan = (\<lambda>_. None),
     ceCompose = (\<lambda>_. None), ceSortK8s = sort_key k8s_key, ceSortTf = sort_key tf_key,
     ceSortRes = sort_key ridName\<rparr>"

lemma sample_canon_env_ok: "canon_env_ok sample_canon_env"
  by (simp add: canon_env_ok_def sample_canon_env_def)

theorem canonicalize_result_witness:
  "good_result sample_hashes ''kubectl'' ''apply''
    (Canonicalize sample_canon_env ''kubectl'' ''apply'' ''dev'' ''ab'')"
proof -
  have "crParseError (Canonicalize sample_canon_env ''kubectl'' ''apply'' ''dev'' ''ab'') = None"
    by (simp add: Canonicalize_def sample_canon_env_def DefaultAdapters_def canonicalizeK8s_def
        splitYAMLDocuments_def sample_yaml_def action_result_def Let_def)
  with canonicalize_result [OF sample_canon_env_ok, of "''kubectl''" "''apply''" "''dev''" "''ab''"]
  show ?thesis by (simp add: sample_canon_env_def)
qed

text \<open>
  The order of the documents of a Kubernetes artifact does not matter: two artifacts whose
  objects are the same up to order have the same resource identities, scope and intent digest,
  however \<open>sort.Slice\<close> orders objects of equal identity; where all identities differ they have the
  same canonical action, shape hash included.
\<close>

theorem k8s_intent_order_independent:
  assumes "sorts k8s_key srt" "sorts k8s_key srt'"
    and "splitYAMLDocuments yaml raw = Some objects" "splitYAMLDocuments yaml raw' = Some objects'"
    and "mset objects = mset objects'"
  shows "let r = canonicalizeK8s h srt yaml tool op env raw;
             r' = canonicalizeK8s h srt' yaml tool op env raw'
    in crIntentDigest r = crIntentDigest r' \<and>
       caResourceIdentity (crCanonicalAction r) = caResourceIdentity (crCanonicalAction r') \<and>
       caScopeClass (crCanonicalAction r) = caScopeClass (crCanonicalAction r') \<and>
       (distinct (map extractK8sIdentity objects) \<longrightarrow> crCanonicalAction r = crCanonicalAction r')"
proof -
  let ?a = "k8s_action h srt tool op env objects" and ?a' = "k8s_action h srt' tool op env objects'"
  note same = k8s_action_perm(1) [OF assms(1,2,5), of h tool op env]
  have digest: "ComputeIntentDigest h ?a = ComputeIntentDigest h ?a'"
    using same by (simp add: ComputeIntentDigest_def)
  show ?thesis
  proof (cases "objects = []")
    case True
    then have "objects' = []" using assms(5) by simp
    with True show ?thesis
      by (simp add: canonicalizeK8s_def assms(3,4) failed_result_def Let_def)
  next
    case False
    then have ne: "objects' \<noteq> []" using assms(5) by auto
    have r: "canonicalizeK8s h srt yaml tool op env raw = action_result h (hBytes h raw) ''k8s/v1'' ?a"
      "canonicalizeK8s h srt' yaml tool op env raw' = action_result h (hBytes h raw') ''k8s/v1'' ?a'"
      using False ne by (simp_all add: canonicalizeK8s_def assms(3,4))
    have sel: "crIntentDigest (action_result h d v a) = ComputeIntentDigest h a"
      "crCanonicalAction (action_result h d v a) = a" for d v a
      by (simp_all add: action_result_def)
    show ?thesis
      unfolding Let_def r sel using digest same k8s_action_perm(2) [OF assms(1,2,5), of h tool op env]
      by (intro conjI impI) (blast intro: sym)+
  qed
qed

theorem k8s_intent_order_independent_witness:
  "crCanonicalAction (canonicalizeK8s sample_hashes (sort_key k8s_key) sample_yaml ''kubectl'' ''apply'' [] ''ab'')
    = crCanonicalAction (canonicalizeK8s sample_hashes (sort_key k8s_key) sample_yaml ''kubectl'' ''apply'' [] ''ba'')"
proof -
  have "extractK8sIdentity (sample_object ''a'') \<noteq> extractK8sIdentity (sample_object ''b'')"
    by code_simp
  then show ?thesis
    using k8s_intent_order_independent [of "sort_key k8s_key" "sort_key k8s_key" sample_yaml "''ab''"
        "[sample_object ''a'', sample_object ''b'']" "''ba''" "[sample_object ''b'', sample_object ''a'']"
        sample_hashes "''kubectl''" "''apply''" "[]"]
    by (simp add: splitYAMLDocuments_def sample_yaml_def Let_def)
qed

text \<open>
  C28. The shape hash of a Kubernetes artifact ignores what the server adds: setting the status of an
  object, a noise field of its metadata or a noisy annotation changes neither the cleaned object that
  is hashed nor the object's identity.
\<close>

theorem shape_ignores_noise:
  "removeK8sNoiseFields (AList.update ''status'' v obj) = removeK8sNoiseFields obj \<and>
   extractK8sIdentity (AList.update ''status'' v obj) = extractK8sIdentity obj \<and>
   (\<forall>metadata k. map_of obj ''metadata'' = Some (GMap metadata) \<and> k \<in> set k8sNoiseMetadata \<longrightarrow>
     (let obj' = AList.update ''metadata'' (GMap (AList.update k v metadata)) obj in
      removeK8sNoiseFields obj' = removeK8sNoiseFields obj \<and>
      extractK8sIdentity obj' = extractK8sIdentity obj)) \<and>
   (\<forall>metadata annotations k. map_of obj ''metadata'' = Some (GMap metadata) \<and>
     map_of metadata ''annotations'' = Some (GMap annotations) \<and> noisy_annotation k \<longrightarrow>
     (let obj' = AList.update ''metadata'' (GMap (AList.update ''annotations''
        (GMap (AList.update k v annotations)) metadata)) obj in
      removeK8sNoiseFields obj' = removeK8sNoiseFields obj \<and>
      extractK8sIdentity obj' = extractK8sIdentity obj))"
proof (intro conjI allI impI)
  show "removeK8sNoiseFields (AList.update ''status'' v obj) = removeK8sNoiseFields obj"
    by (rule removeK8sNoise_status)
  show "extractK8sIdentity (AList.update ''status'' v obj) = extractK8sIdentity obj"
    by (rule extractK8sIdentity_status)
next
  fix metadata k
  assume m: "map_of obj ''metadata'' = Some (GMap metadata) \<and> k \<in> set k8sNoiseMetadata"
  then have "k \<noteq> ''name''" "k \<noteq> ''namespace''" by auto
  then show "let obj' = AList.update ''metadata'' (GMap (AList.update k v metadata)) obj in
      removeK8sNoiseFields obj' = removeK8sNoiseFields obj \<and> extractK8sIdentity obj' = extractK8sIdentity obj"
    using m by (simp add: Let_def removeK8sNoise_metadata clean_metadata_noise
        extractK8sIdentity_metadata update_conv')
next
  fix metadata annotations k
  let ?m = "AList.update ''annotations'' (GMap (AList.update k v annotations)) metadata"
  assume m: "map_of obj ''metadata'' = Some (GMap metadata) \<and>
     map_of metadata ''annotations'' = Some (GMap annotations) \<and> noisy_annotation k"
  have "map_of (fold gdelete k8sNoiseMetadata metadata) ''annotations'' = Some (GMap annotations)"
    using m by (simp add: map_of_fold_gdelete)
  then have "clean_annotations (fold gdelete k8sNoiseMetadata ?m)
      = clean_annotations (fold gdelete k8sNoiseMetadata metadata)"
    using m by (simp add: fold_gdelete_update_other clean_annotations_noise)
  then show "let obj' = AList.update ''metadata'' (GMap ?m) obj in
      removeK8sNoiseFields obj' = removeK8sNoiseFields obj \<and> extractK8sIdentity obj' = extractK8sIdentity obj"
    using m by (simp add: Let_def removeK8sNoise_metadata extractK8sIdentity_metadata update_conv')
qed

theorem shape_ignores_noise_witness:
  "removeK8sNoiseFields (AList.update ''metadata'' (GMap [(''name'', GStr ''a''),
     (''namespace'', GStr ''prod-web''), (''uid'', GStr ''1'')]) (sample_object ''a''))
    = removeK8sNoiseFields (sample_object ''a'')"
proof -
  let ?m = "[(''name'', GStr ''a''), (''namespace'', GStr ''prod-web'')]"
  have "map_of (sample_object ''a'') ''metadata'' = Some (GMap ?m)" "''uid'' \<in> set k8sNoiseMetadata"
    by (simp_all add: sample_object_def k8sNoiseMetadata_def)
  then have "removeK8sNoiseFields (AList.update ''metadata'' (GMap (AList.update ''uid'' (GStr ''1'') ?m))
      (sample_object ''a'')) = removeK8sNoiseFields (sample_object ''a'')"
    using shape_ignores_noise [of "GStr ''1''" "sample_object ''a''"] unfolding Let_def by blast
  then show ?thesis by simp
qed

text \<open>
  The order of the changes of a Terraform plan does not matter where no two changes share type and
  name. Where two do, as the same resource in two modules, and their actions differ, the sort cannot
  tell them apart: with a stable sort the two orders of the plan give different identity lists, so
  the canonical action, meant to be independent of the order, depends on it.
\<close>

theorem terraform_order:
  assumes "sorts tf_key srt"
  shows "(mset changes = mset changes' \<and> distinct (map tf_key changes) \<longrightarrow>
      terraform_action h srt tool op env changes = terraform_action h srt tool op env changes') \<and>
    (tf_key a = tf_key b \<and> formatTerraformActions (tcActions a) \<noteq> formatTerraformActions (tcActions b) \<longrightarrow>
      terraform_action h (sort_key tf_key) tool op env [a, b]
        \<noteq> terraform_action h (sort_key tf_key) tool op env [b, a])"
proof (intro conjI impI)
  assume "mset changes = mset changes' \<and> distinct (map tf_key changes)"
  then show "terraform_action h srt tool op env changes = terraform_action h srt tool op env changes'"
    using terraform_action_perm [OF assms assms] by metis
next
  assume k: "tf_key a = tf_key b \<and> formatTerraformActions (tcActions a) \<noteq> formatTerraformActions (tcActions b)"
  then have "tf_identity a \<noteq> tf_identity b"
    by (metis ResourceID.select_convs(6) ResourceID.surjective ResourceID.update_convs(6) tf_identity_def)
  with k show "terraform_action h (sort_key tf_key) tool op env [a, b]
      \<noteq> terraform_action h (sort_key tf_key) tool op env [b, a]"
    by (simp add: terraform_action_def Let_def)
qed

theorem terraform_order_witness:
  "terraform_action sample_hashes (sort_key tf_key) ''terraform'' ''apply'' []
      [\<lparr>tcType = ''aws_instance'', tcName = ''web'', tcActions = Some [''create'']\<rparr>,
       \<lparr>tcType = ''aws_instance'', tcName = ''web'', tcActions = Some [''delete'']\<rparr>]
    \<noteq> terraform_action sample_hashes (sort_key tf_key) ''terraform'' ''apply'' []
      [\<lparr>tcType = ''aws_instance'', tcName = ''web'', tcActions = Some [''delete'']\<rparr>,
       \<lparr>tcType = ''aws_instance'', tcName = ''web'', tcActions = Some [''create'']\<rparr>]"
  using terraform_order [of "sort_key tf_key" "[]" "[]" sample_hashes "''terraform''" "''apply''" "[]"
      "\<lparr>tcType = ''aws_instance'', tcName = ''web'', tcActions = Some [''create'']\<rparr>"
      "\<lparr>tcType = ''aws_instance'', tcName = ''web'', tcActions = Some [''delete'']\<rparr>"]
  by (simp add: tf_key_def formatTerraformActions_def)

end
