(* ===== verification/Detectors.thy ===== *)
theory Detectors
  imports Canon Segments
begin

text \<open>
  The risk detectors (\<^verbatim>\<open>internal/detectors\<close>): checks over the decoded artifact, each with a tag and a
  base severity, and the registry that runs them. The decoders of the raw artifact (a YAML stream, a
  compose file, a JSON text) are the argument \<open>Decoders\<close>; from the JSON tree on, the Terraform plan and
  the IAM policies are decoded here as \<open>encoding/json\<close> does.
\<close>

record Decoders =
  dYaml :: "string \<Rightarrow> yaml_docs"
  dCompose :: "string \<Rightarrow> (string \<times> gmap) list"
  dJson :: "string \<Rightarrow> json option"

section \<open>JSON values as \<open>interface{}\<close>\<close>

text \<open>The value of the text of a number: sign, digits, fraction, exponent.\<close>

definition number_val :: "string \<Rightarrow> rat" where
  "number_val s =
     (let neg = HasPrefix s ''-''; body = (if neg then tl s else s);
          not_e = (\<lambda>c. c \<noteq> CHR ''e'' \<and> c \<noteq> CHR ''E'');
          mant = takeWhile not_e body; ex = tl (dropWhile not_e body);
          whole = takeWhile (\<lambda>c. c \<noteq> CHR ''.'') mant; frac = tl (dropWhile (\<lambda>c. c \<noteq> CHR ''.'') mant);
          exneg = HasPrefix ex ''-''; exdigits = (if exneg \<or> HasPrefix ex ''+'' then tl ex else ex);
          e = (if exneg then - int (digits_val exdigits) else int (digits_val exdigits)) - int (length frac);
          v = of_nat (digits_val (whole @ frac)) * 10 powi e
      in if neg then - v else v)"

fun of_json :: "json \<Rightarrow> gval" where
  "of_json JNull = GNil"
| "of_json (JBool b) = GBool b"
| "of_json (JNum i) = GFloat (fl64 (of_int i))"
| "of_json (JReal s) = GFloat (fl64 (number_val s))"
| "of_json (JStr s) = GStr s"
| "of_json (JTime t) = GOther"
| "of_json (JArr js) = GSlice (map of_json js)"
| "of_json (JObj fs) = GMap (rev (map (\<lambda>(k, j). (k, of_json j)) fs))"

section \<open>Kubernetes\<close>

definition ParseK8sYAML :: "Decoders \<Rightarrow> string \<Rightarrow> gmap list" where
  "ParseK8sYAML d raw = map the (filter (\<lambda>x. x \<noteq> None) (fst (dYaml d raw)))"

definition GetPodSpec :: "gmap \<Rightarrow> gmap option" where
  "GetPodSpec obj =
     (case as_map (map_of obj ''spec'') of
        None \<Rightarrow> None
      | Some spec \<Rightarrow>
          (case as_map (map_of spec ''template'') of
             None \<Rightarrow> Some spec
           | Some template \<Rightarrow>
               (case as_map (map_of template ''spec'') of None \<Rightarrow> Some spec | Some tspec \<Rightarrow> Some tspec)))"

definition maps_in :: "gval option \<Rightarrow> gmap list" where
  "maps_in v = (case as_slice v of
     None \<Rightarrow> [] | Some l \<Rightarrow> map the (filter (\<lambda>m. m \<noteq> None) (map (\<lambda>x. as_map (Some x)) l)))"

definition GetAllContainers :: "gmap \<Rightarrow> gmap list" where
  "GetAllContainers obj =
     (case GetPodSpec obj of
        None \<Rightarrow> []
      | Some spec \<Rightarrow> maps_in (map_of spec ''containers'') @ maps_in (map_of spec ''initContainers''))"

definition GetBool :: "gmap \<Rightarrow> string \<Rightarrow> bool" where
  "GetBool m key \<longleftrightarrow> as_bool (map_of m key) = Some True"

definition getString :: "gmap \<Rightarrow> string \<Rightarrow> string" where
  "getString m key = (case as_str (map_of m key) of None \<Rightarrow> [] | Some s \<Rightarrow> s)"

definition upper_char :: "char \<Rightarrow> char" where
  "upper_char c = (let n = (of_char c :: nat) in if 97 \<le> n \<and> n \<le> 122 then char_of (n - 32) else c)"

definition ToUpper :: "string \<Rightarrow> string" where
  "ToUpper s = map upper_char s"

definition hasDangerousCapability :: "gval list \<Rightarrow> bool" where
  "hasDangerousCapability vals = list_ex (\<lambda>v. ToUpper (case as_str (Some v) of None \<Rightarrow> [] | Some s \<Rightarrow> s)
     \<in> {''SYS_ADMIN'', ''NET_ADMIN'', ''NET_RAW'', ''ALL''}) vals"

definition securityContext :: "gmap \<Rightarrow> gmap option" where
  "securityContext c = as_map (map_of c ''securityContext'')"

type_synonym detect = "Decoders \<Rightarrow> CanonicalAction \<Rightarrow> string \<Rightarrow> bool"

definition any_container :: "(gmap \<Rightarrow> bool) \<Rightarrow> detect" where
  "any_container P d action raw = list_ex (\<lambda>obj. list_ex P (GetAllContainers obj)) (ParseK8sYAML d raw)"

definition DangerousCapabilities_Detect :: detect where
  "DangerousCapabilities_Detect = any_container (\<lambda>c.
     case securityContext c of None \<Rightarrow> False | Some sc \<Rightarrow>
     (case as_map (map_of sc ''capabilities'') of None \<Rightarrow> False | Some caps \<Rightarrow>
     (case as_slice (map_of caps ''add'') of None \<Rightarrow> False | Some addList \<Rightarrow>
        hasDangerousCapability addList)))"

definition ClusterAdminBinding_Detect :: detect where
  "ClusterAdminBinding_Detect d action raw = list_ex (\<lambda>obj.
     ToLower (TrimSpace (getString obj ''kind'')) = ''clusterrolebinding'' \<and>
     (case as_map (map_of obj ''roleRef'') of None \<Rightarrow> False | Some roleRef \<Rightarrow>
        EqualFold (TrimSpace (getString roleRef ''name'')) ''cluster-admin'')) (ParseK8sYAML d raw)"

definition any_volume :: "(gmap \<Rightarrow> bool) \<Rightarrow> detect" where
  "any_volume P d action raw = list_ex (\<lambda>obj.
     case GetPodSpec obj of None \<Rightarrow> False
     | Some spec \<Rightarrow> list_ex P (maps_in (map_of spec ''volumes''))) (ParseK8sYAML d raw)"

definition DockerSocket_Detect :: detect where
  "DockerSocket_Detect = any_volume (\<lambda>vol.
     case as_map (map_of vol ''hostPath'') of None \<Rightarrow> False
     | Some hp \<Rightarrow> Contains (ToLower (getString hp ''path'')) ''docker.sock'')"

definition HostNamespace_Detect :: detect where
  "HostNamespace_Detect d action raw = list_ex (\<lambda>obj.
     case GetPodSpec obj of None \<Rightarrow> False
     | Some spec \<Rightarrow> GetBool spec ''hostPID'' \<or> GetBool spec ''hostIPC'' \<or> GetBool spec ''hostNetwork'')
     (ParseK8sYAML d raw)"

definition HostPath_Detect :: detect where
  "HostPath_Detect = any_volume (\<lambda>vol.
     case map_of vol ''hostPath'' of
       Some (GMap m) \<Rightarrow> True
     | Some (GStr s) \<Rightarrow> TrimSpace s \<noteq> []
     | _ \<Rightarrow> False)"

definition K8sPrivileged_Detect :: detect where
  "K8sPrivileged_Detect = any_container (\<lambda>c.
     case securityContext c of None \<Rightarrow> False | Some sc \<Rightarrow> GetBool sc ''privileged'')"

definition RunAsRoot_Detect :: detect where
  "RunAsRoot_Detect = any_container (\<lambda>c.
     case securityContext c of
       None \<Rightarrow> True
     | Some sc \<Rightarrow> map_of sc ''runAsUser'' = Some (GInt 0) \<or> map_of sc ''runAsUser'' = Some (GFloat 0)
         \<or> \<not> GetBool sc ''runAsNonRoot'')"

definition WritableRootFS_Detect :: detect where
  "WritableRootFS_Detect = any_container (\<lambda>c.
     case securityContext c of None \<Rightarrow> True | Some sc \<Rightarrow> \<not> GetBool sc ''readOnlyRootFilesystem'')"

section \<open>Docker compose\<close>

definition hasDockerSockMount :: "gval \<Rightarrow> bool" where
  "hasDockerSockMount vol =
     (case vol of
        GStr s \<Rightarrow> Contains (ToLower s) ''docker.sock''
      | GMap m \<Rightarrow> list_ex (\<lambda>k. case as_str (map_of m k) of None \<Rightarrow> False
          | Some s \<Rightarrow> Contains (ToLower s) ''docker.sock'') [''source'', ''target'']
      | _ \<Rightarrow> False)"

definition any_service :: "(gmap \<Rightarrow> bool) \<Rightarrow> detect" where
  "any_service P d action raw = list_ex (\<lambda>(name, svc). P svc) (dCompose d raw)"

definition DockerHostNetwork_Detect :: detect where
  "DockerHostNetwork_Detect = any_service (\<lambda>svc.
     case as_str (map_of svc ''network_mode'') of None \<Rightarrow> False
     | Some mode \<Rightarrow> EqualFold (TrimSpace mode) ''host'')"

definition DockerPrivileged_Detect :: detect where
  "DockerPrivileged_Detect = any_service (\<lambda>svc. GetBool svc ''privileged'')"

definition SocketMount_Detect :: detect where
  "SocketMount_Detect = any_service (\<lambda>svc.
     case as_slice (map_of svc ''volumes'') of None \<Rightarrow> False | Some vols \<Rightarrow> list_ex hasDockerSockMount vols)"

section \<open>Terraform\<close>

record Change =
  chActions :: "string list"
  chAfter :: "gmap option"

record ResourceChange =
  rchType :: string
  rchName :: string
  rchChange :: "Change option"

definition after_of :: "json \<Rightarrow> gmap option" where
  "after_of j = as_map (Some (of_json j))"

definition change_of :: "json \<Rightarrow> Change option" where
  "change_of j = (case j of
     JObj fs \<Rightarrow>
       (case decode_list str_of [] ''actions'' fs of None \<Rightarrow> None | Some actions \<Rightarrow>
       (case decode_ptr after_of ''after'' fs of None \<Rightarrow> None | Some after \<Rightarrow>
          Some \<lparr>chActions = actions, chAfter = after\<rparr>))
   | _ \<Rightarrow> None)"

definition resource_change_of :: "json \<Rightarrow> ResourceChange option" where
  "resource_change_of j = (case j of
     JObj fs \<Rightarrow>
       (case decode_str ''type'' fs of None \<Rightarrow> None | Some t \<Rightarrow>
       (case decode_str ''name'' fs of None \<Rightarrow> None | Some n \<Rightarrow>
       (case decode_ptr change_of ''change'' fs of None \<Rightarrow> None | Some c \<Rightarrow>
          Some \<lparr>rchType = t, rchName = n, rchChange = c\<rparr>)))
   | _ \<Rightarrow> None)"

definition plan_of :: "json \<Rightarrow> ResourceChange list option" where
  "plan_of j = (case j of
     JObj fs \<Rightarrow> decode_list resource_change_of \<lparr>rchType = [], rchName = [], rchChange = None\<rparr>
                  ''resource_changes'' fs
   | JNull \<Rightarrow> Some []
   | _ \<Rightarrow> None)"

definition TfParsePlan :: "Decoders \<Rightarrow> string \<Rightarrow> ResourceChange list option" where
  "TfParsePlan d raw =
     (case dJson d raw of None \<Rightarrow> None | Some j \<Rightarrow>
     (case plan_of j of None \<Rightarrow> None | Some changes \<Rightarrow> if changes = [] then None else Some changes))"

definition ResourcesByType :: "ResourceChange list \<Rightarrow> string \<Rightarrow> ResourceChange list" where
  "ResourcesByType plan resourceType = filter (\<lambda>rc. rchType rc = resourceType) plan"

definition AfterValue :: "ResourceChange \<Rightarrow> string \<Rightarrow> gval option" where
  "AfterValue rc key =
     (case rchChange rc of None \<Rightarrow> None | Some c \<Rightarrow>
     (case chAfter c of None \<Rightarrow> None | Some after \<Rightarrow> map_of after key))"

definition AfterBool :: "ResourceChange \<Rightarrow> string \<Rightarrow> bool" where
  "AfterBool rc key \<longleftrightarrow> as_bool (AfterValue rc key) = Some True"

definition AfterString :: "ResourceChange \<Rightarrow> string \<Rightarrow> string" where
  "AfterString rc key = (case as_str (AfterValue rc key) of None \<Rightarrow> [] | Some s \<Rightarrow> s)"

definition any_of_type :: "string \<Rightarrow> (ResourceChange \<Rightarrow> bool) \<Rightarrow> detect" where
  "any_of_type t P d action raw =
     (case TfParsePlan d raw of None \<Rightarrow> False | Some plan \<Rightarrow> list_ex P (ResourcesByType plan t))"

definition EBSUnencrypted_Detect :: detect where
  "EBSUnencrypted_Detect = any_of_type ''aws_ebs_volume'' (\<lambda>rc. \<not> AfterBool rc ''encrypted'')"

definition RDSPublic_Detect :: detect where
  "RDSPublic_Detect = any_of_type ''aws_db_instance'' (\<lambda>rc. AfterBool rc ''publicly_accessible'')"

section \<open>IAM policies\<close>

record iamStatement =
  iamEffect :: string
  iamAction :: string
  iamResource :: string

definition statement_of :: "json \<Rightarrow> iamStatement option" where
  "statement_of j = (case j of
     JObj fs \<Rightarrow>
       (case decode_str ''Effect'' fs of None \<Rightarrow> None | Some e \<Rightarrow>
       (case decode_str ''Action'' fs of None \<Rightarrow> None | Some a \<Rightarrow>
       (case decode_str ''Resource'' fs of None \<Rightarrow> None | Some r \<Rightarrow>
          Some \<lparr>iamEffect = e, iamAction = a, iamResource = r\<rparr>)))
   | _ \<Rightarrow> None)"

definition policy_of :: "json \<Rightarrow> iamStatement list option" where
  "policy_of j = (case j of
     JObj fs \<Rightarrow> decode_list statement_of \<lparr>iamEffect = [], iamAction = [], iamResource = []\<rparr> ''Statement'' fs
   | JNull \<Rightarrow> Some []
   | _ \<Rightarrow> None)"

definition isIAMResourceType :: "string \<Rightarrow> bool" where
  "isIAMResourceType t \<longleftrightarrow>
     t \<in> {''aws_iam_policy'', ''aws_iam_role_policy'', ''aws_iam_user_policy'', ''aws_iam_group_policy''}"

definition change_statements :: "Decoders \<Rightarrow> ResourceChange \<Rightarrow> iamStatement list" where
  "change_statements d rc =
     (if \<not> isIAMResourceType (rchType rc) then []
      else (let policyRaw = AfterString rc ''policy'' in
        if policyRaw = [] then []
        else (case dJson d policyRaw of None \<Rightarrow> [] | Some j \<Rightarrow>
             (case policy_of j of None \<Rightarrow> [] | Some ss \<Rightarrow> ss))))"

definition extractIAMStatements :: "Decoders \<Rightarrow> string \<Rightarrow> iamStatement list" where
  "extractIAMStatements d raw =
     (case TfParsePlan d raw of None \<Rightarrow> [] | Some plan \<Rightarrow> concat (map (change_statements d) plan))"

definition IAMWildcard_Detect :: detect where
  "IAMWildcard_Detect d action raw = list_ex (\<lambda>s. iamEffect s = ''Allow'' \<and> iamAction s = ''*'' \<and>
     iamResource s = ''*'') (extractIAMStatements d raw)"

definition TerraformIAMWildcard_Detect :: detect where
  "TerraformIAMWildcard_Detect d action raw = list_ex (\<lambda>s. iamEffect s = ''Allow'' \<and>
     (iamAction s = ''*'' \<or> iamResource s = ''*'')) (extractIAMStatements d raw)"

section \<open>S3 and security groups\<close>

definition isCompletePublicAccessBlock :: "gmap option \<Rightarrow> bool" where
  "isCompletePublicAccessBlock after = list_all (\<lambda>key. case after of None \<Rightarrow> False | Some m \<Rightarrow> GetBool m key)
     [''block_public_acls'', ''ignore_public_acls'', ''block_public_policy'', ''restrict_public_buckets'']"

definition s3ResourceKeys :: "ResourceChange \<Rightarrow> string list" where
  "s3ResourceKeys rc = (let bucket = AfterString rc ''bucket'' in
     (if rchName rc \<noteq> [] then [rchName rc] else []) @
     (if bucket \<noteq> [] \<and> bucket \<noteq> rchName rc then [bucket] else []))"

definition s3_protected :: "ResourceChange list \<Rightarrow> string list" where
  "s3_protected plan = concat (map s3ResourceKeys (filter (\<lambda>rc. case rchChange rc of None \<Rightarrow> False
     | Some c \<Rightarrow> isCompletePublicAccessBlock (chAfter c))
       (ResourcesByType plan ''aws_s3_bucket_public_access_block'')))"

definition hasMatchingPublicAccessBlock :: "string list \<Rightarrow> ResourceChange \<Rightarrow> bool" where
  "hasMatchingPublicAccessBlock protected rc = list_ex (\<lambda>key. key \<in> set protected) (s3ResourceKeys rc)"

definition S3PublicAccess_Detect :: detect where
  "S3PublicAccess_Detect d action raw =
     (case TfParsePlan d raw of None \<Rightarrow> False | Some plan \<Rightarrow>
        list_ex (\<lambda>rc. rchChange rc \<noteq> None \<and> \<not> hasMatchingPublicAccessBlock (s3_protected plan) rc)
          (ResourcesByType plan ''aws_s3_bucket''))"

definition stringFromAny :: "gval option \<Rightarrow> string" where
  "stringFromAny v = (case as_str v of None \<Rightarrow> [] | Some s \<Rightarrow> s)"

definition containsCIDR :: "gval option \<Rightarrow> string \<Rightarrow> bool" where
  "containsCIDR v want = (case as_slice v of None \<Rightarrow> False
     | Some l \<Rightarrow> list_ex (\<lambda>raw. stringFromAny (Some raw) = want) l)"

text \<open>\<open>strconv.Atoi\<close> with its error dropped: 0 for another text, the nearest bound out of range.\<close>

definition Atoi_value :: "string \<Rightarrow> int" where
  "Atoi_value s =
     (let neg = HasPrefix s ''-''; ds = (if neg \<or> HasPrefix s ''+'' then tl s else s);
          v = (if neg then - int (digits_val ds) else int (digits_val ds))
      in if ds = [] \<or> \<not> list_all is_digit ds then 0 else max (- (2 ^ 63)) (min (2 ^ 63 - 1) v))"

definition trunc_float :: "rat \<Rightarrow> int" where
  "trunc_float x = (if 0 \<le> x then \<lfloor>x\<rfloor> else - \<lfloor>- x\<rfloor>)"

definition intFromAny :: "gval option \<Rightarrow> int" where
  "intFromAny v = (case v of
     Some (GInt i) \<Rightarrow> i | Some (GFloat x) \<Rightarrow> trunc_float x | Some (GStr s) \<Rightarrow> Atoi_value s | _ \<Rightarrow> 0)"

definition portInRange :: "int \<Rightarrow> int \<Rightarrow> int \<Rightarrow> bool" where
  "portInRange port from to \<longleftrightarrow> (if from > to then to \<le> port \<and> port \<le> from else from \<le> port \<and> port \<le> to)"

definition open_rule :: "gmap \<Rightarrow> bool" where
  "open_rule rule \<longleftrightarrow> containsCIDR (map_of rule ''cidr_blocks'') ''0.0.0.0/0'' \<and>
     (let from = intFromAny (map_of rule ''from_port''); to = intFromAny (map_of rule ''to_port'') in
      if from = 0 \<and> to = 0 then stringFromAny (map_of rule ''protocol'') = ''-1''
      else list_ex (\<lambda>p. portInRange p from to) [22, 3389, 3306, 5432])"

definition SecurityGroupOpen_Detect :: detect where
  "SecurityGroupOpen_Detect = any_of_type ''aws_security_group'' (\<lambda>rc.
     list_ex open_rule (maps_in (AfterValue rc ''ingress'')))"

section \<open>Operations\<close>

definition KubeSystem_Detect :: detect where
  "KubeSystem_Detect d action raw \<longleftrightarrow>
     (caOperationClass action = ''mutate'' \<or> caOperationClass action = ''destroy'') \<and>
     list_ex (\<lambda>r. EqualFold (TrimSpace (ridNamespace r)) ''kube-system'') (caResourceIdentity action)"

definition MassDeleteThreshold :: nat where
  "MassDeleteThreshold = 10"

definition MassDelete_Detect :: detect where
  "MassDelete_Detect d action raw =
     (case TfParsePlan d raw of
        Some plan \<Rightarrow> MassDeleteThreshold < length (filter (\<lambda>rc. case rchChange rc of None \<Rightarrow> False
          | Some c \<Rightarrow> ''delete'' \<in> set (chActions c)) plan)
      | None \<Rightarrow> caOperationClass action = ''destroy'' \<and> MassDeleteThreshold < length (ParseK8sYAML d raw))"

definition NamespaceDelete_Detect :: detect where
  "NamespaceDelete_Detect d action raw \<longleftrightarrow> EqualFold (TrimSpace (caOperation action)) ''delete'' \<and>
     list_ex (\<lambda>r. EqualFold (TrimSpace (ridKind r)) ''namespace'') (caResourceIdentity action)"

section \<open>The registry\<close>

record Detector =
  dTag :: string
  dBaseSeverity :: string
  dDetect :: detect

text \<open>In the order of package initialisation, within a package in the order of its files.\<close>

definition detector_registry :: "Detector list" where
  "detector_registry =
     [\<lparr>dTag = ''docker.host_network'', dBaseSeverity = ''high'', dDetect = DockerHostNetwork_Detect\<rparr>,
      \<lparr>dTag = ''docker.privileged'', dBaseSeverity = ''critical'', dDetect = DockerPrivileged_Detect\<rparr>,
      \<lparr>dTag = ''docker.socket_mount'', dBaseSeverity = ''critical'', dDetect = SocketMount_Detect\<rparr>,
      \<lparr>dTag = ''k8s.dangerous_capabilities'', dBaseSeverity = ''high'', dDetect = DangerousCapabilities_Detect\<rparr>,
      \<lparr>dTag = ''k8s.cluster_admin_binding'', dBaseSeverity = ''critical'', dDetect = ClusterAdminBinding_Detect\<rparr>,
      \<lparr>dTag = ''k8s.docker_socket'', dBaseSeverity = ''critical'', dDetect = DockerSocket_Detect\<rparr>,
      \<lparr>dTag = ''k8s.host_namespace_escape'', dBaseSeverity = ''high'', dDetect = HostNamespace_Detect\<rparr>,
      \<lparr>dTag = ''k8s.hostpath_mount'', dBaseSeverity = ''high'', dDetect = HostPath_Detect\<rparr>,
      \<lparr>dTag = ''k8s.privileged_container'', dBaseSeverity = ''critical'', dDetect = K8sPrivileged_Detect\<rparr>,
      \<lparr>dTag = ''k8s.run_as_root'', dBaseSeverity = ''medium'', dDetect = RunAsRoot_Detect\<rparr>,
      \<lparr>dTag = ''k8s.writable_rootfs'', dBaseSeverity = ''low'', dDetect = WritableRootFS_Detect\<rparr>,
      \<lparr>dTag = ''ops.kube_system'', dBaseSeverity = ''high'', dDetect = KubeSystem_Detect\<rparr>,
      \<lparr>dTag = ''ops.mass_delete'', dBaseSeverity = ''critical'', dDetect = MassDelete_Detect\<rparr>,
      \<lparr>dTag = ''ops.namespace_delete'', dBaseSeverity = ''high'', dDetect = NamespaceDelete_Detect\<rparr>,
      \<lparr>dTag = ''aws.ebs_unencrypted'', dBaseSeverity = ''medium'', dDetect = EBSUnencrypted_Detect\<rparr>,
      \<lparr>dTag = ''aws_iam.wildcard_policy'', dBaseSeverity = ''critical'', dDetect = IAMWildcard_Detect\<rparr>,
      \<lparr>dTag = ''terraform.iam_wildcard_policy'', dBaseSeverity = ''high'', dDetect = TerraformIAMWildcard_Detect\<rparr>,
      \<lparr>dTag = ''aws.rds_public'', dBaseSeverity = ''high'', dDetect = RDSPublic_Detect\<rparr>,
      \<lparr>dTag = ''terraform.s3_public_access'', dBaseSeverity = ''high'', dDetect = S3PublicAccess_Detect\<rparr>,
      \<lparr>dTag = ''aws.security_group_open'', dBaseSeverity = ''high'', dDetect = SecurityGroupOpen_Detect\<rparr>]"

fun BaseSeverityIn :: "Detector list \<Rightarrow> string \<Rightarrow> string option" where
  "BaseSeverityIn [] tag = None"
| "BaseSeverityIn (x # xs) tag = (if dTag x = tag then Some (dBaseSeverity x) else BaseSeverityIn xs tag)"

definition BaseSeverityForTag :: "string \<Rightarrow> string option" where
  "BaseSeverityForTag tag = BaseSeverityIn detector_registry tag"

text \<open>The loop that keeps the first occurrence of every non-empty tag.\<close>

fun dedup_tags :: "string list \<Rightarrow> string list \<Rightarrow> string list" where
  "dedup_tags seen [] = []"
| "dedup_tags seen (t # ts) =
     (if t = [] \<or> t \<in> set seen then dedup_tags seen ts else t # dedup_tags (t # seen) ts)"

definition RunAll :: "Decoders \<Rightarrow> CanonicalAction \<Rightarrow> string \<Rightarrow> string list" where
  "RunAll d action raw =
     dedup_tags [] (map dTag (filter (\<lambda>x. dDetect x d action raw) detector_registry))"

text \<open>\<open>ProduceAll\<close> runs the registered producers; the native one, \<open>RunAll\<close>, is the only one registered.\<close>

definition ProduceAll :: "Decoders \<Rightarrow> CanonicalAction \<Rightarrow> string \<Rightarrow> string list" where
  "ProduceAll d action raw = dedup_tags [] (concat (map (\<lambda>p. p d action raw) [RunAll]))"

end
