(* ===== verification/Risk.thy ===== *)
theory Risk
  imports Detectors Canon_Facts
begin

text \<open>
  The risk matrix (\<^verbatim>\<open>internal/risk/matrix.go\<close>) and properties of the detectors it builds on: what the
  registry returns, that elevation takes the maximum, and the artifacts that the detectors misread.
\<close>

section \<open>The matrix\<close>

definition riskSeverity :: "string \<Rightarrow> int option" where
  "riskSeverity level =
     (if level = ''low'' then Some 0 else if level = ''medium'' then Some 1
      else if level = ''high'' then Some 2 else if level = ''critical'' then Some 3 else None)"

definition riskMatrix :: "(string \<times> (string \<times> string) list) list" where
  "riskMatrix =
     [(''read'', [(''production'', ''low''), (''staging'', ''low''), (''development'', ''low''), (''unknown'', ''low'')]),
      (''mutate'', [(''production'', ''high''), (''staging'', ''medium''), (''development'', ''low''), (''unknown'', ''medium'')]),
      (''destroy'', [(''production'', ''critical''), (''staging'', ''high''), (''development'', ''medium''), (''unknown'', ''high'')]),
      (''plan'', [(''production'', ''low''), (''staging'', ''low''), (''development'', ''low''), (''unknown'', ''low'')])]"

definition SeverityHigherThan :: "string \<Rightarrow> string \<Rightarrow> bool" where
  "SeverityHigherThan a b =
     (case riskSeverity a of None \<Rightarrow> False
      | Some aSeverity \<Rightarrow> (case riskSeverity b of None \<Rightarrow> - 1 | Some s \<Rightarrow> s) < aSeverity)"

definition RiskLevel :: "string \<Rightarrow> string \<Rightarrow> string" where
  "RiskLevel operationClass scopeClass =
     (case map_of riskMatrix operationClass of
        None \<Rightarrow> ''medium''
      | Some row \<Rightarrow> (case map_of row (NormalizeScopeClass scopeClass) of
                      None \<Rightarrow> ''medium'' | Some level \<Rightarrow> level))"

fun elevate :: "string \<Rightarrow> int \<Rightarrow> string list \<Rightarrow> string" where
  "elevate best bestSeverity [] = best"
| "elevate best bestSeverity (tag # tags) =
     (case BaseSeverityForTag tag of None \<Rightarrow> elevate best bestSeverity tags | Some baseSeverity \<Rightarrow>
     (case riskSeverity baseSeverity of None \<Rightarrow> elevate best bestSeverity tags | Some sev \<Rightarrow>
        if bestSeverity < sev then elevate baseSeverity sev tags else elevate best bestSeverity tags))"

definition ElevateRiskLevel :: "string \<Rightarrow> string list \<Rightarrow> string" where
  "ElevateRiskLevel matrixLevel riskTags =
     (case riskSeverity matrixLevel of
        None \<Rightarrow> elevate ''high'' 2 riskTags
      | Some s \<Rightarrow> elevate matrixLevel s riskTags)"

section \<open>Levels\<close>

definition risk_levels :: "string set" where
  "risk_levels = {''low'', ''medium'', ''high'', ''critical''}"

lemma riskSeverity_Some: "riskSeverity l = Some s \<Longrightarrow> l \<in> risk_levels \<and> 0 \<le> s \<and> s \<le> 3"
  by (auto simp: riskSeverity_def risk_levels_def split: if_splits)

lemma riskSeverity_level: "l \<in> risk_levels \<longleftrightarrow> riskSeverity l \<noteq> None"
  by (auto simp: riskSeverity_def risk_levels_def)

lemma riskSeverity_inj: "riskSeverity a = Some s \<Longrightarrow> riskSeverity b = Some s \<Longrightarrow> a = b"
  by (auto simp: riskSeverity_def split: if_splits)

lemma riskSeverity_simps [simp]:
  "riskSeverity ''low'' = Some 0" "riskSeverity ''medium'' = Some 1"
  "riskSeverity ''high'' = Some 2" "riskSeverity ''critical'' = Some 3"
  by (simp_all add: riskSeverity_def)

definition severity :: "string \<Rightarrow> int" where
  "severity l = (case riskSeverity l of None \<Rightarrow> - 1 | Some s \<Rightarrow> s)"

lemma SeverityHigherThan_severity: "SeverityHigherThan a b \<longleftrightarrow> severity b < severity a"
  by (auto simp: SeverityHigherThan_def severity_def split: option.split dest: riskSeverity_Some)

lemma riskMatrix_levels:
  "map_of riskMatrix c = Some row \<Longrightarrow> map_of row e = Some l \<Longrightarrow> l \<in> risk_levels"
  by (auto simp: riskMatrix_def risk_levels_def split: if_splits)

lemma RiskLevel_level [simp, go_intros]: "RiskLevel op scope \<in> risk_levels"
  using riskMatrix_levels by (auto simp: RiskLevel_def risk_levels_def split: option.split)

lemma riskMatrix_known:
  "op \<in> {''read'', ''mutate'', ''destroy'', ''plan''} \<Longrightarrow>
    \<exists>row. map_of riskMatrix op = Some row \<and> map_of row (NormalizeScopeClass scope) \<noteq> None"
  using NormalizeScopeClass_in [of scope] by (auto simp: riskMatrix_def scope_classes_def)

text \<open>What a tag counts for: its severity, or nothing.\<close>

definition tag_severity :: "string \<Rightarrow> int" where
  "tag_severity tag = (case BaseSeverityForTag tag of None \<Rightarrow> - 1 | Some l \<Rightarrow> severity l)"

lemma elevate_max:
  "riskSeverity best = Some s \<Longrightarrow>
    elevate best s tags \<in> risk_levels \<and>
    severity (elevate best s tags) = Max (insert s (tag_severity ` set tags))"
proof (induction tags arbitrary: best s)
  case Nil
  then show ?case by (simp add: riskSeverity_level severity_def)
next
  case (Cons tag tags)
  have s: "0 \<le> s" using riskSeverity_Some [OF Cons.prems] by simp
  let ?T = "tag_severity ` set tags"
  have max: "Max (insert s (tag_severity ` set (tag # tags))) = Max (insert (max s (tag_severity tag)) ?T)"
    by (cases "?T = {}") (simp_all add: max.assoc max.left_commute)
  show ?case
  proof (cases "BaseSeverityForTag tag")
    case None
    then show ?thesis
      using Cons s unfolding max by (simp add: tag_severity_def max_def)
  next
    case (Some l)
    show ?thesis
    proof (cases "riskSeverity l")
      case None
      then show ?thesis
        using Cons s Some unfolding max by (simp add: tag_severity_def severity_def max_def)
    next
      case (Some t)
      then have t: "tag_severity tag = t"
        using \<open>BaseSeverityForTag tag = Some l\<close> by (simp add: tag_severity_def severity_def)
      show ?thesis
        using Cons.IH [OF Cons.prems] Cons.IH [OF Some] \<open>BaseSeverityForTag tag = Some l\<close> Some
        unfolding max t by (auto simp: max_def)
    qed
  qed
qed

lemma ElevateRiskLevel_level [simp, go_intros]: "ElevateRiskLevel l tags \<in> risk_levels"
  using elevate_max [of "''high''" 2 tags] elevate_max [of l _ tags]
  unfolding ElevateRiskLevel_def by (cases "riskSeverity l") simp_all

section \<open>The registry\<close>

lemma registry_tags: "distinct (map dTag detector_registry) \<and> [] \<notin> set (map dTag detector_registry)"
  by (simp add: detector_registry_def)

lemma registry_severities: "x \<in> set detector_registry \<Longrightarrow> dBaseSeverity x \<in> risk_levels"
  by (auto simp: detector_registry_def risk_levels_def)

lemma BaseSeverityIn_unique:
  "distinct (map dTag xs) \<Longrightarrow> x \<in> set xs \<Longrightarrow> BaseSeverityIn xs (dTag x) = Some (dBaseSeverity x)"
  by (induction xs) auto

lemma BaseSeverity_registry: "x \<in> set detector_registry \<Longrightarrow> BaseSeverityForTag (dTag x) = Some (dBaseSeverity x)"
  using BaseSeverityIn_unique registry_tags by (simp add: BaseSeverityForTag_def)

lemma BaseSeverity_level: "BaseSeverityForTag tag = Some l \<Longrightarrow> l \<in> risk_levels"
proof -
  have "BaseSeverityIn xs tag = Some l \<Longrightarrow> \<exists>x\<in>set xs. dBaseSeverity x = l" for xs
    by (induction xs) (auto split: if_splits)
  then show "BaseSeverityForTag tag = Some l \<Longrightarrow> l \<in> risk_levels"
    using registry_severities by (auto simp: BaseSeverityForTag_def)
qed

lemma dedup_tags_id:
  "distinct ts \<Longrightarrow> [] \<notin> set ts \<Longrightarrow> set ts \<inter> set seen = {} \<Longrightarrow> dedup_tags seen ts = ts"
  by (induction ts arbitrary: seen) auto

lemma distinct_map_filter: "distinct (map f xs) \<Longrightarrow> distinct (map f (filter P xs))"
  by (induction xs) auto

lemma RunAll_fired: "RunAll d action raw = map dTag (filter (\<lambda>x. dDetect x d action raw) detector_registry)"
  unfolding RunAll_def
  by (rule dedup_tags_id) (use registry_tags distinct_map_filter in auto)

lemma ProduceAll_fired: "ProduceAll d action raw = map dTag (filter (\<lambda>x. dDetect x d action raw) detector_registry)"
  unfolding ProduceAll_def using registry_tags
  by (simp add: RunAll_fired) (rule dedup_tags_id; auto intro: distinct_map_filter)

section \<open>Properties\<close>

text \<open>
  The matrix is monotone and total: every combination gets one of the four levels; in every
  scope destroying ranks strictly above mutating and mutating never below reading; for every known
  class production ranks at least as high as staging and staging as development. An operation class
  that is not in the matrix gets \<open>medium\<close>.
\<close>

theorem risk_matrix_monotone:
  "RiskLevel op scope \<in> risk_levels \<and>
   SeverityHigherThan (RiskLevel ''destroy'' scope) (RiskLevel ''mutate'' scope) \<and>
   \<not> SeverityHigherThan (RiskLevel ''read'' scope) (RiskLevel ''mutate'' scope) \<and>
   \<not> SeverityHigherThan (RiskLevel op ''staging'') (RiskLevel op ''production'') \<and>
   \<not> SeverityHigherThan (RiskLevel op ''development'') (RiskLevel op ''staging'') \<and>
   (op \<in> {''read'', ''mutate'', ''destroy'', ''plan''} \<or> RiskLevel op scope = ''medium'')"
proof (intro conjI)
  have scopes: "NormalizeScopeClass scope \<in> {''production'', ''staging'', ''development'', ''unknown''}"
    using NormalizeScopeClass_in [of scope] by (simp add: scope_classes_def)
  then show "SeverityHigherThan (RiskLevel ''destroy'' scope) (RiskLevel ''mutate'' scope)"
    "\<not> SeverityHigherThan (RiskLevel ''read'' scope) (RiskLevel ''mutate'' scope)"
    by (auto simp: RiskLevel_def riskMatrix_def SeverityHigherThan_severity severity_def)
  have fixed: "NormalizeScopeClass ''production'' = ''production''" "NormalizeScopeClass ''staging'' = ''staging''"
    "NormalizeScopeClass ''development'' = ''development''"
    by (simp_all add: NormalizeScopeClass_fixed scope_classes_def)
  then show "\<not> SeverityHigherThan (RiskLevel op ''staging'') (RiskLevel op ''production'')"
    "\<not> SeverityHigherThan (RiskLevel op ''development'') (RiskLevel op ''staging'')"
    by (auto simp: RiskLevel_def riskMatrix_def SeverityHigherThan_severity severity_def)
  show "op \<in> {''read'', ''mutate'', ''destroy'', ''plan''} \<or> RiskLevel op scope = ''medium''"
    by (auto simp: RiskLevel_def riskMatrix_def)
qed simp

text \<open>
  Elevation is the maximum: the elevated level is one of the four, and its severity is the
  greatest of the starting level's (\<open>high\<close> where that is no level) and those of the tags that a
  registered detector has; so it depends neither on the order of the tags nor on repetitions, and
  unknown tags are ignored.
\<close>

theorem elevate_is_maximum:
  "ElevateRiskLevel level tags \<in> risk_levels \<and>
   severity (ElevateRiskLevel level tags) =
     Max (insert (case riskSeverity level of None \<Rightarrow> 2 | Some s \<Rightarrow> s) (tag_severity ` set tags))"
  using elevate_max [of "''high''" 2 tags] elevate_max [of level _ tags]
  unfolding ElevateRiskLevel_def by (cases "riskSeverity level") simp_all

text \<open>
  \<open>ProduceAll\<close> returns the tags of exactly the registered detectors that fire, in registry order,
  without repetition, and every tag it returns has the base severity of its detector, one of the four
  levels, so that elevation never ignores a tag that was produced.
\<close>

theorem produced_tags:
  "ProduceAll d action raw = map dTag (filter (\<lambda>x. dDetect x d action raw) detector_registry) \<and>
   distinct (ProduceAll d action raw) \<and>
   (\<forall>x\<in>set detector_registry. dDetect x d action raw \<longrightarrow>
      BaseSeverityForTag (dTag x) = Some (dBaseSeverity x) \<and> dBaseSeverity x \<in> risk_levels \<and>
      \<not> SeverityHigherThan (dBaseSeverity x) (ElevateRiskLevel level (ProduceAll d action raw)))"
proof (intro conjI ballI impI)
  show "distinct (ProduceAll d action raw)"
    using registry_tags distinct_map_filter by (auto simp: ProduceAll_fired)
  fix x assume x: "x \<in> set detector_registry" and fires: "dDetect x d action raw"
  show base: "BaseSeverityForTag (dTag x) = Some (dBaseSeverity x)" by (rule BaseSeverity_registry [OF x])
  show "dBaseSeverity x \<in> risk_levels" by (rule registry_severities [OF x])
  have "dTag x \<in> set (ProduceAll d action raw)" using x fires by (auto simp: ProduceAll_fired)
  moreover have "severity (dBaseSeverity x) = tag_severity (dTag x)" by (simp add: tag_severity_def base)
  ultimately have "severity (dBaseSeverity x) \<in> tag_severity ` set (ProduceAll d action raw)" by blast
  then have "severity (dBaseSeverity x) \<le> severity (ElevateRiskLevel level (ProduceAll d action raw))"
    using elevate_max [of "''high''" 2 "ProduceAll d action raw"]
      elevate_max [of level _ "ProduceAll d action raw"]
    unfolding ElevateRiskLevel_def by (cases "riskSeverity level") simp_all
  then show "\<not> SeverityHigherThan (dBaseSeverity x) (ElevateRiskLevel level (ProduceAll d action raw))"
    by (simp add: SeverityHigherThan_severity)
qed (rule ProduceAll_fired)

definition sample_decoders :: Decoders where
  "sample_decoders = \<lparr>dYaml = (\<lambda>_. ([Some [(''kind'', GStr ''CronJob''), (''spec'', GMap
       [(''schedule'', GStr ''@daily''), (''jobTemplate'', GMap [(''spec'', GMap [(''template'', GMap
         [(''spec'', GMap [(''hostPID'', GBool True)])])])])])]], False)),
     dCompose = (\<lambda>_. [(''app'', [(''privileged'', GBool True)])]),
     dJson = (\<lambda>s. if s = ''policy'' then Some (JObj [(''Statement'', JArr [JObj
         [(''Effect'', JStr ''Allow''), (''Action'', JArr [JStr ''*'']), (''Resource'', JStr ''*'')]])])
       else if s = ''plan'' then Some (JObj [(''resource_changes'', JArr [JObj
         [(''type'', JStr ''aws_ebs_volume''), (''name'', JStr ''v''),
          (''change'', JObj [(''actions'', JArr [JStr ''delete'']), (''after'', JNull)])]])])
       else None)\<rparr>"

theorem produced_tags_witness:
  "BaseSeverityForTag ''docker.privileged'' = Some ''critical'' \<and>
   \<not> SeverityHigherThan ''critical'' (ElevateRiskLevel ''low'' (ProduceAll sample_decoders zero_action []))"
proof -
  let ?x = "\<lparr>dTag = ''docker.privileged'', dBaseSeverity = ''critical'', dDetect = DockerPrivileged_Detect\<rparr>"
  have "?x \<in> set detector_registry" by (simp add: detector_registry_def)
  moreover have "dDetect ?x sample_decoders zero_action []"
    by (simp add: DockerPrivileged_Detect_def any_service_def sample_decoders_def GetBool_def)
  ultimately show ?thesis
    using produced_tags [of sample_decoders zero_action "[]" "''low''"] by fastforce
qed

lemma decode_str_array: "values_for k fs = [JArr js] \<Longrightarrow> decode_str k fs = None"
  by (simp add: decode_str_def decode_scalar_def non_null_def Let_def)

lemma conv_all_None: "j \<in> set js \<Longrightarrow> j \<noteq> JNull \<Longrightarrow> conv j = None \<Longrightarrow> conv_all conv d js = None"
  by (induction js) (auto split: option.split)

text \<open>
  An IAM policy with a list of actions is not seen: when a statement of the policy gives its
  \<open>Action\<close> as a list, as IAM allows, decoding the policy fails and none of its statements reaches the
  two wildcard detectors, whatever the other statements grant.
\<close>

theorem iam_action_list_unseen:
  assumes "dJson d (AfterString rc ''policy'') = Some (JObj [(''Statement'', JArr statements)])"
    and "JObj fs \<in> set statements" and "values_for ''Action'' fs = [JArr actions]"
    and "TfParsePlan d raw = Some [rc]"
  shows "change_statements d rc = [] \<and> \<not> IAMWildcard_Detect d action raw \<and>
    \<not> TerraformIAMWildcard_Detect d action raw"
proof -
  have "statement_of (JObj fs) = None"
    by (simp add: statement_of_def decode_str_array [OF assms(3)] split: option.split)
  then have "conv_all statement_of dflt statements = None" for dflt
    using conv_all_None [OF assms(2)] by simp
  then have "policy_of (JObj [(''Statement'', JArr statements)]) = None"
    by (simp add: policy_of_def decode_list_def decode_ptr_def values_for_def Let_def EqualFold_def)
  then have "change_statements d rc = []"
    using assms(1) by (simp add: change_statements_def Let_def)
  then show ?thesis
    using assms(4) by (simp add: IAMWildcard_Detect_def TerraformIAMWildcard_Detect_def extractIAMStatements_def)
qed

text \<open>
  A resource that is being deleted is judged by its absent new state: a plan that deletes an EBS
  volume, whose \<open>after\<close> is \<open>null\<close>, fires the detector of unencrypted volumes whether the volume is
  encrypted or not, and one that deletes a bucket fires the one of public buckets unless a complete
  access block of the same name is in the plan.
\<close>

theorem deleted_resources_flagged:
  assumes "TfParsePlan d raw = Some plan" and "rc \<in> set plan"
    and "rchChange rc = Some c" and "chAfter c = None"
  shows "(rchType rc = ''aws_ebs_volume'' \<longrightarrow> EBSUnencrypted_Detect d action raw) \<and>
    (rchType rc = ''aws_s3_bucket'' \<and> rchName rc \<notin> set (s3_protected plan) \<longrightarrow>
      S3PublicAccess_Detect d action raw)"
proof -
  have "AfterValue rc k = None" for k using assms(3,4) by (simp add: AfterValue_def)
  then have "\<not> AfterBool rc ''encrypted''" "s3ResourceKeys rc = (if rchName rc = [] then [] else [rchName rc])"
    by (simp_all add: AfterBool_def s3ResourceKeys_def AfterString_def)
  then show ?thesis
    using assms
    by (auto simp: EBSUnencrypted_Detect_def S3PublicAccess_Detect_def any_of_type_def ResourcesByType_def
        list_ex_iff hasMatchingPublicAccessBlock_def intro!: exI [of _ rc] split: if_splits)
qed

text \<open>
  The pods of a \<open>CronJob\<close> are not seen: for an object whose spec has neither a template nor
  containers, volumes or host settings of its own, as one with a \<open>jobTemplate\<close>, no detector of pods
  fires, whatever the job template holds.
\<close>

theorem job_template_unseen:
  assumes "ParseK8sYAML d raw = [obj]" and "map_of obj ''spec'' = Some (GMap spec)"
    and "\<forall>k\<in>{''template'', ''containers'', ''initContainers'', ''volumes'', ''hostPID'', ''hostIPC'',
      ''hostNetwork''}. map_of spec k = None"
  shows "\<forall>detect\<in>{DangerousCapabilities_Detect, DockerSocket_Detect, HostNamespace_Detect, HostPath_Detect,
    K8sPrivileged_Detect, RunAsRoot_Detect, WritableRootFS_Detect}. \<not> detect d action raw"
proof -
  have pod: "GetPodSpec obj = Some spec" using assms(2,3) by (simp add: GetPodSpec_def)
  have no: "GetAllContainers obj = []" "maps_in (map_of spec ''volumes'') = []"
    using assms(3) by (simp_all add: GetAllContainers_def pod maps_in_def)
  then have "\<not> any_container P d action raw" "\<not> any_volume P d action raw" for P
    by (simp_all add: any_container_def any_volume_def assms(1) pod)
  moreover have "\<not> HostNamespace_Detect d action raw"
    using assms(3) by (simp add: HostNamespace_Detect_def assms(1) pod GetBool_def)
  ultimately show ?thesis
    by (simp add: DangerousCapabilities_Detect_def DockerSocket_Detect_def HostPath_Detect_def
        K8sPrivileged_Detect_def RunAsRoot_Detect_def WritableRootFS_Detect_def)
qed

theorem job_template_unseen_witness: "\<not> HostNamespace_Detect sample_decoders zero_action []"
  using job_template_unseen [of sample_decoders "[]" "the (hd (fst (dYaml sample_decoders [])))"
      "[(''schedule'', GStr ''@daily''), (''jobTemplate'', GMap [(''spec'', GMap [(''template'', GMap
         [(''spec'', GMap [(''hostPID'', GBool True)])])])])]" zero_action]
  by (simp add: sample_decoders_def ParseK8sYAML_def)

theorem deleted_resources_flagged_witness: "EBSUnencrypted_Detect sample_decoders zero_action ''plan''"
proof -
  let ?rc = "\<lparr>rchType = ''aws_ebs_volume'', rchName = ''v'',
    rchChange = Some \<lparr>chActions = [''delete''], chAfter = None\<rparr>\<rparr>"
  have "TfParsePlan sample_decoders ''plan'' = Some [?rc]" by code_simp
  from deleted_resources_flagged [OF this, of ?rc] show ?thesis by simp
qed

theorem iam_action_list_unseen_witness:
  "\<exists>rc. rchType rc = ''aws_iam_policy'' \<and> change_statements sample_decoders rc = []"
proof -
  let ?rc = "\<lparr>rchType = ''aws_iam_policy'', rchName = ''p'', rchChange = Some
    \<lparr>chActions = [''create''], chAfter = Some [(''policy'', GStr ''policy'')]\<rparr>\<rparr>"
  let ?fs = "[(''Effect'', JStr ''Allow''), (''Action'', JArr [JStr ''*'']), (''Resource'', JStr ''*'')]"
  let ?d = "sample_decoders\<lparr>dJson := (\<lambda>s. if s = ''raw'' then Some (JObj [(''resource_changes'', JArr [JObj
      [(''type'', JStr ''aws_iam_policy''), (''name'', JStr ''p''), (''change'', JObj
        [(''actions'', JArr [JStr ''create'']), (''after'', JObj [(''policy'', JStr ''policy'')])])]])])
    else dJson sample_decoders s)\<rparr>"
  have "TfParsePlan ?d ''raw'' = Some [?rc]" by code_simp
  moreover have "AfterString ?rc ''policy'' = ''policy''" by code_simp
  moreover have "values_for ''Action'' ?fs = [JArr [JStr ''*'']]" by code_simp
  ultimately have "change_statements ?d ?rc = []"
    using iam_action_list_unseen [of ?d ?rc "[JObj ?fs]" ?fs "[JStr ''*'']" "''raw''" zero_action]
    by (simp add: sample_decoders_def)
  moreover have "change_statements sample_decoders ?rc = change_statements ?d ?rc"
    by (simp add: change_statements_def sample_decoders_def AfterString_def AfterValue_def)
  ultimately show ?thesis by (intro exI [of _ ?rc]) simp
qed

end
