(* ===== verification/Signal_Types.thy ===== *)
theory Signal_Types
  imports Prelude
begin

text \<open>
  The entries that the signal detectors read and what they return (\<^verbatim>\<open>internal/signal/types.go\<close>), with
  the two things most detectors share: the exit code reported for a prescription and the grouping
  of entries by a key. The text of an event is kept as its kind and the values printed in it.
\<close>

record SEntry =
  enEventID :: string
  enTimestamp :: time
  enTool :: string
  enOperation :: string
  enActorID :: string
  enEnvironment :: string
  enIsPrescription :: bool
  enIsReport :: bool
  enPrescriptionID :: string
  enArtifactDigest :: string
  enIntentDigest :: string
  enShapeHash :: string
  enResourceCount :: int
  enOperationClass :: string
  enScopeClass :: string
  enExitCode :: "int option"
  enRiskTags :: "string list"

record SignalResult =
  srName :: string
  srCount :: nat
  srEventIDs :: "string list"

datatype event_details =
    UnknownPrescription string string
  | DuplicateReport string string
  | ActorMismatch string string
  | DigestOmitted string string
  | Unreported string duration
  | Baseline string string

record SignalEvent =
  seSignal :: string
  seSubSignal :: string
  seTimestamp :: time
  seEntryRef :: string
  seDetails :: event_details

definition Minute :: duration where "Minute = 60000000000"

definition DefaultTTL :: duration where "DefaultTTL = 10 * Minute"

text \<open>\<open>Time.Sub\<close> returns the nearest duration where the difference does not fit.\<close>

definition TimeSub :: "time \<Rightarrow> time \<Rightarrow> duration" where
  "TimeSub a b = max (- (2 ^ 63)) (min (2 ^ 63 - 1) (a - b))"

lemma TimeSub_gt: "w < 2 ^ 63 - 1 \<Longrightarrow> - (2 ^ 63) \<le> w \<Longrightarrow> w < TimeSub a b \<longleftrightarrow> w < a - b"
  by (auto simp: TimeSub_def max_def min_def)

lemma TimeSub_mono: "a \<le> c \<Longrightarrow> TimeSub a b \<le> TimeSub c b"
  by (simp add: TimeSub_def max_def min_def)

definition signal_result :: "string \<Rightarrow> string list \<Rightarrow> SignalResult" where
  "signal_result name ids = \<lparr>srName = name, srCount = length ids, srEventIDs = ids\<rparr>"

section \<open>Reported exit codes\<close>

definition report_exit :: "SEntry list \<Rightarrow> string \<Rightarrow> int option option" where
  "report_exit entries = collect (\<lambda>e. if enIsReport e \<and> enPrescriptionID e \<noteq> []
     then Some (enPrescriptionID e, enExitCode e) else None) Map.empty entries"

text \<open>\<open>m[id]\<close> of a map of pointers: \<open>nil\<close> without an entry.\<close>

definition exit_of :: "SEntry list \<Rightarrow> string \<Rightarrow> int option" where
  "exit_of entries eventID = (case report_exit entries eventID of None \<Rightarrow> None | Some c \<Rightarrow> c)"

lemma exit_of_report:
  "exit_of entries i = Some c \<Longrightarrow>
    \<exists>r\<in>set entries. enIsReport r \<and> enPrescriptionID r = i \<and> enExitCode r = Some c"
  by (auto simp: exit_of_def report_exit_def split: option.splits if_splits dest!: collect_SomeD)

section \<open>Grouping\<close>

text \<open>The groups of a map filled by appending: keys and, for a key, its entries in order.\<close>

definition group_keys :: "('a \<Rightarrow> 'k option) \<Rightarrow> 'a list \<Rightarrow> 'k list" where
  "group_keys key xs = keys_of (map the (filter (\<lambda>k. k \<noteq> None) (map key xs)))"

definition group_of :: "('a \<Rightarrow> 'k option) \<Rightarrow> 'a list \<Rightarrow> 'k \<Rightarrow> 'a list" where
  "group_of key xs k = filter (\<lambda>x. key x = Some k) xs"

lemma set_group_keys [simp]: "k \<in> set (group_keys key xs) \<longleftrightarrow> (\<exists>x\<in>set xs. key x = Some k)"
  by (force simp: group_keys_def image_iff)

lemma distinct_group_keys [simp]: "distinct (group_keys key xs)"
  by (simp add: group_keys_def)

lemma group_of_set: "x \<in> set (group_of key xs k) \<longleftrightarrow> x \<in> set xs \<and> key x = Some k"
  by (simp add: group_of_def)

text \<open>Visiting the groups in another order permutes the concatenated results.\<close>

lemma visits_concat:
  assumes "visits ord" "visits ord'"
  shows "mset (concat (map f (ord ks))) = mset (concat (map f (ord' ks)))"
proof -
  have "mset (ord ks) = mset (ord' ks)" using assms by (simp add: visits_def)
  then have "mset (map (\<lambda>k. mset (f k)) (ord ks)) = mset (map (\<lambda>k. mset (f k)) (ord' ks))" by simp
  then have "sum_list (map (\<lambda>k. mset (f k)) (ord ks)) = sum_list (map (\<lambda>k. mset (f k)) (ord' ks))"
    by (metis sum_mset_sum_list)
  then show ?thesis by (simp add: mset_concat comp_def)
qed

end
