(* ===== verification/Signal_Protocol.thy ===== *)
theory Signal_Protocol
  imports Signal_Types
begin

text \<open>
  Protocol violations and artifact drift (\<^verbatim>\<open>protocol_violation.go\<close>, \<^verbatim>\<open>artifact_drift.go\<close>), and what they
  mean declaratively: there is no violation exactly when every report answers a known prescription
  of its own actor, at most once and with the digest it owes, and every prescription is reported or
  still within its time to live.
\<close>

section \<open>Unreported prescriptions\<close>

definition latest_report :: "SEntry \<Rightarrow> SEntry list \<Rightarrow> SEntry option" where
  "latest_report p entries = fold (\<lambda>e last.
     if enIsReport e \<and> enActorID e = enActorID p
     then (case last of None \<Rightarrow> Some e
           | Some l \<Rightarrow> if enTimestamp l < enTimestamp e then Some e else last)
     else last) entries None"

definition classifyUnreported :: "SEntry \<Rightarrow> SEntry list \<Rightarrow> string" where
  "classifyUnreported p entries =
     (if enActorID p = [] then ''stalled_operation''
      else case latest_report p entries of
             None \<Rightarrow> ''stalled_operation''
           | Some r \<Rightarrow> (case enExitCode r of
                          None \<Rightarrow> ''stalled_operation''
                        | Some c \<Rightarrow> if c \<noteq> 0 then ''crash_before_report'' else ''stalled_operation''))"

definition reported_ids :: "SEntry list \<Rightarrow> string set" where
  "reported_ids entries = enPrescriptionID ` set (filter (\<lambda>e. enIsReport e \<and> enPrescriptionID e \<noteq> []) entries)"

definition DetectUnreported :: "SEntry list \<Rightarrow> duration \<Rightarrow> time \<Rightarrow> SignalEvent list" where
  "DetectUnreported entries ttl now =
     map (\<lambda>e. \<lparr>seSignal = ''protocol_violation'', seSubSignal = classifyUnreported e entries,
               seTimestamp = enTimestamp e, seEntryRef = enEventID e,
               seDetails = Unreported (enEventID e) ttl\<rparr>)
       (filter (\<lambda>e. enIsPrescription e \<and> enEventID e \<notin> reported_ids entries
          \<and> ttl < TimeSub now (enTimestamp e)) entries)"

section \<open>Reports\<close>

definition prescriptions_by_id :: "SEntry list \<Rightarrow> string \<Rightarrow> SEntry option" where
  "prescriptions_by_id entries =
     collect (\<lambda>e. if enIsPrescription e then Some (enEventID e, e) else None) Map.empty entries"

definition violation :: "string \<Rightarrow> SEntry \<Rightarrow> event_details \<Rightarrow> SignalEvent" where
  "violation sub e d = \<lparr>seSignal = ''protocol_violation'', seSubSignal = sub,
     seTimestamp = enTimestamp e, seEntryRef = enEventID e, seDetails = d\<rparr>"

text \<open>
  The loop over the reports; \<open>firstReport\<close> is also \<open>reportedIDs\<close>, since both are set together.
\<close>

fun check_reports ::
  "(string \<Rightarrow> SEntry option) \<Rightarrow> (string \<Rightarrow> SEntry option) \<Rightarrow> SEntry list \<Rightarrow> SignalEvent list" where
  "check_reports prescriptions firstReport [] = []"
| "check_reports prescriptions firstReport (e # es) =
     (if \<not> enIsReport e \<or> enPrescriptionID e = [] then check_reports prescriptions firstReport es
      else case prescriptions (enPrescriptionID e) of
        None \<Rightarrow>
          violation ''unprescribed_action'' e (UnknownPrescription (enEventID e) (enPrescriptionID e))
            # check_reports prescriptions firstReport es
      | Some rx \<Rightarrow>
          (case firstReport (enPrescriptionID e) of
             Some first \<Rightarrow>
               violation ''duplicate_report'' e (DuplicateReport (enPrescriptionID e) (enEventID first))
                 # check_reports prescriptions firstReport es
           | None \<Rightarrow>
               if enActorID rx \<noteq> [] \<and> enActorID e \<noteq> [] \<and> enActorID rx \<noteq> enActorID e then
                 violation ''cross_actor_report'' e (ActorMismatch (enActorID e) (enActorID rx))
                   # check_reports prescriptions firstReport es
               else
                 (if enArtifactDigest rx \<noteq> [] \<and> enArtifactDigest e = [] \<and> enExitCode e \<noteq> None
                  then [violation ''report_without_digest'' e
                          (DigestOmitted (enEventID e) (enPrescriptionID e))]
                  else [])
                 @ check_reports prescriptions (firstReport(enPrescriptionID e \<mapsto> e)) es))"

definition DetectProtocolViolationEvents :: "SEntry list \<Rightarrow> duration \<Rightarrow> time \<Rightarrow> SignalEvent list" where
  "DetectProtocolViolationEvents entries ttl now =
     check_reports (prescriptions_by_id entries) Map.empty entries @ DetectUnreported entries ttl now"

definition DetectProtocolViolations :: "time \<Rightarrow> SEntry list \<Rightarrow> duration \<Rightarrow> SignalResult" where
  "DetectProtocolViolations now entries ttl =
     signal_result ''protocol_violation''
       (map seEntryRef (DetectProtocolViolationEvents entries ttl now))"

section \<open>Artifact drift\<close>

definition prescription_digest :: "SEntry list \<Rightarrow> string \<Rightarrow> string option" where
  "prescription_digest entries =
     collect (\<lambda>e. if enIsPrescription e \<and> enArtifactDigest e \<noteq> []
       then Some (enEventID e, enArtifactDigest e) else None) Map.empty entries"

definition DetectArtifactDrift :: "SEntry list \<Rightarrow> SignalResult" where
  "DetectArtifactDrift entries =
     signal_result ''artifact_drift''
       (map enEventID (filter (\<lambda>e. enIsReport e \<and> enPrescriptionID e \<noteq> [] \<and> enArtifactDigest e \<noteq> [] \<and>
          (case prescription_digest entries (enPrescriptionID e) of
             None \<Rightarrow> False | Some d \<Rightarrow> d \<noteq> enArtifactDigest e)) entries))"

section \<open>What the detectors mean\<close>

text \<open>Prescriptions have distinct event ids; then a lookup by id is exact.\<close>

definition distinct_prescriptions :: "SEntry list \<Rightarrow> bool" where
  "distinct_prescriptions entries \<longleftrightarrow> (\<forall>p\<in>set entries. \<forall>q\<in>set entries.
     enIsPrescription p \<and> enIsPrescription q \<and> enEventID p = enEventID q \<longrightarrow> p = q)"

lemma prescriptions_by_id_SomeD:
  "prescriptions_by_id entries i = Some p \<Longrightarrow> p \<in> set entries \<and> enIsPrescription p \<and> enEventID p = i"
  by (auto simp: prescriptions_by_id_def dest!: collect_SomeD split: if_splits)

lemma prescriptions_by_id_iff:
  "distinct_prescriptions entries \<Longrightarrow>
    prescriptions_by_id entries i = Some p \<longleftrightarrow> p \<in> set entries \<and> enIsPrescription p \<and> enEventID p = i"
  using prescriptions_by_id_SomeD [of entries i p]
  by (auto simp: prescriptions_by_id_def distinct_prescriptions_def intro!: collect_Some_unique
      split: if_splits)

lemma check_reports_unknown:
  "e \<in> set es \<Longrightarrow> enIsReport e \<Longrightarrow> enPrescriptionID e \<noteq> [] \<Longrightarrow> prescriptions (enPrescriptionID e) = None \<Longrightarrow>
    violation ''unprescribed_action'' e (UnknownPrescription (enEventID e) (enPrescriptionID e))
      \<in> set (check_reports prescriptions first es)"
  by (induction es arbitrary: first) (auto split: option.split)

lemma check_reports_unprescribed:
  "ev \<in> set (check_reports prescriptions first es) \<Longrightarrow> seSubSignal ev = ''unprescribed_action'' \<Longrightarrow>
    \<exists>e\<in>set es. enIsReport e \<and> enPrescriptionID e \<noteq> [] \<and> prescriptions (enPrescriptionID e) = None"
  by (induction es arbitrary: first) (auto simp: violation_def split: option.splits if_splits)

lemma unprescribed_iff:
  "(\<exists>ev\<in>set (DetectProtocolViolationEvents entries ttl now). seSubSignal ev = ''unprescribed_action'') \<longleftrightarrow>
    (\<exists>r\<in>set entries. enIsReport r \<and> enPrescriptionID r \<noteq> [] \<and>
       (\<forall>p\<in>set entries. enIsPrescription p \<longrightarrow> enEventID p \<noteq> enPrescriptionID r))"
proof -
  have none: "prescriptions_by_id entries i = None \<longleftrightarrow> (\<forall>p\<in>set entries. enIsPrescription p \<longrightarrow> enEventID p \<noteq> i)" for i
    by (auto simp: prescriptions_by_id_def collect_None_iff split: if_splits)
  have unrep: "seSubSignal ev \<noteq> ''unprescribed_action''" if "ev \<in> set (DetectUnreported entries ttl now)" for ev
    using that by (auto simp: DetectUnreported_def classifyUnreported_def split: option.splits if_splits)
  have rep: "(\<exists>ev\<in>set (check_reports (prescriptions_by_id entries) Map.empty entries). seSubSignal ev = ''unprescribed_action'')
      \<longleftrightarrow> (\<exists>r\<in>set entries. enIsReport r \<and> enPrescriptionID r \<noteq> [] \<and> prescriptions_by_id entries (enPrescriptionID r) = None)"
    (is "?l = ?r")
  proof
    assume ?l
    then show ?r using check_reports_unprescribed by blast
  next
    assume ?r
    then obtain r where "r \<in> set entries" "enIsReport r" "enPrescriptionID r \<noteq> []"
      "prescriptions_by_id entries (enPrescriptionID r) = None" by blast
    from check_reports_unknown [of r entries "prescriptions_by_id entries" Map.empty, OF this] show ?l by (rule rev_bexI) (simp add: violation_def)
  qed
  show ?thesis unfolding DetectProtocolViolationEvents_def set_append bex_Un rep none [symmetric] using unrep by blast
qed

text \<open>What a report must satisfy, given the prescriptions answered before it.\<close>

definition good_report :: "(string \<Rightarrow> SEntry option) \<Rightarrow> SEntry \<Rightarrow> bool" where
  "good_report prescriptions e \<longleftrightarrow>
     (\<exists>rx. prescriptions (enPrescriptionID e) = Some rx \<and>
       (enActorID rx = [] \<or> enActorID e = [] \<or> enActorID rx = enActorID e) \<and>
       (enArtifactDigest rx = [] \<or> enArtifactDigest e \<noteq> [] \<or> enExitCode e = None))"

definition answers :: "SEntry list \<Rightarrow> string list" where
  "answers entries = map enPrescriptionID (filter (\<lambda>e. enIsReport e \<and> enPrescriptionID e \<noteq> []) entries)"

lemma check_reports_Nil_iff:
  "check_reports prescriptions firstReport es = [] \<longleftrightarrow>
     (\<forall>e\<in>set es. enIsReport e \<and> enPrescriptionID e \<noteq> [] \<longrightarrow> good_report prescriptions e) \<and>
     distinct (answers es) \<and> set (answers es) \<inter> dom firstReport = {}"
proof (induction es arbitrary: firstReport)
  case Nil
  then show ?case by (simp add: answers_def)
next
  case (Cons e es)
  show ?case
  proof (cases "enIsReport e \<and> enPrescriptionID e \<noteq> []")
    case False
    then show ?thesis using Cons.IH [of firstReport] by (auto simp: answers_def)
  next
    case True
    then have ans: "answers (e # es) = enPrescriptionID e # answers es" by (simp add: answers_def)
    show ?thesis
    proof (cases "good_report prescriptions e \<and> firstReport (enPrescriptionID e) = None")
      case True
      then obtain rx where rx: "prescriptions (enPrescriptionID e) = Some rx"
        "enActorID rx = [] \<or> enActorID e = [] \<or> enActorID rx = enActorID e"
        "enArtifactDigest rx = [] \<or> enArtifactDigest e \<noteq> [] \<or> enExitCode e = None"
        by (auto simp: good_report_def)
      have "check_reports prescriptions firstReport (e # es) = []
          \<longleftrightarrow> check_reports prescriptions (firstReport(enPrescriptionID e \<mapsto> e)) es = []"
        using rx True \<open>enIsReport e \<and> enPrescriptionID e \<noteq> []\<close> by auto
      moreover have "distinct (answers es) \<and> set (answers es) \<inter> dom (firstReport(enPrescriptionID e \<mapsto> e)) = {}
          \<longleftrightarrow> distinct (answers (e # es)) \<and> set (answers (e # es)) \<inter> dom firstReport = {}"
        using True unfolding ans by (auto simp: domIff)
      moreover have "(\<forall>x\<in>set (e # es). enIsReport x \<and> enPrescriptionID x \<noteq> [] \<longrightarrow> good_report prescriptions x)
          \<longleftrightarrow> (\<forall>x\<in>set es. enIsReport x \<and> enPrescriptionID x \<noteq> [] \<longrightarrow> good_report prescriptions x)"
        using True by simp
      ultimately show ?thesis
        using Cons.IH [of "firstReport(enPrescriptionID e \<mapsto> e)"] by blast
    next
      case bad: False
      then have "check_reports prescriptions firstReport (e # es) \<noteq> []"
        using True by (auto simp: good_report_def split: option.splits if_splits)
      moreover have "\<not> good_report prescriptions e \<or> enPrescriptionID e \<in> dom firstReport"
        using bad by auto
      ultimately show ?thesis using True ans by auto
    qed
  qed
qed

lemma DetectUnreported_Nil_iff:
  "DetectUnreported entries ttl now = [] \<longleftrightarrow> (\<forall>p\<in>set entries. enIsPrescription p \<longrightarrow>
     enEventID p \<in> reported_ids entries \<or> TimeSub now (enTimestamp p) \<le> ttl)"
  by (auto simp: DetectUnreported_def filter_empty_conv not_le)

end
