(* ===== verification/Signal_Loops.thy ===== *)
theory Signal_Loops
  imports Signal_Types
begin

text \<open>
  The detectors of loops (\<^verbatim>\<open>retry_loop.go\<close>, \<^verbatim>\<open>repair_loop.go\<close>, \<^verbatim>\<open>thrashing.go\<close>). The order in which the
  runtime visits the groups of a map and its unstable sort by time are the arguments \<open>ord\<close> and \<open>srt\<close>.
\<close>

definition failed_entry :: "(string \<Rightarrow> int option option) \<Rightarrow> SEntry \<Rightarrow> bool" where
  "failed_entry exits e \<longleftrightarrow> (\<exists>c. exits (enEventID e) = Some (Some c) \<and> c \<noteq> 0)"

definition succeeded_entry :: "(string \<Rightarrow> int option option) \<Rightarrow> SEntry \<Rightarrow> bool" where
  "succeeded_entry exits e \<longleftrightarrow> exits (enEventID e) = Some (Some 0)"

lemma failed_entry_code [code]:
  "failed_entry exits e = (case exits (enEventID e) of Some (Some c) \<Rightarrow> c \<noteq> 0 | _ \<Rightarrow> False)"
  by (auto simp: failed_entry_def split: option.split)

section \<open>Retry loops\<close>

definition DefaultRetryThreshold :: nat where "DefaultRetryThreshold = 3"
definition DefaultVariantRetryThreshold :: nat where "DefaultVariantRetryThreshold = 5"
definition DefaultRetryWindow :: duration where "DefaultRetryWindow = 30 * Minute"

definition flush_chain :: "nat \<Rightarrow> SEntry list \<Rightarrow> string list" where
  "flush_chain threshold chain = (if threshold \<le> length chain then map enEventID chain else [])"

text \<open>The loop over one group: the chain so far (empty before the first failure) and the event ids.\<close>

fun retry_group ::
  "(string \<Rightarrow> int option option) \<Rightarrow> nat \<Rightarrow> duration \<Rightarrow> SEntry list \<Rightarrow> SEntry list \<Rightarrow> string list" where
  "retry_group exits threshold window chain [] = flush_chain threshold chain"
| "retry_group exits threshold window [] (e # es) =
     (if failed_entry exits e then retry_group exits threshold window [e] es
      else retry_group exits threshold window [] es)"
| "retry_group exits threshold window (c # cs) (e # es) =
     (if window < TimeSub (enTimestamp e) (enTimestamp c) then
        flush_chain threshold (c # cs)
          @ (if failed_entry exits e then retry_group exits threshold window [e] es
             else retry_group exits threshold window [] es)
      else if succeeded_entry exits e then
        flush_chain threshold (c # cs) @ retry_group exits threshold window [] es
      else retry_group exits threshold window (c # cs @ [e]) es)"

definition detectRetryLoopChains ::
  "(string list \<Rightarrow> string list) \<Rightarrow> (SEntry list \<Rightarrow> SEntry list) \<Rightarrow> SEntry list \<Rightarrow> nat \<Rightarrow> duration
    \<Rightarrow> (SEntry \<Rightarrow> string option) \<Rightarrow> SignalResult" where
  "detectRetryLoopChains ord srt entries threshold window groupKey =
     signal_result ''retry_loop''
       (concat (map (\<lambda>k. retry_group (report_exit entries) threshold window [] (srt (group_of groupKey entries k)))
          (ord (group_keys groupKey entries))))"

definition exact_key :: "SEntry \<Rightarrow> string option" where
  "exact_key e = (if \<not> enIsPrescription e \<or> enIntentDigest e = [] then None
     else Some (enActorID e @ ''|'' @ enIntentDigest e @ ''|'' @ enShapeHash e))"

definition variant_key :: "SEntry \<Rightarrow> string option" where
  "variant_key e = (if \<not> enIsPrescription e then None
     else Some (enActorID e @ ''|'' @ enTool e @ ''|'' @ enOperationClass e @ ''|'' @ enScopeClass e))"

definition DetectRetryLoopsWithConfig where
  "DetectRetryLoopsWithConfig ord srt entries threshold window =
     detectRetryLoopChains ord srt entries threshold window exact_key"

definition DetectVariantRetryLoopsWithConfig where
  "DetectVariantRetryLoopsWithConfig ord srt entries threshold window =
     detectRetryLoopChains ord srt entries threshold window variant_key"

text \<open>Each of the two detections visits its own map: \<open>ord\<close> and \<open>ord'\<close>.\<close>

definition DetectRetryLoops ::
  "(string list \<Rightarrow> string list) \<Rightarrow> (string list \<Rightarrow> string list) \<Rightarrow> (SEntry list \<Rightarrow> SEntry list)
    \<Rightarrow> SEntry list \<Rightarrow> SignalResult" where
  "DetectRetryLoops ord ord' srt entries =
     signal_result ''retry_loop''
       (keys_of (srEventIDs (DetectRetryLoopsWithConfig ord srt entries DefaultRetryThreshold DefaultRetryWindow)
         @ srEventIDs (DetectVariantRetryLoopsWithConfig ord' srt entries DefaultVariantRetryThreshold
             DefaultRetryWindow)))"

section \<open>Repair loops\<close>

text \<open>The loop over one group: the digest of the last failure, if one was seen, and the event ids.\<close>

fun repair_group :: "(string \<Rightarrow> int option) \<Rightarrow> string option \<Rightarrow> SEntry list \<Rightarrow> string list" where
  "repair_group exits failed [] = []"
| "repair_group exits failed (p # ps) =
     (case exits (enEventID p) of
        None \<Rightarrow> repair_group exits failed ps
      | Some c \<Rightarrow>
          if c \<noteq> 0 then repair_group exits (Some (enArtifactDigest p)) ps
          else (case failed of
                  None \<Rightarrow> []
                | Some d \<Rightarrow> if d \<noteq> [] \<and> enArtifactDigest p \<noteq> d then [enEventID p] else [])
               @ repair_group exits None ps)"

definition repair_key :: "SEntry \<Rightarrow> (string \<times> string) option" where
  "repair_key e = (if \<not> enIsPrescription e \<or> enIntentDigest e = [] then None
     else Some (enActorID e, enIntentDigest e))"

definition DetectRepairLoop ::
  "((string \<times> string) list \<Rightarrow> (string \<times> string) list) \<Rightarrow> (SEntry list \<Rightarrow> SEntry list)
    \<Rightarrow> SEntry list \<Rightarrow> SignalResult" where
  "DetectRepairLoop ord srt entries =
     signal_result ''repair_loop''
       (concat (map (\<lambda>k. let group = group_of repair_key entries k in
            if length group < 2 then [] else repair_group (exit_of entries) None (srt group))
          (ord (group_keys repair_key entries))))"

section \<open>Thrashing\<close>

definition ThrashingThreshold :: nat where "ThrashingThreshold = 3"

text \<open>The loop: the entries of the window, the ids flagged so far, in order.\<close>

fun thrash_loop ::
  "(string \<Rightarrow> int option) \<Rightarrow> nat \<Rightarrow> SEntry list \<Rightarrow> string list \<Rightarrow> SEntry list \<Rightarrow> string list" where
  "thrash_loop exits threshold window flagged [] = flagged"
| "thrash_loop exits threshold window flagged (p # ps) =
     (case exits (enEventID p) of
        None \<Rightarrow> thrash_loop exits threshold window flagged ps
      | Some c \<Rightarrow>
          if c = 0 then thrash_loop exits threshold [] flagged ps
          else (let window' = window @ [p] in
            if threshold \<le> card (enIntentDigest ` set window')
            then thrash_loop exits threshold []
                   (keys_of (flagged @ map enEventID window')) ps
            else thrash_loop exits threshold window' flagged ps))"

definition DetectThrashingWithThreshold :: "(SEntry list \<Rightarrow> SEntry list) \<Rightarrow> SEntry list \<Rightarrow> nat \<Rightarrow> SignalResult" where
  "DetectThrashingWithThreshold srt entries threshold =
     signal_result ''thrashing''
       (thrash_loop (exit_of entries) threshold [] []
          (srt (filter (\<lambda>e. enIsPrescription e \<and> enIntentDigest e \<noteq> []) entries)))"

definition DetectThrashing :: "(SEntry list \<Rightarrow> SEntry list) \<Rightarrow> SEntry list \<Rightarrow> SignalResult" where
  "DetectThrashing srt entries = DetectThrashingWithThreshold srt entries ThrashingThreshold"

section \<open>What a retry loop is\<close>

text \<open>
  A chain: at least \<open>threshold\<close> consecutive entries of the group, the first of them failed, none of the
  others succeeded, all within \<open>window\<close> of the first.
\<close>

definition retry_chain ::
  "(string \<Rightarrow> int option option) \<Rightarrow> duration \<Rightarrow> SEntry list \<Rightarrow> bool" where
  "retry_chain exits window chain \<longleftrightarrow> (case chain of [] \<Rightarrow> True
     | c # cs \<Rightarrow> failed_entry exits c \<and> (\<forall>e\<in>set cs. \<not> succeeded_entry exits e \<and>
         TimeSub (enTimestamp e) (enTimestamp c) \<le> window))"

lemma retry_group_sound:
  assumes "i \<in> set (retry_group exits threshold window chain es)"
    and "retry_chain exits window chain"
  shows "\<exists>pre cs post. chain @ es = pre @ cs @ post \<and> threshold \<le> length cs \<and> cs \<noteq> [] \<and>
    retry_chain exits window cs \<and> i \<in> enEventID ` set cs"
  using assms
proof (induction exits threshold window chain es rule: retry_group.induct)
  case (1 exits threshold window chain)
  then have "threshold \<le> length chain \<and> i \<in> enEventID ` set chain"
    by (auto simp: flush_chain_def split: if_splits)
  with 1 show ?case by (intro exI [of _ "[]"] exI [of _ chain]) auto
next
  case (2 exits threshold window e es)
  show ?case
  proof (cases "failed_entry exits e")
    case True
    then have "retry_chain exits window [e]" by (simp add: retry_chain_def)
    with 2 True show ?thesis by auto
  next
    case False
    with 2 obtain pre cs post where "es = pre @ cs @ post" "threshold \<le> length cs" "cs \<noteq> []"
      "retry_chain exits window cs" "i \<in> enEventID ` set cs"
      by (auto simp: retry_chain_def)
    then show ?thesis by (intro exI [of _ "e # pre"] exI [of _ cs] exI [of _ post]) auto
  qed
next
  case (3 exits threshold window c cs e es)
  let ?chain = "c # cs"
  have flush: "\<exists>pre ds post. ?chain @ e # es = pre @ ds @ post \<and> threshold \<le> length ds \<and> ds \<noteq> [] \<and>
      retry_chain exits window ds \<and> i \<in> enEventID ` set ds"
    if "i \<in> set (flush_chain threshold ?chain)"
  proof -
    from that have "threshold \<le> length ?chain \<and> i \<in> enEventID ` set ?chain"
      by (auto simp: flush_chain_def split: if_splits)
    with "3.prems"(2) show ?thesis
      by (intro exI [of _ "[]"] exI [of _ ?chain] exI [of _ "e # es"]) simp
  qed
  have later: "\<exists>pre ds post. ?chain @ e # es = pre @ ds @ post \<and> threshold \<le> length ds \<and> ds \<noteq> [] \<and>
      retry_chain exits window ds \<and> i \<in> enEventID ` set ds"
    if "\<exists>pre ds post. xs @ es = pre @ ds @ post \<and> threshold \<le> length ds \<and> ds \<noteq> [] \<and>
      retry_chain exits window ds \<and> i \<in> enEventID ` set ds" "ys @ xs @ es = ?chain @ e # es" for xs ys
    using that by (metis append.assoc)
  have skip: "(?chain @ [e]) @ [] @ es = ?chain @ e # es" "?chain @ [e] @ es = ?chain @ e # es"
    "[] @ (c # cs @ [e]) @ es = ?chain @ e # es" by simp_all
  show ?case
  proof (cases "window < TimeSub (enTimestamp e) (enTimestamp c)")
    case True
    have single: "failed_entry exits e \<Longrightarrow> retry_chain exits window [e]" "retry_chain exits window []"
      by (simp_all add: retry_chain_def)
    from "3.prems"(1) True consider "i \<in> set (flush_chain threshold ?chain)"
      | "failed_entry exits e" "i \<in> set (retry_group exits threshold window [e] es)"
      | "\<not> failed_entry exits e" "i \<in> set (retry_group exits threshold window [] es)"
      by (auto split: if_splits)
    then show ?thesis
    proof cases
      case 1
      then show ?thesis by (rule flush)
    next
      case 2
      from later [OF "3.IH"(1) [OF True 2(1,2) single(1) [OF 2(1)]] skip(2)] show ?thesis .
    next
      case 3
      from later [OF "3.IH"(2) [OF True 3(1,2) single(2)] skip(1)] show ?thesis .
    qed
  next
    case near: False
    show ?thesis
    proof (cases "succeeded_entry exits e")
      case True
      with "3.prems"(1) near consider "i \<in> set (flush_chain threshold ?chain)"
        | "i \<in> set (retry_group exits threshold window [] es)" by auto
      then show ?thesis
      proof cases
        case 1
        then show ?thesis by (rule flush)
      next
        case 2
        have "retry_chain exits window []" by (simp add: retry_chain_def)
        from later [OF "3.IH"(3) [OF near True 2 this] skip(1)] show ?thesis .
      qed
    next
      case False
      have "retry_chain exits window (c # cs @ [e])"
        using "3.prems"(2) near False by (auto simp: retry_chain_def)
      moreover have "i \<in> set (retry_group exits threshold window (c # cs @ [e]) es)"
        using "3.prems"(1) near False by simp
      ultimately show ?thesis using later [OF "3.IH"(4) [OF near False] skip(3)] by blast
    qed
  qed
qed

text \<open>A detected id comes from a chain of one group, in the order of time.\<close>

lemma detectRetryLoopChains_sound:
  assumes "visits ord" and srt: "sorts enTimestamp srt"
    and "i \<in> set (srEventIDs (detectRetryLoopChains ord srt entries threshold window key))"
  shows "\<exists>k cs. set cs \<subseteq> set entries \<and> (\<forall>e\<in>set cs. key e = Some k) \<and> threshold \<le> length cs \<and> cs \<noteq> [] \<and>
    sorted (map enTimestamp cs) \<and> retry_chain (report_exit entries) window cs \<and> i \<in> enEventID ` set cs"
proof -
  from assms(3) obtain k where
    "i \<in> set (retry_group (report_exit entries) threshold window [] (srt (group_of key entries k)))"
    by (auto simp: detectRetryLoopChains_def signal_result_def)
  from retry_group_sound [OF this] obtain pre cs post where
    cs: "srt (group_of key entries k) = pre @ cs @ post" "threshold \<le> length cs" "cs \<noteq> []"
      "retry_chain (report_exit entries) window cs" "i \<in> enEventID ` set cs"
    by (auto simp: retry_chain_def)
  have "set cs \<subseteq> set (group_of key entries k)"
    using cs(1) sorts_set [OF srt] by (metis le_sup_iff set_append subset_refl)
  moreover have "sorted (map enTimestamp cs)"
    using sorts_sorted [OF srt, of "group_of key entries k"] by (simp add: cs(1) sorted_append)
  ultimately show ?thesis
    using cs by (intro exI [of _ k] exI [of _ cs]) (auto simp: group_of_set)
qed

lemma detectRetryLoopChains_order:
  assumes "visits ord" "visits ord'"
  shows "mset (srEventIDs (detectRetryLoopChains ord srt entries n w key))
    = mset (srEventIDs (detectRetryLoopChains ord' srt entries n w key))"
  using visits_concat [OF assms] by (simp add: detectRetryLoopChains_def signal_result_def)

lemma length_keys_of: "length (keys_of xs) = card (set xs)"
  by (metis distinct_card distinct_keys_of set_keys_of)

section \<open>What a repair is\<close>

lemma repair_group_sound:
  assumes "i \<in> set (repair_group exits failed ps)"
    and "\<And>d. failed = Some d \<Longrightarrow> \<exists>f\<in>set before. enArtifactDigest f = d \<and> (\<exists>c. exits (enEventID f) = Some c \<and> c \<noteq> 0)"
  shows "\<exists>pre p post. ps = pre @ p # post \<and> i = enEventID p \<and> exits (enEventID p) = Some 0 \<and>
    (\<exists>f\<in>set before \<union> set pre. (\<exists>c. exits (enEventID f) = Some c \<and> c \<noteq> 0) \<and>
      enArtifactDigest f \<noteq> [] \<and> enArtifactDigest f \<noteq> enArtifactDigest p)"
  using assms
proof (induction exits failed ps arbitrary: before rule: repair_group.induct)
  case (1 exits failed)
  then show ?case by simp
next
  case (2 exits failed p ps)
  have step: ?case if "\<exists>pre q post. ps = pre @ q # post \<and> i = enEventID q \<and> exits (enEventID q) = Some 0 \<and>
      (\<exists>f\<in>set (before @ [p]) \<union> set pre. (\<exists>c. exits (enEventID f) = Some c \<and> c \<noteq> 0) \<and>
        enArtifactDigest f \<noteq> [] \<and> enArtifactDigest f \<noteq> enArtifactDigest q)"
  proof -
    from that obtain pre q post where q: "ps = pre @ q # post" "i = enEventID q" "exits (enEventID q) = Some 0"
      "\<exists>f\<in>set (before @ [p]) \<union> set pre. (\<exists>c. exits (enEventID f) = Some c \<and> c \<noteq> 0) \<and>
        enArtifactDigest f \<noteq> [] \<and> enArtifactDigest f \<noteq> enArtifactDigest q" by blast
    then show ?thesis by (intro exI [of _ "p # pre"] exI [of _ q] exI [of _ post]) auto
  qed
  show ?case
  proof (cases "exits (enEventID p)")
    case None
    have "i \<in> set (repair_group exits failed ps)" using "2.prems"(1) None by simp
    from "2.IH"(1) [OF None this, of "before @ [p]"] "2.prems"(2) show ?thesis by (intro step) fastforce
  next
    case (Some c)
    show ?thesis
    proof (cases "c = 0")
      case False
      have "i \<in> set (repair_group exits (Some (enArtifactDigest p)) ps)" using "2.prems"(1) Some False by simp
      from "2.IH"(2) [OF Some False this, of "before @ [p]"] Some False show ?thesis by (intro step) auto
    next
      case True
      with "2.prems"(1) Some consider d where "failed = Some d" "d \<noteq> []" "enArtifactDigest p \<noteq> d" "i = enEventID p"
        | "i \<in> set (repair_group exits None ps)"
        by (auto split: option.splits if_splits)
      then show ?thesis
      proof cases
        case 1
        then show ?thesis
          using "2.prems"(2) [OF 1(1)] Some True
          by (intro exI [of _ "[]"] exI [of _ p] exI [of _ ps]) auto
      next
        case 2
        have "\<not> c \<noteq> 0" using True by simp
        from "2.IH"(3) [OF Some this 2, of "before @ [p]"] show ?thesis by (intro step) auto
      qed
    qed
  qed
qed

section \<open>What thrashing is\<close>

text \<open>A flagged id is that of a failure in a stretch without success with enough distinct failed intents.\<close>

definition fails :: "(string \<Rightarrow> int option) \<Rightarrow> SEntry \<Rightarrow> bool" where
  "fails exits e \<longleftrightarrow> exits (enEventID e) \<noteq> None \<and> exits (enEventID e) \<noteq> Some 0"

definition thrashing_stretch :: "(string \<Rightarrow> int option) \<Rightarrow> nat \<Rightarrow> SEntry list \<Rightarrow> bool" where
  "thrashing_stretch exits threshold sg \<longleftrightarrow> (\<forall>e\<in>set sg. exits (enEventID e) \<noteq> Some 0) \<and>
     threshold \<le> card (enIntentDigest ` set (filter (fails exits) sg))"

lemma thrash_loop_sound:
  assumes "i \<in> set (thrash_loop exits threshold (filter (fails exits) seg) flagged ps)"
    and "\<forall>e\<in>set seg. exits (enEventID e) \<noteq> Some 0"
  shows "i \<in> set flagged \<or> (\<exists>pre sg post. before @ seg @ ps = pre @ sg @ post \<and>
    thrashing_stretch exits threshold sg \<and> i \<in> enEventID ` set (filter (fails exits) sg))"
  using assms
proof (induction ps arbitrary: before seg flagged)
  case Nil
  then show ?case by simp
next
  case (Cons p ps)
  have shift: "before @ seg @ p # ps = (before @ seg @ [p]) @ [] @ ps"
    "before @ seg @ p # ps = before @ (seg @ [p]) @ ps" by simp_all
  let ?ok = "\<lambda>flagged. i \<in> set flagged \<or> (\<exists>pre sg post. before @ seg @ p # ps = pre @ sg @ post \<and>
    thrashing_stretch exits threshold sg \<and> i \<in> enEventID ` set (filter (fails exits) sg))"
  show ?case
  proof (cases "fails exits p")
    case False
    show ?thesis
    proof (cases "exits (enEventID p) = Some 0")
      case True
      then have "i \<in> set (thrash_loop exits threshold (filter (fails exits) []) flagged ps)"
        using Cons.prems(1) by simp
      from Cons.IH [OF this, of "before @ seg @ [p]"] show ?thesis by simp
    next
      case no: False
      with False have none: "exits (enEventID p) = None" by (simp add: fails_def)
      then have "i \<in> set (thrash_loop exits threshold (filter (fails exits) (seg @ [p])) flagged ps)"
        using Cons.prems(1) False by simp
      from Cons.IH [OF this, of before] show ?thesis using Cons.prems(2) none by simp
    qed
  next
    case True
    then obtain c where c: "exits (enEventID p) = Some c" "c \<noteq> 0" by (auto simp: fails_def)
    let ?seg = "seg @ [p]"
    let ?w = "filter (fails exits) ?seg"
    have nosucc: "\<forall>e\<in>set ?seg. exits (enEventID e) \<noteq> Some 0" using Cons.prems(2) c by auto
    have w: "filter (fails exits) seg @ [p] = ?w" using True by simp
    show ?thesis
    proof (cases "threshold \<le> card (enIntentDigest ` set ?w)")
      case flag: True
      then have "i \<in> set (thrash_loop exits threshold (filter (fails exits) [])
          (keys_of (flagged @ map enEventID ?w)) ps)"
        using Cons.prems(1) c by (simp only: thrash_loop.simps option.case if_False Let_def w if_True filter.simps)
      from Cons.IH [OF this, of "before @ ?seg"]
      consider "i \<in> set flagged" | "i \<in> enEventID ` set ?w"
        | "\<exists>pre sg post. before @ seg @ p # ps = pre @ sg @ post \<and>
            thrashing_stretch exits threshold sg \<and> i \<in> enEventID ` set (filter (fails exits) sg)"
        by (auto simp del: filter_append)
      then show ?thesis
      proof cases
        case 2
        have "thrashing_stretch exits threshold ?seg" using nosucc flag by (simp add: thrashing_stretch_def)
        with 2 show ?thesis using shift(2) by blast
      qed blast+
    next
      case short: False
      then have "i \<in> set (thrash_loop exits threshold ?w flagged ps)"
        using Cons.prems(1) c by (simp only: thrash_loop.simps option.case if_False Let_def w)
      from Cons.IH [OF this nosucc, of before] show ?thesis by simp
    qed
  qed
qed

lemma thrash_loop_distinct:
  "distinct flagged \<Longrightarrow> distinct (thrash_loop exits threshold window flagged ps)"
  by (induction exits threshold window flagged ps rule: thrash_loop.induct)
    (auto simp: Let_def split: option.split)

end
