(* ===== verification/Signal_Scope.thy ===== *)
theory Signal_Scope
  imports Signal_Types Risk
begin

text \<open>
  The detectors of scope and risk (\<^verbatim>\<open>blast_radius.go\<close>, \<^verbatim>\<open>new_scope.go\<close>, \<^verbatim>\<open>risk_escalation.go\<close>). The
  baseline of an actor with a tool is the most frequent severity in its recent history, the lowest
  of several; it is found by visiting a map, whose order is the argument \<open>ord\<close>.
\<close>

section \<open>Blast radius\<close>

definition BlastRadiusThreshold :: int where "BlastRadiusThreshold = 5"

definition DetectBlastRadius :: "SEntry list \<Rightarrow> SignalResult" where
  "DetectBlastRadius entries =
     signal_result ''blast_radius''
       (map enEventID (filter (\<lambda>e. enIsPrescription e \<and> enResourceCount e \<noteq> 0 \<and>
          enOperationClass e = ''destroy'' \<and> BlastRadiusThreshold < enResourceCount e) entries))"

section \<open>New scope\<close>

type_synonym scope_tuple = "string \<times> string \<times> string \<times> string"

definition scope_key :: "SEntry \<Rightarrow> scope_tuple" where
  "scope_key e = (enActorID e, enTool e, enOperationClass e, enScopeClass e)"

fun new_scope_loop :: "scope_tuple list \<Rightarrow> bool \<Rightarrow> SEntry list \<Rightarrow> string list" where
  "new_scope_loop seen first [] = []"
| "new_scope_loop seen first (e # es) =
     (if \<not> enIsPrescription e then new_scope_loop seen first es
      else if scope_key e \<in> set seen then new_scope_loop seen first es
      else if first then new_scope_loop (scope_key e # seen) False es
      else enEventID e # new_scope_loop (scope_key e # seen) False es)"

definition DetectNewScope :: "SEntry list \<Rightarrow> SignalResult" where
  "DetectNewScope entries = signal_result ''new_scope'' (new_scope_loop [] True entries)"

section \<open>Risk escalation\<close>

definition BaselineWindow :: duration where "BaselineWindow = 30 * 24 * 60 * Minute"
definition MinBaselineSamples :: nat where "MinBaselineSamples = 3"

definition severityLabel :: "int \<Rightarrow> string" where
  "severityLabel sev =
     (if sev = 0 then ''low'' else if sev = 1 then ''medium'' else if sev = 2 then ''high''
      else if sev = 3 then ''critical'' else [])"

type_synonym severityEntry = "time \<times> int"

definition withinWindow :: "severityEntry list \<Rightarrow> time \<Rightarrow> severityEntry list" where
  "withinWindow hist anchor =
     filter (\<lambda>(ts, sev). \<not> ts < anchor - BaselineWindow \<and> ts < anchor) hist"

definition baseline_step :: "(int \<Rightarrow> nat) \<Rightarrow> int \<Rightarrow> int \<times> nat \<Rightarrow> int \<times> nat" where
  "baseline_step counts sev best =
     (case best of (bestSev, bestCount) \<Rightarrow>
        if bestCount < counts sev \<or> counts sev = bestCount \<and> (bestSev = - 1 \<or> sev < bestSev)
        then (sev, counts sev) else best)"

definition baselineSeverity :: "(int list \<Rightarrow> int list) \<Rightarrow> severityEntry list \<Rightarrow> int" where
  "baselineSeverity ord entries =
     (if entries = [] then 0
      else fst (fold (baseline_step (count (mset (map snd entries)))) (ord (keys_of (map snd entries))) (- 1, 0)))"

definition entry_level :: "SEntry \<Rightarrow> string" where
  "entry_level e = ElevateRiskLevel (RiskLevel (enOperationClass e) (enScopeClass e)) (enRiskTags e)"

definition riskSeverityOrder :: "string \<Rightarrow> int" where
  "riskSeverityOrder level = (case riskSeverity level of None \<Rightarrow> 0 | Some s \<Rightarrow> s)"

definition escalation_event :: "string \<Rightarrow> SEntry \<Rightarrow> string \<Rightarrow> SignalEvent" where
  "escalation_event sub e baselineLabel =
     \<lparr>seSignal = ''risk_escalation'', seSubSignal = sub, seTimestamp = enTimestamp e,
      seEntryRef = enEventID e, seDetails = Baseline baselineLabel (entry_level e)\<rparr>"

definition check_escalation :: "(int list \<Rightarrow> int list) \<Rightarrow> severityEntry list \<Rightarrow> SEntry \<Rightarrow> SignalEvent list" where
  "check_escalation ord hist e =
     (let prior = withinWindow hist (enTimestamp e); sev = riskSeverityOrder (entry_level e) in
      if MinBaselineSamples \<le> length prior then
        (let baseline = baselineSeverity ord prior in
         if baseline < sev then [escalation_event ''risk_escalation'' e (severityLabel baseline)]
         else if sev < baseline then [escalation_event ''risk_demotion'' e (severityLabel baseline)]
         else [])
      else [])"

fun escalation_loop ::
  "(int list \<Rightarrow> int list) \<Rightarrow> (string \<times> string \<Rightarrow> severityEntry list) \<Rightarrow> SEntry list \<Rightarrow> SignalEvent list" where
  "escalation_loop ord history [] = []"
| "escalation_loop ord history (e # es) =
     (if \<not> enIsPrescription e then escalation_loop ord history es
      else (let k = (enActorID e, enTool e) in
        check_escalation ord (history k) e @
        escalation_loop ord (history(k := history k @
          [(enTimestamp e, riskSeverityOrder (entry_level e))])) es))"

definition DetectRiskEscalationEvents :: "(int list \<Rightarrow> int list) \<Rightarrow> SEntry list \<Rightarrow> SignalEvent list" where
  "DetectRiskEscalationEvents ord entries = escalation_loop ord (\<lambda>_. []) entries"

definition DetectRiskEscalation :: "(int list \<Rightarrow> int list) \<Rightarrow> SEntry list \<Rightarrow> SignalResult" where
  "DetectRiskEscalation ord entries =
     signal_result ''risk_escalation''
       (map seEntryRef (filter (\<lambda>ev. seSubSignal ev = ''risk_escalation'') (DetectRiskEscalationEvents ord entries)))"

section \<open>New scopes are the distinct keys but one\<close>

definition prescription_keys :: "SEntry list \<Rightarrow> scope_tuple set" where
  "prescription_keys entries = scope_key ` {e \<in> set entries. enIsPrescription e}"

lemma new_scope_length:
  "length (new_scope_loop seen first es) + (if first \<and> prescription_keys es - set seen \<noteq> {} then 1 else 0)
    = card (prescription_keys es - set seen)"
proof (induction es arbitrary: seen first)
  case Nil
  then show ?case by (simp add: prescription_keys_def)
next
  case (Cons e es)
  show ?case
  proof (cases "enIsPrescription e \<and> scope_key e \<notin> set seen")
    case False
    then have "prescription_keys (e # es) - set seen = prescription_keys es - set seen"
      by (auto simp: prescription_keys_def)
    then show ?thesis
      using Cons [of seen first] False by (cases "enIsPrescription e") simp_all
  next
    case True
    let ?k = "scope_key e"
    have eq: "prescription_keys (e # es) - set seen = insert ?k (prescription_keys es - set (?k # seen))"
      using True by (auto simp: prescription_keys_def)
    have "finite (prescription_keys es)" by (simp add: prescription_keys_def)
    then have "card (prescription_keys (e # es) - set seen) = Suc (card (prescription_keys es - set (?k # seen)))"
      unfolding eq by (subst card_insert_disjoint) auto
    moreover have "prescription_keys (e # es) - set seen \<noteq> {}" unfolding eq by blast
    ultimately show ?thesis
      using True Cons [of "?k # seen" False] by simp
  qed
qed

section \<open>The baseline is the lowest mode\<close>

definition is_mode :: "int list \<Rightarrow> int \<Rightarrow> bool" where
  "is_mode xs s \<longleftrightarrow> s \<in> set xs \<and> (\<forall>t\<in>set xs. count (mset xs) t < count (mset xs) s \<or>
     count (mset xs) t = count (mset xs) s \<and> s \<le> t)"

lemma is_mode_unique: "is_mode xs s \<Longrightarrow> is_mode xs t \<Longrightarrow> s = t"
proof -
  assume s: "is_mode xs s" and t: "is_mode xs t"
  then have "count (mset xs) t < count (mset xs) s \<or> count (mset xs) t = count (mset xs) s \<and> s \<le> t"
    "count (mset xs) s < count (mset xs) t \<or> count (mset xs) s = count (mset xs) t \<and> t \<le> s"
    unfolding is_mode_def by blast+
  then show "s = t" by linarith
qed

text \<open>What the loop keeps: the best of the keys visited so far.\<close>

lemma baseline_fold:
  assumes "\<forall>k\<in>set ks. 0 < counts k \<and> 0 \<le> k" and "ks \<noteq> []"
  shows "\<exists>s. fold (baseline_step counts) ks (- 1, 0) = (s, counts s) \<and> s \<in> set ks \<and>
    (\<forall>t\<in>set ks. counts t < counts s \<or> counts t = counts s \<and> s \<le> t)"
  using assms
proof (induction ks rule: rev_induct)
  case Nil
  then show ?case by simp
next
  case (snoc k ks)
  show ?case
  proof (cases "ks = []")
    case True
    with snoc.prems show ?thesis by (simp add: baseline_step_def)
  next
    case False
    then obtain s where s: "fold (baseline_step counts) ks (- 1, 0) = (s, counts s)" "s \<in> set ks"
      "\<forall>t\<in>set ks. counts t < counts s \<or> counts t = counts s \<and> s \<le> t"
      using snoc by auto
    have "s \<noteq> - 1" using s(2) snoc.prems(1) by force
    moreover have "fold (baseline_step counts) (ks @ [k]) (- 1, 0) = baseline_step counts k (s, counts s)"
      by (simp add: s(1))
    ultimately have "fold (baseline_step counts) (ks @ [k]) (- 1, 0) =
        (if counts s < counts k \<or> counts k = counts s \<and> k < s then (k, counts k) else (s, counts s))"
      by (simp add: baseline_step_def)
    then show ?thesis
      using s(2,3) by (cases "counts s < counts k \<or> counts k = counts s \<and> k < s") fastforce+
  qed
qed

lemma baselineSeverity_mode:
  assumes "visits ord" and "entries \<noteq> []" and "\<forall>e\<in>set entries. 0 \<le> snd e"
  shows "is_mode (map snd entries) (baselineSeverity ord entries)"
proof -
  let ?xs = "map snd entries"
  let ?ks = "ord (keys_of ?xs)"
  have set: "set ?ks = set ?xs" using assms(1) by simp
  have "\<forall>k\<in>set ?ks. 0 < count (mset ?xs) k \<and> 0 \<le> k"
    unfolding set using assms(3) by (auto simp: count_greater_zero_iff)
  moreover have "?ks \<noteq> []" using set assms(2) by (metis list.map_disc_iff set_empty)
  ultimately obtain s where "fold (baseline_step (count (mset ?xs))) ?ks (- 1, 0) = (s, count (mset ?xs) s)"
    "s \<in> set ?xs" "\<forall>t\<in>set ?xs. count (mset ?xs) t < count (mset ?xs) s \<or> count (mset ?xs) t = count (mset ?xs) s \<and> s \<le> t"
    using baseline_fold [of ?ks "count (mset ?xs)"] set by auto
  then show ?thesis using assms(2) by (simp add: baselineSeverity_def is_mode_def)
qed

lemma riskSeverityOrder_nonneg [simp]: "0 \<le> riskSeverityOrder l"
  using riskSeverity_Some by (auto simp: riskSeverityOrder_def split: option.split)

text \<open>So the events do not depend on the order in which the map of counts is visited.\<close>

lemma baselineSeverity_order:
  assumes "visits ord" "visits ord'" "\<forall>e\<in>set entries. 0 \<le> snd e"
  shows "baselineSeverity ord entries = baselineSeverity ord' entries"
proof (cases "entries = []")
  case True
  then show ?thesis by (simp add: baselineSeverity_def)
next
  case False
  show ?thesis
    by (rule is_mode_unique) (rule baselineSeverity_mode [OF _ False assms(3)], rule assms)+
qed

lemma escalation_loop_order:
  assumes "visits ord" "visits ord'" "\<forall>k. \<forall>h\<in>set (history k). 0 \<le> snd h"
  shows "escalation_loop ord history es = escalation_loop ord' history es"
  using assms(3)
proof (induction es arbitrary: history)
  case Nil
  then show ?case by simp
next
  case (Cons e es)
  let ?h = "history (enActorID e, enTool e)"
  have "baselineSeverity ord (withinWindow ?h t) = baselineSeverity ord' (withinWindow ?h t)" for t
    by (rule baselineSeverity_order [OF assms(1,2)]) (use Cons.prems in \<open>fastforce simp: withinWindow_def\<close>)
  then have "check_escalation ord ?h e = check_escalation ord' ?h e"
    by (simp add: check_escalation_def Let_def)
  moreover have "escalation_loop ord history' es = escalation_loop ord' history' es"
    if "\<forall>k. \<forall>h\<in>set (history' k). 0 \<le> snd h" for history'
    using Cons.IH [OF that] .
  ultimately show ?case using Cons.prems by (auto simp: Let_def)
qed

text \<open>Detection is causal: later entries do not change the events of earlier ones.\<close>

lemma escalation_loop_append:
  "\<exists>rest. escalation_loop ord history (es @ fs) = escalation_loop ord history es @ rest"
proof (induction es arbitrary: history)
  case Nil
  then show ?case by simp
next
  case (Cons e es)
  then show ?case by (auto simp: Let_def)
qed

end
