(* ===== verification/Signals.thy ===== *)
theory Signals
  imports Signal_Protocol Signal_Loops Signal_Scope "HOL-Library.Product_Lexorder"
begin

text \<open>
  The registry of the signal detectors and \<open>AllSignals\<close> (\<^verbatim>\<open>internal/signal/registry.go\<close>, \<^verbatim>\<open>types.go\<close>), and
  the properties of the detectors. What the runtime leaves open is one argument, \<open>Runtime\<close>.
\<close>

section \<open>The registry\<close>

record Runtime =
  rtNow :: time
  rtKeys :: "string list \<Rightarrow> string list"
  rtKeys' :: "string list \<Rightarrow> string list"
  rtPairs :: "(string \<times> string) list \<Rightarrow> (string \<times> string) list"
  rtInts :: "int list \<Rightarrow> int list"
  rtSort :: "SEntry list \<Rightarrow> SEntry list"

definition runtime_ok :: "Runtime \<Rightarrow> bool" where
  "runtime_ok rt \<longleftrightarrow> visits (rtKeys rt) \<and> visits (rtKeys' rt) \<and> visits (rtPairs rt) \<and> visits (rtInts rt) \<and>
     sorts enTimestamp (rtSort rt)"

record signalDefinition =
  sdName :: string
  sdOrder :: nat
  sdDetect :: "SEntry list \<Rightarrow> duration \<Rightarrow> SignalResult"

text \<open>
  Registering sorts the registry by order and name; no two definitions share both, so that the
  result of the unstable sort is the insertion at the place of the key.
\<close>

definition registry_less :: "signalDefinition \<Rightarrow> signalDefinition \<Rightarrow> bool" where
  "registry_less a b \<longleftrightarrow> (if sdOrder a = sdOrder b then sdName a < sdName b else sdOrder a < sdOrder b)"

fun insert_definition :: "signalDefinition \<Rightarrow> signalDefinition list \<Rightarrow> signalDefinition list" where
  "insert_definition d [] = [d]"
| "insert_definition d (x # xs) = (if registry_less d x then d # x # xs else x # insert_definition d xs)"

definition registerSignal :: "signalDefinition \<Rightarrow> signalDefinition list \<Rightarrow> signalDefinition list" where
  "registerSignal d registry = insert_definition d registry"

definition signal_definitions :: "Runtime \<Rightarrow> signalDefinition list" where
  "signal_definitions rt =
     [\<lparr>sdName = ''artifact_drift'', sdOrder = 20, sdDetect = (\<lambda>es _. DetectArtifactDrift es)\<rparr>,
      \<lparr>sdName = ''blast_radius'', sdOrder = 40, sdDetect = (\<lambda>es _. DetectBlastRadius es)\<rparr>,
      \<lparr>sdName = ''new_scope'', sdOrder = 50, sdDetect = (\<lambda>es _. DetectNewScope es)\<rparr>,
      \<lparr>sdName = ''protocol_violation'', sdOrder = 10, sdDetect = DetectProtocolViolations (rtNow rt)\<rparr>,
      \<lparr>sdName = ''repair_loop'', sdOrder = 60, sdDetect = (\<lambda>es _. DetectRepairLoop (rtPairs rt) (rtSort rt) es)\<rparr>,
      \<lparr>sdName = ''retry_loop'', sdOrder = 30,
       sdDetect = (\<lambda>es _. DetectRetryLoops (rtKeys rt) (rtKeys' rt) (rtSort rt) es)\<rparr>,
      \<lparr>sdName = ''risk_escalation'', sdOrder = 80, sdDetect = (\<lambda>es _. DetectRiskEscalation (rtInts rt) es)\<rparr>,
      \<lparr>sdName = ''thrashing'', sdOrder = 70, sdDetect = (\<lambda>es _. DetectThrashing (rtSort rt) es)\<rparr>]"

definition registeredSignals :: "Runtime \<Rightarrow> signalDefinition list" where
  "registeredSignals rt = fold registerSignal (signal_definitions rt) []"

definition RegisteredSignalNames :: "Runtime \<Rightarrow> string list" where
  "RegisteredSignalNames rt = map sdName (registeredSignals rt)"

definition AllSignals :: "Runtime \<Rightarrow> SEntry list \<Rightarrow> duration \<Rightarrow> SignalResult list" where
  "AllSignals rt entries ttl = map (\<lambda>d. sdDetect d entries ttl) (registeredSignals rt)"

lemma registeredSignals_order: "map sdName (registeredSignals rt) =
    [''protocol_violation'', ''artifact_drift'', ''retry_loop'', ''blast_radius'', ''new_scope'',
     ''repair_loop'', ''thrashing'', ''risk_escalation'']"
  by (simp add: registeredSignals_def signal_definitions_def registerSignal_def registry_less_def)

lemma AllSignals_results: "AllSignals rt entries ttl =
    [DetectProtocolViolations (rtNow rt) entries ttl, DetectArtifactDrift entries,
     DetectRetryLoops (rtKeys rt) (rtKeys' rt) (rtSort rt) entries, DetectBlastRadius entries,
     DetectNewScope entries, DetectRepairLoop (rtPairs rt) (rtSort rt) entries,
     DetectThrashing (rtSort rt) entries, DetectRiskEscalation (rtInts rt) entries]"
  by (simp add: AllSignals_def registeredSignals_def signal_definitions_def registerSignal_def registry_less_def)

lemma signal_result_name [simp]: "srName (signal_result n ids) = n" "srCount (signal_result n ids) = length ids"
  "srEventIDs (signal_result n ids) = ids"
  by (simp_all add: signal_result_def)

lemma AllSignals_names: "map srName (AllSignals rt entries ttl) = RegisteredSignalNames rt"
  by (simp add: AllSignals_results RegisteredSignalNames_def registeredSignals_order
      DetectProtocolViolations_def DetectArtifactDrift_def DetectRetryLoops_def DetectBlastRadius_def
      DetectNewScope_def DetectRepairLoop_def DetectThrashing_def DetectThrashingWithThreshold_def
      DetectRiskEscalation_def)

text \<open>The order of the \<open>init\<close> functions that register the detectors is immaterial.\<close>

definition registry_key :: "signalDefinition \<Rightarrow> nat \<times> string" where
  "registry_key d = (sdOrder d, sdName d)"

lemma registry_less_key: "registry_less a b \<longleftrightarrow> registry_key a < registry_key b"
  by (auto simp: registry_less_def registry_key_def)

lemma insert_definition_insort:
  "registry_key d \<notin> registry_key ` set xs \<Longrightarrow> insert_definition d xs = insort_key registry_key d xs"
  by (induction xs) (auto simp: registry_less_key)

lemma fold_register:
  "distinct (map registry_key (ds @ xs)) \<Longrightarrow> fold registerSignal ds xs = fold (insort_key registry_key) ds xs"
proof (induction ds arbitrary: xs)
  case Nil
  then show ?case by simp
next
  case (Cons d ds)
  have "mset (map registry_key (ds @ insort_key registry_key d xs)) = mset (map registry_key ((d # ds) @ xs))"
    by simp
  then have "distinct (map registry_key (ds @ insort_key registry_key d xs))"
    using Cons.prems mset_eq_imp_distinct_iff by blast
  note IH = Cons.IH [OF this]
  have "registry_key d \<notin> registry_key ` set xs" using Cons.prems by simp
  then show ?case by (simp add: registerSignal_def [of d] insert_definition_insort IH)
qed

lemma register_order:
  assumes "mset ds = mset ds'" and "distinct (map registry_key ds)"
  shows "fold registerSignal ds [] = fold registerSignal ds' []"
proof -
  have d': "distinct (map registry_key ds')"
    using assms by (metis mset_eq_imp_distinct_iff mset_map)
  have "fold registerSignal ds [] = sort_key registry_key (rev ds)"
    "fold registerSignal ds' [] = sort_key registry_key (rev ds')"
    using assms(2) d' by (simp_all add: fold_register sort_key_def foldr_conv_fold)
  moreover have "sort_key registry_key (rev ds) = sort_key registry_key (rev ds')"
    by (rule sorts_same [of registry_key]) (use assms in \<open>simp_all flip: rev_map\<close>)
  ultimately show ?thesis by simp
qed

section \<open>Sample entries\<close>

definition sample_prescription :: "string \<Rightarrow> string \<Rightarrow> time \<Rightarrow> SEntry" where
  "sample_prescription i actor t = \<lparr>enEventID = i, enTimestamp = t, enTool = ''kubectl'',
     enOperation = ''apply'', enActorID = actor, enEnvironment = [], enIsPrescription = True,
     enIsReport = False, enPrescriptionID = [], enArtifactDigest = ''d1'', enIntentDigest = ''i1'',
     enShapeHash = ''s1'', enResourceCount = 1, enOperationClass = ''mutate'', enScopeClass = ''development'',
     enExitCode = None, enRiskTags = []\<rparr>"

definition sample_report :: "string \<Rightarrow> string \<Rightarrow> string \<Rightarrow> int \<Rightarrow> time \<Rightarrow> SEntry" where
  "sample_report i actor p c t = (sample_prescription i actor t)\<lparr>enIsPrescription := False,
     enIsReport := True, enPrescriptionID := p, enExitCode := Some c\<rparr>"

section \<open>Properties\<close>

text \<open>
  C29. No protocol violation means the protocol was followed, and conversely: the detector is silent
  exactly when every report that names a prescription names a known one, of the same actor (or
  one of the two is anonymous), owes it no digest, no prescription is answered twice, and every
  prescription is answered or younger than the time to live.
\<close>

theorem no_violations_iff:
  assumes "distinct_prescriptions entries" and "- (2 ^ 63) \<le> ttl" "ttl < 2 ^ 63 - 1"
  shows "DetectProtocolViolationEvents entries ttl now = [] \<longleftrightarrow>
    (\<forall>r\<in>set entries. enIsReport r \<and> enPrescriptionID r \<noteq> [] \<longrightarrow>
      (\<exists>p\<in>set entries. enIsPrescription p \<and> enEventID p = enPrescriptionID r \<and>
        (enActorID p = [] \<or> enActorID r = [] \<or> enActorID p = enActorID r) \<and>
        (enArtifactDigest p = [] \<or> enArtifactDigest r \<noteq> [] \<or> enExitCode r = None))) \<and>
    distinct (answers entries) \<and>
    (\<forall>p\<in>set entries. enIsPrescription p \<longrightarrow>
      enEventID p \<in> reported_ids entries \<or> now - enTimestamp p \<le> ttl)"
proof -
  have "good_report (prescriptions_by_id entries) r \<longleftrightarrow> (\<exists>p\<in>set entries. enIsPrescription p \<and>
      enEventID p = enPrescriptionID r \<and> (enActorID p = [] \<or> enActorID r = [] \<or> enActorID p = enActorID r) \<and>
      (enArtifactDigest p = [] \<or> enArtifactDigest r \<noteq> [] \<or> enExitCode r = None))" for r
    by (auto simp: good_report_def prescriptions_by_id_iff [OF assms(1)])
  moreover have "TimeSub now t \<le> ttl \<longleftrightarrow> now - t \<le> ttl" for t
    using TimeSub_gt [OF assms(3,2), of now t] by linarith
  ultimately show ?thesis
    by (simp add: DetectProtocolViolationEvents_def check_reports_Nil_iff DetectUnreported_Nil_iff)
qed

theorem no_violations_iff_witness:
  "DetectProtocolViolationEvents [sample_prescription ''p'' ''a'' 0, sample_report ''r'' ''a'' ''p'' 0 1]
    DefaultTTL (2 * DefaultTTL) = []"
  by (subst no_violations_iff)
    (simp_all add: distinct_prescriptions_def sample_prescription_def sample_report_def DefaultTTL_def
      Minute_def answers_def reported_ids_def)

text \<open>
  A report by another actor hides that the operation was never reported: the loop over the reports
  does not let it consume the prescription, but the check for unreported prescriptions counts any
  report, so that no event ever says the prescription is unreported, however old it is.
\<close>

theorem cross_actor_report_hides_unreported:
  assumes "p \<in> set entries" "enIsPrescription p" "enEventID p \<noteq> []"
    and "r \<in> set entries" "enIsReport r" "enPrescriptionID r = enEventID p" "enActorID r \<noteq> enActorID p"
  shows "enEventID p \<notin> seEntryRef ` set (DetectUnreported entries ttl now)"
proof -
  have "enEventID p \<in> reported_ids entries"
    using assms(3-6) by (force simp: reported_ids_def)
  then show ?thesis by (auto simp: DetectUnreported_def)
qed

theorem cross_actor_report_hides_unreported_witness:
  "''p'' \<notin> seEntryRef ` set (DetectUnreported [sample_prescription ''p'' ''a'' 0, sample_report ''r'' ''b'' ''p'' 0 1]
    DefaultTTL (1000 * DefaultTTL))"
  using cross_actor_report_hides_unreported [of "sample_prescription ''p'' ''a'' 0"
      "[sample_prescription ''p'' ''a'' 0, sample_report ''r'' ''b'' ''p'' 0 1]" "sample_report ''r'' ''b'' ''p'' 0 1"]
  by (simp add: sample_prescription_def sample_report_def)

text \<open>
  Artifact drift is exact: the detector returns, in order, the ids of the reports with a digest
  whose prescription has another digest, and nothing else.
\<close>

theorem artifact_drift_exact:
  assumes "distinct_prescriptions entries"
  shows "srEventIDs (DetectArtifactDrift entries) = map enEventID (filter (\<lambda>r. enIsReport r \<and>
    enPrescriptionID r \<noteq> [] \<and> enArtifactDigest r \<noteq> [] \<and>
    (\<exists>p\<in>set entries. enIsPrescription p \<and> enEventID p = enPrescriptionID r \<and> enArtifactDigest p \<noteq> [] \<and>
      enArtifactDigest p \<noteq> enArtifactDigest r)) entries)"
proof -
  have digest: "prescription_digest entries i = Some d \<longleftrightarrow>
      (\<exists>p\<in>set entries. enIsPrescription p \<and> enEventID p = i \<and> enArtifactDigest p = d \<and> d \<noteq> [])" for i d
  proof
    assume "prescription_digest entries i = Some d"
    then show "\<exists>p\<in>set entries. enIsPrescription p \<and> enEventID p = i \<and> enArtifactDigest p = d \<and> d \<noteq> []"
      by (auto simp: prescription_digest_def dest!: collect_SomeD split: if_splits)
  next
    assume "\<exists>p\<in>set entries. enIsPrescription p \<and> enEventID p = i \<and> enArtifactDigest p = d \<and> d \<noteq> []"
    then show "prescription_digest entries i = Some d"
      unfolding prescription_digest_def using assms
      by (intro collect_Some_unique) (auto simp: distinct_prescriptions_def split: if_splits)
  qed
  have eq: "(case prescription_digest entries (enPrescriptionID r) of None \<Rightarrow> False | Some d \<Rightarrow> d \<noteq> enArtifactDigest r)
      \<longleftrightarrow> (\<exists>p\<in>set entries. enIsPrescription p \<and> enEventID p = enPrescriptionID r \<and>
        enArtifactDigest p \<noteq> [] \<and> enArtifactDigest p \<noteq> enArtifactDigest r)" for r
  proof (cases "prescription_digest entries (enPrescriptionID r)")
    case None
    then show ?thesis using digest [of "enPrescriptionID r"] by auto
  next
    case (Some a)
    then obtain p where p: "p \<in> set entries" "enIsPrescription p" "enEventID p = enPrescriptionID r"
      "enArtifactDigest p = a" "a \<noteq> []"
      using digest by blast
    have "enArtifactDigest q = a" if "q \<in> set entries" "enIsPrescription q"
      "enEventID q = enPrescriptionID r" "enArtifactDigest q \<noteq> []" for q
      using Some digest [of "enPrescriptionID r" "enArtifactDigest q"] that by auto
    then have "(\<exists>q\<in>set entries. enIsPrescription q \<and> enEventID q = enPrescriptionID r \<and>
        enArtifactDigest q \<noteq> [] \<and> enArtifactDigest q \<noteq> enArtifactDigest r) \<longleftrightarrow> a \<noteq> enArtifactDigest r"
      using p by blast
    then show ?thesis using Some by simp
  qed
  show ?thesis unfolding DetectArtifactDrift_def signal_result_name eq ..
qed

theorem artifact_drift_exact_witness:
  "srEventIDs (DetectArtifactDrift [sample_prescription ''p'' ''a'' 0,
    sample_report ''r'' ''a'' ''p'' 0 1\<lparr>enArtifactDigest := ''d2''\<rparr>]) = [''r'']"
  by (subst artifact_drift_exact)
    (simp_all add: distinct_prescriptions_def sample_prescription_def sample_report_def)



text \<open>
  Every repair is one: each id that \<open>DetectRepairLoop\<close> returns is that of a prescription that
  succeeded, with an earlier prescription (in the order of the sort) of the same actor and intent
  that failed and had a digest, another one. The ids are the same, up to order, in whatever order
  the groups are visited.
\<close>

theorem repair_loop_sound:
  assumes "visits ord" "visits ord'" "sorts enTimestamp srt"
  shows "(\<forall>i\<in>set (srEventIDs (DetectRepairLoop ord srt entries)).
      \<exists>p\<in>set entries. \<exists>f\<in>set entries. i = enEventID p \<and> enIsPrescription p \<and> enIsPrescription f \<and>
        enActorID f = enActorID p \<and> enIntentDigest f = enIntentDigest p \<and>
        enTimestamp f \<le> enTimestamp p \<and> exit_of entries (enEventID p) = Some 0 \<and>
        (\<exists>c. exit_of entries (enEventID f) = Some c \<and> c \<noteq> 0) \<and>
        enArtifactDigest f \<noteq> [] \<and> enArtifactDigest f \<noteq> enArtifactDigest p) \<and>
    mset (srEventIDs (DetectRepairLoop ord srt entries)) = mset (srEventIDs (DetectRepairLoop ord' srt entries))"
proof (intro conjI ballI)
  fix i assume "i \<in> set (srEventIDs (DetectRepairLoop ord srt entries))"
  then obtain k where "i \<in> set (repair_group (exit_of entries) None (srt (group_of repair_key entries k)))"
    by (auto simp: DetectRepairLoop_def Let_def split: if_splits)
  from repair_group_sound [OF this, of "[]"] obtain pre p post f where
    r: "srt (group_of repair_key entries k) = pre @ p # post" "i = enEventID p"
      "exit_of entries (enEventID p) = Some 0" "f \<in> set pre"
      "\<exists>c. exit_of entries (enEventID f) = Some c \<and> c \<noteq> 0"
      "enArtifactDigest f \<noteq> []" "enArtifactDigest f \<noteq> enArtifactDigest p"
    by auto
  have "set (pre @ p # post) = set (group_of repair_key entries k)"
    using r(1) sorts_set [OF assms(3)] by metis
  then have "p \<in> set (group_of repair_key entries k)" "f \<in> set (group_of repair_key entries k)"
    using r(4) by auto
  then have "p \<in> set entries \<and> repair_key p = Some k" "f \<in> set entries \<and> repair_key f = Some k"
    by (simp_all add: group_of_set)
  moreover have "enTimestamp f \<le> enTimestamp p"
    using sorts_sorted [OF assms(3), of "group_of repair_key entries k"] r(1,4) by (auto simp: sorted_append)
  ultimately show "\<exists>p\<in>set entries. \<exists>f\<in>set entries. i = enEventID p \<and> enIsPrescription p \<and>
      enIsPrescription f \<and> enActorID f = enActorID p \<and> enIntentDigest f = enIntentDigest p \<and>
      enTimestamp f \<le> enTimestamp p \<and> exit_of entries (enEventID p) = Some 0 \<and>
      (\<exists>c. exit_of entries (enEventID f) = Some c \<and> c \<noteq> 0) \<and>
      enArtifactDigest f \<noteq> [] \<and> enArtifactDigest f \<noteq> enArtifactDigest p"
    using r by (intro bexI [of _ p] bexI [of _ f]) (auto simp: repair_key_def split: if_splits)
next
  show "mset (srEventIDs (DetectRepairLoop ord srt entries)) = mset (srEventIDs (DetectRepairLoop ord' srt entries))"
    unfolding DetectRepairLoop_def signal_result_name by (rule visits_concat [OF assms(1,2)])
qed

theorem repair_loop_sound_witness:
  "mset (srEventIDs (DetectRepairLoop id (sort_key enTimestamp) [sample_prescription ''p'' ''a'' 0]))
    = mset (srEventIDs (DetectRepairLoop rev (sort_key enTimestamp) [sample_prescription ''p'' ''a'' 0]))"
  using repair_loop_sound [of id rev "sort_key enTimestamp"] by simp

text \<open>
  Thrashing is what it says: each id that \<open>DetectThrashing\<close> returns is that of a failed prescription
  in a stretch of the sorted prescriptions without a success in which at least three different
  intents failed, and no id is returned twice.
\<close>

theorem thrashing_sound:
  assumes "sorts enTimestamp srt"
  shows "(\<forall>i\<in>set (srEventIDs (DetectThrashing srt entries)). \<exists>pre sg post.
      srt (filter (\<lambda>e. enIsPrescription e \<and> enIntentDigest e \<noteq> []) entries) = pre @ sg @ post \<and>
      thrashing_stretch (exit_of entries) 3 sg \<and>
      i \<in> enEventID ` set (filter (fails (exit_of entries)) sg)) \<and>
    distinct (srEventIDs (DetectThrashing srt entries))"
  using thrash_loop_sound [of _ "exit_of entries" 3 "[]" "[]" _ "[]"] thrash_loop_distinct [of "[]"]
  by (simp add: DetectThrashing_def DetectThrashingWithThreshold_def ThrashingThreshold_def)

theorem thrashing_sound_witness:
  "distinct (srEventIDs (DetectThrashing (sort_key enTimestamp) [sample_prescription ''p'' ''a'' 0]))"
  using thrashing_sound [of "sort_key enTimestamp"] by simp

text \<open>
  New scope counts distinct scopes: the count is the number of different combinations of actor,
  tool, operation class and scope class among the prescriptions, less one for the first.
\<close>

theorem new_scope_count:
  "srCount (DetectNewScope entries) =
    card (scope_key ` {e \<in> set entries. enIsPrescription e}) - 1"
proof (cases "prescription_keys entries = {}")
  case True
  then show ?thesis
    using new_scope_length [of "[]" True entries]
    by (simp add: DetectNewScope_def flip: prescription_keys_def)
next
  case False
  then show ?thesis
    using new_scope_length [of "[]" True entries]
    by (simp add: DetectNewScope_def flip: prescription_keys_def)
qed



text \<open>
  \<open>AllSignals\<close> returns one result per registered detector, named as the detector, in the order of
  the registry, which is the same in whatever order the \<open>init\<close> functions register them; and each
  result counts exactly the ids it lists.
\<close>

theorem all_signals_registry:
  "map srName (AllSignals rt entries ttl) =
     [''protocol_violation'', ''artifact_drift'', ''retry_loop'', ''blast_radius'', ''new_scope'',
      ''repair_loop'', ''thrashing'', ''risk_escalation''] \<and>
   (\<forall>ds. mset ds = mset (signal_definitions rt) \<longrightarrow> fold registerSignal ds [] = registeredSignals rt) \<and>
   list_all (\<lambda>r. srCount r = length (srEventIDs r)) (AllSignals rt entries ttl)"
proof (intro conjI allI impI)
  show "map srName (AllSignals rt entries ttl) =
     [''protocol_violation'', ''artifact_drift'', ''retry_loop'', ''blast_radius'', ''new_scope'',
      ''repair_loop'', ''thrashing'', ''risk_escalation'']"
    by (simp add: AllSignals_names RegisteredSignalNames_def registeredSignals_order)
  show "fold registerSignal ds [] = registeredSignals rt" if "mset ds = mset (signal_definitions rt)" for ds
  proof -
    have "distinct (map registry_key (signal_definitions rt))"
      by (simp add: signal_definitions_def registry_key_def)
    then have "distinct (map registry_key ds)"
      using that by (metis mset_eq_imp_distinct_iff mset_map)
    from register_order [OF that this] show ?thesis by (simp add: registeredSignals_def)
  qed
  show "list_all (\<lambda>r. srCount r = length (srEventIDs r)) (AllSignals rt entries ttl)"
    by (simp add: AllSignals_results DetectProtocolViolations_def DetectArtifactDrift_def DetectRetryLoops_def
        DetectBlastRadius_def DetectNewScope_def DetectRepairLoop_def DetectThrashing_def
        DetectThrashingWithThreshold_def DetectRiskEscalation_def)
qed

definition sample_runtime :: Runtime where
  "sample_runtime = \<lparr>rtNow = 0, rtKeys = id, rtKeys' = rev, rtPairs = id, rtInts = rev,
     rtSort = sort_key enTimestamp\<rparr>"

theorem all_signals_registry_witness:
  "fold registerSignal (rev (signal_definitions sample_runtime)) [] = registeredSignals sample_runtime"
  using all_signals_registry [of sample_runtime] by simp

end
