(* ===== verification/Score.thy ===== *)
theory Score
  imports Float64 Signal_Types
begin

text \<open>
  Scoring (\<^verbatim>\<open>internal/score\<close>): the penalty of the signal rates under a profile, the score with its caps
  and its confidence ceiling, bands, and the comparison of workloads. Every arithmetic result is
  rounded (\<^const>\<open>fl64\<close>); the order in which the map of signals is visited, and so summed, is the
  argument \<open>ord\<close>. \<open>x / 0\<close>, which is 0 here and not a number in Go, does not occur with a profile that
  \<open>validateProfile\<close> accepts, since a scorecard is only computed from \<open>min_operations > 0\<close> on.
\<close>

section \<open>Profiles\<close>

record ScoreCap =
  capSignal :: string
  capRateGT :: rat
  capMaxScore :: rat

record ConfidencePolicy =
  cpProtocolViolationRateGT :: rat
  cpProtocolViolationLevel :: string
  cpProtocolViolationCeiling :: rat
  cpExternalPctGT :: rat
  cpExternalLevel :: string
  cpExternalScoreCeiling :: rat
  cpDefaultLevel :: string
  cpDefaultScoreCeiling :: rat

record Band =
  bandName :: string
  bandMinScore :: rat

record Profile =
  prID :: string
  prMinOperations :: int
  prWeights :: "(string \<times> rat) list option"   \<comment> \<open>\<^term>\<open>None\<close> is a \<open>nil\<close> map\<close>
  prScoreCaps :: "ScoreCap list"
  prConfidence :: ConfidencePolicy
  prBands :: "Band list"
  prLowMax :: rat
  prMediumMax :: rat

definition weight_entries :: "Profile \<Rightarrow> (string \<times> rat) list" where
  "weight_entries p = (case prWeights p of None \<Rightarrow> [] | Some ws \<Rightarrow> ws)"

datatype ProfileError = MissingID | MinOperationsNotPositive | BandsEmpty | WeightsNil | WeightsSum rat

definition validateProfile :: "(string list \<Rightarrow> string list) \<Rightarrow> Profile \<Rightarrow> ProfileError option" where
  "validateProfile ord p =
     (let ws = weight_entries p;
          total = fold (\<lambda>n acc. fl64 (acc + the (map_of ws n))) (ord (keys_of (map fst ws))) 0
      in if prID p = [] then Some MissingID
         else if prMinOperations p \<le> 0 then Some MinOperationsNotPositive
         else if prBands p = [] then Some BandsEmpty
         else if prWeights p = None then Some WeightsNil
         else if fl64 (1 / 1000000000) < \<bar>fl64 (total - 1)\<bar> then Some (WeightsSum total)
         else None)"

text \<open>The embedded profile \<^verbatim>\<open>profiles/default.v1.1.0.json\<close>; each literal is the nearest \<open>float64\<close>.\<close>

definition default_profile :: Profile where
  "default_profile =
     \<lparr>prID = ''default.v1.1.0'', prMinOperations = 100,
      prWeights = Some [(''protocol_violation'', fl64 (30 / 100)), (''artifact_drift'', fl64 (25 / 100)),
        (''retry_loop'', fl64 (15 / 100)), (''blast_radius'', fl64 (10 / 100)), (''new_scope'', fl64 (5 / 100)),
        (''repair_loop'', fl64 (- 5 / 100)), (''thrashing'', fl64 (10 / 100)), (''risk_escalation'', fl64 (10 / 100))],
      prScoreCaps = [\<lparr>capSignal = ''artifact_drift'', capRateGT = fl64 (5 / 100), capMaxScore = 85\<rparr>],
      prConfidence = \<lparr>cpProtocolViolationRateGT = fl64 (10 / 100), cpProtocolViolationLevel = ''low'',
        cpProtocolViolationCeiling = 85, cpExternalPctGT = fl64 (50 / 100), cpExternalLevel = ''medium'',
        cpExternalScoreCeiling = 95, cpDefaultLevel = ''high'', cpDefaultScoreCeiling = 100\<rparr>,
      prBands = [\<lparr>bandName = ''excellent'', bandMinScore = 99\<rparr>, \<lparr>bandName = ''good'', bandMinScore = 95\<rparr>,
        \<lparr>bandName = ''fair'', bandMinScore = 90\<rparr>, \<lparr>bandName = ''poor'', bandMinScore = 0\<rparr>],
      prLowMax = fl64 (2 / 100), prMediumMax = fl64 (10 / 100)\<rparr>"

section \<open>The scorecard\<close>

record Confidence =
  cfLevel :: string
  cfScoreCeiling :: rat

record Scorecard =
  scTotalOperations :: int
  scSignals :: "string \<rightharpoonup> nat"
  scRates :: "string \<rightharpoonup> rat"
  scSignalProfiles :: "string \<rightharpoonup> string"
  scPenalty :: rat
  scScore :: rat
  scBand :: string
  scSufficient :: bool
  scConfidence :: Confidence
  scScoringProfileID :: string

definition computeConfidence :: "Profile \<Rightarrow> rat \<Rightarrow> rat \<Rightarrow> Confidence" where
  "computeConfidence p externalPct violationRate =
     (let c = prConfidence p in
      if cpProtocolViolationRateGT c < violationRate
      then \<lparr>cfLevel = cpProtocolViolationLevel c, cfScoreCeiling = cpProtocolViolationCeiling c\<rparr>
      else if cpExternalPctGT c < externalPct
      then \<lparr>cfLevel = cpExternalLevel c, cfScoreCeiling = cpExternalScoreCeiling c\<rparr>
      else \<lparr>cfLevel = cpDefaultLevel c, cfScoreCeiling = cpDefaultScoreCeiling c\<rparr>)"

fun band_loop :: "Band list \<Rightarrow> rat \<Rightarrow> string option" where
  "band_loop [] score = None"
| "band_loop (b # bs) score = (if bandMinScore b \<le> score then Some (bandName b) else band_loop bs score)"

definition scoreBandFor :: "Profile \<Rightarrow> rat \<Rightarrow> string" where
  "scoreBandFor p score =
     (case band_loop (prBands p) score of Some n \<Rightarrow> n | None \<Rightarrow> bandName (last (prBands p)))"

definition signalProfileLevelFor :: "Profile \<Rightarrow> rat \<Rightarrow> string" where
  "signalProfileLevelFor p rate =
     (if rate = 0 then ''none'' else if rate < prLowMax p then ''low''
      else if rate < prMediumMax p then ''medium'' else ''high'')"

definition signal_counts :: "SignalResult list \<Rightarrow> string \<rightharpoonup> nat" where
  "signal_counts results = collect (\<lambda>r. Some (srName r, srCount r)) Map.empty results"

definition signal_rate :: "nat \<Rightarrow> int \<Rightarrow> rat" where
  "signal_rate c totalOps = fl64 (fl64 (of_nat c) / fl64 (of_int totalOps))"

definition signal_rates :: "SignalResult list \<Rightarrow> int \<Rightarrow> string \<rightharpoonup> rat" where
  "signal_rates results totalOps n = map_option (\<lambda>c. signal_rate c totalOps) (signal_counts results n)"

definition rate_of :: "(string \<rightharpoonup> rat) \<Rightarrow> string \<Rightarrow> rat" where
  "rate_of rates n = (case rates n of None \<Rightarrow> 0 | Some r \<Rightarrow> r)"

definition penalty_term :: "Profile \<Rightarrow> (string \<rightharpoonup> rat) \<Rightarrow> string \<Rightarrow> rat option" where
  "penalty_term p rates n = map_option (\<lambda>w. fl64 (w * rate_of rates n)) (map_of (weight_entries p) n)"

definition raw_penalty :: "Profile \<Rightarrow> (string \<rightharpoonup> rat) \<Rightarrow> string list \<Rightarrow> rat" where
  "raw_penalty p rates ns =
     fold (\<lambda>n acc. case penalty_term p rates n of None \<Rightarrow> acc | Some t \<Rightarrow> fl64 (acc + t)) ns 0"

definition clamp_penalty :: "rat \<Rightarrow> rat" where
  "clamp_penalty x = (let y = (if x < 0 then 0 else x) in if y > 1 then 1 else y)"

definition apply_caps :: "ScoreCap list \<Rightarrow> (string \<rightharpoonup> rat) \<Rightarrow> rat \<Rightarrow> rat" where
  "apply_caps caps rates score = fold (\<lambda>cap s.
     if capRateGT cap < rate_of rates (capSignal cap) \<and> capMaxScore cap < s then capMaxScore cap else s) caps score"

definition apply_ceiling :: "Confidence \<Rightarrow> rat \<Rightarrow> rat" where
  "apply_ceiling c score = (if 0 < cfScoreCeiling c \<and> cfScoreCeiling c < score then cfScoreCeiling c else score)"

definition ComputeWithProfileAndMinOperations ::
  "(string list \<Rightarrow> string list) \<Rightarrow> Profile \<Rightarrow> SignalResult list \<Rightarrow> int \<Rightarrow> rat \<Rightarrow> int \<Rightarrow> Scorecard" where
  "ComputeWithProfileAndMinOperations ord profile results totalOps externalPct minOps0 =
     (let minOps = (if minOps0 \<le> 0 then prMinOperations profile else minOps0);
          signals = signal_counts results
      in if totalOps < minOps then
           \<lparr>scTotalOperations = totalOps, scSignals = signals, scRates = Map.empty,
            scSignalProfiles = Map.empty, scPenalty = 0, scScore = - 1, scBand = ''insufficient_data'',
            scSufficient = False, scConfidence = computeConfidence profile externalPct 0,
            scScoringProfileID = prID profile\<rparr>
         else
           (let rates = signal_rates results totalOps;
                penalty = clamp_penalty (raw_penalty profile rates (ord (keys_of (map srName results))));
                score0 = fl64 (100 * fl64 (1 - penalty));
                score1 = apply_caps (prScoreCaps profile) rates score0;
                confidence = computeConfidence profile externalPct (rate_of rates ''protocol_violation'');
                score = apply_ceiling confidence score1
            in \<lparr>scTotalOperations = totalOps, scSignals = signals, scRates = rates,
                scSignalProfiles = (\<lambda>n. map_option (signalProfileLevelFor profile) (rates n)),
                scPenalty = penalty, scScore = score, scBand = scoreBandFor profile score,
                scSufficient = True, scConfidence = confidence, scScoringProfileID = prID profile\<rparr>))"

definition ComputeWithProfile where
  "ComputeWithProfile ord profile results totalOps externalPct =
     ComputeWithProfileAndMinOperations ord profile results totalOps externalPct (prMinOperations profile)"

definition Compute where
  "Compute ord results totalOps externalPct = ComputeWithProfile ord default_profile results totalOps externalPct"

definition ComputeWithMinOperations where
  "ComputeWithMinOperations ord results totalOps externalPct minOps =
     ComputeWithProfileAndMinOperations ord default_profile results totalOps externalPct minOps"

section \<open>Workloads\<close>

record WorkloadProfile =
  wpTools :: "string list"    \<comment> \<open>the keys of the map, whose values are all true\<close>
  wpScopes :: "string list"

definition jaccard :: "string list \<Rightarrow> string list \<Rightarrow> rat" where
  "jaccard a b =
     (if set a = {} \<and> set b = {} then 1
      else fl64 (fl64 (of_nat (length (filter (\<lambda>k. k \<in> set b) (keys_of a))))
             / fl64 (of_nat (length (keys_of (a @ b))))))"

definition WorkloadOverlap :: "WorkloadProfile \<Rightarrow> WorkloadProfile \<Rightarrow> rat" where
  "WorkloadOverlap a b = fl64 (jaccard (wpTools a) (wpTools b) * jaccard (wpScopes a) (wpScopes b))"

definition BuildProfile :: "SEntry list \<Rightarrow> WorkloadProfile" where
  "BuildProfile entries =
     \<lparr>wpTools = keys_of (filter (\<lambda>s. s \<noteq> []) (map enTool (filter enIsPrescription entries))),
      wpScopes = keys_of (filter (\<lambda>s. s \<noteq> []) (map enScopeClass (filter enIsPrescription entries)))\<rparr>"

end
