(* ===== verification/Score_Props.thy ===== *)
theory Score_Props
  imports Score
begin

text \<open>
  Properties of scoring, proved from the interface \<^const>\<open>rounding\<close> of the floating-point model: ranges,
  caps and ceilings, monotonicity in the counts, dependence on the order of summation, and the
  comparison of workloads.
\<close>

section \<open>Parts of the score\<close>

lemma clamp_penalty_range: "0 \<le> clamp_penalty x \<and> clamp_penalty x \<le> 1"
  by (simp add: clamp_penalty_def Let_def)


definition base_score :: "rat \<Rightarrow> rat" where
  "base_score penalty = fl64 (100 * fl64 (1 - penalty))"

lemma base_score_range:
  assumes "0 \<le> x" "x \<le> 1"
  shows "0 \<le> base_score x" "base_score x \<le> 100"
proof -
  have "0 \<le> fl64 (1 - x)" using assms by (intro f64.nonneg) simp
  moreover have "fl64 (1 - x) \<le> 1" using assms by (intro f64.le_one) simp
  ultimately show "0 \<le> base_score x" "base_score x \<le> 100"
    unfolding base_score_def by (auto intro!: f64.nonneg f64.le_hundred)
qed


lemma apply_caps_le: "apply_caps caps rates s \<le> s"
proof (induction caps arbitrary: s)
  case Nil
  then show ?case by (simp add: apply_caps_def)
next
  case (Cons cap caps)
  let ?s = "if capRateGT cap < rate_of rates (capSignal cap) \<and> capMaxScore cap < s then capMaxScore cap else s"
  have "apply_caps (cap # caps) rates s = apply_caps caps rates ?s" by (simp add: apply_caps_def)
  also have "\<dots> \<le> ?s" by (rule Cons.IH)
  also have "\<dots> \<le> s" by simp
  finally show ?case .
qed

lemma apply_caps_enforced:
  "cap \<in> set caps \<Longrightarrow> capRateGT cap < rate_of rates (capSignal cap) \<Longrightarrow> apply_caps caps rates s \<le> capMaxScore cap"
proof (induction caps arbitrary: s)
  case Nil
  then show ?case by simp
next
  case (Cons c caps)
  let ?s = "if capRateGT c < rate_of rates (capSignal c) \<and> capMaxScore c < s then capMaxScore c else s"
  have step: "apply_caps (c # caps) rates s = apply_caps caps rates ?s" by (simp add: apply_caps_def)
  show ?case
  proof (cases "cap = c")
    case True
    then have "?s \<le> capMaxScore cap" using Cons.prems(2) by simp
    with apply_caps_le [of caps rates ?s] show ?thesis unfolding step by simp
  next
    case False
    with Cons show ?thesis unfolding step by simp
  qed
qed

lemma apply_caps_nonneg: "0 \<le> s \<Longrightarrow> (\<And>cap. cap \<in> set caps \<Longrightarrow> 0 \<le> capMaxScore cap) \<Longrightarrow> 0 \<le> apply_caps caps rates s"
proof (induction caps arbitrary: s)
  case Nil
  then show ?case by (simp add: apply_caps_def)
next
  case (Cons c caps)
  let ?s = "if capRateGT c < rate_of rates (capSignal c) \<and> capMaxScore c < s then capMaxScore c else s"
  have "apply_caps (c # caps) rates s = apply_caps caps rates ?s" by (simp add: apply_caps_def)
  also have "0 \<le> \<dots>" using Cons by (intro Cons.IH) auto
  finally show ?case .
qed


lemma apply_ceiling_le: "apply_ceiling c s \<le> s"
  by (simp add: apply_ceiling_def)

lemma apply_ceiling_nonneg: "0 \<le> s \<Longrightarrow> 0 \<le> apply_ceiling c s"
  by (simp add: apply_ceiling_def)



section \<open>Rates and the penalty\<close>


lemma signal_rate_nonneg: "0 \<le> t \<Longrightarrow> 0 \<le> signal_rate c t"
  unfolding signal_rate_def by (intro f64.nonneg divide_nonneg_nonneg) simp_all






section \<open>The scorecard\<close>

lemma Compute_insufficient:
  "totalOps < (if minOps \<le> 0 then prMinOperations p else minOps) \<Longrightarrow>
    (let sc = ComputeWithProfileAndMinOperations ord p results totalOps x minOps in
      scScore sc = - 1 \<and> \<not> scSufficient sc \<and> scBand sc = ''insufficient_data'')"
  by (simp add: ComputeWithProfileAndMinOperations_def Let_def)

definition penalty_of :: "(string list \<Rightarrow> string list) \<Rightarrow> Profile \<Rightarrow> SignalResult list \<Rightarrow> int \<Rightarrow> rat" where
  "penalty_of ord p results totalOps =
     clamp_penalty (raw_penalty p (signal_rates results totalOps) (ord (keys_of (map srName results))))"

definition confidence_of :: "Profile \<Rightarrow> SignalResult list \<Rightarrow> int \<Rightarrow> rat \<Rightarrow> Confidence" where
  "confidence_of p results totalOps x =
     computeConfidence p x (rate_of (signal_rates results totalOps) ''protocol_violation'')"

definition score_of :: "(string list \<Rightarrow> string list) \<Rightarrow> Profile \<Rightarrow> SignalResult list \<Rightarrow> int \<Rightarrow> rat \<Rightarrow> rat" where
  "score_of ord p results totalOps x = apply_ceiling (confidence_of p results totalOps x)
     (apply_caps (prScoreCaps p) (signal_rates results totalOps) (base_score (penalty_of ord p results totalOps)))"

lemma Compute_record:
  assumes "\<not> totalOps < (if minOps \<le> 0 then prMinOperations p else minOps)"
  shows "ComputeWithProfileAndMinOperations ord p results totalOps x minOps =
    \<lparr>scTotalOperations = totalOps, scSignals = signal_counts results, scRates = signal_rates results totalOps,
     scSignalProfiles = (\<lambda>n. map_option (signalProfileLevelFor p) (signal_rates results totalOps n)),
     scPenalty = penalty_of ord p results totalOps, scScore = score_of ord p results totalOps x,
     scBand = scoreBandFor p (score_of ord p results totalOps x), scSufficient = True,
     scConfidence = confidence_of p results totalOps x, scScoringProfileID = prID p\<rparr>"
  unfolding ComputeWithProfileAndMinOperations_def Let_def if_not_P [OF assms]
  unfolding score_of_def penalty_of_def confidence_of_def base_score_def ..

lemma Compute_sufficient:
  assumes "\<not> totalOps < (if minOps \<le> 0 then prMinOperations p else minOps)"
  shows "scSufficient (ComputeWithProfileAndMinOperations ord p results totalOps x minOps)"
    and "scRates (ComputeWithProfileAndMinOperations ord p results totalOps x minOps) = signal_rates results totalOps"
    and "scPenalty (ComputeWithProfileAndMinOperations ord p results totalOps x minOps) = penalty_of ord p results totalOps"
    and "scConfidence (ComputeWithProfileAndMinOperations ord p results totalOps x minOps) = confidence_of p results totalOps x"
    and "scScore (ComputeWithProfileAndMinOperations ord p results totalOps x minOps) = score_of ord p results totalOps x"
  unfolding Compute_record [OF assms] Scorecard.select_convs by (rule TrueI refl)+

lemma penalty_of_range: "0 \<le> penalty_of ord p results totalOps" "penalty_of ord p results totalOps \<le> 1"
  by (simp_all add: penalty_of_def clamp_penalty_range)

lemma score_of_range:
  assumes "\<And>cap. cap \<in> set (prScoreCaps p) \<Longrightarrow> 0 \<le> capMaxScore cap"
  shows "0 \<le> score_of ord p results totalOps x" "score_of ord p results totalOps x \<le> 100"
proof -
  note range = base_score_range [OF penalty_of_range, of ord p results totalOps]
  show "0 \<le> score_of ord p results totalOps x"
    unfolding score_of_def by (intro apply_ceiling_nonneg apply_caps_nonneg range(1) assms)
  show "score_of ord p results totalOps x \<le> 100"
    unfolding score_of_def by (rule order_trans [OF apply_ceiling_le order_trans [OF apply_caps_le range(2)]])
qed

section \<open>Workloads\<close>

definition overlap_count :: "string list \<Rightarrow> string list \<Rightarrow> nat" where
  "overlap_count a b = length (filter (\<lambda>k. k \<in> set b) (keys_of a))"

lemma overlap_card: "overlap_count a b = card (set a \<inter> set b)"
proof -
  have "distinct (filter (\<lambda>k. k \<in> set b) (keys_of a))" by simp
  then have "overlap_count a b = card (set (filter (\<lambda>k. k \<in> set b) (keys_of a)))"
    by (simp only: overlap_count_def distinct_card)
  also have "set (filter (\<lambda>k. k \<in> set b) (keys_of a)) = set a \<inter> set b" by auto
  finally show ?thesis .
qed

lemma length_keys_card: "length (keys_of a) = card (set a)"
  by (metis distinct_card distinct_keys_of set_keys_of)

lemma jaccard_card: "jaccard a b = (if set a = {} \<and> set b = {} then 1
    else fl64 (fl64 (of_nat (card (set a \<inter> set b))) / fl64 (of_nat (card (set a \<union> set b)))))"
  using overlap_card [of a b] by (simp add: jaccard_def overlap_count_def length_keys_card)

lemma jaccard_commute: "jaccard a b = jaccard b a"
  by (simp add: jaccard_card Int_commute Un_commute conj_commute)

lemma jaccard_range: "0 \<le> jaccard a b \<and> jaccard a b \<le> 1"
proof (cases "set a = {} \<and> set b = {}")
  case True
  then show ?thesis by (simp add: jaccard_card)
next
  case False
  have "card (set a \<inter> set b) \<le> card (set a \<union> set b)" by (intro card_mono) auto
  then have "fl64 (of_nat (card (set a \<inter> set b))) \<le> fl64 (of_nat (card (set a \<union> set b)))"
    by (intro f64.mono) simp
  moreover have "0 \<le> fl64 (of_nat (card (set a \<inter> set b)))" by (intro f64.nonneg) simp
  ultimately have "0 \<le> fl64 (of_nat (card (set a \<inter> set b))) / fl64 (of_nat (card (set a \<union> set b)))"
    "fl64 (of_nat (card (set a \<inter> set b))) / fl64 (of_nat (card (set a \<union> set b))) \<le> 1"
    by (auto simp: divide_le_eq_1)
  with False show ?thesis by (simp add: jaccard_card f64.nonneg f64.le_one)
qed

lemma fl64_nat: "n \<le> 2 ^ 53 \<Longrightarrow> fl64 (of_nat n) = of_nat n"
  using f64.int [of "int n"] by simp

text \<open>Below 1 by at least one part in \<open>2 ^ 52\<close> stays below 1.\<close>

lemma fl64_gap: "x \<le> 1 - 1 / 2 ^ 52 \<Longrightarrow> fl64 x \<le> 1 - 1 / 2 ^ 52"
proof -
  assume x: "x \<le> 1 - 1 / 2 ^ 52"
  let ?g = "1 - 1 / 2 ^ 52 :: rat"
  have "(2 :: rat) powi (- 1) < 2 powi (expo ?g + 1)" "(2 :: rat) powi (expo ?g) < 2 powi 0"
    using expo_bounds [of ?g] by simp_all
  then have "expo ?g = - 1" unfolding powi_two_less by simp
  then have "?g = of_int (2 ^ 53 - 2) * unit64 ?g" by (simp add: unit64_def power_int_minus)
  from flpos_grid_id [OF this] have "fl64 ?g = ?g" by (simp add: fl64_def)
  with f64.mono [OF x] show ?thesis by simp
qed

lemma jaccard_gap:
  assumes "card (set a \<union> set b) \<le> 2 ^ 52" and ne: "set a \<noteq> set b"
  shows "jaccard a b \<le> 1 - 1 / 2 ^ 52"
proof -
  let ?i = "card (set a \<inter> set b)" and ?u = "card (set a \<union> set b)"
  have less: "?i < ?u" using ne by (intro psubset_card_mono) auto
  then have u: "0 < ?u" by linarith
  have small: "fl64 (of_nat ?i) = of_nat ?i" "fl64 (of_nat ?u) = of_nat ?u"
    using assms less by (intro fl64_nat; simp)+
  have "(of_nat (Suc ?i) :: rat) \<le> of_nat ?u" using less by (simp only: of_nat_le_iff Suc_le_eq)
  then have le: "(of_nat ?i :: rat) \<le> of_nat ?u - 1" by simp
  then have "(of_nat ?i :: rat) / of_nat ?u \<le> (of_nat ?u - 1) / of_nat ?u"
    by (intro divide_right_mono) simp_all
  also have "\<dots> = 1 - 1 / of_nat ?u"
  proof -
    have "(of_nat ?u :: rat) \<noteq> 0" using u by (simp only: of_nat_eq_0_iff)
    then show ?thesis by (simp only: diff_divide_distrib divide_self not_False_eq_True)
  qed
  also have "(1 :: rat) - 1 / of_nat ?u \<le> 1 - 1 / 2 ^ 52"
  proof -
    have "(of_nat ?u :: rat) \<le> of_nat (2 ^ 52)" using assms(1) by (simp only: of_nat_le_iff)
    moreover have "(0 :: rat) < of_nat ?u" using u by (simp only: of_nat_0_less_iff)
    ultimately have "(1 :: rat) / of_nat (2 ^ 52) \<le> 1 / of_nat ?u" by (intro divide_left_mono) simp_all
    then show ?thesis by simp
  qed
  finally have "fl64 (of_nat ?i / of_nat ?u) \<le> 1 - 1 / 2 ^ 52" by (rule fl64_gap)
  moreover have "\<not> (set a = {} \<and> set b = {})" using ne by blast
  ultimately show ?thesis by (simp only: jaccard_card small if_False)
qed

lemma jaccard_self: "card (set a) \<le> 2 ^ 52 \<Longrightarrow> set a = set b \<Longrightarrow> jaccard a b = 1"
proof (cases "set a = {}")
  case False
  assume bound: "card (set a) \<le> 2 ^ 52" and eq: "set a = set b"
  have "0 < card (set a)" using False by (simp add: card_gt_0_iff)
  then have "(of_nat (card (set a)) :: rat) \<noteq> 0" by (simp only: of_nat_eq_0_iff)
  moreover have "fl64 (of_nat (card (set a))) = of_nat (card (set a))" using bound by (intro fl64_nat) simp
  ultimately show ?thesis using False eq f64.one by (simp add: jaccard_card)
qed (simp add: jaccard_card)

lemma fl64_jaccard_one_iff:
  assumes "card (set a \<union> set b) \<le> 2 ^ 52"
  shows "1 \<le> fl64 (jaccard a b) \<longleftrightarrow> set a = set b"
  using fl64_gap [OF jaccard_gap [OF assms]] jaccard_self [of a b] assms f64.one by fastforce

section \<open>Properties\<close>

lemma default_caps: "prScoreCaps default_profile =
    [\<lparr>capSignal = ''artifact_drift'', capRateGT = fl64 (5 / 100), capMaxScore = 85\<rparr>]"
  by (simp add: default_profile_def)

text \<open>
  C32. Range of a scorecard: below the operations threshold it is marked insufficient with score -1,
  above it the penalty lies in [0, 1] and the score in [0, 100], for every profile whose caps are
  not negative, every order in which the signals are summed, and the rounding of every step.
\<close>
theorem score_range:
  assumes "\<And>cap. cap \<in> set (prScoreCaps p) \<Longrightarrow> 0 \<le> capMaxScore cap"
  shows "let sc = ComputeWithProfileAndMinOperations ord p results totalOps x minOps in
    if totalOps < (if minOps \<le> 0 then prMinOperations p else minOps)
    then scScore sc = - 1 \<and> \<not> scSufficient sc \<and> scBand sc = ''insufficient_data''
    else scSufficient sc \<and> 0 \<le> scPenalty sc \<and> scPenalty sc \<le> 1 \<and> 0 \<le> scScore sc \<and> scScore sc \<le> 100"
proof (cases "totalOps < (if minOps \<le> 0 then prMinOperations p else minOps)")
  case True
  with Compute_insufficient [OF this, of ord results x] show ?thesis by (simp only: Let_def if_True simp_thms)
next
  case False
  have "0 \<le> score_of ord p results totalOps x \<and> score_of ord p results totalOps x \<le> 100"
    using assms by (intro conjI score_of_range)
  with False show ?thesis
    by (simp only: Let_def if_False Compute_sufficient [OF False] penalty_of_range)
qed

theorem score_range_witness:
  "let sc = ComputeWithProfileAndMinOperations rev default_profile [\<lparr>srName = ''retry_loop'', srCount = 500, srEventIDs = []\<rparr>] 200 0 0 in
    scSufficient sc \<and> 0 \<le> scPenalty sc \<and> scPenalty sc \<le> 1 \<and> 0 \<le> scScore sc \<and> scScore sc \<le> 100"
proof -
  have "prMinOperations default_profile = 100" by (simp add: default_profile_def)
  then show ?thesis
    using score_range [of default_profile rev "[\<lparr>srName = ''retry_loop'', srCount = 500, srEventIDs = []\<rparr>]" 200 0 0]
    by (simp add: default_caps Let_def)
qed

text \<open>
  Caps and the confidence ceiling: a computed score never exceeds the maximum of a cap whose
  signal's rate is above the cap's threshold, nor the positive ceiling of the confidence the
  scorecard reports.
\<close>
theorem caps_enforced:
  assumes "\<not> totalOps < (if minOps \<le> 0 then prMinOperations p else minOps)"
  shows "let sc = ComputeWithProfileAndMinOperations ord p results totalOps x minOps in
    (\<forall>cap\<in>set (prScoreCaps p). capRateGT cap < rate_of (scRates sc) (capSignal cap) \<longrightarrow> scScore sc \<le> capMaxScore cap)
    \<and> (0 < cfScoreCeiling (scConfidence sc) \<longrightarrow> scScore sc \<le> cfScoreCeiling (scConfidence sc))"
proof -
  have "score_of ord p results totalOps x \<le> capMaxScore cap"
    if "cap \<in> set (prScoreCaps p)" "capRateGT cap < rate_of (signal_rates results totalOps) (capSignal cap)" for cap
    unfolding score_of_def using apply_ceiling_le apply_caps_enforced [OF that] order_trans by blast
  moreover have "score_of ord p results totalOps x \<le> cfScoreCeiling (confidence_of p results totalOps x)"
    if "0 < cfScoreCeiling (confidence_of p results totalOps x)"
    using that by (simp add: score_of_def apply_ceiling_def)
  ultimately show ?thesis by (simp add: Compute_sufficient [OF assms])
qed

theorem caps_enforced_witness:
  "let sc = ComputeWithProfile id default_profile [\<lparr>srName = ''artifact_drift'', srCount = 30, srEventIDs = []\<rparr>] 100 0 in
    fl64 (5 / 100) < rate_of (scRates sc) ''artifact_drift'' \<and> scScore sc \<le> 85"
proof -
  let ?rs = "[\<lparr>srName = ''artifact_drift'', srCount = 30, srEventIDs = []\<rparr>] :: SignalResult list"
  have min: "prMinOperations default_profile = 100" by (simp add: default_profile_def)
  have "fl64 (5 / 100) < fl64 (fl64 30 / fl64 100)" by code_simp
  then have rate: "fl64 (5 / 100) < rate_of (scRates (ComputeWithProfile id default_profile ?rs 100 0)) ''artifact_drift''"
    by (simp add: ComputeWithProfile_def Compute_sufficient min rate_of_def signal_rates_def signal_rate_def signal_counts_def)
  then show ?thesis
    using caps_enforced [of 100 100 default_profile id ?rs 0]
    by (simp add: min default_caps ComputeWithProfile_def Let_def)
qed



text \<open>
  The score depends on the order in which the map of signals is visited: with the default profile,
  one protocol violation, ten retry loops and 35 blast radius signals over 100 operations, two orders
  of summation give two different scores, since rounded addition is not associative. Go visits a map
  in an unspecified order.
\<close>
theorem score_depends_on_order:
  "scScore (Compute id [\<lparr>srName = ''protocol_violation'', srCount = 1, srEventIDs = []\<rparr>,
       \<lparr>srName = ''retry_loop'', srCount = 10, srEventIDs = []\<rparr>, \<lparr>srName = ''blast_radius'', srCount = 35, srEventIDs = []\<rparr>] 100 0)
   \<noteq> scScore (Compute rev [\<lparr>srName = ''protocol_violation'', srCount = 1, srEventIDs = []\<rparr>,
       \<lparr>srName = ''retry_loop'', srCount = 10, srEventIDs = []\<rparr>, \<lparr>srName = ''blast_radius'', srCount = 35, srEventIDs = []\<rparr>] 100 0)"
proof -
  let ?pv = "fl64 (fl64 (30 / 100) * fl64 (fl64 1 / fl64 100))"
    and ?rl = "fl64 (fl64 (15 / 100) * fl64 (fl64 10 / fl64 100))"
    and ?br = "fl64 (fl64 (10 / 100) * fl64 (fl64 35 / fl64 100))"
    and ?rs = "[\<lparr>srName = ''protocol_violation'', srCount = 1, srEventIDs = []\<rparr>,
       \<lparr>srName = ''retry_loop'', srCount = 10, srEventIDs = []\<rparr>, \<lparr>srName = ''blast_radius'', srCount = 35, srEventIDs = []\<rparr>]"
  have rates: "\<not> fl64 (10 / 100) < fl64 (fl64 1 / fl64 100)" "\<not> fl64 (5 / 100) < 0" "\<not> fl64 (50 / 100) < 0"
    by code_simp+
  have const: "fl64 (30 / 100) = 5404319552844595 / 18014398509481984"
    "fl64 (15 / 100) = 5404319552844595 / 36028797018963968"
    "fl64 (10 / 100) = 3602879701896397 / 36028797018963968"
    "fl64 (1) = 1"
    "fl64 (10) = 10"
    "fl64 (35) = 35"
    "fl64 (100) = 100"
    "fl64 (1 / 100) = 5764607523034235 / 576460752303423488"
    "fl64 (35 / 100) = 3152519739159347 / 9007199254740992"
    using fl64_cert [of "30 / 100" 54 5404319552844595]
      fl64_cert [of "15 / 100" 55 5404319552844595]
      fl64_cert [of "10 / 100" 56 7205759403792794]
      fl64_cert [of "1" 52 4503599627370496]
      fl64_cert [of "10" 49 5629499534213120]
      fl64_cert [of "35" 47 4925812092436480]
      fl64_cert [of "100" 46 7036874417766400]
      fl64_cert [of "1 / 100" 59 5764607523034235]
      fl64_cert [of "35 / 100" 54 6305039478318694]
    by simp_all
  have prod: "fl64 (5404319552844595 / 18014398509481984 * (5764607523034235 / 576460752303423488)) = 3458764513820541 / 1152921504606846976"
    "fl64 (5404319552844595 / 36028797018963968 * (3602879701896397 / 36028797018963968)) = 1080863910568919 / 72057594037927936"
    "fl64 (3602879701896397 / 36028797018963968 * (3152519739159347 / 9007199254740992)) = 5044031582654955 / 144115188075855872"
    using fl64_cert [of "5404319552844595 / 18014398509481984 * (5764607523034235 / 576460752303423488)" 61 6917529027641082]
      fl64_cert [of "5404319552844595 / 36028797018963968 * (3602879701896397 / 36028797018963968)" 59 8646911284551352]
      fl64_cert [of "3602879701896397 / 36028797018963968 * (3152519739159347 / 9007199254740992)" 57 5044031582654955]
    by simp_all
  have sums: "fl64 (3458764513820541 / 1152921504606846976) = 3458764513820541 / 1152921504606846976"
    "fl64 (3458764513820541 / 1152921504606846976 + 1080863910568919 / 72057594037927936) = 5188146770730811 / 288230376151711744"
    "fl64 (5188146770730811 / 288230376151711744 + 5044031582654955 / 144115188075855872) = 954763121002545 / 18014398509481984"
    "fl64 (1 - 954763121002545 / 18014398509481984) = 1066227211779965 / 1125899906842624"
    "fl64 (100 * (1066227211779965 / 1125899906842624)) = 6663920073624781 / 70368744177664"
    using fl64_cert [of "3458764513820541 / 1152921504606846976" 61 6917529027641082]
      fl64_cert [of "3458764513820541 / 1152921504606846976 + 1080863910568919 / 72057594037927936" 58 5188146770730811]
      fl64_cert [of "5188146770730811 / 288230376151711744 + 5044031582654955 / 144115188075855872" 57 7638104968020360]
      fl64_cert [of "1 - 954763121002545 / 18014398509481984" 53 8529817694239720]
      fl64_cert [of "100 * (1066227211779965 / 1125899906842624)" 46 6663920073624781]
    by simp_all
  have sums2: "fl64 (5044031582654955 / 144115188075855872) = 5044031582654955 / 144115188075855872"
    "fl64 (5044031582654955 / 144115188075855872 + 1080863910568919 / 72057594037927936) = 7205759403792793 / 144115188075855872"
    "fl64 (7205759403792793 / 144115188075855872 + 3458764513820541 / 1152921504606846976) = 7638104968020361 / 144115188075855872"
    "fl64 (1 - 7638104968020361 / 144115188075855872) = 8529817694239719 / 9007199254740992"
    "fl64 (100 * (8529817694239719 / 9007199254740992)) = 1665980018406195 / 17592186044416"
    using fl64_cert [of "5044031582654955 / 144115188075855872" 57 5044031582654955]
      fl64_cert [of "5044031582654955 / 144115188075855872 + 1080863910568919 / 72057594037927936" 57 7205759403792793]
      fl64_cert [of "7205759403792793 / 144115188075855872 + 3458764513820541 / 1152921504606846976" 57 7638104968020361]
      fl64_cert [of "1 - 7638104968020361 / 144115188075855872" 53 8529817694239719]
      fl64_cert [of "100 * (8529817694239719 / 9007199254740992)" 46 6663920073624780]
    by simp_all
  have clamp: "clamp_penalty (954763121002545 / 18014398509481984) = 954763121002545 / 18014398509481984"
    "clamp_penalty (7638104968020361 / 144115188075855872) = 7638104968020361 / 144115188075855872"
    by (simp_all add: clamp_penalty_def)
  have scores: "base_score (clamp_penalty (fl64 (fl64 (fl64 ?pv + ?rl) + ?br)))
      \<noteq> base_score (clamp_penalty (fl64 (fl64 (fl64 ?br + ?rl) + ?pv)))"
    unfolding const prod sums sums2 clamp base_score_def by simp
  have eqs: "signal_rates ?rs 100 ''protocol_violation'' = Some (fl64 (fl64 1 / fl64 100))"
    "signal_rates ?rs 100 ''retry_loop'' = Some (fl64 (fl64 10 / fl64 100))"
    "signal_rates ?rs 100 ''blast_radius'' = Some (fl64 (fl64 35 / fl64 100))"
    "signal_rates ?rs 100 ''artifact_drift'' = None"
    by (simp_all add: signal_rates_def signal_rate_def signal_counts_def)
  have weights: "map_of (weight_entries default_profile) ''protocol_violation'' = Some (fl64 (30 / 100))"
    "map_of (weight_entries default_profile) ''retry_loop'' = Some (fl64 (15 / 100))"
    "map_of (weight_entries default_profile) ''blast_radius'' = Some (fl64 (10 / 100))"
    by (simp_all add: weight_entries_def default_profile_def)
  have pen: "penalty_of id default_profile ?rs 100 = clamp_penalty (fl64 (fl64 (fl64 ?pv + ?rl) + ?br))"
    "penalty_of rev default_profile ?rs 100 = clamp_penalty (fl64 (fl64 (fl64 ?br + ?rl) + ?pv))"
    by (simp_all add: penalty_of_def raw_penalty_def penalty_term_def rate_of_def eqs weights del: One_nat_def)
  have conf: "cfScoreCeiling (confidence_of default_profile ?rs 100 0) = 100"
    using rates by (simp add: confidence_of_def computeConfidence_def rate_of_def eqs default_profile_def del: One_nat_def)
  have caps: "apply_caps (prScoreCaps default_profile) (signal_rates ?rs 100) s = s" for s
    using rates by (simp add: apply_caps_def default_caps rate_of_def eqs del: One_nat_def)
  have score: "score_of ord default_profile ?rs 100 0 = base_score (penalty_of ord default_profile ?rs 100)" for ord
    using base_score_range(2) [OF penalty_of_range, of ord default_profile ?rs 100]
    by (simp add: score_of_def caps apply_ceiling_def conf del: One_nat_def)
  have "prMinOperations default_profile = 100" by (simp add: default_profile_def)
  then show ?thesis
    using scores by (simp add: Compute_def ComputeWithProfile_def Compute_sufficient score pen del: One_nat_def)
qed

text \<open>
  Comparison of workloads: the overlap of two profiles lies in [0, 1], is symmetric, and is 1
  exactly when the tools and the scopes are the same sets, for up to \<open>2 ^ 52\<close> keys.
\<close>
theorem workload_overlap:
  assumes "card (set (wpTools a) \<union> set (wpTools b)) \<le> 2 ^ 52" and "card (set (wpScopes a) \<union> set (wpScopes b)) \<le> 2 ^ 52"
  shows "0 \<le> WorkloadOverlap a b \<and> WorkloadOverlap a b \<le> 1 \<and> WorkloadOverlap a b = WorkloadOverlap b a
    \<and> (WorkloadOverlap a b = 1 \<longleftrightarrow> set (wpTools a) = set (wpTools b) \<and> set (wpScopes a) = set (wpScopes b))"
proof -
  let ?t = "jaccard (wpTools a) (wpTools b)" and ?s = "jaccard (wpScopes a) (wpScopes b)"
  have t: "0 \<le> ?t" "?t \<le> 1" and s: "0 \<le> ?s" "?s \<le> 1" using jaccard_range by blast+
  have le: "?t * ?s \<le> ?t" "?t * ?s \<le> ?s"
    using mult_left_le [OF s(2) t(1)] mult_left_le [OF t(2) s(1)] by (simp_all add: mult.commute)
  have "0 \<le> fl64 (?t * ?s)" "fl64 (?t * ?s) \<le> 1"
    using t s by (auto intro!: f64.nonneg f64.le_one mult_le_one)
  moreover have "fl64 (?t * ?s) = 1 \<longleftrightarrow> set (wpTools a) = set (wpTools b) \<and> set (wpScopes a) = set (wpScopes b)"
  proof
    assume one: "fl64 (?t * ?s) = 1"
    then have "1 \<le> fl64 ?t" "1 \<le> fl64 ?s" using f64.mono [OF le(1)] f64.mono [OF le(2)] by simp_all
    then show "set (wpTools a) = set (wpTools b) \<and> set (wpScopes a) = set (wpScopes b)"
      using fl64_jaccard_one_iff assms by blast
  next
    assume "set (wpTools a) = set (wpTools b) \<and> set (wpScopes a) = set (wpScopes b)"
    then have "?t = 1 \<and> ?s = 1" using jaccard_self assms by simp
    then show "fl64 (?t * ?s) = 1" by (simp add: f64.one)
  qed
  ultimately show ?thesis
    by (simp add: WorkloadOverlap_def jaccard_commute)
qed

theorem workload_overlap_witness:
  "WorkloadOverlap \<lparr>wpTools = [''kubectl''], wpScopes = [''prod'', ''dev'']\<rparr> \<lparr>wpTools = [''kubectl''], wpScopes = [''dev'', ''prod'']\<rparr> = 1"
proof -
  have "card {''dev'', ''prod''} \<le> 2 ^ 52" "card {''kubectl''} \<le> 2 ^ 52" by simp_all
  moreover have "{''prod'', ''dev''} = {''dev'', ''prod''}" by auto
  ultimately show ?thesis
    using workload_overlap [of "\<lparr>wpTools = [''kubectl''], wpScopes = [''prod'', ''dev'']\<rparr>"
        "\<lparr>wpTools = [''kubectl''], wpScopes = [''dev'', ''prod'']\<rparr>"]
    by (simp add: insert_commute)
qed

end
