(* ===== verification/Assess.thy ===== *)
theory Assess
  imports Risk Entry
begin

text \<open>
  The assessment pipeline (\<^verbatim>\<open>internal/assess\<close>) and the SARIF reader (\<^verbatim>\<open>internal/sarif/parser.go\<close>): each
  assessor turns an action and its raw artifact into risk inputs, or fails; the pipeline runs them in
  order and takes the maximum. An assessor is a function; what the pipeline needs of one is the
  interface \<open>assessor\<close>, which the three assessors of the program are proved to meet.
\<close>

section \<open>Assessors\<close>

type_synonym Assessor = "CanonicalAction \<Rightarrow> string \<Rightarrow> string + RiskInput list"

definition MatrixAssessor :: Assessor where
  "MatrixAssessor action raw =
     Inr [\<lparr>riSource = ''evidra/matrix'', riRiskLevel = RiskLevel (caOperationClass action) (caScopeClass action),
           riRiskTags = [], riDetail = []\<rparr>]"

definition DetectorAssessor :: "Decoders \<Rightarrow> Assessor" where
  "DetectorAssessor d action raw =
     (if raw = [] then Inr []
      else (let tags = ProduceAll d action raw;
                matrixLevel = RiskLevel (caOperationClass action) (caScopeClass action)
            in Inr [\<lparr>riSource = ''evidra/native'', riRiskLevel = ElevateRiskLevel matrixLevel tags,
                     riRiskTags = tags, riDetail = []\<rparr>]))"

record FindingsSource =
  fsSource :: string
  fsFindings :: "FindingPayload list"

definition count_severity :: "FindingPayload list \<Rightarrow> string \<Rightarrow> nat" where
  "count_severity fs sev = length (filter (\<lambda>f. ToLower (TrimSpace (fpSeverity f)) = sev) fs)"

definition buildFindingsSummary :: "nat \<Rightarrow> (string \<Rightarrow> nat) \<Rightarrow> string" where
  "buildFindingsSummary n counts =
     (if n = 0 then []
      else dec n @ '' findings ('' @
        Join (map (\<lambda>s. dec (counts s) @ '' '' @ s)
          (filter (\<lambda>s. 0 < counts s) [''critical'', ''high'', ''medium'', ''low''])) '', '' @ '')'')"

definition finding_tag :: "FindingPayload \<Rightarrow> string" where
  "finding_tag f = ToLower (TrimSpace (fpTool f)) @ ''.'' @ TrimSpace (fpRuleID f)"

text \<open>The loop over the findings: the tags seen, in order, and the highest level.\<close>

fun findings_loop :: "string list \<Rightarrow> string \<Rightarrow> FindingPayload list \<Rightarrow> string list \<times> string" where
  "findings_loop tags maxLevel [] = (tags, maxLevel)"
| "findings_loop tags maxLevel (f # fs) =
     (let severity = ToLower (TrimSpace (fpSeverity f)); tag = finding_tag f in
      findings_loop
        (if tag \<noteq> ''.'' \<and> tag \<notin> set tags \<and> (severity = ''high'' \<or> severity = ''critical'')
         then tags @ [tag] else tags)
        (if SeverityHigherThan severity maxLevel then severity else maxLevel) fs)"

definition findings_source :: "FindingsSource \<Rightarrow> string" where
  "findings_source src =
     (let source = TrimSpace (fsSource src) in
      case fsFindings src of
        [] \<Rightarrow> source
      | f # fs \<Rightarrow>
          if source \<noteq> [] then source
          else (let version = TrimSpace (fpToolVersion f); tool = ToLower (TrimSpace (fpTool f)) in
                if version = [] then tool else tool @ ''/'' @ version))"

definition buildFindingsRiskInput :: "FindingsSource \<Rightarrow> RiskInput" where
  "buildFindingsRiskInput src =
     (case findings_loop [] ''low'' (fsFindings src) of (tags, maxLevel) \<Rightarrow>
        \<lparr>riSource = findings_source src, riRiskLevel = maxLevel, riRiskTags = tags,
         riDetail = buildFindingsSummary (length (fsFindings src)) (count_severity (fsFindings src))\<rparr>)"

definition SARIFAssessor :: "FindingsSource list \<Rightarrow> Assessor" where
  "SARIFAssessor sources action raw = Inr (map buildFindingsRiskInput sources)"

section \<open>The pipeline\<close>

record AssessResult =
  arRiskInputs :: "RiskInput list"
  arEffectiveRisk :: string
  arNativeTags :: "string list"

fun computeEffectiveRisk :: "string \<Rightarrow> RiskInput list \<Rightarrow> string" where
  "computeEffectiveRisk best [] = best"
| "computeEffectiveRisk best (ri # ris) =
     computeEffectiveRisk (if SeverityHigherThan (riRiskLevel ri) best then riRiskLevel ri else best) ris"

definition native_tags :: "RiskInput list \<Rightarrow> string list" where
  "native_tags ris = concat (map riRiskTags (filter (\<lambda>ri. riSource ri = ''evidra/native'') ris))"

fun run_assessors :: "Assessor list \<Rightarrow> CanonicalAction \<Rightarrow> string \<Rightarrow> string + RiskInput list" where
  "run_assessors [] action raw = Inr []"
| "run_assessors (a # as) action raw =
     bindE (a action raw) (\<lambda>inputs. bindE (run_assessors as action raw) (\<lambda>rest. Inr (inputs @ rest)))"

definition Pipeline_Run :: "Assessor list \<Rightarrow> CanonicalAction \<Rightarrow> string \<Rightarrow> string + AssessResult" where
  "Pipeline_Run assessors action raw =
     bindE (run_assessors assessors action raw) (\<lambda>allInputs.
       Inr \<lparr>arRiskInputs = allInputs, arEffectiveRisk = computeEffectiveRisk ''low'' allInputs,
            arNativeTags = native_tags allInputs\<rparr>)"

section \<open>SARIF\<close>

record sarifResult =
  srRuleID :: string
  srLevel :: string
  srMessage :: string
  srLocations :: "string list"   \<comment> \<open>the artifact URI of each location\<close>

record sarifRun =
  srnName :: string
  srnVersion :: string
  srnResults :: "sarifResult list"

definition mapSeverity :: "string \<Rightarrow> string" where
  "mapSeverity level =
     (let l = ToLower (TrimSpace level) in
      if l = ''critical'' then ''critical''
      else if l \<in> {''high'', ''error''} then ''high''
      else if l \<in> {''medium'', ''warning''} then ''medium''
      else if l \<in> {''low'', ''note''} then ''low''
      else ''info'')"

definition sarif_finding :: "string \<Rightarrow> string \<Rightarrow> sarifResult \<Rightarrow> FindingPayload" where
  "sarif_finding toolName toolVersion r =
     \<lparr>fpTool = toolName, fpToolVersion = toolVersion, fpRuleID = srRuleID r,
      fpSeverity = mapSeverity (srLevel r),
      fpResource = (case srLocations r of [] \<Rightarrow> [] | u # us \<Rightarrow> u), fpMessage = srMessage r\<rparr>"

text \<open>\<open>report\<close> is what the JSON decoder gives: the runs, or \<^term>\<open>None\<close> where it fails.\<close>

definition Sarif_Parse :: "sarifRun list option \<Rightarrow> string + FindingPayload list" where
  "Sarif_Parse report =
     (case report of None \<Rightarrow> Inl ''sarif.Parse''
      | Some runs \<Rightarrow> Inr (concat (map (\<lambda>run.
          let name = ToLower (TrimSpace (srnName run)) in
          map (sarif_finding (if name = [] then ''unknown'' else name) (TrimSpace (srnVersion run)))
            (srnResults run)) runs)))"

section \<open>What the pipeline needs of an assessor\<close>

lemma severity_range: "- 1 \<le> severity l" "severity l \<le> 3"
  by (auto simp: severity_def split: option.split dest: riskSeverity_Some)

lemma severity_level: "l \<in> risk_levels \<Longrightarrow> 0 \<le> severity l"
  by (auto simp: severity_def riskSeverity_level dest: riskSeverity_Some)

lemma severity_not_level: "l \<notin> risk_levels \<Longrightarrow> severity l = - 1"
  by (simp add: severity_def riskSeverity_level)

lemma higher_level: "SeverityHigherThan a b \<Longrightarrow> a \<in> risk_levels"
  by (auto simp: SeverityHigherThan_def riskSeverity_level split: option.splits)

lemma low_level [simp]: "''low'' \<in> risk_levels"
  by (simp add: risk_levels_def)

lemma severity_low [simp]: "severity ''low'' = 0"
  by (simp add: severity_def)

text \<open>Both loops keep the higher of two levels, so both compute a maximum.\<close>

definition pick :: "string \<Rightarrow> string \<Rightarrow> string" where
  "pick level best = (if SeverityHigherThan level best then level else best)"

lemma pick_max:
  "best \<in> risk_levels \<Longrightarrow> fold pick levels best \<in> risk_levels \<and>
    severity (fold pick levels best) = Max (insert (severity best) (severity ` set levels))"
proof (induction levels arbitrary: best)
  case Nil
  then show ?case by simp
next
  case (Cons l levels)
  have b: "pick l best \<in> risk_levels" using Cons.prems higher_level by (simp add: pick_def)
  have sev: "severity (pick l best) = max (severity best) (severity l)"
    by (simp add: pick_def SeverityHigherThan_severity max_def)
  let ?S = "severity ` set levels"
  have "Max (insert (severity (pick l best)) ?S) = Max (insert (severity best) (insert (severity l) ?S))"
    unfolding sev by (cases "?S = {}") (simp_all add: max.assoc max.left_commute)
  with Cons.IH [OF b] show ?case by simp
qed

lemma effective_pick: "computeEffectiveRisk best ris = fold pick (map riRiskLevel ris) best"
  by (induction ris arbitrary: best) (simp_all add: pick_def)

lemma findings_pick: "snd (findings_loop tags l fs) = fold pick (map (\<lambda>f. ToLower (TrimSpace (fpSeverity f))) fs) l"
  by (induction fs arbitrary: tags l) (simp_all add: Let_def pick_def)

lemma effective_max: "computeEffectiveRisk ''low'' ris \<in> risk_levels"
    "severity (computeEffectiveRisk ''low'' ris) = Max (insert 0 (severity ` riRiskLevel ` set ris))"
  using pick_max [OF low_level, of "map riRiskLevel ris"] by (simp_all add: effective_pick image_image)

lemma effective_append_mono:
  "severity (computeEffectiveRisk ''low'' ris) \<le> severity (computeEffectiveRisk ''low'' (ris @ ris'))"
  unfolding effective_max by (intro Max_mono) auto

locale assessor =
  fixes assess :: Assessor
  assumes succeeds: "\<exists>ris. assess action raw = Inr ris"
    and levels: "assess action raw = Inr ris \<Longrightarrow> ri \<in> set ris \<Longrightarrow> riRiskLevel ri \<in> risk_levels"
begin

text \<open>Adding such an assessor at the end of a pipeline never makes it fail, and never lowers its result.\<close>

lemma run_extended:
  assumes "run_assessors as action raw = Inr ris"
  shows "\<exists>more. assess action raw = Inr more \<and> run_assessors (as @ [assess]) action raw = Inr (ris @ more)"
  using assms
proof (induction as arbitrary: ris)
  case Nil
  with succeeds [of action raw] show ?case by auto
next
  case (Cons a as)
  then obtain x r where "a action raw = Inr x" "run_assessors as action raw = Inr r" "ris = x @ r" by auto
  with Cons.IH [of r] show ?case by fastforce
qed

lemma pipeline_extended:
  assumes "Pipeline_Run as action raw = Inr r"
  shows "\<exists>r'. Pipeline_Run (as @ [assess]) action raw = Inr r' \<and>
    severity (arEffectiveRisk r) \<le> severity (arEffectiveRisk r')"
proof -
  obtain ris where ris: "run_assessors as action raw = Inr ris" "arEffectiveRisk r = computeEffectiveRisk ''low'' ris"
    using assms by (auto simp: Pipeline_Run_def)
  with run_extended [OF ris(1)] effective_append_mono [of ris] show ?thesis
    by (auto simp: Pipeline_Run_def)
qed

end

interpretation matrix: assessor MatrixAssessor
  by unfold_locales (auto simp: MatrixAssessor_def)

interpretation detector: assessor "DetectorAssessor d" for d
  by unfold_locales (auto simp: DetectorAssessor_def Let_def split: if_splits)

lemma findings_input: "riRiskLevel (buildFindingsRiskInput src) \<in> risk_levels"
    "severity (riRiskLevel (buildFindingsRiskInput src)) =
      Max (insert 0 ((\<lambda>f. severity (ToLower (TrimSpace (fpSeverity f)))) ` set (fsFindings src)))"
  using pick_max [OF low_level, of "map (\<lambda>f. ToLower (TrimSpace (fpSeverity f))) (fsFindings src)"]
  by (simp_all add: buildFindingsRiskInput_def findings_pick image_image case_prod_beta)

interpretation sarif: assessor "SARIFAssessor sources" for sources
  by unfold_locales (auto simp: SARIFAssessor_def findings_input)

section \<open>The service's pipeline\<close>

text \<open>The assessors of \<open>Prescribe\<close>: matrix and detectors, and the findings given with the operation.\<close>

definition service_assessors :: "Decoders \<Rightarrow> FindingsSource list \<Rightarrow> Assessor list" where
  "service_assessors d findings =
     [MatrixAssessor, DetectorAssessor d] @ (if findings = [] then [] else [SARIFAssessor findings])"

definition service_inputs :: "Decoders \<Rightarrow> FindingsSource list \<Rightarrow> CanonicalAction \<Rightarrow> string \<Rightarrow> RiskInput list" where
  "service_inputs d findings action raw =
     (let level = RiskLevel (caOperationClass action) (caScopeClass action); tags = ProduceAll d action raw in
      \<lparr>riSource = ''evidra/matrix'', riRiskLevel = level, riRiskTags = [], riDetail = []\<rparr>
      # (if raw = [] then [] else [\<lparr>riSource = ''evidra/native'', riRiskLevel = ElevateRiskLevel level tags,
           riRiskTags = tags, riDetail = []\<rparr>])
      @ map buildFindingsRiskInput findings)"

lemma service_run: "run_assessors (service_assessors d findings) action raw = Inr (service_inputs d findings action raw)"
  by (simp add: service_assessors_def service_inputs_def MatrixAssessor_def DetectorAssessor_def SARIFAssessor_def Let_def)

lemma service_result: "Pipeline_Run (service_assessors d findings) action raw =
    Inr \<lparr>arRiskInputs = service_inputs d findings action raw,
      arEffectiveRisk = computeEffectiveRisk ''low'' (service_inputs d findings action raw),
      arNativeTags = native_tags (service_inputs d findings action raw)\<rparr>"
  by (simp add: Pipeline_Run_def service_run)

section \<open>Properties\<close>

text \<open>
  C34. The risk of a prescription is a maximum: the pipeline of the service never fails, and its
  effective risk is the level whose severity is the greatest of \<open>low\<close>, the matrix level, the level
  elevated by the detectors where there is an artifact, and the severities of all findings; a
  severity that is no level counts for nothing. Adding a source of findings never lowers it.
\<close>

theorem effective_risk_maximum:
  "\<exists>r r'. Pipeline_Run (service_assessors d findings) action raw = Inr r \<and>
    Pipeline_Run (service_assessors d (findings @ [src])) action raw = Inr r' \<and>
    arEffectiveRisk r \<in> risk_levels \<and>
    severity (arEffectiveRisk r) = Max (
      {0, severity (RiskLevel (caOperationClass action) (caScopeClass action))} \<union>
      (if raw = [] then {} else {severity (ElevateRiskLevel
         (RiskLevel (caOperationClass action) (caScopeClass action)) (ProduceAll d action raw))}) \<union>
      severity ` (\<lambda>f. ToLower (TrimSpace (fpSeverity f))) ` set (concat (map fsFindings findings))) \<and>
    \<not> SeverityHigherThan (arEffectiveRisk r) (arEffectiveRisk r')"
proof -
  let ?ris = "service_inputs d findings action raw"
  let ?level = "RiskLevel (caOperationClass action) (caScopeClass action)"
  let ?sev = "\<lambda>src. (\<lambda>f. severity (ToLower (TrimSpace (fpSeverity f)))) ` set (fsFindings src)"
  have sources: "Max (A \<union> (\<lambda>src. Max (insert 0 (?sev src))) ` set fs) = Max (A \<union> \<Union> (?sev ` set fs))"
    if "finite A" "0 \<in> A" for A fs
  proof (induction fs)
    case (Cons src fs)
    let ?B = "A \<union> (\<lambda>src. Max (insert 0 (?sev src))) ` set fs" and ?C = "A \<union> \<Union> (?sev ` set fs)"
    have "Max (A \<union> (\<lambda>src. Max (insert 0 (?sev src))) ` set (src # fs)) = max (Max (insert 0 (?sev src))) (Max ?B)"
      unfolding list.set image_insert Un_insert_right using that by (intro Max_insert) auto
    also have "\<dots> = max (Max (insert 0 (?sev src))) (Max ?C)" by (simp only: Cons.IH)
    also have "\<dots> = Max (insert 0 (?sev src) \<union> ?C)"
      using that by (intro Max_Un [symmetric]) auto
    also have "insert 0 (?sev src) \<union> ?C = A \<union> \<Union> (?sev ` set (src # fs))" using that by auto
    finally show ?case .
  qed simp
  have "severity (computeEffectiveRisk ''low'' ?ris) = Max (({0, severity ?level} \<union>
      (if raw = [] then {} else {severity (ElevateRiskLevel ?level (ProduceAll d action raw))}))
      \<union> (\<lambda>src. Max (insert 0 (?sev src))) ` set findings)"
    unfolding effective_max
    by (rule arg_cong [where f = Max]) (auto simp: service_inputs_def Let_def findings_input image_image)
  also have "\<dots> = Max (({0, severity ?level} \<union>
      (if raw = [] then {} else {severity (ElevateRiskLevel ?level (ProduceAll d action raw))}))
      \<union> severity ` (\<lambda>f. ToLower (TrimSpace (fpSeverity f))) ` set (concat (map fsFindings findings)))"
    by (subst sources) (auto simp: image_image image_UN)
  finally have max: "severity (computeEffectiveRisk ''low'' ?ris) = \<dots>" .
  have "service_inputs d (findings @ [src]) action raw = ?ris @ [buildFindingsRiskInput src]"
    by (simp add: service_inputs_def Let_def)
  then have "severity (computeEffectiveRisk ''low'' ?ris)
      \<le> severity (computeEffectiveRisk ''low'' (service_inputs d (findings @ [src]) action raw))"
    by (simp only: effective_append_mono)
  with max show ?thesis
    by (simp add: service_result effective_max SeverityHigherThan_severity not_less)
qed

text \<open>
  Without an artifact no detector runs: for an action that is given with its canonical form and an
  empty artifact, the pipeline's result is the matrix level alone, though the detectors of
  operations need no artifact and would fire, as the one for changes in \<open>kube-system\<close> does.
\<close>

theorem empty_artifact_skips_detectors:
  assumes "caOperationClass action = ''mutate''" and "r \<in> set (caResourceIdentity action)"
    and "ridNamespace r = ''kube-system''"
  shows "''ops.kube_system'' \<in> set (ProduceAll d action []) \<and>
    BaseSeverityForTag ''ops.kube_system'' = Some ''high'' \<and>
    Pipeline_Run (service_assessors d []) action [] =
      Inr \<lparr>arRiskInputs = [\<lparr>riSource = ''evidra/matrix'', riRiskLevel = RiskLevel ''mutate'' (caScopeClass action),
             riRiskTags = [], riDetail = []\<rparr>],
           arEffectiveRisk = RiskLevel ''mutate'' (caScopeClass action), arNativeTags = []\<rparr>"
proof (intro conjI)
  let ?x = "\<lparr>dTag = ''ops.kube_system'', dBaseSeverity = ''high'', dDetect = KubeSystem_Detect\<rparr>"
  have in_reg: "?x \<in> set detector_registry" by (simp add: detector_registry_def)
  have "TrimSpace ''kube-system'' = ''kube-system''" by (simp add: TrimSpace_def is_space_def)
  then have "KubeSystem_Detect d action []"
    using assms by (auto simp: KubeSystem_Detect_def list_ex_iff intro!: bexI [of _ r])
  then show "''ops.kube_system'' \<in> set (ProduceAll d action [])"
    using in_reg by (force simp: ProduceAll_fired)
  show "BaseSeverityForTag ''ops.kube_system'' = Some ''high''"
    using BaseSeverity_registry [OF in_reg] by simp
  have "computeEffectiveRisk ''low'' [\<lparr>riSource = ''evidra/matrix'', riRiskLevel = l, riRiskTags = [], riDetail = []\<rparr>] = l"
    if "l \<in> risk_levels" for l
    using that by (auto simp: risk_levels_def SeverityHigherThan_def)
  then show "Pipeline_Run (service_assessors d []) action [] =
      Inr \<lparr>arRiskInputs = [\<lparr>riSource = ''evidra/matrix'', riRiskLevel = RiskLevel ''mutate'' (caScopeClass action),
             riRiskTags = [], riDetail = []\<rparr>],
           arEffectiveRisk = RiskLevel ''mutate'' (caScopeClass action), arNativeTags = []\<rparr>"
    by (simp add: service_result service_inputs_def assms(1) native_tags_def Let_def del: computeEffectiveRisk.simps)
qed

definition sample_kube_action :: CanonicalAction where
  "sample_kube_action = zero_action\<lparr>caOperationClass := ''mutate'', caScopeClass := ''development'',
     caResourceIdentity := [no_id\<lparr>ridNamespace := ''kube-system''\<rparr>]\<rparr>"

theorem empty_artifact_skips_detectors_witness:
  "''ops.kube_system'' \<in> set (ProduceAll sample_decoders sample_kube_action []) \<and>
   map_option arEffectiveRisk (case Pipeline_Run (service_assessors sample_decoders []) sample_kube_action [] of
     Inl e \<Rightarrow> None | Inr r \<Rightarrow> Some r) = Some ''low''"
proof -
  have "RiskLevel ''mutate'' ''development'' = ''low''" by code_simp
  then show ?thesis
    using empty_artifact_skips_detectors [of sample_kube_action "no_id\<lparr>ridNamespace := ''kube-system''\<rparr>" sample_decoders]
    by (simp add: sample_kube_action_def)
qed

end
