(* ===== verification/Lifecycle.thy ===== *)
theory Lifecycle
  imports Lookup Assess
begin

text \<open>
  The prescribe/report service (\<^verbatim>\<open>internal/lifecycle/service.go\<close>, \<^verbatim>\<open>types.go\<close>) over the evidence store.
  Its state is a \<open>World\<close>: the store, the lookup cache, the state of the retry recorder (an interface
  in the source, so of any type here), and the number of steps taken, which indexes what the
  surroundings decide at each step (\<open>Env\<close>): fresh identifiers, the clock, the outcome of the lock,
  failing system calls. An operation returns the new world and an error or an output. Errors are one
  constructor per error the source builds, with \<open>ErrorCode\<close> giving its code; the text of messages, and
  the copy of the written entry as bytes in the outputs, are not modelled.
\<close>

section \<open>Errors\<close>

datatype Code = InvalidInput | CodeParseError | CodeNotFound | Internal | EvidenceRead | EvidenceWrite | NoSignerConfigured

datatype LifecycleError =
    EvidenceSignerRequired
  | ActorTypeRequired
  | ActorIDRequired
  | ActorProvenanceRequired
  | InvalidScopeClass string
  | CanonicalizationFailed CanonError
  | AssessmentFailed string
  | BuildFailed BuildError
  | ReadEvidenceFailed StoreErr
  | WriteEvidenceFailed StoreErr
  | PrescriptionIDRequired
  | PrescriptionNotFound
  | SessionMismatch string string
  | VerdictRequired
  | DeclinedWithExitCode
  | DecisionContextRequired
  | TriggerRequired
  | ReasonRequired
  | ReasonTooLong
  | DecisionContextNotAllowed
  | ExitCodeRequired Verdict
  | VerdictMismatch Verdict int

fun ErrorCode :: "LifecycleError \<Rightarrow> Code" where
  "ErrorCode EvidenceSignerRequired = NoSignerConfigured"
| "ErrorCode (CanonicalizationFailed e) = CodeParseError"
| "ErrorCode (AssessmentFailed e) = Internal"
| "ErrorCode (BuildFailed e) = Internal"
| "ErrorCode (ReadEvidenceFailed e) = EvidenceRead"
| "ErrorCode (WriteEvidenceFailed e) = EvidenceWrite"
| "ErrorCode PrescriptionNotFound = CodeNotFound"
| "ErrorCode _ = InvalidInput"

section \<open>Inputs and outputs\<close>

record PrescribeInput =
  piActor :: Actor
  piTool :: string
  piOperation :: string
  piRawArtifact :: string
  piEnvironment :: string
  piCanonicalAction :: "CanonicalAction option"
  piExternalFindings :: "FindingsSource list"
  piSessionID :: string
  piOperationID :: string
  piAttempt :: int
  piTraceID :: string
  piSpanID :: string
  piParentSpanID :: string
  piScopeDimensions :: "(string \<times> string) list"
  piFlavor :: Flavor
  piEvidenceKind :: EvidenceKind
  piSourceSystem :: string

record PrescribeOutput =
  poPrescriptionID :: string
  poSessionID :: string
  poTraceID :: string
  poActor :: Actor
  poRiskInputs :: "RiskInput list"
  poEffectiveRisk :: string
  poRiskTags :: "string list"
  poArtifactDigest :: string
  poIntentDigest :: string
  poShapeHash :: string
  poResourceCount :: int
  poOperationClass :: string
  poScopeClass :: string
  poCanonVersion :: string
  poRetryCount :: int
  poEntry :: EvidenceEntry
  poPersisted :: bool

record ReportInput =
  tiPrescriptionID :: string
  tiVerdict :: Verdict
  tiExitCode :: "int option"
  tiDecisionContext :: "DecisionContext option"
  tiArtifactDigest :: string
  tiActor :: Actor
  tiExternalRefs :: "ExternalRef list"
  tiSessionID :: string
  tiOperationID :: string
  tiSpanID :: string
  tiParentSpanID :: string
  tiFlavor :: Flavor
  tiEvidenceKind :: EvidenceKind
  tiSourceSystem :: string

record ReportOutput =
  toReportID :: string
  toSessionID :: string
  toTraceID :: string
  toActor :: Actor
  toPrescriptionID :: string
  toVerdict :: Verdict
  toExitCode :: "int option"
  toDecisionContext :: "DecisionContext option"
  toEntry :: EvidenceEntry
  toPersisted :: bool

section \<open>The service and its surroundings\<close>

record 'r Service =
  svEvidencePath :: string
  svSigner :: "Signer option"
  svRetryTracker :: "('r \<Rightarrow> string \<Rightarrow> string \<Rightarrow> int \<times> 'r) option"
  svBestEffortWrites :: bool
  svPipeline :: "Assessor list option"

record Env =
  evDigest :: "json \<Rightarrow> string option"
  evFresh :: "nat \<Rightarrow> string"
  evNow :: "nat \<Rightarrow> time"
  evLock :: "nat \<Rightarrow> lock_outcome"
  evFaults :: "nat \<Rightarrow> Faults"
  evSegmentBytes :: string
  evLineSize :: "EvidenceEntry \<Rightarrow> nat"
  evCanon :: CanonEnv
  evDecoders :: Decoders
  evCanonText :: "CanonError \<Rightarrow> string"
  evVersion :: string

record 'r World =
  wStore :: store
  wCache :: entry_cache
  wRetry :: 'r
  wStep :: nat

type_synonym ('r, 'a) svc = "'r World \<Rightarrow> 'r World \<times> (LifecycleError + 'a)"

definition bindW :: "('r, 'a) svc \<Rightarrow> ('a \<Rightarrow> ('r, 'b) svc) \<Rightarrow> ('r, 'b) svc" where
  "bindW m f w = (case m w of (w', Inl e) \<Rightarrow> (w', Inl e) | (w', Inr x) \<Rightarrow> f x w')"

definition returnW :: "'a \<Rightarrow> ('r, 'a) svc" where
  "returnW x w = (w, Inr x)"

definition liftW :: "LifecycleError + 'a \<Rightarrow> ('r, 'a) svc" where
  "liftW r w = (w, r)"

text \<open>One step: the surroundings' choice at this step, and the step is counted.\<close>

definition stepW :: "(nat \<Rightarrow> 'a) \<Rightarrow> ('r, 'a) svc" where
  "stepW f w = (w\<lparr>wStep := Suc (wStep w)\<rparr>, Inr (f (wStep w)))"

definition maxBytes :: "Env \<Rightarrow> int" where
  "maxBytes env = segmentMaxBytesFromEnv (evSegmentBytes env)"

text \<open>The operations of the store at a step.\<close>

definition store_LastHash :: "Env \<Rightarrow> ('r, StoreErr + string) svc" where
  "store_LastHash env w =
     (let (st, r) = LastHashAtPath (evLock env (wStep w)) (evFaults env (wStep w)) (maxBytes env) (wStore w)
      in (w\<lparr>wStore := st, wStep := Suc (wStep w)\<rparr>, Inr r))"

definition store_Append :: "Env \<Rightarrow> EvidenceEntry \<Rightarrow> ('r, StoreErr + unit) svc" where
  "store_Append env entry w =
     (let (cache, st, r) = AppendEntryAtPath (evLock env (wStep w)) (evFaults env (wStep w))
            (evNow env (wStep w)) (maxBytes env) (evLineSize env) entry (wCache w) (wStore w)
      in (w\<lparr>wStore := st, wCache := cache, wStep := Suc (wStep w)\<rparr>, Inr r))"

definition store_Find :: "Env \<Rightarrow> string \<Rightarrow> ('r, StoreErr + EvidenceEntry option) svc" where
  "store_Find env entryID w =
     (let (cache, r) = FindEntryByID (evLock env (wStep w)) entryID (wCache w) (wStore w)
      in (w\<lparr>wCache := cache, wStep := Suc (wStep w)\<rparr>, Inr r))"

definition build_entry :: "Env \<Rightarrow> EntryBuildParams \<Rightarrow> ('r, BuildError + EvidenceEntry) svc" where
  "build_entry env p = stepW (\<lambda>n. BuildEntry (evDigest env) (evNow env n) (evFresh env n) p)"

section \<open>Normalisation and validation\<close>

definition normalizeToken :: "string \<Rightarrow> string" where
  "normalizeToken v = ToLower (TrimSpace v)"

definition normalizeActor :: "Actor \<Rightarrow> Actor" where
  "normalizeActor a = \<lparr>acType = TrimSpace (acType a), acID = TrimSpace (acID a),
     acProvenance = TrimSpace (acProvenance a), acInstanceID = TrimSpace (acInstanceID a),
     acVersion = TrimSpace (acVersion a), acSkillVersion = TrimSpace (acSkillVersion a)\<rparr>"

definition validatePrescribeActor :: "Actor \<Rightarrow> LifecycleError + unit" where
  "validatePrescribeActor a =
     (if acType a = [] then Inl ActorTypeRequired
      else if acID a = [] then Inl ActorIDRequired
      else if acProvenance a = [] then Inl ActorProvenanceRequired
      else Inr ())"

definition normalizeIngressScopeClass :: "string \<Rightarrow> LifecycleError + string" where
  "normalizeIngressScopeClass raw =
     (let v = TrimSpace raw; normalized = NormalizeScopeClass v in
      if v = [] then Inr ''unknown''
      else if normalized \<noteq> ''unknown'' \<or> EqualFold v ''unknown'' then Inr normalized
      else Inl (InvalidScopeClass v))"

definition normalizeCanonicalAction :: "CanonicalAction \<Rightarrow> string \<Rightarrow> string \<Rightarrow> LifecycleError + CanonicalAction" where
  "normalizeCanonicalAction action tool operation =
     (let t = normalizeToken (caTool action); oper = normalizeToken (caOperation action) in
      bindE (normalizeIngressScopeClass (caScopeClass action)) (\<lambda>scopeClass.
        Inr (action\<lparr>caTool := (if t = [] then tool else t),
                    caOperation := (if oper = [] then operation else oper),
                    caScopeClass := scopeClass\<rparr>)))"

definition validateDecisionReportInput :: "ReportInput \<Rightarrow> LifecycleError + DecisionContext option" where
  "validateDecisionReportInput input =
     (let verdict = tiVerdict input in
      if \<not> Verdict_Valid verdict then Inl VerdictRequired
      else if verdict = VerdictDeclined then
        (if tiExitCode input \<noteq> None then Inl DeclinedWithExitCode
         else case tiDecisionContext input of
           None \<Rightarrow> Inl DecisionContextRequired
         | Some dc \<Rightarrow>
             (let trigger = TrimSpace (dcTrigger dc); reason = TrimSpace (dcReason dc) in
              if trigger = [] then Inl TriggerRequired
              else if reason = [] then Inl ReasonRequired
              else if 512 < length reason then Inl ReasonTooLong
              else Inr (Some \<lparr>dcTrigger = trigger, dcReason = reason\<rparr>)))
      else if tiDecisionContext input \<noteq> None then Inl DecisionContextNotAllowed
      else case tiExitCode input of
        None \<Rightarrow> Inl (ExitCodeRequired verdict)
      | Some code \<Rightarrow>
          if VerdictFromExitCode code \<noteq> verdict then Inl (VerdictMismatch verdict code) else Inr None)"

definition payloadEvidenceMetadata :: "EvidenceKind \<Rightarrow> EvidenceKind option" where
  "payloadEvidenceMetadata kind = (if TrimSpace kind = [] then None else Some kind)"

definition payloadSourceMetadata :: "string \<Rightarrow> string option" where
  "payloadSourceMetadata system = (let s = TrimSpace system in if s = [] then None else Some s)"

definition requiredSigner :: "Signer option \<Rightarrow> LifecycleError + unit" where
  "requiredSigner signer = (if signer = None then Inl EvidenceSignerRequired else Inr ())"

section \<open>Reading the head and appending\<close>

definition appendEntry :: "Env \<Rightarrow> 'r Service \<Rightarrow> EvidenceEntry \<Rightarrow> ('r, bool) svc" where
  "appendEntry env s entry =
     (if svEvidencePath s = [] then returnW False
      else bindW (store_Append env entry) (\<lambda>r. case r of
        Inr _ \<Rightarrow> returnW True
      | Inl e \<Rightarrow> if svBestEffortWrites s then returnW False else liftW (Inl (WriteEvidenceFailed e))))"

definition lastHash :: "Env \<Rightarrow> 'r Service \<Rightarrow> ('r, string) svc" where
  "lastHash env s =
     (if svEvidencePath s = [] then returnW []
      else bindW (store_LastHash env) (\<lambda>r. case r of
        Inr h \<Rightarrow> returnW h
      | Inl e \<Rightarrow> if svBestEffortWrites s then returnW [] else liftW (Inl (ReadEvidenceFailed e))))"

text \<open>The fields that all calls of \<open>BuildEntry\<close> share.\<close>

definition entry_params ::
  "Env \<Rightarrow> 'r Service \<Rightarrow> EntryType \<Rightarrow> string \<Rightarrow> string \<Rightarrow> string \<Rightarrow> Actor \<Rightarrow> json \<Rightarrow> string \<Rightarrow> EntryBuildParams" where
  "entry_params env s typ sessionID operationID traceID actor payload previousHash =
     \<lparr>bpEntryID = [], bpType = typ, bpTenantID = [], bpSessionID = sessionID, bpOperationID = operationID,
      bpAttempt = 0, bpTraceID = traceID, bpSpanID = [], bpParentSpanID = [], bpActor = actor,
      bpIntentDigest = [], bpArtifactDigest = [], bpPayload = payload, bpPreviousHash = previousHash,
      bpScopeDimensions = [], bpSpecVersion = ''v1.1.0'', bpCanonVersion = [],
      bpAdapterVersion = evVersion env, bpScoringVersion = ''v1.1.0'', bpSigner = svSigner s\<rparr>"

text \<open>An advisory entry: a head that cannot be read is taken as empty, and every error is dropped.\<close>

definition write_advisory ::
  "Env \<Rightarrow> ('r, string) svc \<Rightarrow> (string \<Rightarrow> string \<Rightarrow> EntryBuildParams) \<Rightarrow> ('r, unit) svc" where
  "write_advisory env trace params =
     bindW (store_LastHash env) (\<lambda>r.
     bindW trace (\<lambda>traceID.
     bindW (build_entry env (params traceID (case r of Inr h \<Rightarrow> h | Inl _ \<Rightarrow> []))) (\<lambda>b. case b of
       Inl _ \<Rightarrow> returnW ()
     | Inr entry \<Rightarrow> bindW (store_Append env entry) (\<lambda>_. returnW ()))))"

definition writeCanonicalizationFailure ::
  "Env \<Rightarrow> 'r Service \<Rightarrow> Actor \<Rightarrow> CanonResult \<Rightarrow> CanonError \<Rightarrow> string \<Rightarrow> string \<Rightarrow> string \<Rightarrow> int \<Rightarrow> ('r, unit) svc" where
  "writeCanonicalizationFailure env s actor cr err sessionID traceID0 operationID attempt =
     (if svEvidencePath s = [] then returnW ()
      else bindW (if traceID0 = [] then stepW (evFresh env) else returnW traceID0) (\<lambda>traceID.
        write_advisory env (returnW traceID) (\<lambda>traceID h.
          (entry_params env s EntryTypeCanonFailure sessionID operationID traceID actor
             (canon_failure_json \<lparr>cfErrorCode = ''parse_error'', cfErrorMessage = evCanonText env err,
                cfAdapter = crCanonVersion cr, cfRawDigest = crArtifactDigest cr\<rparr>) h)
          \<lparr>bpAttempt := attempt, bpArtifactDigest := crArtifactDigest cr\<rparr>)))"

definition writeUnknownPrescriptionSignal ::
  "Env \<Rightarrow> 'r Service \<Rightarrow> Actor \<Rightarrow> string \<Rightarrow> string \<Rightarrow> string \<Rightarrow> ('r, unit) svc" where
  "writeUnknownPrescriptionSignal env s actor prescriptionID sessionID operationID =
     (if svEvidencePath s = [] then returnW ()
      else write_advisory env (stepW (evFresh env)) (\<lambda>traceID h.
        entry_params env s EntryTypeSignal sessionID operationID traceID actor
          (signal_json \<lparr>spSignalName = ''protocol_violation'', spSubSignal = ''unprescribed_action'',
             spEntryRefs = [prescriptionID],
             spDetails = ''report references unknown prescription '' @ prescriptionID\<rparr>) h))"

text \<open>The loop over the findings drops every error and goes on with the next finding.\<close>

definition ignoreW :: "('r, 'a) svc \<Rightarrow> ('r, unit) svc" where
  "ignoreW m w = (fst (m w), Inr ())"

definition write_finding ::
  "Env \<Rightarrow> 'r Service \<Rightarrow> string \<Rightarrow> string \<Rightarrow> string \<Rightarrow> int \<Rightarrow> Actor \<Rightarrow> string \<Rightarrow> FindingPayload \<Rightarrow> ('r, unit) svc" where
  "write_finding env s sessionID traceID operationID attempt actor artifactDigest finding =
     ignoreW (bindW (lastHash env s) (\<lambda>h.
       bindW (build_entry env ((entry_params env s EntryTypeFinding sessionID operationID traceID actor
          (finding_json finding) h)\<lparr>bpAttempt := attempt, bpArtifactDigest := artifactDigest\<rparr>)) (\<lambda>b. case b of
         Inl _ \<Rightarrow> returnW ()
       | Inr entry \<Rightarrow> bindW (appendEntry env s entry) (\<lambda>_. returnW ()))))"

fun eachW :: "('a \<Rightarrow> ('r, unit) svc) \<Rightarrow> 'a list \<Rightarrow> ('r, unit) svc" where
  "eachW f [] = returnW ()"
| "eachW f (x # xs) = bindW (f x) (\<lambda>_. eachW f xs)"

definition writeFindingsEvidence ::
  "Env \<Rightarrow> 'r Service \<Rightarrow> FindingsSource list \<Rightarrow> string \<Rightarrow> string \<Rightarrow> string \<Rightarrow> int \<Rightarrow> Actor \<Rightarrow> string \<Rightarrow> ('r, unit) svc" where
  "writeFindingsEvidence env s sources sessionID traceID operationID attempt actor artifactDigest =
     (if svEvidencePath s = [] then returnW ()
      else eachW (write_finding env s sessionID (if traceID = [] then sessionID else traceID) operationID attempt
             actor artifactDigest) (concat (map fsFindings sources)))"

section \<open>Prescribe\<close>

record prescribeContext =
  pcTool :: string
  pcOperation :: string
  pcEnvironment :: string
  pcSessionID :: string
  pcTraceID :: string
  pcActor :: Actor

definition buildPrescribeContext :: "Env \<Rightarrow> PrescribeInput \<Rightarrow> ('r, prescribeContext) svc" where
  "buildPrescribeContext env input =
     bindW (if TrimSpace (piSessionID input) = [] then stepW (evFresh env)
            else returnW (TrimSpace (piSessionID input))) (\<lambda>sessionID.
       let traceID = TrimSpace (piTraceID input);
           ctx = \<lparr>pcTool = normalizeToken (piTool input), pcOperation = normalizeToken (piOperation input),
             pcEnvironment = TrimSpace (piEnvironment input), pcSessionID = sessionID,
             pcTraceID = (if traceID = [] then sessionID else traceID), pcActor = normalizeActor (piActor input)\<rparr>
       in bindW (liftW (validatePrescribeActor (pcActor ctx))) (\<lambda>_. returnW ctx))"

definition external_result :: "Env \<Rightarrow> CanonicalAction \<Rightarrow> string \<Rightarrow> CanonResult" where
  "external_result env preCanon raw =
     \<lparr>crArtifactDigest = hBytes (ceHashes (evCanon env)) raw,
      crIntentDigest = ComputeIntentDigest (ceHashes (evCanon env)) preCanon, crCanonicalAction = preCanon,
      crCanonVersion = ''external/v1'', crRawAction = Some (action_json preCanon), crParseError = None\<rparr>"

definition canonicalizePrescribeInput ::
  "Env \<Rightarrow> 'r Service \<Rightarrow> PrescribeInput \<Rightarrow> prescribeContext \<Rightarrow> ('r, CanonResult \<times> string) svc" where
  "canonicalizePrescribeInput env s input ctx =
     (case piCanonicalAction input of
        Some action \<Rightarrow>
          bindW (liftW (normalizeCanonicalAction action (pcTool ctx) (pcOperation ctx))) (\<lambda>preCanon.
            returnW (external_result env preCanon (piRawArtifact input), ''external''))
      | None \<Rightarrow>
          (let cr = Canonicalize (evCanon env) (pcTool ctx) (pcOperation ctx) (pcEnvironment ctx) (piRawArtifact input)
           in case crParseError cr of
                None \<Rightarrow> returnW (cr, ''adapter'')
              | Some err \<Rightarrow>
                  bindW (writeCanonicalizationFailure env s (pcActor ctx) cr err (pcSessionID ctx) (pcTraceID ctx)
                           (TrimSpace (piOperationID input)) (piAttempt input))
                    (\<lambda>_. liftW (Inl (CanonicalizationFailed err)))))"

definition prescribe_assessors :: "Env \<Rightarrow> 'r Service \<Rightarrow> FindingsSource list \<Rightarrow> Assessor list" where
  "prescribe_assessors env s findings =
     (case svPipeline s of None \<Rightarrow> [MatrixAssessor, DetectorAssessor (evDecoders env)] | Some as \<Rightarrow> as)
       @ (if findings = [] then [] else [SARIFAssessor findings])"

definition record_retry :: "'r Service \<Rightarrow> string \<Rightarrow> string \<Rightarrow> ('r, int) svc" where
  "record_retry s intentDigest shapeHash w =
     (case svRetryTracker s of
        None \<Rightarrow> (w, Inr 0)
      | Some rec \<Rightarrow> (let (n, r) = rec (wRetry w) intentDigest shapeHash in (w\<lparr>wRetry := r\<rparr>, Inr n)))"

definition prescription_payload ::
  "PrescribeInput \<Rightarrow> CanonResult \<Rightarrow> string \<Rightarrow> AssessResult \<Rightarrow> string \<Rightarrow> PrescriptionPayload" where
  "prescription_payload input cr canonSource result prescriptionID =
     \<lparr>ppPrescriptionID = prescriptionID, ppCanonicalAction = crRawAction cr,
      ppRiskInputs = arRiskInputs result, ppEffectiveRisk = arEffectiveRisk result, ppRiskLevel = [],
      ppRiskDetails = [], ppRiskTags = [], ppTTLMs = DefaultTTLMs, ppCanonSource = canonSource,
      ppFlavor = piFlavor input, ppEvidence = payloadEvidenceMetadata (piEvidenceKind input),
      ppSource = payloadSourceMetadata (piSourceSystem input)\<rparr>"

definition prescribe_params ::
  "Env \<Rightarrow> 'r Service \<Rightarrow> PrescribeInput \<Rightarrow> prescribeContext \<Rightarrow> CanonResult \<Rightarrow> PrescriptionPayload \<Rightarrow> string \<Rightarrow> EntryBuildParams" where
  "prescribe_params env s input ctx cr payload h =
     (entry_params env s EntryTypePrescribe (pcSessionID ctx) (TrimSpace (piOperationID input)) (pcTraceID ctx)
        (pcActor ctx) (prescription_json payload) h)
     \<lparr>bpEntryID := ppPrescriptionID payload, bpAttempt := piAttempt input, bpSpanID := TrimSpace (piSpanID input),
      bpParentSpanID := TrimSpace (piParentSpanID input), bpIntentDigest := crIntentDigest cr,
      bpArtifactDigest := crArtifactDigest cr, bpScopeDimensions := piScopeDimensions input,
      bpCanonVersion := crCanonVersion cr\<rparr>"

definition prescribe_output ::
  "prescribeContext \<Rightarrow> CanonResult \<Rightarrow> AssessResult \<Rightarrow> int \<Rightarrow> EvidenceEntry \<Rightarrow> bool \<Rightarrow> PrescribeOutput" where
  "prescribe_output ctx cr result retryCount entry persisted =
     \<lparr>poPrescriptionID = EntryID entry, poSessionID = pcSessionID ctx, poTraceID = pcTraceID ctx,
      poActor = pcActor ctx, poRiskInputs = arRiskInputs result, poEffectiveRisk = arEffectiveRisk result,
      poRiskTags = arNativeTags result, poArtifactDigest = crArtifactDigest cr, poIntentDigest = crIntentDigest cr,
      poShapeHash = caResourceShapeHash (crCanonicalAction cr), poResourceCount = caResourceCount (crCanonicalAction cr),
      poOperationClass = caOperationClass (crCanonicalAction cr), poScopeClass = caScopeClass (crCanonicalAction cr),
      poCanonVersion = crCanonVersion cr, poRetryCount = retryCount, poEntry = entry, poPersisted = persisted\<rparr>"

definition Prescribe :: "Env \<Rightarrow> 'r Service \<Rightarrow> PrescribeInput \<Rightarrow> ('r, PrescribeOutput) svc" where
  "Prescribe env s input =
     bindW (liftW (requiredSigner (svSigner s))) (\<lambda>_.
     bindW (buildPrescribeContext env input) (\<lambda>ctx.
     bindW (canonicalizePrescribeInput env s input ctx) (\<lambda>(cr, canonSource).
     bindW (liftW (case Pipeline_Run (prescribe_assessors env s (piExternalFindings input)) (crCanonicalAction cr)
                          (piRawArtifact input) of
                     Inl e \<Rightarrow> Inl (AssessmentFailed e) | Inr r \<Rightarrow> Inr r)) (\<lambda>result.
     bindW (record_retry s (crIntentDigest cr) (caResourceShapeHash (crCanonicalAction cr))) (\<lambda>retryCount.
     bindW (stepW (evFresh env)) (\<lambda>prescriptionID.
     bindW (lastHash env s) (\<lambda>h.
     bindW (build_entry env (prescribe_params env s input ctx cr
              (prescription_payload input cr canonSource result prescriptionID) h)) (\<lambda>b.
     bindW (liftW (case b of Inl e \<Rightarrow> Inl (BuildFailed e) | Inr entry \<Rightarrow> Inr entry)) (\<lambda>entry.
     bindW (appendEntry env s entry) (\<lambda>persisted.
     bindW (if persisted
            then writeFindingsEvidence env s (piExternalFindings input) (pcSessionID ctx) (pcTraceID ctx)
                   (TrimSpace (piOperationID input)) (piAttempt input) (pcActor ctx) (crArtifactDigest cr)
            else returnW ()) (\<lambda>_.
       returnW (prescribe_output ctx cr result retryCount entry persisted))))))))))))"

section \<open>Report\<close>

record reportContext =
  rcSessionID :: string
  rcOperationID :: string
  rcTraceID :: string
  rcActor :: Actor

definition loadReportPrescription ::
  "Env \<Rightarrow> 'r Service \<Rightarrow> ReportInput \<Rightarrow> string \<Rightarrow> ('r, EvidenceEntry option) svc" where
  "loadReportPrescription env s input prescriptionID =
     (if svEvidencePath s = [] then returnW None
      else bindW (store_Find env prescriptionID) (\<lambda>r. case r of
        Inl e \<Rightarrow> liftW (Inl (ReadEvidenceFailed e))
      | Inr (Some entry) \<Rightarrow> returnW (Some entry)
      | Inr None \<Rightarrow>
          bindW (if TrimSpace (tiSessionID input) = [] then stepW (evFresh env)
                 else returnW (TrimSpace (tiSessionID input))) (\<lambda>signalSessionID.
          bindW (writeUnknownPrescriptionSignal env s (normalizeActor (tiActor input)) prescriptionID signalSessionID
                   (TrimSpace (tiOperationID input))) (\<lambda>_.
            liftW (Inl PrescriptionNotFound)))))"

definition resolveReportContext :: "ReportInput \<Rightarrow> string \<Rightarrow> EvidenceEntry option \<Rightarrow> reportContext" where
  "resolveReportContext input freshTrace prescription =
     (let ctx = \<lparr>rcSessionID = TrimSpace (tiSessionID input), rcOperationID = TrimSpace (tiOperationID input),
            rcTraceID = freshTrace, rcActor = normalizeActor (tiActor input)\<rparr>
      in case prescription of
           None \<Rightarrow> ctx
         | Some p \<Rightarrow>
             \<lparr>rcSessionID = (if rcSessionID ctx = [] then SessionID p else rcSessionID ctx),
              rcOperationID = (if rcOperationID ctx = [] then OperationID p else rcOperationID ctx),
              rcTraceID = (if TraceID p = [] then freshTrace else TraceID p),
              rcActor = (if acID (rcActor ctx) = [] then EActor p else rcActor ctx)\<rparr>)"

definition validate_reportContext :: "reportContext \<Rightarrow> EvidenceEntry option \<Rightarrow> LifecycleError + unit" where
  "validate_reportContext ctx prescription =
     (case prescription of
        None \<Rightarrow> Inr ()
      | Some p \<Rightarrow>
          if rcSessionID ctx = [] \<or> SessionID p = [] \<or> rcSessionID ctx = SessionID p then Inr ()
          else Inl (SessionMismatch (rcSessionID ctx) (SessionID p)))"

definition report_payload :: "ReportInput \<Rightarrow> string \<Rightarrow> string \<Rightarrow> DecisionContext option \<Rightarrow> ReportPayload" where
  "report_payload input reportID prescriptionID decisionContext =
     \<lparr>rpReportID = reportID, rpPrescriptionID = prescriptionID, rpExitCode = tiExitCode input,
      rpVerdict = tiVerdict input, rpDecisionContext = decisionContext, rpExternalRefs = tiExternalRefs input,
      rpFlavor = tiFlavor input, rpEvidence = payloadEvidenceMetadata (tiEvidenceKind input),
      rpSource = payloadSourceMetadata (tiSourceSystem input)\<rparr>"

definition report_params ::
  "Env \<Rightarrow> 'r Service \<Rightarrow> ReportInput \<Rightarrow> reportContext \<Rightarrow> ReportPayload \<Rightarrow> string \<Rightarrow> EntryBuildParams" where
  "report_params env s input ctx payload h =
     (entry_params env s EntryTypeReport (rcSessionID ctx) (rcOperationID ctx) (rcTraceID ctx) (rcActor ctx)
        (report_json payload) h)
     \<lparr>bpSpanID := TrimSpace (tiSpanID input), bpParentSpanID := TrimSpace (tiParentSpanID input),
      bpArtifactDigest := tiArtifactDigest input\<rparr>"

definition report_output ::
  "ReportInput \<Rightarrow> reportContext \<Rightarrow> string \<Rightarrow> DecisionContext option \<Rightarrow> EvidenceEntry \<Rightarrow> bool \<Rightarrow> ReportOutput" where
  "report_output input ctx prescriptionID decisionContext entry persisted =
     \<lparr>toReportID = EntryID entry, toSessionID = rcSessionID ctx, toTraceID = rcTraceID ctx, toActor = rcActor ctx,
      toPrescriptionID = prescriptionID, toVerdict = tiVerdict input, toExitCode = tiExitCode input,
      toDecisionContext = decisionContext, toEntry = entry, toPersisted = persisted\<rparr>"

definition Report :: "Env \<Rightarrow> 'r Service \<Rightarrow> ReportInput \<Rightarrow> ('r, ReportOutput) svc" where
  "Report env s input =
     (let prescriptionID = TrimSpace (tiPrescriptionID input) in
      bindW (liftW (requiredSigner (svSigner s))) (\<lambda>_.
      bindW (liftW (if prescriptionID = [] then Inl PrescriptionIDRequired else Inr ())) (\<lambda>_.
      bindW (liftW (validateDecisionReportInput input)) (\<lambda>decisionContext.
      bindW (loadReportPrescription env s input prescriptionID) (\<lambda>prescription.
      bindW (stepW (evFresh env)) (\<lambda>reportID.
      bindW (stepW (evFresh env)) (\<lambda>freshTrace.
        let ctx = resolveReportContext input freshTrace prescription in
        bindW (liftW (validate_reportContext ctx prescription)) (\<lambda>_.
        bindW (lastHash env s) (\<lambda>h.
        bindW (build_entry env (report_params env s input ctx
                 (report_payload input reportID prescriptionID decisionContext) h)) (\<lambda>b.
        bindW (liftW (case b of Inl e \<Rightarrow> Inl (BuildFailed e) | Inr entry \<Rightarrow> Inr entry)) (\<lambda>entry.
        bindW (appendEntry env s entry) (\<lambda>persisted.
          returnW (report_output input ctx prescriptionID decisionContext entry persisted)))))))))))))"

end
