(* ===== verification/Bridge.thy ===== *)
theory Bridge
  imports Canon Payloads Entry Signal_Types
begin

text \<open>
  The bridge from evidence entries to the entries that the signal detectors read
  (\<^verbatim>\<open>internal/pipeline/bridge.go\<close>): prescriptions and reports are decoded from their payloads, a
  report takes the operation from the prescription it names, every other entry is skipped.
\<close>

section \<open>Reading a canonical action\<close>

definition resource_of :: "json \<Rightarrow> ResourceID option" where
  "resource_of j = (case fields_of j of None \<Rightarrow> None | Some fs \<Rightarrow>
     (case decode_str ''api_version'' fs of None \<Rightarrow> None | Some v \<Rightarrow>
     (case decode_str ''kind'' fs of None \<Rightarrow> None | Some k \<Rightarrow>
     (case decode_str ''namespace'' fs of None \<Rightarrow> None | Some ns \<Rightarrow>
     (case decode_str ''name'' fs of None \<Rightarrow> None | Some n \<Rightarrow>
     (case decode_str ''type'' fs of None \<Rightarrow> None | Some t \<Rightarrow>
     (case decode_str ''actions'' fs of None \<Rightarrow> None | Some as \<Rightarrow>
        Some \<lparr>ridAPIVersion = v, ridKind = k, ridNamespace = ns, ridName = n, ridType = t, ridActions = as\<rparr>)))))))"

definition action_of :: "json \<Rightarrow> CanonicalAction option" where
  "action_of j = (case fields_of j of None \<Rightarrow> None | Some fs \<Rightarrow>
     (case decode_str ''tool'' fs of None \<Rightarrow> None | Some t \<Rightarrow>
     (case decode_str ''operation'' fs of None \<Rightarrow> None | Some opn \<Rightarrow>
     (case decode_str ''operation_class'' fs of None \<Rightarrow> None | Some oc \<Rightarrow>
     (case decode_list resource_of no_id ''resource_identity'' fs of None \<Rightarrow> None | Some ids \<Rightarrow>
     (case decode_str ''scope_class'' fs of None \<Rightarrow> None | Some sc \<Rightarrow>
     (case decode_int ''resource_count'' fs of None \<Rightarrow> None | Some n \<Rightarrow>
     (case decode_str ''resource_shape_hash'' fs of None \<Rightarrow> None | Some h \<Rightarrow>
        Some \<lparr>caTool = t, caOperation = opn, caOperationClass = oc, caResourceIdentity = ids,
          caScopeClass = sc, caResourceCount = n, caResourceShapeHash = h\<rparr>))))))))"

text \<open>A raw message without text (\<^term>\<open>None\<close>) is not JSON, which is an error; \<open>null\<close> leaves the zero action.\<close>

definition extractCanonicalAction :: "json option \<Rightarrow> CanonicalAction option" where
  "extractCanonicalAction raw = (case raw of None \<Rightarrow> None | Some j \<Rightarrow> action_of j)"

section \<open>The conversion\<close>

datatype BridgeError = BadPrescription string | BadReport string

definition is_prescribe :: "EvidenceEntry \<Rightarrow> bool" where
  "is_prescribe e \<longleftrightarrow> Type e = EntryTypePrescribe"

definition is_report :: "EvidenceEntry \<Rightarrow> bool" where
  "is_report e \<longleftrightarrow> Type e = EntryTypeReport"

definition prescribed_action :: "EvidenceEntry \<Rightarrow> CanonicalAction option" where
  "prescribed_action e =
     (case unmarshal_prescription (Payload e) of None \<Rightarrow> None | Some p \<Rightarrow> extractCanonicalAction (ppCanonicalAction p))"

text \<open>The first loop: the actions by the id of the entry, or the first payload that does not decode.\<close>

definition prescribed_actions :: "EvidenceEntry list \<Rightarrow> BridgeError + (string \<rightharpoonup> CanonicalAction)" where
  "prescribed_actions entries =
     (case find (\<lambda>e. is_prescribe e \<and> unmarshal_prescription (Payload e) = None) entries of
        Some e \<Rightarrow> Inl (BadPrescription (EntryID e))
      | None \<Rightarrow> Inr (collect (\<lambda>e. if is_prescribe e
            then map_option (\<lambda>a. (EntryID e, a)) (prescribed_action e) else None) Map.empty entries))"

definition base_entry :: "EvidenceEntry \<Rightarrow> SEntry" where
  "base_entry e =
     \<lparr>enEventID = EntryID e, enTimestamp = Timestamp e, enTool = [], enOperation = [],
      enActorID = acID (EActor e), enEnvironment = [], enIsPrescription = False, enIsReport = False,
      enPrescriptionID = [], enArtifactDigest = ArtifactDigest e, enIntentDigest = IntentDigest e,
      enShapeHash = [], enResourceCount = 0, enOperationClass = [], enScopeClass = [], enExitCode = None,
      enRiskTags = []\<rparr>"

definition with_action :: "CanonicalAction option \<Rightarrow> SEntry \<Rightarrow> SEntry" where
  "with_action a se = (case a of None \<Rightarrow> se | Some ca \<Rightarrow>
     se\<lparr>enTool := caTool ca, enOperation := caOperation ca, enOperationClass := caOperationClass ca,
        enScopeClass := caScopeClass ca, enResourceCount := caResourceCount ca,
        enShapeHash := caResourceShapeHash ca\<rparr>)"

text \<open>One turn of the second loop; \<open>Inr None\<close> is \<open>continue\<close>.\<close>

definition bridge_entry :: "(string \<rightharpoonup> CanonicalAction) \<Rightarrow> EvidenceEntry \<Rightarrow> BridgeError + SEntry option" where
  "bridge_entry actions e =
     (if is_prescribe e then
        (case unmarshal_prescription (Payload e) of
           None \<Rightarrow> Inl (BadPrescription (EntryID e))
         | Some p \<Rightarrow> Inr (Some (with_action (extractCanonicalAction (ppCanonicalAction p))
             ((base_entry e)\<lparr>enIsPrescription := True, enRiskTags := NativeRiskTags p\<rparr>))))
      else if is_report e then
        (case unmarshal_report (Payload e) of
           None \<Rightarrow> Inl (BadReport (EntryID e))
         | Some r \<Rightarrow> Inr (Some (with_action (actions (rpPrescriptionID r))
             ((base_entry e)\<lparr>enIsReport := True, enPrescriptionID := rpPrescriptionID r, enExitCode := rpExitCode r\<rparr>))))
      else Inr None)"

fun bridge_loop :: "(string \<rightharpoonup> CanonicalAction) \<Rightarrow> EvidenceEntry list \<Rightarrow> BridgeError + SEntry list" where
  "bridge_loop actions [] = Inr []"
| "bridge_loop actions (e # es) =
     bindE (bridge_entry actions e) (\<lambda>r. bindE (bridge_loop actions es) (\<lambda>ses.
       Inr (case r of None \<Rightarrow> ses | Some se \<Rightarrow> se # ses)))"

definition EvidenceToSignalEntries :: "EvidenceEntry list \<Rightarrow> BridgeError + SEntry list" where
  "EvidenceToSignalEntries entries = bindE (prescribed_actions entries) (\<lambda>actions. bridge_loop actions entries)"

section \<open>Facts\<close>

lemma action_names [json_simps]:
  "lower_name ''api_version''" "lower_name ''namespace''" "lower_name ''name''" "lower_name ''actions''"
  "lower_name ''tool''" "lower_name ''operation''" "lower_name ''operation_class''" "lower_name ''resource_identity''"
  "lower_name ''scope_class''" "lower_name ''resource_count''" "lower_name ''resource_shape_hash''"
  by code_simp+

lemma resource_of_json [simp]: "resource_of (resource_json r) = Some r"
  by (simp add: resource_of_def resource_json_def decode_str_def json_simps)

lemma resource_json_not_null [simp]: "resource_json r \<noteq> JNull"
  by (simp add: resource_json_def)

text \<open>The canonical action that a prescription carries is read back as it was written.\<close>

lemma action_of_json [simp]: "action_of (action_json a) = Some a"
proof -
  obtain fs where fs: "action_json a = JObj fs" by (simp add: action_json_def)
  note fs_def = fs [unfolded action_json_def action_fields_def, simplified, symmetric]
  have "decode_list resource_of no_id ''resource_identity'' fs = Some (caResourceIdentity a)"
    using conv_all_map [of resource_of resource_json no_id "caResourceIdentity a"]
    by (simp add: fs_def decode_list_def decode_ptr_def resources_json_def json_simps)
  moreover have "decode_str ''tool'' fs = Some (caTool a)" "decode_str ''operation'' fs = Some (caOperation a)"
    "decode_str ''operation_class'' fs = Some (caOperationClass a)" "decode_str ''scope_class'' fs = Some (caScopeClass a)"
    "decode_str ''resource_shape_hash'' fs = Some (caResourceShapeHash a)"
    "decode_int ''resource_count'' fs = Some (caResourceCount a)"
    by (simp_all add: fs_def decode_str_def decode_int_def json_simps resources_json_def)
  ultimately show ?thesis by (simp add: action_of_def fs)
qed

lemma extract_written [simp]: "extractCanonicalAction (Some (action_json a)) = Some a"
  by (simp add: extractCanonicalAction_def)

text \<open>When every payload decodes, the conversion is a map over the prescriptions and reports.\<close>

definition decodes :: "EvidenceEntry \<Rightarrow> bool" where
  "decodes e \<longleftrightarrow> (is_prescribe e \<longrightarrow> unmarshal_prescription (Payload e) \<noteq> None) \<and>
     (is_report e \<longrightarrow> unmarshal_report (Payload e) \<noteq> None)"

definition signal_entry :: "(string \<rightharpoonup> CanonicalAction) \<Rightarrow> EvidenceEntry \<Rightarrow> SEntry option" where
  "signal_entry actions e = (case bridge_entry actions e of Inl _ \<Rightarrow> None | Inr r \<Rightarrow> r)"

lemma bridge_loop_map:
  "(\<And>e. e \<in> set es \<Longrightarrow> decodes e) \<Longrightarrow> bridge_loop actions es = Inr (List.map_filter (signal_entry actions) es)"
proof (induction es)
  case Nil
  then show ?case by (simp add: map_filter_def)
next
  case (Cons e es)
  then have "bridge_loop actions es = Inr (List.map_filter (signal_entry actions) es)" by simp
  moreover have "bridge_entry actions e \<noteq> Inl x" for x
    using Cons.prems [of e] by (auto simp: decodes_def bridge_entry_def split: option.splits)
  then obtain r where r: "bridge_entry actions e = Inr r" by (cases "bridge_entry actions e") auto
  moreover have "signal_entry actions e = r" by (simp add: signal_entry_def r)
  ultimately show ?case by (simp add: map_filter_simps split: option.split)
qed

lemma Evidence_to_signal:
  assumes "\<And>e. e \<in> set es \<Longrightarrow> decodes e"
  obtains actions where "EvidenceToSignalEntries es = Inr (List.map_filter (signal_entry actions) es)"
    "prescribed_actions es = Inr actions"
proof -
  have "find (\<lambda>e. is_prescribe e \<and> unmarshal_prescription (Payload e) = None) es = None"
    using assms by (auto simp: find_None_iff decodes_def)
  then obtain actions where "prescribed_actions es = Inr actions" by (simp add: prescribed_actions_def)
  with bridge_loop_map [of es actions] assms that show thesis by (simp add: EvidenceToSignalEntries_def)
qed

lemma Evidence_to_signal_Inr:
  assumes "EvidenceToSignalEntries es = Inr ses"
  shows "\<forall>e\<in>set es. decodes e"
proof -
  obtain actions where "prescribed_actions es = Inr actions" "bridge_loop actions es = Inr ses"
    using assms by (cases "prescribed_actions es") (auto simp: EvidenceToSignalEntries_def)
  from this(2) show ?thesis
  proof (induction es arbitrary: ses)
    case (Cons e es)
    obtain r where r: "bridge_entry actions e = Inr r"
      using Cons.prems by (cases "bridge_entry actions e") auto
    obtain rest where rest: "bridge_loop actions es = Inr rest"
      using Cons.prems r by (cases "bridge_loop actions es") auto
    have "is_report e \<Longrightarrow> \<not> is_prescribe e"
      by (simp add: is_report_def is_prescribe_def entry_type_defs)
    with r have "decodes e" by (auto simp: decodes_def bridge_entry_def split: option.splits if_splits)
    with Cons.IH [OF rest] show ?case by simp
  qed simp
qed

text \<open>The fields that an entry keeps through the bridge.\<close>

lemma with_action_fields [simp]:
  "enEventID (with_action a se) = enEventID se" "enTimestamp (with_action a se) = enTimestamp se"
  "enActorID (with_action a se) = enActorID se" "enIsPrescription (with_action a se) = enIsPrescription se"
  "enIsReport (with_action a se) = enIsReport se" "enPrescriptionID (with_action a se) = enPrescriptionID se"
  "enArtifactDigest (with_action a se) = enArtifactDigest se" "enIntentDigest (with_action a se) = enIntentDigest se"
  "enExitCode (with_action a se) = enExitCode se" "enRiskTags (with_action a se) = enRiskTags se"
  by (simp_all add: with_action_def split: option.split)

lemma types_differ: "is_report e \<Longrightarrow> \<not> is_prescribe e"
  by (simp add: is_report_def is_prescribe_def entry_type_defs)

lemma signal_entry_SomeD:
  assumes "signal_entry actions e = Some se"
  shows "enEventID se = EntryID e" "enTimestamp se = Timestamp e" "enActorID se = acID (EActor e)"
    "enArtifactDigest se = ArtifactDigest e" "enIntentDigest se = IntentDigest e"
    "enIsPrescription se = is_prescribe e" "enIsReport se = is_report e" "is_prescribe e \<or> is_report e"
    "is_report e \<Longrightarrow> \<exists>r. unmarshal_report (Payload e) = Some r \<and> enPrescriptionID se = rpPrescriptionID r \<and>
       enExitCode se = rpExitCode r"
  using assms types_differ [of e]
  by (auto simp: signal_entry_def bridge_entry_def base_entry_def split: if_splits option.splits)

lemma signal_entry_Some:
  "decodes e \<Longrightarrow> is_prescribe e \<or> is_report e \<Longrightarrow> \<exists>se. signal_entry actions e = Some se"
  by (auto simp: signal_entry_def bridge_entry_def decodes_def split: option.splits)

lemma signal_entry_None: "\<not> is_prescribe e \<Longrightarrow> \<not> is_report e \<Longrightarrow> signal_entry actions e = None"
  by (simp add: signal_entry_def bridge_entry_def)

lemma map_filter_in: "se \<in> set (List.map_filter f es) \<longleftrightarrow> (\<exists>e\<in>set es. f e = Some se)"
  by (induction es) (auto simp: map_filter_simps split: option.splits)

lemma map_filter_none: "list_all (\<lambda>e. f e = None) es \<Longrightarrow> List.map_filter f es = []"
  by (induction es) (auto simp: map_filter_simps)

lemma map_filter_append: "List.map_filter f (xs @ ys) = List.map_filter f xs @ List.map_filter f ys"
  by (induction xs) (auto simp: map_filter_simps split: option.splits)

end
