(* ===== verification/Lifecycle_Facts.thy ===== *)
theory Lifecycle_Facts
  imports Lifecycle Bridge
begin

text \<open>
  The prescribe/report service over a store that works (\<open>calm\<close>): every operation of the service keeps
  the store well-formed, its chain valid and the cache coherent, and appends at most a bounded
  number of entries (\<open>appends\<close>), whether it succeeds or returns an error.
\<close>

section \<open>Calm surroundings and good worlds\<close>

definition calm :: "Env \<Rightarrow> bool" where
  "calm env \<longleftrightarrow> (\<forall>n. evLock env n = Acquired \<and> evFaults env n = no_faults) \<and>
     (\<forall>e. evLineSize env e \<le> MaxScanTokenSize)"

abbreviation wlog :: "'r World \<Rightarrow> EvidenceEntry list" where
  "wlog w \<equiv> store_log (wStore w)"

text \<open>
  What every entry that the service writes satisfies, given the log \<open>xs\<close> before it: the payload of a
  prescription or report decodes, and a report names an entry that is already in the log, whose
  session and trace it shares.
\<close>

definition wrote :: "EvidenceEntry list \<Rightarrow> EvidenceEntry \<Rightarrow> bool" where
  "wrote xs e \<longleftrightarrow> (is_prescribe e \<longrightarrow> unmarshal_prescription (Payload e) \<noteq> None) \<and>
     (is_report e \<longrightarrow> (\<exists>r p. unmarshal_report (Payload e) = Some r \<and> p \<in> set xs \<and> EntryID p = rpPrescriptionID r \<and>
        (SessionID p = [] \<or> SessionID e = SessionID p) \<and> (TraceID p = [] \<or> TraceID e = TraceID p)))"

definition legal :: "EvidenceEntry list \<Rightarrow> bool" where
  "legal es \<longleftrightarrow> (\<forall>xs e ys. es = xs @ e # ys \<longrightarrow> wrote xs e)"

lemma legal_Nil [simp]: "legal []"
  by (simp add: legal_def)

lemma legal_snoc [simp]: "legal (es @ [e]) \<longleftrightarrow> legal es \<and> wrote es e"
proof
  assume "legal (es @ [e])"
  then show "legal es \<and> wrote es e" by (auto simp: legal_def)
next
  assume l: "legal es \<and> wrote es e"
  show "legal (es @ [e])"
    unfolding legal_def
  proof (intro allI impI)
    fix xs x ys
    assume "es @ [e] = xs @ x # ys"
    then show "wrote xs x"
      using l by (cases ys rule: rev_cases) (auto simp: legal_def)
  qed
qed

lemma legal_decodes: "legal es \<Longrightarrow> e \<in> set es \<Longrightarrow> decodes e"
  by (fastforce simp: legal_def wrote_def decodes_def dest: split_list)

definition good :: "Env \<Rightarrow> 'r World \<Rightarrow> bool" where
  "good env w \<longleftrightarrow> store_wf (wStore w) \<and> chain_ok (evDigest env) [] (wlog w) \<and> cache_ok (wCache w) (wlog w) \<and>
     legal (wlog w)"

text \<open>From a good world with room for \<open>n\<close> entries, \<open>m\<close> ends in a good world, with at most \<open>n\<close> more entries.\<close>

definition appends :: "Env \<Rightarrow> nat \<Rightarrow> ('r, 'a) svc \<Rightarrow> bool" where
  "appends env n m \<longleftrightarrow> (\<forall>w. good env w \<longrightarrow> length (wlog w) + n < max_segments \<longrightarrow>
     good env (fst (m w)) \<and> (\<exists>es. wlog (fst (m w)) = wlog w @ es \<and> length es \<le> n))"

lemma appendsD:
  assumes "appends env n m" "good env w" "length (wlog w) + n < max_segments"
  obtains es where "good env (fst (m w))" "wlog (fst (m w)) = wlog w @ es" "length es \<le> n"
  using assms unfolding appends_def by blast

named_theorems svc_rules \<open>how many entries a service operation appends\<close>

lemma appends_bind [svc_rules]:
  assumes "appends env a m" and "\<And>x. appends env b (f x)"
  shows "appends env (a + b) (bindW m f)"
  unfolding appends_def
proof (intro allI impI)
  fix w :: "'a World"
  assume w: "good env w" "length (wlog w) + (a + b) < max_segments"
  then obtain es where m: "good env (fst (m w))" "wlog (fst (m w)) = wlog w @ es" "length es \<le> a"
    using appendsD [OF assms(1), of w] by auto
  show "good env (fst (bindW m f w)) \<and> (\<exists>es. wlog (fst (bindW m f w)) = wlog w @ es \<and> length es \<le> a + b)"
  proof (cases "m w")
    case (Pair w' r)
    show ?thesis
    proof (cases r)
      case (Inl e)
      then show ?thesis using m Pair by (simp add: bindW_def trans_le_add1)
    next
      case (Inr x)
      have "length (wlog w') + b < max_segments" using w(2) m Pair by simp
      then obtain fs where "good env (fst (f x w'))" "wlog (fst (f x w')) = wlog w' @ fs" "length fs \<le> b"
        using appendsD [OF assms(2), of w' x] m(1) Pair by auto
      then show ?thesis using m Pair Inr by (auto simp: bindW_def intro: add_le_mono)
    qed
  qed
qed

lemma appends_pre: "appends env 0 m \<Longrightarrow> (\<And>x. appends env n (f x)) \<Longrightarrow> appends env n (bindW m f)"
  using appends_bind [of env 0 m n f] by simp

lemma appends_more: "appends env a m \<Longrightarrow> a \<le> b \<Longrightarrow> appends env b m"
  unfolding appends_def by (meson le_trans add_le_mono1 le_less_trans nat_add_left_cancel_le)

text \<open>What leaves store and cache alone appends nothing.\<close>

lemma appends_pure:
  "(\<And>w. wStore (fst (m w)) = wStore w \<and> wCache (fst (m w)) = wCache w) \<Longrightarrow> appends env 0 m"
  by (simp add: appends_def good_def)

lemma pure_ops [svc_rules]:
  "appends env 0 (returnW x)" "appends env 0 (liftW r)" "appends env 0 (stepW g)"
  "appends env 0 (build_entry env' p)" "appends env 0 (record_retry s i h)"
  by (rule appends_pure; simp add: returnW_def liftW_def stepW_def build_entry_def record_retry_def
      split: option.split prod.split)+

lemma appends_ignore [svc_rules]: "appends env n m \<Longrightarrow> appends env n (ignoreW m)"
  by (simp add: appends_def ignoreW_def)

lemma appends_each:
  "(\<And>x. appends env n (f x)) \<Longrightarrow> appends env (length xs * n) (eachW f xs)"
  by (induction xs) (auto intro: svc_rules)

section \<open>The store operations\<close>

lemma LastHash_calm:
  assumes "calm env" "good env w"
  shows "store_LastHash env w = (w\<lparr>wStep := Suc (wStep w)\<rparr>, Inr (Inr (last_hash [] (wlog w))))"
  using assms LastHashAtPath_log [of "wStore w" "maxBytes env"]
  by (simp add: store_LastHash_def calm_def good_def)

lemma good_step [simp]: "good env (w\<lparr>wStep := n\<rparr>) = good env w"
  by (simp add: good_def)

lemma Find_calm:
  assumes "calm env" "good env w"
  obtains cache r where "store_Find env i w = (w\<lparr>wCache := cache, wStep := Suc (wStep w)\<rparr>, Inr (Inr r))"
    "cache_ok cache (wlog w)"
    "r = find (\<lambda>e. EntryID e = i) (wlog w) \<or> (\<exists>e. r = Some e \<and> e \<in> set (wlog w) \<and> EntryID e = i)"
proof -
  obtain cache r where "FindEntryByID Acquired i (wCache w) (wStore w) = (cache, Inr r)" "cache_ok cache (wlog w)"
    "r = find (\<lambda>e. EntryID e = i) (wlog w) \<or> (\<exists>e. r = Some e \<and> e \<in> set (wlog w) \<and> EntryID e = i)"
    using FindEntryByID_cases [of "wStore w" "wCache w" i] assms(2) by (auto simp: good_def)
  with that show thesis using assms(1) by (simp add: store_Find_def calm_def)
qed

lemma appends_find [svc_rules]:
  assumes "calm env"
  shows "appends env 0 (store_Find env i)"
  unfolding appends_def
proof (intro allI impI)
  fix w :: "'a World" assume w: "good env w"
  obtain cache r where "store_Find env i w = (w\<lparr>wCache := cache, wStep := Suc (wStep w)\<rparr>, Inr (Inr r))"
    "cache_ok cache (wlog w)"
    using Find_calm [OF assms w] by blast
  with w show "good env (fst (store_Find env i w)) \<and>
      (\<exists>es. wlog (fst (store_Find env i w)) = wlog w @ es \<and> length es \<le> 0)"
    by (simp add: good_def)
qed

lemma appends_lasthash [svc_rules]: "calm env \<Longrightarrow> appends env 0 (lastHash env s)"
  unfolding appends_def lastHash_def by (auto simp: bindW_def returnW_def LastHash_calm)

text \<open>An entry that links to the head: appended, unless it lacks a session or a trace.\<close>

definition links :: "Env \<Rightarrow> EvidenceEntry \<Rightarrow> 'r World \<Rightarrow> bool" where
  "links env e w \<longleftrightarrow> PreviousHash e = last_hash [] (wlog w) \<and> computeEntryHash (evDigest env) e = Some (Hash e) \<and>
     wrote (wlog w) e"

lemma Append_calm:
  assumes "calm env" "good env w" "length (wlog w) + 1 < max_segments" "SessionID e \<noteq> []" "TraceID e \<noteq> []"
    and "links env e w"
  obtains w' where "store_Append env e w = (w', Inr (Inr ()))" "good env w'" "wlog w' = wlog w @ [e]"
    "wStep w' = Suc (wStep w)" "wRetry w' = wRetry w"
proof -
  have fits: "entry_fits (evLineSize env) e (wStore w)"
    using assms by (simp add: entry_fits_def entry_accepted_def calm_def)
  obtain cache st where st: "AppendEntryAtPath Acquired no_faults (evNow env (wStep w)) (maxBytes env) (evLineSize env) e
      (wCache w) (wStore w) = (cache, st, Inr ())" "store_wf st" "store_log st = wlog w @ [e]" "cache_ok cache (store_log st)"
    using AppendEntry_cache [OF _ fits] assms(2) unfolding good_def maxBytes_def by blast
  show thesis
  proof
    show "store_Append env e w = (w\<lparr>wStore := st, wCache := cache, wStep := Suc (wStep w)\<rparr>, Inr (Inr ()))"
      using assms(1) st(1) by (simp add: store_Append_def calm_def)
    show "good env (w\<lparr>wStore := st, wCache := cache, wStep := Suc (wStep w)\<rparr>)"
      using st assms(2,6) by (auto simp: good_def links_def chain_ok_append)
  qed (use st in simp_all)
qed

lemma Append_refused:
  assumes "calm env" "SessionID e = [] \<or> TraceID e = []"
  shows "\<exists>err. store_Append env e w = (w\<lparr>wStep := Suc (wStep w)\<rparr>, Inr (Inl err))"
  using assms
  by (auto simp: store_Append_def calm_def AppendEntryAtPath_def withStoreLock_def appendEntryUnlocked_def
      validatePersistedEntry_def)

text \<open>Every append of the service goes: read the head, build on it, append, and go on.\<close>

lemma links_built:
  assumes "BuildEntry (evDigest env) now u p = Inr e" "bpPreviousHash p = last_hash [] (wlog w)" "wrote (wlog w) e"
  shows "links env e w"
  using BuildEntry_Inr [OF assms(1)] assms(2,3) by (simp add: links_def)

text \<open>Parameters of an entry that is no report.\<close>

definition plain :: "EntryBuildParams \<Rightarrow> bool" where
  "plain p \<longleftrightarrow> bpType p \<noteq> EntryTypeReport \<and> (bpType p = EntryTypePrescribe \<longrightarrow> unmarshal_prescription (bpPayload p) \<noteq> None)"

lemma wrote_plain: "BuildEntry digest now u p = Inr e \<Longrightarrow> plain p \<Longrightarrow> wrote xs e"
  using BuildEntry_Inr(2,5) [of digest now u p e] by (auto simp: wrote_def plain_def is_report_def is_prescribe_def)

lemma links_step [simp]: "links env e (w\<lparr>wStep := n\<rparr>) = links env e w"
  by (simp add: links_def)

definition grows :: "Env \<Rightarrow> nat \<Rightarrow> 'r World \<Rightarrow> 'r World \<Rightarrow> bool" where
  "grows env n w w' \<longleftrightarrow> good env w' \<and> (\<exists>es. wlog w' = wlog w @ es \<and> length es \<le> n)"

lemma appends_grows: "appends env n m \<longleftrightarrow>
    (\<forall>w. good env w \<longrightarrow> length (wlog w) + n < max_segments \<longrightarrow> grows env n w (fst (m w)))"
  by (simp add: appends_def grows_def)

lemma Append_grows:
  assumes "calm env" "good env w" "length (wlog w) + 1 < max_segments" "links env e w"
  shows "grows env 1 w (fst (store_Append env e w))"
proof (cases "SessionID e = [] \<or> TraceID e = []")
  case True
  with Append_refused [OF assms(1), of e w] assms(2) show ?thesis by (auto simp: grows_def)
next
  case False
  then have "SessionID e \<noteq> []" "TraceID e \<noteq> []" by simp_all
  from Append_calm [OF assms(1-3) this assms(4)] obtain w' where
    "store_Append env e w = (w', Inr (Inr ()))" "good env w'" "wlog w' = wlog w @ [e]" .
  then show ?thesis by (simp add: grows_def)
qed

lemma grows_refl [simp]: "good env w \<Longrightarrow> grows env n w w"
  by (simp add: grows_def)

lemma grows_step [simp]: "grows env n w (w'\<lparr>wStep := i\<rparr>) = grows env n w w'"
  "grows env n (w\<lparr>wStep := i\<rparr>) w' = grows env n w w'"
  by (simp_all add: grows_def)

lemma appendEntry_grows:
  assumes "calm env" "good env w" "length (wlog w) + 1 < max_segments" "links env e w"
  shows "grows env 1 w (fst (appendEntry env s e w))"
  using Append_grows [OF assms] grows_refl [OF assms(2), of 1]
  by (auto simp: appendEntry_def bindW_def returnW_def liftW_def split: prod.split sum.split)

lemma grows_bind:
  assumes "grows env a w (fst (m w))" "\<And>x. appends env b (f x)" "length (wlog w) + (a + b) < max_segments"
  shows "grows env (a + b) w (fst (bindW m f w))"
proof (cases "m w")
  case (Pair w' r)
  obtain es where es: "good env w'" "wlog w' = wlog w @ es" "length es \<le> a"
    using assms(1) Pair by (auto simp: grows_def)
  show ?thesis
  proof (cases r)
    case (Inr x)
    have "length (wlog w') + b < max_segments" using es assms(3) by simp
    then have "grows env b w' (fst (f x w'))"
      using assms(2) [of x] es(1) unfolding appends_grows by blast
    then show ?thesis using es Pair Inr by (auto simp: bindW_def grows_def intro: add_le_mono)
  qed (use es Pair in \<open>auto simp: bindW_def grows_def\<close>)
qed

text \<open>Appending an entry that links to the head, and going on.\<close>

lemma entry_then:
  assumes "calm env" "good env w" "length (wlog w) + (1 + n) < max_segments"
    and "svEvidencePath s = [] \<or> links env e w" and "\<And>x. appends env n (k x)"
  shows "grows env (1 + n) w (fst (bindW (appendEntry env s e) k w))"
proof (rule grows_bind)
  show "grows env 1 w (fst (appendEntry env s e w))"
    using assms appendEntry_grows [of env w e s] by (cases "svEvidencePath s = []") (auto simp: appendEntry_def returnW_def)
qed (use assms in auto)

text \<open>Reading the head, building on it, and going on: what follows may rely on the link.\<close>

lemma head_grows:
  assumes "calm env" "good env w" and "\<And>h. bpPreviousHash (P h) = h"
    and "\<And>h e now u. BuildEntry (evDigest env) now u (P h) = Inr e \<Longrightarrow> svEvidencePath s \<noteq> [] \<Longrightarrow> wrote (wlog w) e"
    and "\<And>i e. grows env n w (fst (K (Inl e) (w\<lparr>wStep := i\<rparr>)))"
    and "\<And>i e. svEvidencePath s = [] \<or> links env e w \<Longrightarrow> grows env n w (fst (K (Inr e) (w\<lparr>wStep := i\<rparr>)))"
  shows "grows env n w (fst (bindW (lastHash env s) (\<lambda>h. bindW (build_entry env (P h)) K) w))"
proof -
  obtain h i where h: "lastHash env s w = (w\<lparr>wStep := i\<rparr>, Inr h)"
    "svEvidencePath s = [] \<or> h = last_hash [] (wlog w)"
    using LastHash_calm [OF assms(1,2)]
    by (cases "svEvidencePath s = []") (auto simp: lastHash_def bindW_def returnW_def intro: that [of "wStep w"])
  let ?w = "w\<lparr>wStep := Suc i\<rparr>" and ?b = "BuildEntry (evDigest env) (evNow env i) (evFresh env i) (P h)"
  have "grows env n w (fst (K ?b ?w))"
  proof (cases ?b)
    case (Inl e)
    then show ?thesis using assms(5) by simp
  next
    case (Inr e)
    have "svEvidencePath s = [] \<or> links env e w"
      using h(2) links_built [OF Inr, of w] assms(3) assms(4) [OF Inr] by auto
    with Inr assms(6) [of e "Suc i"] show ?thesis by simp
  qed
  moreover have "bindW (lastHash env s) (\<lambda>h. bindW (build_entry env (P h)) K) w = K ?b ?w"
    using h(1) by (simp add: bindW_def build_entry_def stepW_def)
  ultimately show ?thesis by simp
qed

lemma appends_head:
  assumes "calm env" and "\<And>h. bpPreviousHash (P h) = h" "\<And>h. plain (P h)" and "\<And>e. appends env n (K (Inl e))"
    and "\<And>w e. good env w \<Longrightarrow> length (wlog w) + n < max_segments \<Longrightarrow> svEvidencePath s = [] \<or> links env e w
      \<Longrightarrow> grows env n w (fst (K (Inr e) w))"
  shows "appends env n (bindW (lastHash env s) (\<lambda>h. bindW (build_entry env (P h)) K))"
  unfolding appends_grows
proof (intro allI impI)
  fix w :: "'a World"
  assume w: "good env w" "length (wlog w) + n < max_segments"
  have i: "good env (w\<lparr>wStep := i\<rparr>)" "length (wlog (w\<lparr>wStep := i\<rparr>)) + n < max_segments" for i
    using w by simp_all
  show "grows env n w (fst (bindW (lastHash env s) (\<lambda>h. bindW (build_entry env (P h)) K) w))"
  proof (rule head_grows [OF assms(1) w(1) assms(2)])
    show "grows env n w (fst (K (Inl e) (w\<lparr>wStep := j\<rparr>)))" for j e
      using assms(4) [of e, unfolded appends_grows, rule_format, OF i, of j] by simp
    show "grows env n w (fst (K (Inr e) (w\<lparr>wStep := j\<rparr>)))" if "svEvidencePath s = [] \<or> links env e w" for j e
      using assms(5) [OF i, of e j] that by simp
  qed (rule wrote_plain [OF _ assms(3)])
qed

lemma advisory_grows:
  assumes "calm env" and trace: "\<And>w. \<exists>i t. trace w = (w\<lparr>wStep := i\<rparr>, Inr t)"
    and "\<And>t h. bpPreviousHash (P t h) = h" "\<And>t h. plain (P t h)"
  shows "appends env 1 (write_advisory env trace P)"
  unfolding appends_grows
proof (intro allI impI)
  fix w :: "'a World"
  assume w: "good env w" "length (wlog w) + 1 < max_segments"
  obtain n t where tr: "trace (w\<lparr>wStep := Suc (wStep w)\<rparr>) = (w\<lparr>wStep := n\<rparr>, Inr t)"
    using trace [of "w\<lparr>wStep := Suc (wStep w)\<rparr>"] by auto
  let ?p = "P t (last_hash [] (wlog w))"
  let ?b = "BuildEntry (evDigest env) (evNow env n) (evFresh env n) ?p" and ?w = "w\<lparr>wStep := Suc n\<rparr>"
  have eq: "write_advisory env trace P w =
      (case ?b of Inl _ \<Rightarrow> returnW () | Inr entry \<Rightarrow> bindW (store_Append env entry) (\<lambda>_. returnW ())) ?w"
    by (simp add: write_advisory_def bindW_def LastHash_calm [OF assms(1) w(1)] tr build_entry_def stepW_def)
  show "grows env 1 w (fst (write_advisory env trace P w))"
  proof (cases ?b)
    case (Inl e)
    then show ?thesis using w(1) by (simp add: eq returnW_def)
  next
    case (Inr e)
    have "links env e ?w" by (rule links_built [OF Inr]) (simp_all add: assms(3) wrote_plain [OF Inr assms(4)])
    then have "grows env (1 + 0) ?w (fst (bindW (store_Append env e) (\<lambda>_. returnW ()) ?w))"
      using w by (intro grows_bind Append_grows [OF assms(1)] pure_ops) simp_all
    then show ?thesis using Inr by (simp add: eq)
  qed
qed

lemma trace_steps: "\<exists>i t. returnW x w = (w\<lparr>wStep := i\<rparr>, Inr t)" "\<exists>i t. stepW f w = (w\<lparr>wStep := i\<rparr>, Inr t)"
  by (auto simp: returnW_def stepW_def intro: exI [of _ "wStep w"])

lemma appends_return [svc_rules]: "appends env n (returnW x)" "appends env n (liftW r)"
  by (rule appends_more [OF pure_ops(1)], simp, rule appends_more [OF pure_ops(2)], simp)

lemma failure_appends [svc_rules]:
  fixes s :: "'r Service"
  assumes "calm env"
  shows "appends env 1 (writeCanonicalizationFailure env s actor cr err sess tr oid att)"
proof -
  have "appends env 1 (write_advisory env (returnW x) (\<lambda>t h. (entry_params env s EntryTypeCanonFailure sess oid t actor pl h)
      \<lparr>bpAttempt := att, bpArtifactDigest := ad\<rparr>) :: ('r, unit) svc)" for x pl ad
    by (rule advisory_grows [OF assms trace_steps(1)]) (simp_all add: entry_params_def plain_def entry_type_defs)
  then show ?thesis
    unfolding writeCanonicalizationFailure_def by (simp add: appends_return appends_pre pure_ops del: One_nat_def)
qed

lemma unknown_appends [svc_rules]:
  fixes s :: "'r Service"
  assumes "calm env"
  shows "appends env 1 (writeUnknownPrescriptionSignal env s actor pid sess oid)"
proof -
  have "appends env 1 (write_advisory env (stepW f) (\<lambda>t h. entry_params env s EntryTypeSignal sess oid t actor pl h) :: ('r, unit) svc)" for f pl
    by (rule advisory_grows [OF assms trace_steps(2)]) (simp_all add: entry_params_def plain_def entry_type_defs)
  then show ?thesis
    unfolding writeUnknownPrescriptionSignal_def by (simp add: appends_return del: One_nat_def)
qed

lemma finding_appends [svc_rules]:
  assumes "calm env"
  shows "appends env 1 (write_finding env s sess tr oid att actor ad f)"
  unfolding write_finding_def
proof (intro appends_ignore appends_head [OF assms])
  fix w :: "'a World" and e
  assume "good env w" "length (wlog w) + 1 < max_segments" "svEvidencePath s = [] \<or> links env e w"
  with entry_then [OF assms, of w 0 s e "\<lambda>_. returnW ()"]
  show "grows env 1 w (fst ((case Inr e of Inl _ \<Rightarrow> returnW () | Inr entry \<Rightarrow> bindW (appendEntry env s entry) (\<lambda>_. returnW ())) w))"
    by (simp add: pure_ops)
qed (simp_all add: entry_params_def appends_return plain_def entry_type_defs del: One_nat_def)

lemma findings_appends [svc_rules]:
  assumes "calm env"
  shows "appends env (length (concat (map fsFindings fs))) (writeFindingsEvidence env s fs sess tr oid att actor ad)"
proof -
  have "appends env (length xs * 1) (eachW (write_finding env s sess t oid att actor ad) xs)" for t xs
    by (rule appends_each) (rule finding_appends [OF assms])
  then show ?thesis by (simp add: writeFindingsEvidence_def appends_return)
qed

section \<open>Prescribe and Report\<close>

lemma context_appends: "appends env 0 (buildPrescribeContext env input)"
  unfolding buildPrescribeContext_def Let_def by (intro appends_pre) (auto intro: pure_ops)

lemma canonicalize_appends:
  fixes s :: "'r Service"
  assumes "calm env"
  shows "appends env 1 (canonicalizePrescribeInput env s input ctx)"
proof -
  have "appends env (1 + 0) (bindW (writeCanonicalizationFailure env s a cr err sess tr oid att)
      (\<lambda>_. liftW (Inl (CanonicalizationFailed err))) :: ('r, CanonResult \<times> string) svc)" for a cr err sess tr oid att
    by (intro appends_bind failure_appends [OF assms] pure_ops)
  moreover have "appends env 1 (bindW (liftW r) (\<lambda>x. returnW (g x)) :: ('r, CanonResult \<times> string) svc)" for r :: "LifecycleError + CanonicalAction" and g
    by (intro appends_pre pure_ops appends_return)
  ultimately show ?thesis
    unfolding canonicalizePrescribeInput_def Let_def
    by (simp add: appends_return split: option.split del: One_nat_def)
qed

text \<open>How many entries an operation may append.\<close>

definition prescribe_budget :: "PrescribeInput \<Rightarrow> nat" where
  "prescribe_budget input = 2 + length (concat (map fsFindings (piExternalFindings input)))"

lemma Prescribe_appends:
  fixes s :: "'r Service"
  assumes "calm env"
  shows "appends env (prescribe_budget input) (Prescribe env s input)"
proof -
  let ?n = "length (concat (map fsFindings (piExternalFindings input)))"
  have rest: "appends env (1 + ?n) (bindW (lastHash env s) (\<lambda>h.
     bindW (build_entry env (prescribe_params env s input ctx cr pl h)) (\<lambda>b.
     bindW (liftW (case b of Inl e \<Rightarrow> Inl (BuildFailed e) | Inr entry \<Rightarrow> Inr entry)) (\<lambda>entry.
     bindW (appendEntry env s entry) (\<lambda>persisted.
     bindW (if persisted
            then writeFindingsEvidence env s (piExternalFindings input) (pcSessionID ctx) (pcTraceID ctx)
                   (TrimSpace (piOperationID input)) (piAttempt input) (pcActor ctx) (crArtifactDigest cr)
            else returnW ()) (\<lambda>_.
       returnW (prescribe_output ctx cr result rc entry persisted)))))))" for ctx cr pl result rc
  proof (intro appends_head [OF assms])
    fix w :: "'r World" and e
    assume w: "good env w" "length (wlog w) + (1 + ?n) < max_segments" "svEvidencePath s = [] \<or> links env e w"
    have "appends env (?n + 0) (bindW (if persisted
            then writeFindingsEvidence env s (piExternalFindings input) (pcSessionID ctx) (pcTraceID ctx)
                   (TrimSpace (piOperationID input)) (piAttempt input) (pcActor ctx) (crArtifactDigest cr)
            else returnW ()) (\<lambda>_. returnW (prescribe_output ctx cr result rc e persisted)))" for persisted
      by (rule appends_bind) (auto intro: findings_appends [OF assms] appends_return simp del: length_concat)
    from entry_then [OF assms w, OF this [simplified]]
    show "grows env (1 + ?n) w (fst (bindW (liftW (case Inr e of Inl e \<Rightarrow> Inl (BuildFailed e) | Inr entry \<Rightarrow> Inr entry)) (\<lambda>entry.
     bindW (appendEntry env s entry) (\<lambda>persisted.
     bindW (if persisted
            then writeFindingsEvidence env s (piExternalFindings input) (pcSessionID ctx) (pcTraceID ctx)
                   (TrimSpace (piOperationID input)) (piAttempt input) (pcActor ctx) (crArtifactDigest cr)
            else returnW ()) (\<lambda>_.
       returnW (prescribe_output ctx cr result rc entry persisted)))) w))"
      by (simp add: bindW_def [of "liftW _"] liftW_def)
  next
    show "appends env (1 + ?n) (bindW (liftW (case Inl e of Inl e \<Rightarrow> Inl (BuildFailed e) | Inr entry \<Rightarrow> Inr entry)) k)" for e and k :: "EvidenceEntry \<Rightarrow> ('r, PrescribeOutput) svc"
      by (simp add: bindW_def liftW_def appends_def)
  qed (simp_all add: prescribe_params_def entry_params_def plain_def entry_type_defs)
  have canon: "appends env (1 + (1 + ?n)) (bindW (canonicalizePrescribeInput env s input ctx) K)"
    if "\<And>x. appends env (1 + ?n) (K x)" for ctx and K :: "_ \<Rightarrow> ('r, PrescribeOutput) svc"
    by (rule appends_bind [OF canonicalize_appends [OF assms] that])
  have "appends env (1 + (1 + ?n)) (Prescribe env s input)"
    unfolding Prescribe_def case_prod_beta'
    by (rule appends_pre [OF pure_ops(2)], rule appends_pre [OF context_appends], rule canon,
        rule appends_pre [OF pure_ops(2)], rule appends_pre [OF pure_ops(5)], rule appends_pre [OF pure_ops(3)], rule rest)
  then show ?thesis by (simp add: prescribe_budget_def del: length_concat)
qed

lemma load_appends:
  fixes s :: "'r Service"
  assumes "calm env"
  shows "appends env 1 (loadReportPrescription env s input pid)"
proof -
  have unknown: "appends env 1 (bindW m (\<lambda>sess.
      bindW (writeUnknownPrescriptionSignal env s a pid sess oid) (\<lambda>_. liftW (Inl PrescriptionNotFound)))
      :: ('r, EvidenceEntry option) svc)"
    if "appends env 0 m" for a oid and m :: "('r, string) svc"
    by (rule appends_pre [OF that], rule appends_bind [where b = 0, unfolded add_0_right])
      (intro unknown_appends [OF assms] pure_ops)+
  show ?thesis
    unfolding loadReportPrescription_def
    by (auto simp: appends_return pure_ops unknown simp del: One_nat_def
        intro!: appends_pre [OF appends_find [OF assms]] split: sum.split option.split)
qed

text \<open>What loading the prescription of a report comes to.\<close>

lemma load_cases:
  fixes s :: "'r Service"
  assumes "calm env" "good env w" "length (wlog w) + 1 < max_segments"
  obtains (failed) w' err where "loadReportPrescription env s input pid w = (w', Inl err)" "grows env 1 w w'"
  | (nothing) w' where "loadReportPrescription env s input pid w = (w', Inr None)" "good env w'" "wlog w' = wlog w"
      "svEvidencePath s = []"
  | (found) w' p where "loadReportPrescription env s input pid w = (w', Inr (Some p))" "good env w'" "wlog w' = wlog w"
      "p \<in> set (wlog w)" "EntryID p = pid"
proof (cases "svEvidencePath s = []")
  case True
  with assms(2) show thesis
    by - (rule nothing [of w], simp_all add: loadReportPrescription_def returnW_def)
next
  case False
  obtain cache r where r: "store_Find env pid w = (w\<lparr>wCache := cache, wStep := Suc (wStep w)\<rparr>, Inr (Inr r))"
    "cache_ok cache (wlog w)"
    "r = find (\<lambda>e. EntryID e = pid) (wlog w) \<or> (\<exists>e. r = Some e \<and> e \<in> set (wlog w) \<and> EntryID e = pid)"
    by (rule Find_calm [OF assms(1,2)])
  show thesis
  proof (cases r)
    case None
    obtain w' x where w': "loadReportPrescription env s input pid w = (w', x)" by fastforce
    have g: "grows env 1 w w'"
      using load_appends [OF assms(1)] assms(2,3) w' unfolding appends_grows by (metis fst_conv)
    obtain err where "x = Inl err"
      using w' r(1) None False
      by (auto simp: loadReportPrescription_def bindW_def liftW_def split: prod.splits sum.splits)
    with w' g show thesis by (intro failed [of w' err]) simp_all
  next
    case (Some p)
    then have "p \<in> set (wlog w) \<and> EntryID p = pid" using r(3) find_in [of "\<lambda>e. EntryID e = pid" "wlog w" p] by auto
    then show thesis
      using r(1,2) Some False assms(2)
      by (intro found [of "w\<lparr>wCache := cache, wStep := Suc (wStep w)\<rparr>" p])
        (simp_all add: loadReportPrescription_def bindW_def returnW_def good_def)
  qed
qed

text \<open>The entry of a report that answers an entry of the log.\<close>

lemma report_written:
  assumes "BuildEntry digest now u (report_params env s input ctx (report_payload input rid pid dc) h) = Inr e"
  shows "is_report e" "\<not> is_prescribe e" "unmarshal_report (Payload e) = Some (report_payload input rid pid dc)"
    "SessionID e = rcSessionID ctx" "TraceID e = rcTraceID ctx" "EActor e = rcActor ctx"
    "FormatDigest (tiArtifactDigest input) = Inr (ArtifactDigest e)"
  using BuildEntry_Inr [OF assms]
  by (simp_all add: report_params_def entry_params_def is_report_def is_prescribe_def entry_type_defs)

lemma resolved_context:
  assumes "validate_reportContext (resolveReportContext input tr (Some p)) (Some p) = Inr ()"
  shows "SessionID p = [] \<or> rcSessionID (resolveReportContext input tr (Some p)) = SessionID p"
    "TraceID p = [] \<or> rcTraceID (resolveReportContext input tr (Some p)) = TraceID p"
  using assms by (auto simp: validate_reportContext_def resolveReportContext_def Let_def split: if_splits)

lemma report_wrote:
  assumes "BuildEntry digest now u (report_params env s input (resolveReportContext input tr (Some p))
      (report_payload input rid (EntryID p) dc) h) = Inr e"
    and "validate_reportContext (resolveReportContext input tr (Some p)) (Some p) = Inr ()" "p \<in> set xs"
  shows "wrote xs e"
  using report_written [OF assms(1)] resolved_context [OF assms(2)] assms(3)
  by (auto simp: wrote_def report_payload_def)

lemma report_tail_grows:
  fixes s :: "'r Service"
  assumes "calm env" "good env w" "length (wlog w) + 1 < max_segments"
    and "svEvidencePath s = [] \<or> (\<exists>q. prescription = Some q \<and> q \<in> set (wlog w) \<and> EntryID q = pid)"
  shows "grows env 1 w (fst (
     (let ctx = resolveReportContext input tr prescription in
        bindW (liftW (validate_reportContext ctx prescription)) (\<lambda>_.
        bindW (lastHash env s) (\<lambda>h.
        bindW (build_entry env (report_params env s input ctx (report_payload input rid pid dc) h)) (\<lambda>b.
        bindW (liftW (case b of Inl e \<Rightarrow> Inl (BuildFailed e) | Inr entry \<Rightarrow> Inr entry)) (\<lambda>entry.
        bindW (appendEntry env s entry) (\<lambda>persisted.
          returnW (report_output input ctx pid dc entry persisted))))))) w))"
proof (cases "validate_reportContext (resolveReportContext input tr prescription) prescription")
  case (Inl err)
  with assms(2) show ?thesis by (simp add: bindW_def liftW_def Let_def)
next
  case (Inr u)
  let ?ctx = "resolveReportContext input tr prescription"
  let ?P = "report_params env s input ?ctx (report_payload input rid pid dc)"
  let ?K = "\<lambda>b. bindW (liftW (case b of Inl e \<Rightarrow> Inl (BuildFailed e) | Inr entry \<Rightarrow> Inr entry)) (\<lambda>entry.
        bindW (appendEntry env s entry) (\<lambda>persisted. returnW (report_output input ?ctx pid dc entry persisted)))"
  have "grows env 1 w (fst (bindW (lastHash env s) (\<lambda>h. bindW (build_entry env (?P h)) ?K) w))"
  proof (rule head_grows [OF assms(1,2)])
    show "bpPreviousHash (?P h) = h" for h by (simp add: report_params_def entry_params_def)
    show "wrote (wlog w) e" if e: "BuildEntry (evDigest env) now u (?P h) = Inr e" "svEvidencePath s \<noteq> []" for h e now u
    proof -
      obtain q where q: "prescription = Some q" "q \<in> set (wlog w)" "EntryID q = pid" using assms(4) e(2) by auto
      with e(1) Inr show ?thesis by (intro report_wrote [of _ _ _ _ _ input tr q rid dc h]) simp_all
    qed
    show "grows env 1 w (fst (?K (Inl e) (w\<lparr>wStep := i\<rparr>)))" for i e
      using assms(2) by (simp add: bindW_def liftW_def)
    show "grows env 1 w (fst (?K (Inr e) (w\<lparr>wStep := i\<rparr>)))" if "svEvidencePath s = [] \<or> links env e w" for i e
      using entry_then [OF assms(1), of "w\<lparr>wStep := i\<rparr>" 0 s e "\<lambda>persisted. returnW (report_output input ?ctx pid dc e persisted)"]
        assms(2,3) that by (simp add: bindW_def [of "liftW _"] liftW_def pure_ops)
  qed
  then show ?thesis by (simp add: Inr bindW_def [of "liftW _"] liftW_def Let_def)
qed

lemma Report_appends:
  fixes s :: "'r Service"
  assumes "calm env"
  shows "appends env 1 (Report env s input)"
proof -
  let ?pid = "TrimSpace (tiPrescriptionID input)"
  have "appends env 1 (bindW (loadReportPrescription env s input ?pid) (\<lambda>prescription.
      bindW (stepW (evFresh env)) (\<lambda>reportID. bindW (stepW (evFresh env)) (\<lambda>freshTrace.
      let ctx = resolveReportContext input freshTrace prescription in
        bindW (liftW (validate_reportContext ctx prescription)) (\<lambda>_.
        bindW (lastHash env s) (\<lambda>h.
        bindW (build_entry env (report_params env s input ctx (report_payload input reportID ?pid dc) h)) (\<lambda>b.
        bindW (liftW (case b of Inl e \<Rightarrow> Inl (BuildFailed e) | Inr entry \<Rightarrow> Inr entry)) (\<lambda>entry.
        bindW (appendEntry env s entry) (\<lambda>persisted.
          returnW (report_output input ctx ?pid dc entry persisted))))))))))" (is "appends env 1 (bindW ?load ?K)") for dc
    unfolding appends_grows
  proof (intro allI impI)
    fix w :: "'r World"
    assume w: "good env w" "length (wlog w) + 1 < max_segments"
    have tail: "grows env 1 w (fst (?K prescription w'))"
      if "good env w'" "wlog w' = wlog w"
        "svEvidencePath s = [] \<or> (\<exists>q. prescription = Some q \<and> q \<in> set (wlog w') \<and> EntryID q = ?pid)" for prescription w'
      using report_tail_grows [of env "w'\<lparr>wStep := Suc (Suc (wStep w'))\<rparr>" s prescription ?pid input
          "evFresh env (Suc (wStep w'))" "evFresh env (wStep w')" dc] assms that w(2)
      by (simp add: bindW_def [of "stepW _"] stepW_def grows_def)
    show "grows env 1 w (fst (bindW ?load ?K w))"
      using w
    proof (cases rule: load_cases [OF assms w, of s input ?pid, case_names failed nothing found])
      case (failed w' err)
      then show ?thesis by (simp add: bindW_def [of ?load])
    next
      case (nothing w')
      with tail [of w' None] show ?thesis by (simp add: bindW_def [of ?load])
    next
      case (found w' p)
      with tail [of w' "Some p"] show ?thesis by (simp add: bindW_def [of ?load])
    qed
  qed
  then show ?thesis
    unfolding Report_def Let_def
    by (intro appends_pre [OF pure_ops(2)]) (simp add: Let_def)
qed

end
