(* ===== verification/Lifecycle_Runs.thy ===== *)
theory Lifecycle_Runs
  imports Lifecycle_Facts
begin

text \<open>
  What \<open>Prescribe\<close> and \<open>Report\<close> do step by step over a store that works: the entry they append, its
  place in the log, and the fields it has.
\<close>

section \<open>Appending at the head\<close>

lemma head_append:
  assumes "calm env" "good env w" "length (wlog w) + 1 < max_segments" "svEvidencePath s \<noteq> []"
    and "\<And>h. bpPreviousHash (P h) = h" "\<And>h. bpSessionID (P h) \<noteq> []" "\<And>h. bpTraceID (P h) \<noteq> []"
    and "\<forall>h e now u. BuildEntry (evDigest env) now u (P h) = Inr e \<longrightarrow> wrote (wlog w) e"
  obtains (unbuilt) h now u err w' where "BuildEntry (evDigest env) now u (P h) = Inl err"
      "bindW (lastHash env s) (\<lambda>h. bindW (build_entry env (P h)) (\<lambda>b.
        bindW (liftW (case b of Inl e \<Rightarrow> Inl (BuildFailed e) | Inr entry \<Rightarrow> Inr entry)) (\<lambda>entry.
        bindW (appendEntry env s entry) (K entry)))) w = (w', Inl (BuildFailed err))"
  | (built) h now u e w' where "BuildEntry (evDigest env) now u (P h) = Inr e"
      "bindW (lastHash env s) (\<lambda>h. bindW (build_entry env (P h)) (\<lambda>b.
        bindW (liftW (case b of Inl e \<Rightarrow> Inl (BuildFailed e) | Inr entry \<Rightarrow> Inr entry)) (\<lambda>entry.
        bindW (appendEntry env s entry) (K entry)))) w = K e True w'"
      "good env w'" "wlog w' = wlog w @ [e]"
proof -
  let ?n = "Suc (wStep w)" and ?h = "last_hash [] (wlog w)"
  let ?w = "w\<lparr>wStep := Suc ?n\<rparr>"
  let ?b = "BuildEntry (evDigest env) (evNow env ?n) (evFresh env ?n) (P ?h)"
  let ?k = "\<lambda>b. bindW (liftW (case b of Inl e \<Rightarrow> Inl (BuildFailed e) | Inr entry \<Rightarrow> Inr entry)) (\<lambda>entry.
        bindW (appendEntry env s entry) (K entry))"
  have "lastHash env s w = (w\<lparr>wStep := ?n\<rparr>, Inr ?h)"
    using assms(4) LastHash_calm [OF assms(1,2)] by (simp add: lastHash_def bindW_def returnW_def)
  then have "bindW (lastHash env s) (\<lambda>h. bindW (build_entry env (P h)) k) w = k ?b ?w" for k
    by (simp add: bindW_def build_entry_def stepW_def)
  note run = this [of ?k]
  show thesis
  proof (cases ?b)
    case (Inl err)
    then show thesis using run by (intro unbuilt [OF Inl, of ?w]) (simp add: bindW_def liftW_def)
  next
    case (Inr e)
    have "wrote (wlog w) e" using assms(8) Inr by blast
    then have l: "links env e ?w" by (intro links_built [OF Inr]) (simp_all add: assms(5))
    have fields: "SessionID e \<noteq> []" "TraceID e \<noteq> []" using BuildEntry_Inr(6,7) [OF Inr] assms(6,7) by auto
    obtain w' where w': "store_Append env e ?w = (w', Inr (Inr ()))" "good env w'" "wlog w' = wlog ?w @ [e]"
      by (rule Append_calm [OF assms(1) _ _ fields l]) (use assms(2,3) in simp_all)
    have "?k ?b ?w = K e True w'"
      using Inr w'(1) assms(4) by (simp add: bindW_def liftW_def appendEntry_def returnW_def)
    then show thesis using run w' by (intro built [OF Inr, of w']) simp_all
  qed
qed

section \<open>Inverting a successful run\<close>

lemma bindW_Inr: "bindW m f w = (w', Inr y) \<longleftrightarrow> (\<exists>w1 x. m w = (w1, Inr x) \<and> f x w1 = (w', Inr y))"
  by (auto simp: bindW_def split: prod.splits sum.splits)

lemma liftW_Inr: "liftW r w = (w', Inr y) \<longleftrightarrow> w' = w \<and> r = Inr y"
  by (auto simp: liftW_def)

lemma returnW_Inr: "returnW x w = (w', Inr y) \<longleftrightarrow> w' = w \<and> y = x"
  by (auto simp: returnW_def)

lemma stepW_Inr: "stepW f w = (w', Inr y) \<longleftrightarrow> w' = w\<lparr>wStep := Suc (wStep w)\<rparr> \<and> y = f (wStep w)"
  by (auto simp: stepW_def)

lemmas run_Inr = bindW_Inr liftW_Inr returnW_Inr stepW_Inr

definition same_store :: "'r World \<Rightarrow> 'r World \<Rightarrow> bool" where
  "same_store w w' \<longleftrightarrow> wStore w' = wStore w \<and> wCache w' = wCache w"

lemma same_store_refl [simp]: "same_store w w" "same_store w (w\<lparr>wStep := n\<rparr>)"
  by (simp_all add: same_store_def)

lemma same_store_good: "same_store w w' \<Longrightarrow> good env w' = good env w \<and> wlog w' = wlog w"
  by (simp add: same_store_def good_def)

lemma context_run:
  assumes "buildPrescribeContext env input w = (w', Inr ctx)" and "\<And>n. evFresh env n \<noteq> []"
  shows "same_store w w'" "pcSessionID ctx \<noteq> []" "pcTraceID ctx \<noteq> []" "pcActor ctx = normalizeActor (piActor input)"
    "TrimSpace (piSessionID input) \<noteq> [] \<longrightarrow> pcSessionID ctx = TrimSpace (piSessionID input)"
  using assms by (auto simp: buildPrescribeContext_def run_Inr Let_def split: if_splits)

lemma canonicalize_run:
  assumes "canonicalizePrescribeInput env s input ctx w = (w', Inr x)"
  shows "w' = w"
  using assms by (auto simp: canonicalizePrescribeInput_def run_Inr Let_def split: option.splits)

lemma retry_run: "record_retry s i h w = (w', Inr n) \<Longrightarrow> same_store w w'"
  by (auto simp: record_retry_def same_store_def split: option.splits prod.splits)

section \<open>Findings\<close>

text \<open>Findings carry the session, the trace and the actor of their prescription.\<close>

definition finding_of :: "string \<Rightarrow> string \<Rightarrow> Actor \<Rightarrow> EvidenceEntry \<Rightarrow> bool" where
  "finding_of sess tr actor e \<longleftrightarrow>
     Type e = EntryTypeFinding \<and> SessionID e = sess \<and> TraceID e = tr \<and> EActor e = actor"

lemma finding_run:
  fixes s :: "'r Service"
  assumes "calm env" "good env w" "length (wlog w) + 1 < max_segments" "svEvidencePath s \<noteq> []" "sess \<noteq> []" "tr \<noteq> []"
  obtains es where "good env (fst (write_finding env s sess tr oid att actor ad f w))"
    "wlog (fst (write_finding env s sess tr oid att actor ad f w)) = wlog w @ es" "list_all (finding_of sess tr actor) es"
    "length es \<le> 1"
proof -
  let ?P = "\<lambda>h. (entry_params env s EntryTypeFinding sess oid tr actor (finding_json f) h)
    \<lparr>bpAttempt := att, bpArtifactDigest := ad\<rparr>"
  let ?n = "Suc (wStep w)" and ?h = "last_hash [] (wlog w)"
  let ?w = "w\<lparr>wStep := Suc ?n\<rparr>"
  let ?b = "BuildEntry (evDigest env) (evNow env ?n) (evFresh env ?n) (?P ?h)"
  have plain: "plain (?P h)" for h by (simp add: plain_def entry_params_def entry_type_defs)
  have run: "write_finding env s sess tr oid att actor ad f w = ignoreW (case ?b of Inl _ \<Rightarrow> returnW ()
      | Inr entry \<Rightarrow> bindW (appendEntry env s entry) (\<lambda>_. returnW ())) ?w"
    using assms(4) LastHash_calm [OF assms(1,2)]
    by (simp add: write_finding_def ignoreW_def bindW_def lastHash_def returnW_def build_entry_def stepW_def)
  show thesis
  proof (cases ?b)
    case (Inl err)
    then show thesis using assms(2) by (intro that [of "[]"]) (simp_all add: run ignoreW_def returnW_def)
  next
    case (Inr e)
    have l: "links env e ?w"
      by (rule links_built [OF Inr]) (use wrote_plain [OF Inr plain] in \<open>simp_all add: entry_params_def\<close>)
    note fields = BuildEntry_Inr(2,6,7,9) [OF Inr, simplified entry_params_def, simplified]
    obtain w' where w': "store_Append env e ?w = (w', Inr (Inr ()))" "good env w'" "wlog w' = wlog ?w @ [e]"
      by (rule Append_calm [OF assms(1) _ _ _ _ l]) (use assms(2,3,5,6) fields in simp_all)
    show thesis
      using Inr w' fields assms(4)
      by (intro that [of "[e]"]) (simp_all add: run ignoreW_def bindW_def appendEntry_def returnW_def finding_of_def)
  qed
qed

lemma findings_run:
  fixes s :: "'r Service"
  assumes "calm env" "good env w" "length (wlog w) + length xs < max_segments" "svEvidencePath s \<noteq> []" "sess \<noteq> []" "tr \<noteq> []"
  shows "\<exists>es. good env (fst (eachW (write_finding env s sess tr oid att actor ad) xs w)) \<and>
    wlog (fst (eachW (write_finding env s sess tr oid att actor ad) xs w)) = wlog w @ es \<and>
    list_all (finding_of sess tr actor) es \<and> length es \<le> length xs"
  using assms(2,3)
proof (induction xs arbitrary: w)
  case Nil
  then show ?case by (simp add: returnW_def)
next
  case (Cons x xs)
  let ?f = "write_finding env s sess tr oid att actor ad"
  obtain w1 where w1: "?f x w = (w1, Inr ())" by (simp add: write_finding_def ignoreW_def)
  obtain es where es: "good env w1" "wlog w1 = wlog w @ es" "list_all (finding_of sess tr actor) es" "length es \<le> 1"
    using finding_run [OF assms(1) Cons.prems(1) _ assms(4-6), of oid att actor ad x] Cons.prems(2) w1 by auto
  have "length (wlog w1) + length xs < max_segments" using es Cons.prems(2) by simp
  from Cons.IH [OF es(1) this] obtain fs where
    "good env (fst (eachW ?f xs w1))" "wlog (fst (eachW ?f xs w1)) = wlog w1 @ fs" "list_all (finding_of sess tr actor) fs"
    "length fs \<le> length xs" by blast
  then show ?case using w1 es by (intro exI [of _ "es @ fs"]) (simp add: bindW_def)
qed

section \<open>Prescribe\<close>

text \<open>What a prescription that was returned is, and what the log has then.\<close>

definition prescribed :: "PrescribeInput \<Rightarrow> 'r World \<Rightarrow> PrescribeOutput \<Rightarrow> 'r World \<Rightarrow> bool" where
  "prescribed input w out w' \<longleftrightarrow>
     poPersisted out \<and> is_prescribe (poEntry out) \<and> EntryID (poEntry out) = poPrescriptionID out \<and>
     SessionID (poEntry out) = poSessionID out \<and> TraceID (poEntry out) = poTraceID out \<and>
     poSessionID out \<noteq> [] \<and> poTraceID out \<noteq> [] \<and> EActor (poEntry out) = normalizeActor (piActor input) \<and>
     decodes (poEntry out) \<and>
     (\<exists>fs. wlog w' = wlog w @ poEntry out # fs \<and> list_all (finding_of (poSessionID out) (poTraceID out) (normalizeActor (piActor input))) fs \<and>
        length fs \<le> length (concat (map fsFindings (piExternalFindings input))))"

text \<open>The operation from the reading of the head on.\<close>

abbreviation prescribe_rest where
  "prescribe_rest env s input ctx cr result rc entry persisted \<equiv>
     bindW (if persisted
            then writeFindingsEvidence env s (piExternalFindings input) (pcSessionID ctx) (pcTraceID ctx)
                   (TrimSpace (piOperationID input)) (piAttempt input) (pcActor ctx) (crArtifactDigest cr)
            else returnW ()) (\<lambda>_. returnW (prescribe_output ctx cr result rc entry persisted))"

abbreviation prescribe_tail where
  "prescribe_tail env s input ctx cr src result rc pid \<equiv>
     bindW (lastHash env s) (\<lambda>h.
     bindW (build_entry env (prescribe_params env s input ctx cr (prescription_payload input cr src result pid) h)) (\<lambda>b.
     bindW (liftW (case b of Inl e \<Rightarrow> Inl (BuildFailed e) | Inr entry \<Rightarrow> Inr entry)) (\<lambda>entry.
     bindW (appendEntry env s entry) (prescribe_rest env s input ctx cr result rc entry))))"

lemma Prescribe_tail:
  fixes s :: "'r Service"
  assumes "Prescribe env s input w = (w', Inr out)" and fresh: "\<And>n. evFresh env n \<noteq> []"
  obtains ctx cr src result rc w2 n where "prescribe_tail env s input ctx cr src result rc (evFresh env n) w2 = (w', Inr out)"
    "same_store w w2" "pcSessionID ctx \<noteq> []" "pcTraceID ctx \<noteq> []" "pcActor ctx = normalizeActor (piActor input)"
proof -
  obtain w1 ctx cr src result w2 rc where
    ctx: "buildPrescribeContext env input w = (w1, Inr ctx)"
    and w2: "record_retry s (crIntentDigest cr) (caResourceShapeHash (crCanonicalAction cr)) w1 = (w2, Inr rc)"
    and run: "bindW (stepW (evFresh env)) (prescribe_tail env s input ctx cr src result rc) w2 = (w', Inr out)"
    using assms(1)
    unfolding Prescribe_def bindW_Inr [of "liftW (requiredSigner _)"] bindW_Inr [of "buildPrescribeContext _ _"]
      bindW_Inr [of "canonicalizePrescribeInput _ _ _ _"] bindW_Inr [of "liftW (case_sum _ _ (Pipeline_Run _ _ _))"]
      bindW_Inr [of "record_retry _ _ _"] case_prod_beta liftW_Inr
    by (blast dest: canonicalize_run)
  have "same_store w (w2\<lparr>wStep := Suc (wStep w2)\<rparr>)"
    using context_run(1) [OF ctx fresh] retry_run [OF w2] by (simp add: same_store_def)
  moreover have "prescribe_tail env s input ctx cr src result rc (evFresh env (wStep w2))
      (w2\<lparr>wStep := Suc (wStep w2)\<rparr>) = (w', Inr out)"
    using run unfolding bindW_Inr [of "stepW _"] stepW_Inr by blast
  ultimately show thesis using that context_run(2-4) [OF ctx fresh] by blast
qed

lemma Prescribe_run:
  fixes s :: "'r Service"
  assumes "calm env" "good env w" "length (wlog w) + prescribe_budget input < max_segments"
    and "svEvidencePath s \<noteq> []" and fresh: "\<And>n. evFresh env n \<noteq> []"
    and "Prescribe env s input w = (w', Inr out)"
  shows "good env w' \<and> prescribed input w out w' \<and> (\<exists>n. poPrescriptionID out = evFresh env n)"
proof -
  let ?xs = "concat (map fsFindings (piExternalFindings input))"
  obtain ctx cr src result rc w2 n where
    run: "prescribe_tail env s input ctx cr src result rc (evFresh env n) w2 = (w', Inr out)"
    and c: "same_store w w2" "pcSessionID ctx \<noteq> []" "pcTraceID ctx \<noteq> []" "pcActor ctx = normalizeActor (piActor input)"
    by (rule Prescribe_tail [OF assms(6) fresh])
  let ?P = "prescribe_params env s input ctx cr (prescription_payload input cr src result (evFresh env n))"
    and ?K = "prescribe_rest env s input ctx cr result rc"
    and ?findings = "\<lambda>w3. eachW (write_finding env s (pcSessionID ctx) (pcTraceID ctx)
        (TrimSpace (piOperationID input)) (piAttempt input) (pcActor ctx) (crArtifactDigest cr)) ?xs w3"
  have w: "good env w2" "wlog w2 = wlog w"
    using same_store_good [OF c(1), of env] assms(2) by simp_all
  have room: "length (wlog w2) + 1 < max_segments" using assms(3) w(2) by (simp add: prescribe_budget_def)
  have plain: "plain (?P h)" for h by (simp add: plain_def prescribe_params_def entry_params_def entry_type_defs)
  have P: "bpPreviousHash (?P h) = h" "bpSessionID (?P h) \<noteq> []" "bpTraceID (?P h) \<noteq> []" for h
    using c by (simp_all add: prescribe_params_def entry_params_def)
  have wr: "\<forall>h e now u. BuildEntry (evDigest env) now u (?P h) = Inr e \<longrightarrow> wrote (wlog w2) e"
    using wrote_plain [OF _ plain] by blast
  show ?thesis
  proof (cases rule: head_append [OF assms(1) w(1) room assms(4) P wr,
        where K = ?K, case_names unbuilt built])
    case (unbuilt h now u err w3)
    with run show ?thesis by simp
  next
    case (built h now u e w3)
    note fields = BuildEntry_Inr [OF built(1), unfolded prescribe_params_def entry_params_def, simplified]
    have room3: "length (wlog w3) + length ?xs < max_segments"
      using assms(3) built(4) w(2) by (simp add: prescribe_budget_def del: length_concat)
    obtain es where es: "good env (fst (?findings w3))" "wlog (fst (?findings w3)) = wlog w3 @ es"
      "list_all (finding_of (pcSessionID ctx) (pcTraceID ctx) (pcActor ctx)) es" "length es \<le> length ?xs"
      using findings_run [OF assms(1) built(3) room3 assms(4) c(2,3)] by blast
    have "?K e True w3 = (w', Inr out)" using run built(2) by simp
    then have out: "out = prescribe_output ctx cr result rc e True" "w' = fst (?findings w3)"
      using assms(4) c(3) by (auto simp: bindW_Inr returnW_Inr writeFindingsEvidence_def)
    have "good env w' \<and> wlog w' = wlog w @ e # es"
      using es out(2) built(4) w(2) by simp
    moreover have "decodes e" "is_prescribe e" "EntryID e = evFresh env n"
      using fields fresh [of n]
      by (simp_all add: decodes_def is_prescribe_def is_report_def entry_type_defs prescription_payload_def)
    moreover have "EActor e = normalizeActor (piActor input)" using fields(9) c(4) by simp
    moreover have "SessionID e = pcSessionID ctx" "TraceID e = pcTraceID ctx" using fields by simp_all
    ultimately show ?thesis
      using c(2-4) es(3,4) by (auto simp: prescribed_def out(1) prescribe_output_def simp del: length_concat)
  qed
qed

section \<open>Report\<close>

lemma load_found:
  fixes s :: "'r Service"
  assumes "calm env" "good env w" "svEvidencePath s \<noteq> []" "\<exists>p\<in>set (wlog w). EntryID p = pid"
  obtains w' p where "loadReportPrescription env s input pid w = (w', Inr (Some p))" "good env w'" "wlog w' = wlog w"
    "p \<in> set (wlog w)" "EntryID p = pid"
proof -
  obtain cache r where r: "store_Find env pid w = (w\<lparr>wCache := cache, wStep := Suc (wStep w)\<rparr>, Inr (Inr r))"
    "cache_ok cache (wlog w)"
    "r = find (\<lambda>e. EntryID e = pid) (wlog w) \<or> (\<exists>e. r = Some e \<and> e \<in> set (wlog w) \<and> EntryID e = pid)"
    by (rule Find_calm [OF assms(1,2)])
  moreover have "find (\<lambda>e. EntryID e = pid) (wlog w) \<noteq> None" using assms(4) by (auto simp: find_None_iff)
  ultimately obtain p where p: "r = Some p" "p \<in> set (wlog w)" "EntryID p = pid"
    using find_in [of "\<lambda>e. EntryID e = pid" "wlog w"] by auto
  then show thesis
    using r(1,2) assms(2,3)
    by (intro that [of "w\<lparr>wCache := cache, wStep := Suc (wStep w)\<rparr>" p])
      (simp_all add: loadReportPrescription_def bindW_def returnW_def good_def)
qed

text \<open>A report that was returned for the entry \<open>p\<close>.\<close>

definition reported :: "ReportInput \<Rightarrow> EvidenceEntry \<Rightarrow> ReportOutput \<Rightarrow> bool" where
  "reported input p out \<longleftrightarrow> toPersisted out \<and> is_report (toEntry out) \<and>
     (\<exists>r. unmarshal_report (Payload (toEntry out)) = Some r \<and> rpPrescriptionID r = EntryID p \<and>
        rpExitCode r = tiExitCode input \<and> rpVerdict r = tiVerdict input) \<and>
     toSessionID out = SessionID p \<and> SessionID (toEntry out) = SessionID p \<and>
     TraceID (toEntry out) = toTraceID out \<and> (TraceID p \<noteq> [] \<longrightarrow> toTraceID out = TraceID p) \<and>
     toReportID out = EntryID (toEntry out) \<and>
     EActor (toEntry out) = (if TrimSpace (acID (tiActor input)) = [] then EActor p else normalizeActor (tiActor input)) \<and>
     FormatDigest (tiArtifactDigest input) = Inr (ArtifactDigest (toEntry out))"

lemma BuildEntry_total:
  assumes "\<And>j. digest j \<noteq> None" "bpSigner p \<noteq> None" "EntryType_Valid (bpType p)"
    and "FormatDigest (bpIntentDigest p) = Inr i" "FormatDigest (bpArtifactDigest p) = Inr a"
  shows "BuildEntry digest now u p \<noteq> Inl err"
proof -
  have "digest = (\<lambda>j. Some (the (digest j)))" using assms(1) by (simp add: fun_eq_iff)
  then obtain d where "digest = (\<lambda>j. Some (d j))" ..
  then show ?thesis using assms(2-) by (auto simp: BuildEntry_def computeEntryHash_def Let_def)
qed

lemma Report_run:
  fixes s :: "'r Service"
  assumes "calm env" "good env w" "length (wlog w) + 1 < max_segments"
    and "svEvidencePath s \<noteq> []" "svSigner s \<noteq> None"
    and pid: "TrimSpace (tiPrescriptionID input) = pid" "pid \<noteq> []"
    and valid: "validateDecisionReportInput input = Inr dc" "FormatDigest (tiArtifactDigest input) = Inr ad"
    and p: "\<exists>p\<in>set (wlog w). EntryID p = pid"
      "\<forall>p\<in>set (wlog w). EntryID p = pid \<longrightarrow>
        SessionID p \<noteq> [] \<and> (TrimSpace (tiSessionID input) = [] \<or> TrimSpace (tiSessionID input) = SessionID p)"
    and fresh: "\<And>n. evFresh env n \<noteq> []" and digest: "\<And>j. evDigest env j \<noteq> None"
  shows "\<exists>w' out p. Report env s input w = (w', Inr out) \<and> good env w' \<and> wlog w' = wlog w @ [toEntry out] \<and>
    p \<in> set (wlog w) \<and> EntryID p = pid \<and> reported input p out"
proof -
  obtain w1 p where w1: "loadReportPrescription env s input pid w = (w1, Inr (Some p))" "good env w1" "wlog w1 = wlog w"
    and pw: "p \<in> set (wlog w)" "EntryID p = pid"
    by (rule load_found [OF assms(1,2,4) p(1)])
  have sess: "SessionID p \<noteq> []" "TrimSpace (tiSessionID input) = [] \<or> TrimSpace (tiSessionID input) = SessionID p"
    using p(2) pw by auto
  let ?ctx = "resolveReportContext input (evFresh env (Suc (wStep w1))) (Some p)"
    and ?w = "w1\<lparr>wStep := Suc (Suc (wStep w1))\<rparr>"
  let ?P = "report_params env s input ?ctx (report_payload input (evFresh env (wStep w1)) pid dc)"
    and ?K = "\<lambda>entry persisted. returnW (report_output input ?ctx pid dc entry persisted) :: ('r, ReportOutput) svc"
  have ctx: "validate_reportContext ?ctx (Some p) = Inr ()" "rcSessionID ?ctx = SessionID p" "rcTraceID ?ctx \<noteq> []"
    "rcActor ?ctx = (if TrimSpace (acID (tiActor input)) = [] then EActor p else normalizeActor (tiActor input))"
    "TraceID p \<noteq> [] \<longrightarrow> rcTraceID ?ctx = TraceID p"
    using sess fresh by (auto simp: validate_reportContext_def resolveReportContext_def Let_def normalizeActor_def)
  have run: "Report env s input w = bindW (lastHash env s) (\<lambda>h. bindW (build_entry env (?P h)) (\<lambda>b.
        bindW (liftW (case b of Inl e \<Rightarrow> Inl (BuildFailed e) | Inr entry \<Rightarrow> Inr entry)) (\<lambda>entry.
        bindW (appendEntry env s entry) (?K entry)))) ?w"
    using assms(5) pid valid(1) w1(1) ctx(1)
    by (clarsimp simp add: Report_def requiredSigner_def Let_def bindW_def [of "liftW _"] liftW_def
        bindW_def [of "loadReportPrescription _ _ _ _"] bindW_def [of "stepW _"] stepW_def)
  have P: "bpPreviousHash (?P h) = h" "bpSessionID (?P h) \<noteq> []" "bpTraceID (?P h) \<noteq> []" for h
    using ctx sess by (simp_all add: report_params_def entry_params_def)
  have wr: "\<forall>h e now u. BuildEntry (evDigest env) now u (?P h) = Inr e \<longrightarrow> wrote (wlog ?w) e"
    using report_wrote [OF _ ctx(1)] pw w1(3) by fastforce
  have room: "good env ?w" "length (wlog ?w) + 1 < max_segments" using assms(2,3) w1 by simp_all
  show ?thesis
  proof (cases rule: head_append [OF assms(1) room assms(4) P wr, where K = ?K, case_names unbuilt built])
    case (unbuilt h now u err w')
    have "FormatDigest [] = Inr []" by (simp add: FormatDigest_def TrimSpace_def)
    with unbuilt(1) BuildEntry_total [of "evDigest env" "?P h" "[]" ad now u err] digest assms(5) valid(2) show ?thesis
      by (simp add: report_params_def entry_params_def EntryType_Valid_def)
  next
    case (built h now u e w')
    let ?out = "report_output input ?ctx pid dc e True"
    have "Report env s input w = (w', Inr ?out)" using run built(2) by (simp add: returnW_def)
    moreover have "wlog w' = wlog w @ [toEntry ?out]" using built(4) w1(3) by (simp add: report_output_def)
    moreover have "reported input p ?out"
      using report_written [OF built(1)] ctx pw(2)
      by (simp add: reported_def report_output_def report_payload_def)
    ultimately show ?thesis using built(3) pw by blast
  qed
qed

section \<open>When Prescribe succeeds\<close>

text \<open>SHA-256 digests are in normal form.\<close>

definition digests_ok :: "Hashes \<Rightarrow> bool" where
  "digests_ok h \<longleftrightarrow> (\<forall>s. normal_digest (hBytes h s)) \<and> (\<forall>j. normal_digest (hJson h j))"

lemma Canonicalize_digests:
  "crParseError (Canonicalize c tool op env raw) = None \<Longrightarrow>
    crArtifactDigest (Canonicalize c tool op env raw) = hBytes (ceHashes c) raw \<and>
    (\<exists>j. crIntentDigest (Canonicalize c tool op env raw) = hJson (ceHashes c) j)"
  by (auto simp: Canonicalize_def canonicalizeK8s_def canonicalizeTerraform_def canonicalizeDocker_def
      canonicalizeGeneric_def action_result_def failed_result_def ComputeIntentDigest_def Let_def
      split: Adapter.splits option.splits if_splits prod.splits)

text \<open>The input is accepted: the actor is named, and the action is given in a known scope or the artifact canonicalises.\<close>

definition accepted :: "Env \<Rightarrow> PrescribeInput \<Rightarrow> bool" where
  "accepted env input \<longleftrightarrow> validatePrescribeActor (normalizeActor (piActor input)) = Inr () \<and>
     (case piCanonicalAction input of
        Some action \<Rightarrow> \<exists>sc. normalizeIngressScopeClass (caScopeClass action) = Inr sc
      | None \<Rightarrow> crParseError (Canonicalize (evCanon env) (normalizeToken (piTool input))
          (normalizeToken (piOperation input)) (TrimSpace (piEnvironment input)) (piRawArtifact input)) = None)"

lemma context_accepted:
  assumes "accepted env input" "\<And>n. evFresh env n \<noteq> []"
  obtains ctx w1 where "buildPrescribeContext env input w = (w1, Inr ctx)" "same_store w w1"
    "pcTool ctx = normalizeToken (piTool input)" "pcOperation ctx = normalizeToken (piOperation input)"
    "pcEnvironment ctx = TrimSpace (piEnvironment input)" "pcSessionID ctx \<noteq> []" "pcTraceID ctx \<noteq> []"
proof -
  obtain w1 ctx where ctx: "buildPrescribeContext env input w = (w1, Inr ctx)"
    using assms(1)
    by (cases "TrimSpace (piSessionID input) = []")
      (auto simp: accepted_def buildPrescribeContext_def Let_def bindW_def stepW_def returnW_def liftW_def)
  moreover have "pcTool ctx = normalizeToken (piTool input)" "pcOperation ctx = normalizeToken (piOperation input)"
    "pcEnvironment ctx = TrimSpace (piEnvironment input)"
    using ctx by (auto simp: buildPrescribeContext_def run_Inr Let_def split: if_splits)
  ultimately show thesis using that context_run [OF ctx assms(2)] by blast
qed

lemma canonicalize_accepted:
  assumes "accepted env input" "digests_ok (ceHashes (evCanon env))"
    and "pcTool ctx = normalizeToken (piTool input)" "pcOperation ctx = normalizeToken (piOperation input)"
    "pcEnvironment ctx = TrimSpace (piEnvironment input)"
  obtains cr src where "canonicalizePrescribeInput env s input ctx w = (w, Inr (cr, src))"
    "normal_digest (crArtifactDigest cr)" "normal_digest (crIntentDigest cr)"
proof (cases "piCanonicalAction input")
  case None
  let ?cr = "Canonicalize (evCanon env) (pcTool ctx) (pcOperation ctx) (pcEnvironment ctx) (piRawArtifact input)"
  have ok: "crParseError ?cr = None" using assms(1,3-5) None by (simp add: accepted_def)
  with None have "canonicalizePrescribeInput env s input ctx w = (w, Inr (?cr, ''adapter''))"
    by (simp add: canonicalizePrescribeInput_def returnW_def)
  with Canonicalize_digests [OF ok] assms(2) that show thesis by (auto simp: digests_ok_def)
next
  case (Some action)
  then obtain sc where "normalizeIngressScopeClass (caScopeClass action) = Inr sc"
    using assms(1) by (auto simp: accepted_def)
  then obtain a where "normalizeCanonicalAction action (pcTool ctx) (pcOperation ctx) = Inr a"
    by (simp add: normalizeCanonicalAction_def Let_def)
  with Some have "canonicalizePrescribeInput env s input ctx w =
      (w, Inr (external_result env a (piRawArtifact input), ''external''))"
    by (simp add: canonicalizePrescribeInput_def bindW_def liftW_def returnW_def)
  then show thesis
    by (rule that) (use assms(2) in \<open>simp_all add: external_result_def ComputeIntentDigest_def digests_ok_def\<close>)
qed

lemma findings_return: "\<exists>w'. writeFindingsEvidence env s fs sess tr oid att actor ad w = (w', Inr ())"
proof -
  have "\<exists>w'. eachW (write_finding env s sess t oid att actor ad) xs w = (w', Inr ())" for xs w t
    by (induction xs arbitrary: w) (auto simp: returnW_def bindW_def write_finding_def ignoreW_def)
  then show ?thesis by (simp add: writeFindingsEvidence_def returnW_def)
qed

lemma Prescribe_succeeds:
  fixes s :: "'r Service"
  assumes "calm env" "good env w" "length (wlog w) + 1 < max_segments"
    and "svEvidencePath s \<noteq> []" "svSigner s \<noteq> None" "svPipeline s = None"
    and "accepted env input" "digests_ok (ceHashes (evCanon env))"
    and fresh: "\<And>n. evFresh env n \<noteq> []" and digest: "\<And>j. evDigest env j \<noteq> None"
  shows "\<exists>w' out. Prescribe env s input w = (w', Inr out)"
proof -
  obtain ctx w1 where ctx: "buildPrescribeContext env input w = (w1, Inr ctx)" "same_store w w1"
    "pcTool ctx = normalizeToken (piTool input)" "pcOperation ctx = normalizeToken (piOperation input)"
    "pcEnvironment ctx = TrimSpace (piEnvironment input)" "pcSessionID ctx \<noteq> []" "pcTraceID ctx \<noteq> []"
    by (rule context_accepted [OF assms(7) fresh])
  obtain cr src where cr: "canonicalizePrescribeInput env s input ctx w1 = (w1, Inr (cr, src))"
    "normal_digest (crArtifactDigest cr)" "normal_digest (crIntentDigest cr)"
    by (rule canonicalize_accepted [OF assms(7,8) ctx(3-5)])
  obtain result where result: "Pipeline_Run (prescribe_assessors env s (piExternalFindings input)) (crCanonicalAction cr)
      (piRawArtifact input) = Inr result"
    using service_result [of "evDecoders env" "piExternalFindings input"] assms(6)
    by (simp add: prescribe_assessors_def service_assessors_def)
  obtain w2 rc where rc: "record_retry s (crIntentDigest cr) (caResourceShapeHash (crCanonicalAction cr)) w1 = (w2, Inr rc)"
    by (cases "svRetryTracker s") (auto simp: record_retry_def case_prod_beta Let_def)
  let ?w = "w2\<lparr>wStep := Suc (wStep w2)\<rparr>" and ?pid = "evFresh env (wStep w2)"
  let ?P = "prescribe_params env s input ctx cr (prescription_payload input cr src result ?pid)"
    and ?K = "prescribe_rest env s input ctx cr result rc"
  have run: "Prescribe env s input w = prescribe_tail env s input ctx cr src result rc ?pid ?w"
    using assms(5) ctx(1) cr(1) result rc
    by (clarsimp simp add: Prescribe_def requiredSigner_def bindW_def [of "liftW _"] liftW_def
        bindW_def [of "buildPrescribeContext _ _"] bindW_def [of "canonicalizePrescribeInput _ _ _ _"]
        bindW_def [of "record_retry _ _ _"] bindW_def [of "stepW _"] stepW_def)
  have w: "good env ?w" "length (wlog ?w) + 1 < max_segments"
    using same_store_good [OF ctx(2), of env] same_store_good [OF retry_run [OF rc], of env] assms(2,3) by simp_all
  have plain: "plain (?P h)" for h by (simp add: plain_def prescribe_params_def entry_params_def entry_type_defs)
  have P: "bpPreviousHash (?P h) = h" "bpSessionID (?P h) \<noteq> []" "bpTraceID (?P h) \<noteq> []" for h
    using ctx by (simp_all add: prescribe_params_def entry_params_def)
  have wr: "\<forall>h e now u. BuildEntry (evDigest env) now u (?P h) = Inr e \<longrightarrow> wrote (wlog ?w) e"
    using wrote_plain [OF _ plain] by blast
  show ?thesis
  proof (cases rule: head_append [OF assms(1) w assms(4) P wr, where K = ?K, case_names unbuilt built])
    case (unbuilt h now u err w3)
    then show ?thesis
      using BuildEntry_total [of "evDigest env" "?P h" "crIntentDigest cr" "crArtifactDigest cr" now u err] digest
        assms(5) normal_digest_fixed cr(2,3)
      by (simp add: prescribe_params_def entry_params_def EntryType_Valid_def)
  next
    case (built h now u e w3)
    obtain w4 where w4: "writeFindingsEvidence env s (piExternalFindings input) (pcSessionID ctx) (pcTraceID ctx)
                   (TrimSpace (piOperationID input)) (piAttempt input) (pcActor ctx) (crArtifactDigest cr) w3 = (w4, Inr ())"
      using findings_return by blast
    have "?K e True w3 = (w4, Inr (prescribe_output ctx cr result rc e True))"
      using w4 by (simp add: bindW_def returnW_def)
    with run built(2) show ?thesis by simp
  qed
qed

end
