(* ===== verification/Lifecycle_Props.thy ===== *)
theory Lifecycle_Props
  imports Lifecycle_Runs Signal_Protocol Evidence_Props Canon_Facts
begin

text \<open>
  Properties of the prescribe/report service, alone and together with the store it writes to and with
  the bridge and the protocol detector that read its log.
\<close>

section \<open>Sequences of requests\<close>







definition fresh_world :: "'r \<Rightarrow> 'r World" where
  "fresh_world r = \<lparr>wStore = empty_store, wCache = Map.empty, wRetry = r, wStep = 0\<rparr>"

lemma fresh_good [simp]: "good env (fresh_world r)" "wlog (fresh_world r) = []"
  by (simp_all add: good_def fresh_world_def)

section \<open>A concrete service\<close>

definition sample_env :: Env where
  "sample_env = \<lparr>evDigest = (\<lambda>_. Some ''sha256:x''), evFresh = (\<lambda>n. ''u'' @ replicate n CHR ''x''), evNow = int,
     evLock = (\<lambda>_. Acquired), evFaults = (\<lambda>_. no_faults), evSegmentBytes = [], evLineSize = (\<lambda>_. 100),
     evCanon = sample_canon_env\<lparr>ceHashes := \<lparr>hBytes = (\<lambda>_. ''sha256:'' @ replicate 64 CHR ''0''),
       hJson = (\<lambda>_. ''sha256:'' @ replicate 64 CHR ''0''), hShape = (\<lambda>_. None)\<rparr>\<rparr>,
     evDecoders = sample_decoders, evCanonText = (\<lambda>_. ''parse error''), evVersion = ''0.5.20''\<rparr>"

definition sample_service :: "unit Service" where
  "sample_service = \<lparr>svEvidencePath = ''evidence'', svSigner = Some sample_signer, svRetryTracker = None,
     svBestEffortWrites = False, svPipeline = None\<rparr>"

definition sample_prescribe :: PrescribeInput where
  "sample_prescribe = \<lparr>piActor = sample_actor, piTool = ''kubectl'', piOperation = ''apply'', piRawArtifact = ''ab'',
     piEnvironment = ''dev'', piCanonicalAction = Some sample_kube_action, piExternalFindings = [], piSessionID = [],
     piOperationID = [], piAttempt = 0, piTraceID = [], piSpanID = [], piParentSpanID = [], piScopeDimensions = [],
     piFlavor = [], piEvidenceKind = [], piSourceSystem = []\<rparr>"

definition sample_report_for :: "string \<Rightarrow> ReportInput" where
  "sample_report_for pid = \<lparr>tiPrescriptionID = pid, tiVerdict = VerdictSuccess, tiExitCode = Some 0,
     tiDecisionContext = None, tiArtifactDigest = ''sha256:'' @ replicate 64 CHR ''0'', tiActor = sample_actor,
     tiExternalRefs = [], tiSessionID = [], tiOperationID = [], tiSpanID = [], tiParentSpanID = [], tiFlavor = [],
     tiEvidenceKind = [], tiSourceSystem = []\<rparr>"

lemma sample_calm [simp]: "calm sample_env"
  by (simp add: calm_def sample_env_def MaxScanTokenSize_def)

lemma sample_fresh [simp]: "evFresh sample_env n \<noteq> []"
  by (simp add: sample_env_def)

lemma sample_digests [simp]: "evDigest sample_env j \<noteq> None" "digests_ok (ceHashes (evCanon sample_env))"
proof -
  show "digests_ok (ceHashes (evCanon sample_env))"
    by (auto simp: digests_ok_def sample_env_def normal_digest_def list_all_iff is_hex_def ToLower_def
        lower_char_def map_replicate_const Let_def intro!: exI [of _ "replicate 64 CHR ''0''"])
qed (simp add: sample_env_def)

lemma sample_accepted [simp]: "accepted sample_env sample_prescribe"
proof -
  have "validatePrescribeActor (normalizeActor sample_actor) = Inr ()" by code_simp
  moreover have "normalizeIngressScopeClass (caScopeClass sample_kube_action) = Inr ''development''" by code_simp
  ultimately show ?thesis by (simp add: accepted_def sample_prescribe_def)
qed

lemma sample_service_simps [simp]:
  "svEvidencePath sample_service \<noteq> []" "svSigner sample_service \<noteq> None" "svPipeline sample_service = None"
  "prescribe_budget sample_prescribe = 2"
  by (simp_all add: sample_service_def sample_prescribe_def prescribe_budget_def)

lemma sample_room [simp]: "n < 10 \<Longrightarrow> n < max_segments"
  by (simp add: max_segments_def)

section \<open>Properties\<close>





text \<open>A log of one prescription, findings and one report of it is free of violations.\<close>

lemma round_clean:
  assumes "es = pe # fs @ [re]" "list_all decodes es" "is_prescribe pe" "EntryID pe = pid"
    and "list_all (finding_of sess tr actor) fs" "is_report re" "ArtifactDigest re = ad"
    and "\<exists>rep. unmarshal_report (Payload re) = Some rep \<and> rpPrescriptionID rep = pid \<and> rpExitCode rep = code"
    and "pid \<noteq> []" "acID (EActor re) = acID (EActor pe)" "ad \<noteq> [] \<or> code = None"
  shows "\<exists>ses. EvidenceToSignalEntries es = Inr ses \<and> DetectProtocolViolationEvents ses ttl now = []"
proof -
  obtain actions where b: "EvidenceToSignalEntries es = Inr (List.map_filter (signal_entry actions) es)"
    using Evidence_to_signal [of es] assms(2) by (auto simp: list_all_iff)
  obtain sp sr where sp: "signal_entry actions pe = Some sp" and sr: "signal_entry actions re = Some sr"
    using signal_entry_Some [of pe actions] signal_entry_Some [of re actions] assms(1-3,6) by (auto simp: list_all_iff)
  have "list_all (\<lambda>e. signal_entry actions e = None) fs"
    using assms(5) signal_entry_None [of _ actions]
    by (auto simp: list_all_iff finding_of_def is_prescribe_def is_report_def entry_type_defs)
  then have ses: "List.map_filter (signal_entry actions) es = [sp, sr]"
    using assms(1) sp sr by (simp add: map_filter_append map_filter_none map_filter_simps)
  note p = signal_entry_SomeD [OF sp] and r = signal_entry_SomeD [OF sr]
  have f: "enIsPrescription sp" "\<not> enIsReport sp" "\<not> enIsPrescription sr" "enIsReport sr" "enEventID sp = pid"
    "enPrescriptionID sr = pid" "enExitCode sr = code" "enActorID sr = enActorID sp" "enArtifactDigest sr = ad"
    using p(1,3,6,7) r(3,4,6,7,9) assms types_differ by auto
  have "DetectProtocolViolationEvents [sp, sr] ttl now = []"
    using f assms(9,11)
    by (auto simp: DetectProtocolViolationEvents_def prescriptions_by_id_def DetectUnreported_def reported_ids_def)
  with b ses show ?thesis by simp
qed

lemma validate_other_id: "validateDecisionReportInput (tin\<lparr>tiPrescriptionID := x\<rparr>) = validateDecisionReportInput tin"
  by (cases tin) (simp only: validateDecisionReportInput_def ReportInput.select_convs ReportInput.update_convs)

text \<open>
  C37. A prescription can be carried through: over a store that works, a service with a signer
  accepts every input whose actor is named and whose action or artifact is valid, the prescription is
  in the log, and a report that names it, with a valid verdict, is accepted and joins its session
  and trace. When the history before was empty, the actor is the same and the report has a digest
  or no exit code, the protocol detector then finds no violation in the log.
\<close>

theorem prescribe_then_report:
  fixes s s' :: "'r Service"
  assumes "calm env" "good env w" "length (wlog w) + prescribe_budget pin + 1 < max_segments"
    and "svEvidencePath s \<noteq> []" "svSigner s \<noteq> None" "svPipeline s = None"
    and "svEvidencePath s' \<noteq> []" "svSigner s' \<noteq> None"
    and "accepted env pin" "digests_ok (ceHashes (evCanon env))"
    and fresh: "\<And>n. evFresh env n \<noteq> [] \<and> evFresh env n \<notin> EntryID ` set (wlog w) \<and>
      TrimSpace (evFresh env n) = evFresh env n"
    and digest: "\<And>j. evDigest env j \<noteq> None"
    and tin: "TrimSpace (tiSessionID tin) = []" "validateDecisionReportInput tin = Inr dc"
      "FormatDigest (tiArtifactDigest tin) = Inr ad"
  shows "\<exists>w1 out w2 rout. Prescribe env s pin w = (w1, Inr out) \<and> poEntry out \<in> set (wlog w1) \<and>
    Report env s' (tin\<lparr>tiPrescriptionID := poPrescriptionID out\<rparr>) w1 = (w2, Inr rout) \<and>
    wlog w2 = wlog w1 @ [toEntry rout] \<and> toSessionID rout = poSessionID out \<and> toTraceID rout = poTraceID out \<and>
    (wlog w = [] \<and> TrimSpace (acID (tiActor tin)) \<in> {[], TrimSpace (acID (piActor pin))} \<and> (ad \<noteq> [] \<or> tiExitCode tin = None) \<longrightarrow>
      (\<exists>ses. EvidenceToSignalEntries (wlog w2) = Inr ses \<and> DetectProtocolViolationEvents ses ttl now = []))"
proof -
  have fresh': "evFresh env n \<noteq> []" for n using fresh by blast
  have room: "length (wlog w) + 1 < max_segments" "length (wlog w) + prescribe_budget pin < max_segments"
    using assms(3) by simp_all
  obtain w1 out where out: "Prescribe env s pin w = (w1, Inr out)"
    using Prescribe_succeeds [OF assms(1,2) room(1) assms(4-6,9,10) fresh' digest] by blast
  have w1: "good env w1" "prescribed pin w out w1" "poPrescriptionID out \<notin> EntryID ` set (wlog w)"
      "poPrescriptionID out \<noteq> []" "TrimSpace (poPrescriptionID out) = poPrescriptionID out"
    using Prescribe_run [OF assms(1,2) room(2) assms(4) fresh' out] fresh by metis+
  obtain fs where fs: "wlog w1 = wlog w @ poEntry out # fs"
    "list_all (finding_of (poSessionID out) (poTraceID out) (normalizeActor (piActor pin))) fs"
    using w1(2) by (auto simp: prescribed_def)
  have short: "length (wlog w1) + 1 < max_segments"
    using Prescribe_appends [OF assms(1), of pin s] assms(2) room(2) assms(3) out
    unfolding appends_grows grows_def by fastforce
  have new: "SessionID p \<noteq> [] \<and> SessionID p = poSessionID out \<and> TraceID p = poTraceID out \<and> TraceID p \<noteq> [] \<and>
      EActor p = normalizeActor (piActor pin)"
    if "p \<in> set (wlog w1)" "EntryID p = poPrescriptionID out" for p
    using that w1(2,3) fs by (auto simp: prescribed_def finding_of_def list_all_iff image_iff)
  let ?tin = "tin\<lparr>tiPrescriptionID := poPrescriptionID out\<rparr>"
  have pe: "poEntry out \<in> set (wlog w1)" "EntryID (poEntry out) = poPrescriptionID out" "is_prescribe (poEntry out)"
    using fs w1(2) by (simp_all add: prescribed_def)
  have "\<exists>w2 rout p. Report env s' ?tin w1 = (w2, Inr rout) \<and> good env w2 \<and> wlog w2 = wlog w1 @ [toEntry rout] \<and>
      p \<in> set (wlog w1) \<and> EntryID p = poPrescriptionID out \<and> reported ?tin p rout"
  proof (rule Report_run [OF assms(1) w1(1) short assms(7,8) _ w1(4), where dc = dc and ad = ad])
    show "\<forall>p\<in>set (wlog w1). EntryID p = poPrescriptionID out \<longrightarrow>
        SessionID p \<noteq> [] \<and> (TrimSpace (tiSessionID ?tin) = [] \<or> TrimSpace (tiSessionID ?tin) = SessionID p)"
    proof (intro ballI impI conjI)
      show "SessionID p \<noteq> []" if "p \<in> set (wlog w1)" "EntryID p = poPrescriptionID out" for p
        using new [OF that] by blast
    qed (simp add: tin(1))
    show "\<exists>p\<in>set (wlog w1). EntryID p = poPrescriptionID out" using pe by blast
  qed (use w1(5) tin fresh' digest in \<open>simp_all add: validate_other_id\<close>)
  then obtain w2 rout p where r: "Report env s' ?tin w1 = (w2, Inr rout)" "good env w2"
      "wlog w2 = wlog w1 @ [toEntry rout]" "p \<in> set (wlog w1)" "EntryID p = poPrescriptionID out" "reported ?tin p rout"
    by blast
  have "toSessionID rout = poSessionID out" "toTraceID rout = poTraceID out"
    using new [OF r(4,5)] r(6) by (auto simp: reported_def)
  moreover have "\<exists>ses. EvidenceToSignalEntries (wlog w2) = Inr ses \<and> DetectProtocolViolationEvents ses ttl now = []"
    if e: "wlog w = []" "TrimSpace (acID (tiActor tin)) \<in> {[], TrimSpace (acID (piActor pin))}" "ad \<noteq> [] \<or> tiExitCode tin = None"
  proof (rule round_clean)
    show "wlog w2 = poEntry out # fs @ [toEntry rout]" using r(3) fs(1) e(1) by simp
    show "list_all decodes (wlog w2)" using legal_decodes [of "wlog w2"] r(2) by (auto simp: good_def list_all_iff)
    show "list_all (finding_of (poSessionID out) (poTraceID out) (normalizeActor (piActor pin))) fs" by (rule fs(2))
    show "is_report (toEntry rout)" "ArtifactDigest (toEntry rout) = ad" using r(6) tin(3) by (auto simp: reported_def)
    show "\<exists>rep. unmarshal_report (Payload (toEntry rout)) = Some rep \<and> rpPrescriptionID rep = poPrescriptionID out \<and>
        rpExitCode rep = tiExitCode tin" using r(5,6) by (auto simp: reported_def)
    show "acID (EActor (toEntry rout)) = acID (EActor (poEntry out))"
      using r(6) new [OF r(4,5)] new [OF pe(1,2)] e(2) by (auto simp: reported_def normalizeActor_def)
  qed (use e w1(4) pe in simp_all)
  ultimately show ?thesis
    using out r(1,3) pe(1) by (intro exI [of _ w1] exI [of _ out] exI [of _ w2] exI [of _ rout]) simp
qed

lemma sample_id_trim [simp]: "TrimSpace (evFresh sample_env n) = evFresh sample_env n"
proof -
  have "dropWhile is_space (rev (evFresh sample_env n)) = rev (evFresh sample_env n)"
  proof (rule dropWhile_id)
    have "hd (rev (evFresh sample_env n)) = last (evFresh sample_env n)" by (simp add: hd_rev sample_env_def)
    also have "\<dots> \<in> {CHR ''u'', CHR ''x''}" by (cases n) (simp_all add: sample_env_def del: replicate_Suc)
    finally show "rev (evFresh sample_env n) = [] \<or> \<not> is_space (hd (rev (evFresh sample_env n)))"
      by (auto simp: is_space_def)
  qed
  moreover have "dropWhile is_space (evFresh sample_env n) = evFresh sample_env n"
    by (simp add: sample_env_def is_space_def)
  ultimately show ?thesis by (simp add: TrimSpace_def)
qed

lemma sample_report_valid:
  "validateDecisionReportInput (sample_report_for pid) = Inr None"
  "FormatDigest (tiArtifactDigest (sample_report_for pid)) = Inr (''sha256:'' @ replicate 64 CHR ''0'')"
  "(sample_report_for pid)\<lparr>tiPrescriptionID := pid'\<rparr> = sample_report_for pid'"
  "TrimSpace (tiSessionID (sample_report_for pid)) = []"
proof -
  have "normal_digest (''sha256:'' @ replicate 64 CHR ''0'')"
    using sample_digests(2) by (simp add: digests_ok_def sample_env_def)
  from normal_digest_fixed [OF this]
  show "FormatDigest (tiArtifactDigest (sample_report_for pid)) = Inr (''sha256:'' @ replicate 64 CHR ''0'')"
    by (simp add: sample_report_for_def)
qed (simp_all add: validateDecisionReportInput_def sample_report_for_def Verdict_Valid_def verdict_defs
    VerdictFromExitCode_def TrimSpace_def)

theorem prescribe_then_report_witness:
  "\<exists>w1 out w2 rout ses. Prescribe sample_env sample_service sample_prescribe (fresh_world ()) = (w1, Inr out) \<and>
     Report sample_env sample_service (sample_report_for (poPrescriptionID out)) w1 = (w2, Inr rout) \<and>
     toSessionID rout = poSessionID out \<and>
     EvidenceToSignalEntries (wlog w2) = Inr ses \<and> DetectProtocolViolationEvents ses DefaultTTL 0 = []"
proof -
  have "TrimSpace (acID (tiActor (sample_report_for []))) = TrimSpace (acID (piActor sample_prescribe))"
    by (simp add: sample_report_for_def sample_prescribe_def)
  then show ?thesis
    using prescribe_then_report [of sample_env "fresh_world ()" sample_prescribe sample_service sample_service
        "sample_report_for []" None "''sha256:'' @ replicate 64 CHR ''0''" DefaultTTL 0]
    by (simp add: sample_report_valid) blast
qed

text \<open>
  The verdict rules in one formula: a report is valid exactly when it declines, without an exit code,
  with a trigger and a reason that are not blank and a reason of at most 512 bytes, which are then
  trimmed; or when its verdict is the one that its exit code means, and it has no decision context.
\<close>

theorem validate_decision_iff:
  "validateDecisionReportInput input = Inr dc \<longleftrightarrow>
    (\<exists>d. tiVerdict input = VerdictDeclined \<and> tiExitCode input = None \<and> tiDecisionContext input = Some d \<and>
       TrimSpace (dcTrigger d) \<noteq> [] \<and> TrimSpace (dcReason d) \<noteq> [] \<and> length (TrimSpace (dcReason d)) \<le> 512 \<and>
       dc = Some \<lparr>dcTrigger = TrimSpace (dcTrigger d), dcReason = TrimSpace (dcReason d)\<rparr>) \<or>
    (\<exists>code. tiExitCode input = Some code \<and> tiVerdict input = VerdictFromExitCode code \<and>
       tiDecisionContext input = None \<and> dc = None)"
proof (cases "tiVerdict input = VerdictDeclined")
  case True
  have "Verdict_Valid VerdictDeclined" by (simp add: Verdict_Valid_def verdict_defs)
  with True VerdictFromExitCode_not_declined show ?thesis
    by (auto simp: validateDecisionReportInput_def Let_def split: option.splits if_splits)
      (metis VerdictFromExitCode_not_declined)+
next
  case False
  then show ?thesis
    by (auto simp: validateDecisionReportInput_def Let_def split: option.splits if_splits)
      (metis VerdictFromExitCode_valid)+
qed

text \<open>
  C39. An advisory entry breaks the chain when the head cannot be read: if the store is locked by another
  process just when a report of an unknown prescription reads the head, the error is dropped, the
  signal is built on an empty previous hash and appended, and from then on
  \<open>ValidateChainAtPath\<close> rejects the store, though no operation reported a problem with it.
\<close>

theorem advisory_head_breaks_chain:
  fixes s :: "'r Service"
  assumes "good env w" "last_hash [] (wlog w) \<noteq> []" "length (wlog w) + 1 < max_segments"
    and "svEvidencePath s \<noteq> []" "svSigner s \<noteq> None"
    and "TrimSpace (tiPrescriptionID input) = pid" "pid \<noteq> []" "pid \<notin> EntryID ` set (wlog w)"
    and "validateDecisionReportInput input = Inr dc" "TrimSpace (tiSessionID input) \<noteq> []"
    and "\<And>n. evFresh env n \<noteq> []" "\<And>j. evDigest env j \<noteq> None" "\<And>e. evLineSize env e \<le> MaxScanTokenSize"
    and "\<And>n. evFaults env n = no_faults" "\<And>n. evLock env n = (if n = Suc (wStep w) then Busy else Acquired)"
  shows "\<exists>w' e. Report env s input w = (w', Inl PrescriptionNotFound) \<and> wlog w' = wlog w @ [e] \<and>
    ValidateChainAtPath (evDigest env) Acquired (wStore w') = (wStore w', Inl (ChainInvalid
      (ChainValidationError (length (wlog w)) (EntryID e) (PreviousMismatch [] (last_hash [] (wlog w))))))"
proof -
  let ?n = "wStep w" and ?sess = "TrimSpace (tiSessionID input)" and ?oid = "TrimSpace (tiOperationID input)"
  have wf: "store_wf (wStore w)" "cache_ok (wCache w) (wlog w)" and ok: "chain_ok (evDigest env) [] (wlog w)"
    using assms(1) by (simp_all add: good_def)
  obtain cache r where r: "FindEntryByID Acquired pid (wCache w) (wStore w) = (cache, Inr r)" "cache_ok cache (wlog w)"
    "r = find (\<lambda>e. EntryID e = pid) (wlog w) \<or> (\<exists>e. r = Some e \<and> e \<in> set (wlog w) \<and> EntryID e = pid)"
    using FindEntryByID_cases [OF wf, of pid] by blast
  have "r = None" using r(3) assms(8) by (metis (mono_tags, lifting) find_in image_eqI option.exhaust)
  with r(1) have find: "store_Find env pid w = (w\<lparr>wCache := cache, wStep := Suc ?n\<rparr>, Inr (Inr None))"
    using assms(15) by (simp add: store_Find_def)
  let ?sig = "signal_json \<lparr>spSignalName = ''protocol_violation'', spSubSignal = ''unprescribed_action'', spEntryRefs = [pid],
             spDetails = ''report references unknown prescription '' @ pid\<rparr>"
  let ?p = "entry_params env s EntryTypeSignal ?sess ?oid (evFresh env (Suc (Suc ?n))) (normalizeActor (tiActor input)) ?sig []"
  let ?i = "Suc (Suc (Suc ?n))"
  have "FormatDigest [] = Inr []" by (simp add: FormatDigest_def)
  then have "BuildEntry (evDigest env) (evNow env ?i) (evFresh env ?i) ?p \<noteq> Inl x" for x
    using assms(5,12) by (intro BuildEntry_total) (simp_all add: entry_params_def EntryType_Valid_def entry_type_defs)
  then obtain e where e: "BuildEntry (evDigest env) (evNow env ?i) (evFresh env ?i) ?p = Inr e"
    by (cases "BuildEntry (evDigest env) (evNow env ?i) (evFresh env ?i) ?p") auto
  note fields = BuildEntry_Inr [OF e, unfolded entry_params_def, simplified]
  have "entry_fits (evLineSize env) e (wStore w)"
    using fields assms(3,10,11,13) by (simp add: entry_fits_def entry_accepted_def)
  then obtain cache' st where st: "AppendEntryAtPath Acquired no_faults (evNow env (Suc ?i)) (maxBytes env) (evLineSize env) e
      cache (wStore w) = (cache', st, Inr ())" "store_wf st" "store_log st = wlog w @ [e]"
    using AppendEntry_cache [OF wf(1) _ r(2)] unfolding maxBytes_def by blast
  let ?w' = "w\<lparr>wStore := st, wCache := cache', wStep := Suc (Suc ?i)\<rparr>"
  have "write_advisory env (stepW (evFresh env)) (\<lambda>t h. entry_params env s EntryTypeSignal ?sess ?oid t
      (normalizeActor (tiActor input)) ?sig h) (w\<lparr>wCache := cache, wStep := Suc ?n\<rparr>) = (?w', Inr ())"
    using assms(14,15) e st(1)
    by (simp add: write_advisory_def bindW_def store_LastHash_def LastHashAtPath_def withStoreLock_def stepW_def
        build_entry_def store_Append_def returnW_def)
  then have load: "loadReportPrescription env s input pid w = (?w', Inl PrescriptionNotFound)"
    using assms(4,10) find
    by (simp add: loadReportPrescription_def bindW_def returnW_def liftW_def writeUnknownPrescriptionSignal_def)
  have "Report env s input w = (?w', Inl PrescriptionNotFound)"
    using assms(5,6,7,9) load
    by (clarsimp simp add: Report_def requiredSigner_def Let_def bindW_def [of "liftW _"] liftW_def
        bindW_def [of "loadReportPrescription _ _ _ _"])
  moreover have "wlog w \<noteq> []" using assms(2) by auto
  then have "validateChainEntries (evDigest env) (wlog w @ [e]) =
      Some (ChainValidationError (length (wlog w)) (EntryID e) (PreviousMismatch [] (last_hash [] (wlog w))))"
    using ok fields(3) assms(2) by (simp add: validateChainEntries_def validate_loop_append)
  then have "ValidateChainAtPath (evDigest env) Acquired st = (st, Inl (ChainInvalid
      (ChainValidationError (length (wlog w)) (EntryID e) (PreviousMismatch [] (last_hash [] (wlog w))))))"
    using ValidateChain_log [OF readAll_wf [OF st(2)], of "evDigest env"] st(3) by simp
  ultimately show ?thesis using st(3) by (intro exI [of _ ?w'] exI [of _ e]) simp
qed

lemma sample_prescribed:
  obtains w out n where "Prescribe sample_env sample_service sample_prescribe (fresh_world ()) = (w, Inr out)"
    "good sample_env w" "wlog w = [poEntry out]" "EntryID (poEntry out) = evFresh sample_env n" "SessionID (poEntry out) \<noteq> []"
    "is_prescribe (poEntry out)"
proof -
  obtain w out where out: "Prescribe sample_env sample_service sample_prescribe (fresh_world ()) = (w, Inr out)"
    using Prescribe_succeeds [of sample_env "fresh_world ()" sample_service sample_prescribe] by auto
  then have "good sample_env w \<and> prescribed sample_prescribe (fresh_world ()) out w \<and> (\<exists>n. poPrescriptionID out = evFresh sample_env n)"
    by (intro Prescribe_run [of _ _ _ sample_service]) simp_all
  with out that show thesis by (auto simp: prescribed_def sample_prescribe_def)
qed

theorem advisory_head_breaks_chain_witness:
  "\<exists>env w w' err. Report env sample_service ((sample_report_for ''nobody'')\<lparr>tiSessionID := ''s1''\<rparr>) w =
       (w', Inl PrescriptionNotFound) \<and>
     ValidateChainAtPath (evDigest env) Acquired (wStore w) = (wStore w, Inr ()) \<and>
     ValidateChainAtPath (evDigest env) Acquired (wStore w') = (wStore w', Inl (ChainInvalid err))"
proof -
  obtain w out n where "Prescribe sample_env sample_service sample_prescribe (fresh_world ()) = (w, Inr out)"
    and w: "good sample_env w" "wlog w = [poEntry out]" "EntryID (poEntry out) = evFresh sample_env n"
    and "SessionID (poEntry out) \<noteq> []" "is_prescribe (poEntry out)"
    by (rule sample_prescribed)
  let ?env = "sample_env\<lparr>evLock := (\<lambda>n. if n = Suc (wStep w) then Busy else Acquired)\<rparr>"
    and ?in = "(sample_report_for ''nobody'')\<lparr>tiSessionID := ''s1''\<rparr>"
  have g: "good ?env w" using w(1) by (simp add: good_def)
  have h: "last_hash [] (wlog w) = ''sha256:x''"
    using w(1,2) by (simp add: good_def computeEntryHash_def sample_env_def)
  have "TrimSpace ''nobody'' = ''nobody''" "TrimSpace ''s1'' = ''s1''" by (simp_all add: TrimSpace_def is_space_def)
  moreover have "validateDecisionReportInput ?in = Inr None"
    by (simp add: validateDecisionReportInput_def sample_report_for_def Verdict_Valid_def verdict_defs VerdictFromExitCode_def)
  moreover have "EntryID (poEntry out) \<noteq> ''nobody''" by (simp add: w(3) sample_env_def)
  moreover have "wlog w \<noteq> []" "length (wlog w) + 1 < max_segments" by (simp_all add: w(2) max_segments_def)
  ultimately have "\<exists>w' e. Report ?env sample_service ?in w = (w', Inl PrescriptionNotFound) \<and> wlog w' = wlog w @ [e] \<and>
    ValidateChainAtPath (evDigest ?env) Acquired (wStore w') = (wStore w', Inl (ChainInvalid
      (ChainValidationError (length (wlog w)) (EntryID e) (PreviousMismatch [] (last_hash [] (wlog w))))))"
    by (intro advisory_head_breaks_chain [where pid = "''nobody''" and dc = None])
      (use g h in \<open>simp_all add: sample_env_def sample_report_for_def MaxScanTokenSize_def w(2)\<close>)
  moreover have "ValidateChainAtPath (evDigest ?env) Acquired (wStore w) = (wStore w, Inr ())"
    using g by (simp add: good_def ValidateChain_ok_iff)
  ultimately show ?thesis by blast
qed

text \<open>
  C40. A report may answer any entry: \<open>Report\<close> looks its prescription up by the id of an entry and never
  at the type, so a report that names a finding, a signal or another report is accepted and
  appended like any other; the protocol detector, which reads the same log, then calls it an
  action that was never prescribed.
\<close>

theorem report_on_any_entry:
  fixes s :: "'r Service"
  assumes "calm env" "good env w" "length (wlog w) + 1 < max_segments"
    and "svEvidencePath s \<noteq> []" "svSigner s \<noteq> None"
    and q: "q \<in> set (wlog w)" "EntryID q \<noteq> []" "SessionID q \<noteq> []"
      "\<forall>p\<in>set (wlog w). EntryID p = EntryID q \<longrightarrow> \<not> is_prescribe p \<and> SessionID p = SessionID q"
    and "TrimSpace (tiPrescriptionID tin) = EntryID q" "TrimSpace (tiSessionID tin) = []"
    and "validateDecisionReportInput tin = Inr dc" "FormatDigest (tiArtifactDigest tin) = Inr ad"
    and "\<And>n. evFresh env n \<noteq> []" "\<And>j. evDigest env j \<noteq> None"
  shows "\<exists>w' out ses. Report env s tin w = (w', Inr out) \<and> toPersisted out \<and>
    EvidenceToSignalEntries (wlog w') = Inr ses \<and>
    (\<exists>v\<in>set (DetectProtocolViolationEvents ses ttl now).
       seSubSignal v = ''unprescribed_action'' \<and> seEntryRef v = toReportID out)"
proof -
  have sess: "\<forall>p\<in>set (wlog w). EntryID p = EntryID q \<longrightarrow>
      SessionID p \<noteq> [] \<and> (TrimSpace (tiSessionID tin) = [] \<or> TrimSpace (tiSessionID tin) = SessionID p)"
    using q(3,4) assms(11) by simp
  obtain w' out p where r: "Report env s tin w = (w', Inr out)" "good env w'" "wlog w' = wlog w @ [toEntry out]"
      "EntryID p = EntryID q" "reported tin p out"
    using Report_run [OF assms(1-5) assms(10) q(2) assms(12,13) _ sess assms(14,15)] q(1) by blast
  have dec: "decodes e" if "e \<in> set (wlog w')" for e using r(2) that legal_decodes by (auto simp: good_def)
  obtain actions where b: "EvidenceToSignalEntries (wlog w') = Inr (List.map_filter (signal_entry actions) (wlog w'))"
    using Evidence_to_signal [of "wlog w'"] dec by blast
  let ?ses = "List.map_filter (signal_entry actions) (wlog w')"
  have rep: "is_report (toEntry out)" using r(5) by (simp add: reported_def)
  then obtain se where se: "signal_entry actions (toEntry out) = Some se"
    using signal_entry_Some [of "toEntry out" actions] dec r(3) by auto
  have in_ses: "se \<in> set ?ses" using se r(3) by (auto simp: map_filter_in)
  have f: "enIsReport se" "enPrescriptionID se = EntryID q" "enEventID se = toReportID out"
    using signal_entry_SomeD(1,7,9) [OF se] rep r(4,5) by (auto simp: reported_def)
  have "prescriptions_by_id ?ses (EntryID q) = None"
  proof (rule ccontr)
    assume "prescriptions_by_id ?ses (EntryID q) \<noteq> None"
    then obtain x where "x \<in> set ?ses" "enIsPrescription x" "enEventID x = EntryID q"
      using prescriptions_by_id_SomeD by blast
    then obtain e where "e \<in> set (wlog w')" "is_prescribe e" "EntryID e = EntryID q"
      using signal_entry_SomeD(1,6) by (fastforce simp: map_filter_in)
    with q(4) r(3) rep types_differ show False by auto
  qed
  then have "violation ''unprescribed_action'' se (UnknownPrescription (enEventID se) (enPrescriptionID se))
      \<in> set (DetectProtocolViolationEvents ?ses ttl now)"
    using check_reports_unknown [OF in_ses f(1)] f(2) q(2) by (simp add: DetectProtocolViolationEvents_def)
  then have "\<exists>v\<in>set (DetectProtocolViolationEvents ?ses ttl now).
      seSubSignal v = ''unprescribed_action'' \<and> seEntryRef v = toReportID out"
    by (rule bexI [rotated]) (simp add: violation_def f)
  with b r(1,5) show ?thesis by (auto simp: reported_def)
qed

definition sample_finding :: EvidenceEntry where
  "sample_finding = (sample_entry ''f1'' [])\<lparr>Type := EntryTypeFinding, Hash := ''sha256:x''\<rparr>"

theorem report_on_any_entry_witness:
  "\<exists>w w' out ses. wlog w = [sample_finding] \<and>
     Report sample_env sample_service (sample_report_for ''f1'') w = (w', Inr out) \<and>
     EvidenceToSignalEntries (wlog w') = Inr ses \<and>
     seEntryRef ` set (DetectProtocolViolationEvents ses DefaultTTL 0) \<noteq> {}"
proof -
  have l: "links sample_env sample_finding (fresh_world ())"
    by (simp add: links_def computeEntryHash_def sample_env_def sample_finding_def wrote_def is_prescribe_def
        is_report_def entry_type_defs)
  have "SessionID sample_finding \<noteq> []" "TraceID sample_finding \<noteq> []" "length (wlog (fresh_world ())) + 1 < max_segments"
    by (simp_all add: sample_finding_def max_segments_def)
  note fits = this
  obtain w where "store_Append sample_env sample_finding (fresh_world ()) = (w, Inr (Inr ()))"
    and w: "good sample_env w" "wlog w = wlog (fresh_world ()) @ [sample_finding]"
    and "wStep w = Suc (wStep (fresh_world ()))" "wRetry w = wRetry (fresh_world ())"
    by (rule Append_calm [OF sample_calm fresh_good(1) fits(3,1,2) l])
  have "TrimSpace (tiPrescriptionID (sample_report_for ''f1'')) = ''f1''"
    by (simp add: sample_report_for_def TrimSpace_def is_space_def)
  then have "\<exists>w' out ses. Report sample_env sample_service (sample_report_for ''f1'') w = (w', Inr out) \<and> toPersisted out \<and>
      EvidenceToSignalEntries (wlog w') = Inr ses \<and>
      (\<exists>v\<in>set (DetectProtocolViolationEvents ses DefaultTTL 0).
         seSubSignal v = ''unprescribed_action'' \<and> seEntryRef v = toReportID out)"
    by (intro report_on_any_entry [where q = sample_finding, OF _ w(1)])
      (use w(2) sample_report_valid in \<open>simp_all add: max_segments_def sample_finding_def is_prescribe_def entry_type_defs\<close>)
  with w(2) show ?thesis by fastforce
qed

end
