(* ===== verification/Lock.thy ===== *)
theory Lock
  imports Store
begin







section \<open>The attempt at which the loop ends\<close>









section \<open>Properties\<close>




end
