(* ===== verification/Entry_Json.thy ===== *)
theory Entry_Json
  imports Entry "HOL-Library.Monad_Syntax" "HOL-Library.AList"
begin

text \<open>
  A line of a segment: an entry as \<open>encoding/json\<close> writes and reads it (the tags of
  \<open>EvidenceEntry\<close> in \<^verbatim>\<open>pkg/evidence/entry.go\<close>), and that reading a written entry gives it back.
  Values for one struct or one map field are merged, the later over the earlier.
\<close>

section \<open>Writing\<close>

definition entry_json :: "EvidenceEntry \<Rightarrow> json" where
  "entry_json e = JObj (
     [(''entry_id'', JStr (EntryID e)), (''previous_hash'', JStr (PreviousHash e)), (''hash'', JStr (Hash e)),
      (''signature'', JStr (Signature e)), (''type'', JStr (Type e))]
     @ omit_str ''tenant_id'' (TenantID e)
     @ omit_str ''session_id'' (SessionID e)
     @ omit_str ''operation_id'' (OperationID e)
     @ omit_int ''attempt'' (Attempt e)
     @ [(''trace_id'', JStr (TraceID e))]
     @ omit_str ''span_id'' (SpanID e)
     @ omit_str ''parent_span_id'' (ParentSpanID e)
     @ [(''actor'', actor_json (EActor e)), (''timestamp'', JTime (Timestamp e))]
     @ omit_str ''intent_digest'' (IntentDigest e)
     @ omit_str ''artifact_digest'' (ArtifactDigest e)
     @ [(''payload'', Payload e)]
     @ omit_map ''scope_dimensions'' (ScopeDimensions e)
     @ [(''spec_version'', JStr (SpecVersion e)), (''canonical_version'', JStr (CanonVersion e)),
        (''adapter_version'', JStr (AdapterVersion e))]
     @ omit_str ''scoring_version'' (ScoringVersion e))"

section \<open>Reading\<close>

text \<open>A struct field: the fields of all its values, in order.\<close>

fun struct_fields :: "json list \<Rightarrow> fields option" where
  "struct_fields [] = Some []"
| "struct_fields (v # vs) = do { fs \<leftarrow> fields_of v; gs \<leftarrow> struct_fields vs; Some (fs @ gs) }"

definition decode_struct :: "(fields \<Rightarrow> 'a option) \<Rightarrow> string \<Rightarrow> fields \<Rightarrow> 'a option" where
  "decode_struct read name fs = do { gs \<leftarrow> struct_fields (values_for name fs); read gs }"

definition actor_of :: "fields \<Rightarrow> Actor option" where
  "actor_of fs = do {
     t \<leftarrow> decode_str ''type'' fs; i \<leftarrow> decode_str ''id'' fs; p \<leftarrow> decode_str ''provenance'' fs;
     n \<leftarrow> decode_str ''instance_id'' fs; v \<leftarrow> decode_str ''version'' fs; s \<leftarrow> decode_str ''skill_version'' fs;
     Some \<lparr>acType = t, acID = i, acProvenance = p, acInstanceID = n, acVersion = v, acSkillVersion = s\<rparr> }"

text \<open>A \<open>map[string]string\<close>: \<open>null\<close> clears it, an object adds its keys.\<close>

fun add_strings :: "fields \<Rightarrow> (string \<times> string) list \<Rightarrow> (string \<times> string) list option" where
  "add_strings [] m = Some m"
| "add_strings ((k, v) # fs) m =
     (case v of JNull \<Rightarrow> add_strings fs (AList.update k [] m)
      | JStr s \<Rightarrow> add_strings fs (AList.update k s m)
      | _ \<Rightarrow> None)"

fun merge_maps :: "json list \<Rightarrow> (string \<times> string) list \<Rightarrow> (string \<times> string) list option" where
  "merge_maps [] m = Some m"
| "merge_maps (JNull # vs) m = merge_maps vs []"
| "merge_maps (JObj fs # vs) m = do { m' \<leftarrow> add_strings fs m; merge_maps vs m' }"
| "merge_maps (_ # vs) m = None"

fun time_of :: "json \<Rightarrow> time option" where
  "time_of (JTime t) = Some t"
| "time_of _ = None"

text \<open>The zero time is the first instant of year 1.\<close>

definition zero_time :: time where
  "zero_time = - 62135596800 * 1000000000"

definition unmarshal_entry :: "json \<Rightarrow> EvidenceEntry option" where
  "unmarshal_entry j = do {
     fs \<leftarrow> fields_of j;
     eid \<leftarrow> decode_str ''entry_id'' fs; prev \<leftarrow> decode_str ''previous_hash'' fs;
     h \<leftarrow> decode_str ''hash'' fs; sig \<leftarrow> decode_str ''signature'' fs; t \<leftarrow> decode_str ''type'' fs;
     tenant \<leftarrow> decode_str ''tenant_id'' fs; session \<leftarrow> decode_str ''session_id'' fs;
     oper \<leftarrow> decode_str ''operation_id'' fs; att \<leftarrow> decode_int ''attempt'' fs;
     trace \<leftarrow> decode_str ''trace_id'' fs; span \<leftarrow> decode_str ''span_id'' fs;
     parent \<leftarrow> decode_str ''parent_span_id'' fs; actor \<leftarrow> decode_struct actor_of ''actor'' fs;
     ts \<leftarrow> decode_scalar time_of zero_time (values_for ''timestamp'' fs);
     intent \<leftarrow> decode_str ''intent_digest'' fs; artifact \<leftarrow> decode_str ''artifact_digest'' fs;
     dims \<leftarrow> merge_maps (values_for ''scope_dimensions'' fs) [];
     spec \<leftarrow> decode_str ''spec_version'' fs; cv \<leftarrow> decode_str ''canonical_version'' fs;
     av \<leftarrow> decode_str ''adapter_version'' fs; sv \<leftarrow> decode_str ''scoring_version'' fs;
     Some \<lparr>EntryID = eid, PreviousHash = prev, Hash = h, Signature = sig, Type = t, TenantID = tenant,
       SessionID = session, OperationID = oper, Attempt = att, TraceID = trace, SpanID = span,
       ParentSpanID = parent, EActor = actor, Timestamp = ts, IntentDigest = intent, ArtifactDigest = artifact,
       Payload = (case decode_raw ''payload'' fs of None \<Rightarrow> JNull | Some p \<Rightarrow> p), ScopeDimensions = dims,
       SpecVersion = spec, CanonVersion = cv, AdapterVersion = av, ScoringVersion = sv\<rparr> }"

section \<open>Round trip\<close>

lemma entry_names [json_simps]:
  "lower_name ''entry_id''" "lower_name ''previous_hash''" "lower_name ''hash''" "lower_name ''signature''"
  "lower_name ''tenant_id''" "lower_name ''session_id''" "lower_name ''operation_id''" "lower_name ''attempt''"
  "lower_name ''trace_id''" "lower_name ''span_id''" "lower_name ''parent_span_id''" "lower_name ''actor''"
  "lower_name ''timestamp''" "lower_name ''intent_digest''" "lower_name ''artifact_digest''" "lower_name ''payload''"
  "lower_name ''scope_dimensions''" "lower_name ''spec_version''" "lower_name ''canonical_version''"
  "lower_name ''adapter_version''" "lower_name ''scoring_version''" "lower_name ''provenance''"
  "lower_name ''instance_id''" "lower_name ''version''" "lower_name ''skill_version''"
  by code_simp+

lemma values_for_omit_int [json_simps]:
  "values_for n (omit_int k i) = (if EqualFold k n \<and> i \<noteq> 0 then [JNum i] else [])"
  by (simp add: omit_defs json_simps)

lemma values_for_omit_map [json_simps]:
  "values_for n (omit_map k m) = (if EqualFold k n \<and> m \<noteq> []
    then [JObj (map (\<lambda>(a, b). (a, JStr b)) (sort_key fst m))] else [])"
  by (simp add: omit_defs json_simps)

lemma decode_scalar_omit_int [json_simps]:
  "decode_scalar int_of_json 0 (if i \<noteq> 0 then [JNum i] else []) = Some i"
  by (simp add: json_simps)

lemma decode_scalar_time [json_simps]: "decode_scalar time_of d [JTime t] = Some t"
  by (simp add: decode_scalar_def non_null_def)

lemma update_new_key: "k \<notin> fst ` set m \<Longrightarrow> AList.update k v m = m @ [(k, v)]"
  by (induction m) auto

lemma add_strings_written:
  "distinct (map fst (m @ xs)) \<Longrightarrow> add_strings (map (\<lambda>(a, b). (a, JStr b)) xs) m = Some (m @ xs)"
proof (induction xs arbitrary: m)
  case (Cons x xs)
  obtain k v where x: "x = (k, v)" by (cases x)
  then have "AList.update k v m = m @ [(k, v)]" using Cons.prems by (intro update_new_key) auto
  then show ?case using Cons.IH [of "m @ [(k, v)]"] Cons.prems by (simp add: x)
qed simp

lemma actor_of_written: "struct_fields [actor_json a] = Some fs \<Longrightarrow> actor_of fs = Some a"
  by (auto simp: actor_of_def actor_json_def decode_str_def json_simps)

definition wire_entry :: "EvidenceEntry \<Rightarrow> EvidenceEntry" where
  "wire_entry e = e\<lparr>ScopeDimensions := sort_key fst (ScopeDimensions e)\<rparr>"

lemma struct_fields_actor: "\<exists>fs. struct_fields [actor_json a] = Some fs"
  by (simp add: actor_json_def)

lemma unmarshal_entry_json:
  assumes "distinct (map fst (ScopeDimensions e))"
  shows "unmarshal_entry (entry_json e) = Some (wire_entry e)"
proof -
  obtain fs where fs: "entry_json e = JObj fs" by (simp add: entry_json_def)
  note fs_def = fs [unfolded entry_json_def, simplified, symmetric]
  have s: "decode_str ''entry_id'' fs = Some (EntryID e)" "decode_str ''previous_hash'' fs = Some (PreviousHash e)"
    "decode_str ''hash'' fs = Some (Hash e)" "decode_str ''signature'' fs = Some (Signature e)"
    "decode_str ''type'' fs = Some (Type e)" "decode_str ''tenant_id'' fs = Some (TenantID e)"
    "decode_str ''session_id'' fs = Some (SessionID e)" "decode_str ''operation_id'' fs = Some (OperationID e)"
    "decode_str ''trace_id'' fs = Some (TraceID e)" "decode_str ''span_id'' fs = Some (SpanID e)"
    "decode_str ''parent_span_id'' fs = Some (ParentSpanID e)" "decode_str ''intent_digest'' fs = Some (IntentDigest e)"
    by (simp_all add: fs_def decode_str_def json_simps)
  have s': "decode_str ''artifact_digest'' fs = Some (ArtifactDigest e)"
    "decode_str ''spec_version'' fs = Some (SpecVersion e)" "decode_str ''canonical_version'' fs = Some (CanonVersion e)"
    "decode_str ''adapter_version'' fs = Some (AdapterVersion e)" "decode_str ''scoring_version'' fs = Some (ScoringVersion e)"
    "decode_int ''attempt'' fs = Some (Attempt e)" "decode_raw ''payload'' fs = Some (Payload e)"
    "decode_scalar time_of zero_time (values_for ''timestamp'' fs) = Some (Timestamp e)"
    by (simp_all add: fs_def decode_str_def decode_int_def decode_raw_def json_simps)
  have "values_for ''actor'' fs = [actor_json (EActor e)]" by (simp add: fs_def json_simps)
  then have a: "decode_struct actor_of ''actor'' fs = Some (EActor e)"
    using struct_fields_actor [of "EActor e"] actor_of_written by (auto simp: decode_struct_def)
  have "distinct (map fst (sort_key fst (ScopeDimensions e)))"
    using assms by (metis mset_eq_imp_distinct_iff mset_map mset_sort)
  then have d: "merge_maps (values_for ''scope_dimensions'' fs) [] = Some (sort_key fst (ScopeDimensions e))"
    using add_strings_written [of "[]" "sort_key fst (ScopeDimensions e)"]
    by (simp add: fs_def json_simps)
  show ?thesis
    unfolding unmarshal_entry_def fs by (simp add: s s' a d wire_entry_def)
qed

lemma sort_key_twice: "sort_key f (sort_key f xs) = sort_key f xs"
  by (rule sort_key_id_if_sorted) simp

lemma wire_entry_hash: "computeEntryHash digest (wire_entry e) = computeEntryHash digest e"
  "hashableEntry (wire_entry e) = hashableEntry e" "Hash (wire_entry e) = Hash e" "Signature (wire_entry e) = Signature e"
proof -
  show "hashableEntry (wire_entry e) = hashableEntry e"
  proof (cases "ScopeDimensions e = []")
    case False
    then have "sort_key fst (ScopeDimensions e) \<noteq> []" by (metis length_0_conv length_sort)
    with False show ?thesis by (simp add: hashableEntry_def wire_entry_def omit_map_def sort_key_twice)
  qed (simp add: hashableEntry_def wire_entry_def omit_map_def)
  then show "computeEntryHash digest (wire_entry e) = computeEntryHash digest e" by (simp add: computeEntryHash_def)
qed (simp_all add: wire_entry_def)

text \<open>
  C17. A stored entry survives its line: for every entry whose scope dimensions are a map, reading the
  written line succeeds and gives the same entry, with the dimensions in the order of their keys,
  and its hash and signature still fit what was read.
\<close>

theorem entry_roundtrip:
  assumes "distinct (map fst (ScopeDimensions e))"
  shows "\<exists>e'. unmarshal_entry (entry_json e) = Some e' \<and>
    e' = e\<lparr>ScopeDimensions := sort_key fst (ScopeDimensions e)\<rparr> \<and>
    computeEntryHash digest e' = computeEntryHash digest e \<and> Hash e' = Hash e \<and> Signature e' = Signature e"
  using unmarshal_entry_json [OF assms] wire_entry_hash [where e = e] wire_entry_def [of e] by auto

definition sample_wire_entry :: EvidenceEntry where
  "sample_wire_entry = \<lparr>EntryID = ''e1'', PreviousHash = [], Hash = ''h'', Signature = ''s'', Type = EntryTypeReceipt,
     TenantID = [], SessionID = ''s1'', OperationID = [], Attempt = 2, TraceID = ''t'', SpanID = [], ParentSpanID = [],
     EActor = \<lparr>acType = ''agent'', acID = ''a'', acProvenance = ''mcp'', acInstanceID = [], acVersion = [], acSkillVersion = []\<rparr>,
     Timestamp = 5, IntentDigest = [], ArtifactDigest = [], Payload = JObj [], ScopeDimensions = [(''ns'', ''prod''), (''cluster'', ''c'')],
     SpecVersion = ''v1.1.0'', CanonVersion = [], AdapterVersion = [], ScoringVersion = []\<rparr>"

theorem entry_roundtrip_witness:
  "map_option ScopeDimensions (unmarshal_entry (entry_json sample_wire_entry)) = Some [(''cluster'', ''c''), (''ns'', ''prod'')]"
proof -
  have "distinct (map fst (ScopeDimensions sample_wire_entry))" by (simp add: sample_wire_entry_def)
  from entry_roundtrip [OF this, of "\<lambda>_. None"]
  have "map_option ScopeDimensions (unmarshal_entry (entry_json sample_wire_entry))
      = Some (sort_key fst (ScopeDimensions sample_wire_entry))" by auto
  also have "sort_key fst (ScopeDimensions sample_wire_entry) = [(''cluster'', ''c''), (''ns'', ''prod'')]"
    unfolding sample_wire_entry_def EvidenceEntry.select_convs by code_simp
  finally show ?thesis .
qed

end
