(* ===== verification/Analytics.thy ===== *)
theory Analytics
  imports Bridge Signals Score Segments
begin

text \<open>
  The analytics engine (\<^verbatim>\<open>internal/analytics\<close>, \<^verbatim>\<open>internal/score/profile.go\<close>): which entries a filter keeps,
  the scorecard and the explanation computed from them, and what the filters do to the protocol
  detector. The text of \<^verbatim>\<open>EVIDRA_SCORING_PROFILE\<close>, the reading of a profile file with its decoding, the
  clock and the orders that the runtime leaves open are arguments.
\<close>

section \<open>The scoring profile\<close>

definition Weight :: "Profile \<Rightarrow> string \<Rightarrow> rat" where
  "Weight profile name = (case map_of (weight_entries profile) name of None \<Rightarrow> 0 | Some w \<Rightarrow> w)"

definition cloneProfile :: "Profile \<Rightarrow> Profile" where
  "cloneProfile profile = profile\<lparr>prWeights := Some (weight_entries profile)\<rparr>"

datatype ProfileLoadError = ReadProfile string | ParseProfile string | InvalidProfile ProfileError

text \<open>What reading and unmarshalling a file gives; \<open>ord\<close> is the order in which the weights are summed.\<close>

record ProfileEnv =
  peVariable :: string
  peRead :: "string \<Rightarrow> string option"
  peUnmarshal :: "string \<Rightarrow> Profile option"
  peOrd :: "string list \<Rightarrow> string list"

definition parseProfile :: "ProfileEnv \<Rightarrow> string \<Rightarrow> ProfileLoadError + Profile" where
  "parseProfile pe data =
     (case peUnmarshal pe data of
        None \<Rightarrow> Inl (ParseProfile data)
      | Some profile \<Rightarrow>
          (case validateProfile (peOrd pe) profile of
             Some e \<Rightarrow> Inl (InvalidProfile e)
           | None \<Rightarrow> Inr (cloneProfile profile)))"

definition loadProfileFromPath :: "ProfileEnv \<Rightarrow> string \<Rightarrow> ProfileLoadError + Profile" where
  "loadProfileFromPath pe path =
     (case peRead pe path of None \<Rightarrow> Inl (ReadProfile path) | Some data \<Rightarrow> parseProfile pe data)"

definition ResolveProfile :: "ProfileEnv \<Rightarrow> string \<Rightarrow> ProfileLoadError + Profile" where
  "ResolveProfile pe overridePath =
     (let path = (if overridePath = [] then TrimSpace (peVariable pe) else overridePath) in
      if path = [] then Inr (cloneProfile default_profile) else loadProfileFromPath pe path)"

section \<open>Filters\<close>

record Filters =
  fiPeriod :: string
  fiActor :: string
  fiTool :: string
  fiScope :: string
  fiSessionID :: string
  fiMinOperations :: int

definition Hour :: duration where "Hour = 60 * Minute"
definition Day :: duration where "Day = 24 * Hour"

text \<open>\<open>fmt.Sscanf(s, "%d", &val)\<close> from 0: blanks, a sign and the digits that follow; the rest is not read,
  and without a digit, or with a number that is no \<open>int64\<close>, the value stays 0.\<close>

definition Sscanf_d :: "string \<Rightarrow> int" where
  "Sscanf_d s =
     (let t = dropWhile (\<lambda>c. is_space c \<and> c \<noteq> CHR 0x0A) s;
          signed = (t \<noteq> [] \<and> hd t \<in> {CHR ''+'', CHR ''-''});
          ds = takeWhile is_digit (if signed then tl t else t);
          v = (if signed \<and> hd t = CHR ''-'' then - int (digits_val ds) else int (digits_val ds))
      in if ds = [] \<or> v < - (2 ^ 63) \<or> 2 ^ 63 \<le> v then 0 else v)"

text \<open>No cutoff (the zero time) is \<^term>\<open>None\<close>. \<open>AddDate\<close> on UTC steps over days of 24 hours.\<close>

definition parsePeriodCutoff :: "time \<Rightarrow> string \<Rightarrow> time option" where
  "parsePeriodCutoff now period =
     (if length period < 2 then None
      else (let unit = last period; val = Sscanf_d (butlast period) in
        if val \<le> 0 then None
        else if unit = CHR ''d'' then Some (now - val * Day)
        else if unit = CHR ''h'' then Some (now + wrap64 (- val * Hour))
        else None))"

definition kept_entry :: "time option \<Rightarrow> string \<Rightarrow> string \<Rightarrow> EvidenceEntry \<Rightarrow> bool" where
  "kept_entry cutoff actor sessionID e \<longleftrightarrow>
     \<not> (actor \<noteq> [] \<and> acID (EActor e) \<noteq> actor) \<and>
     \<not> (case cutoff of None \<Rightarrow> False | Some t \<Rightarrow> Timestamp e < t) \<and>
     \<not> (sessionID \<noteq> [] \<and> SessionID e \<noteq> sessionID)"

definition filterEntries :: "time \<Rightarrow> EvidenceEntry list \<Rightarrow> string \<Rightarrow> string \<Rightarrow> string \<Rightarrow> EvidenceEntry list" where
  "filterEntries now entries actor period sessionID =
     (let cutoff = parsePeriodCutoff now period in filter (kept_entry cutoff actor sessionID) entries)"

definition filterSignalEntriesByToolAndScope :: "SEntry list \<Rightarrow> string \<Rightarrow> string \<Rightarrow> SEntry list" where
  "filterSignalEntriesByToolAndScope entries tool scope =
     (if tool = [] \<and> scope = [] then entries
      else filter (\<lambda>e. \<not> (tool \<noteq> [] \<and> enTool e \<noteq> tool) \<and> \<not> (scope \<noteq> [] \<and> enScopeClass e \<noteq> scope)) entries)"

definition filteredSignalEntries :: "time \<Rightarrow> EvidenceEntry list \<Rightarrow> Filters \<Rightarrow> BridgeError + SEntry list" where
  "filteredSignalEntries now entries filters =
     bindE (EvidenceToSignalEntries (filterEntries now entries (fiActor filters) (fiPeriod filters) (fiSessionID filters)))
       (\<lambda>ses. Inr (filterSignalEntriesByToolAndScope ses (fiTool filters) (fiScope filters)))"

section \<open>The scorecard\<close>

definition countPrescriptions :: "SEntry list \<Rightarrow> nat" where
  "countPrescriptions entries = length (filter enIsPrescription entries)"

text \<open>A day is the number of days since 1970 in UTC, which its text \<open>2006-01-02\<close> determines.\<close>

definition countObservedDays :: "SEntry list \<Rightarrow> nat" where
  "countObservedDays entries = length (keys_of (map (\<lambda>e. enTimestamp e div Day) (filter enIsPrescription entries)))"

definition stablePublicSignalNames :: "string list" where
  "stablePublicSignalNames = [''protocol_violation'', ''artifact_drift'', ''retry_loop'', ''blast_radius'',
     ''new_scope'', ''repair_loop'', ''thrashing'', ''risk_escalation'']"

datatype ManifestError = ManifestNotJSON | SignalsEmpty | SignalNameEmpty | DuplicateSignal string

fun check_signals :: "string list \<Rightarrow> string list \<Rightarrow> ManifestError + string list" where
  "check_signals seen [] = Inr []"
| "check_signals seen (n # ns) =
     (if n = [] then Inl SignalNameEmpty
      else if n \<in> set seen then Inl (DuplicateSignal n)
      else bindE (check_signals (n # seen) ns) (\<lambda>rest. Inr (n # rest)))"

definition decodePublicSignalManifest :: "json option \<Rightarrow> ManifestError + string list" where
  "decodePublicSignalManifest data =
     (case (case data of None \<Rightarrow> None | Some j \<Rightarrow> fields_of j) of
        None \<Rightarrow> Inl ManifestNotJSON
      | Some fs \<Rightarrow>
          (case decode_list str_of [] ''signals'' fs of
             None \<Rightarrow> Inl ManifestNotJSON
           | Some signals \<Rightarrow> if signals = [] then Inl SignalsEmpty else check_signals [] signals))"

record ScorecardSignalRow =
  ssrSignal :: string
  ssrCount :: nat
  ssrRate :: rat
  ssrProfile :: string
  ssrWeight :: rat

record ScorecardOutput =
  soScorecard :: Scorecard
  soActorID :: string
  soSessionID :: string
  soPeriod :: string
  soDaysObserved :: nat
  soGeneratedAt :: time

record ScorecardView =
  svOutput :: ScorecardOutput
  svSignalRows :: "ScorecardSignalRow list"

definition signal_row :: "Scorecard \<Rightarrow> Profile \<Rightarrow> string \<Rightarrow> ScorecardSignalRow" where
  "signal_row sc profile name =
     (let c = (case scSignals sc name of None \<Rightarrow> 0 | Some n \<Rightarrow> n);
          rate = rate_of (scRates sc) name;
          level = (case scSignalProfiles sc name of None \<Rightarrow> [] | Some l \<Rightarrow> l)
      in \<lparr>ssrSignal = name, ssrCount = c,
          ssrRate = (if 0 < scTotalOperations sc \<and> rate = 0 \<and> 0 < c then signal_rate c (scTotalOperations sc) else rate),
          ssrProfile = (if level = [] then ''none'' else level), ssrWeight = Weight profile name\<rparr>)"

definition buildScorecardView ::
  "Scorecard \<Rightarrow> Profile \<Rightarrow> SEntry list \<Rightarrow> string \<Rightarrow> string \<Rightarrow> string \<Rightarrow> time \<Rightarrow> ScorecardView" where
  "buildScorecardView sc profile entries actorID sessionID period now =
     \<lparr>svOutput = \<lparr>soScorecard = sc, soActorID = actorID, soSessionID = sessionID, soPeriod = period,
        soDaysObserved = countObservedDays entries, soGeneratedAt = now\<rparr>,
      svSignalRows = map (signal_row sc profile) stablePublicSignalNames\<rparr>"

datatype AnalyticsError = ProfileFailed ProfileLoadError | BridgeFailed BridgeError

definition lift_error :: "('e \<Rightarrow> 'f) \<Rightarrow> 'e + 'a \<Rightarrow> 'f + 'a" where
  "lift_error f r = (case r of Inl e \<Rightarrow> Inl (f e) | Inr x \<Rightarrow> Inr x)"

text \<open>\<open>vis\<close> is the order in which the map of signals is summed; \<open>rt\<close> is the rest of the runtime.\<close>

definition ComputeScorecard ::
  "ProfileEnv \<Rightarrow> Runtime \<Rightarrow> (string list \<Rightarrow> string list) \<Rightarrow> time \<Rightarrow> EvidenceEntry list \<Rightarrow> Filters \<Rightarrow> AnalyticsError + ScorecardOutput" where
  "ComputeScorecard pe rt vis now entries filters =
     bindE (lift_error ProfileFailed (ResolveProfile pe [])) (\<lambda>profile.
     bindE (lift_error BridgeFailed (filteredSignalEntries now entries filters)) (\<lambda>ses.
       let totalOps = int (countPrescriptions ses);
           results = AllSignals rt ses DefaultTTL;
           sc = ComputeWithProfileAndMinOperations vis profile results totalOps 0 (fiMinOperations filters)
       in Inr (svOutput (buildScorecardView sc profile ses (fiActor filters) (fiSessionID filters) (fiPeriod filters) now))))"

record SignalDetail =
  sdgSignal :: string
  sdgCount :: nat
  sdgWeight :: rat
  sdgRate :: rat
  sdgEntryIDs :: "string list"
  sdgSubSignals :: "(string \<rightharpoonup> nat) option"

record ExplainOutput =
  exScore :: rat
  exBand :: string
  exTotalOps :: nat
  exScoringProfileID :: string
  exSignals :: "SignalDetail list"
  exGeneratedAt :: time

text \<open>The counter \<open>subMap[ev.SubSignal]++\<close>.\<close>

definition sub_signals :: "SignalEvent list \<Rightarrow> string \<rightharpoonup> nat" where
  "sub_signals evs = fold (\<lambda>ev m. m(seSubSignal ev \<mapsto> Suc (case m (seSubSignal ev) of None \<Rightarrow> 0 | Some n \<Rightarrow> n))) evs Map.empty"

definition signal_detail :: "Profile \<Rightarrow> time \<Rightarrow> SEntry list \<Rightarrow> int \<Rightarrow> SignalResult \<Rightarrow> SignalDetail" where
  "signal_detail profile now ses totalOps result =
     \<lparr>sdgSignal = srName result, sdgCount = srCount result, sdgWeight = Weight profile (srName result),
      sdgRate = (if 0 < totalOps then signal_rate (srCount result) totalOps else 0), sdgEntryIDs = srEventIDs result,
      sdgSubSignals = (if srName result = ''protocol_violation''
        then Some (sub_signals (DetectProtocolViolationEvents ses DefaultTTL now)) else None)\<rparr>"

definition ComputeExplain ::
  "ProfileEnv \<Rightarrow> Runtime \<Rightarrow> (string list \<Rightarrow> string list) \<Rightarrow> time \<Rightarrow> EvidenceEntry list \<Rightarrow> Filters \<Rightarrow> AnalyticsError + ExplainOutput" where
  "ComputeExplain pe rt vis now entries filters =
     bindE (lift_error ProfileFailed (ResolveProfile pe [])) (\<lambda>profile.
     bindE (lift_error BridgeFailed (filteredSignalEntries now entries filters)) (\<lambda>ses.
       let totalOps = countPrescriptions ses;
           results = AllSignals rt ses DefaultTTL;
           sc = ComputeWithProfileAndMinOperations vis profile results (int totalOps) 0 (fiMinOperations filters)
       in Inr \<lparr>exScore = scScore sc, exBand = scBand sc, exTotalOps = totalOps, exScoringProfileID = scScoringProfileID sc,
            exSignals = map (signal_detail profile now ses (int totalOps)) results, exGeneratedAt = now\<rparr>))"

end
