(* ===== verification/Analytics_Props.thy ===== *)
theory Analytics_Props
  imports Analytics Lifecycle_Props Entry_Json
begin

text \<open>
  What the filters of the analytics engine do to the protocol detector: a filter by tool or scope hides
  every action without a prescription, a filter by period invents some.
\<close>

lemma filtered_bridge:
  assumes "filteredSignalEntries now es fs = Inr ses"
  obtains kept actions where
    "kept = filterEntries now es (fiActor fs) (fiPeriod fs) (fiSessionID fs)" "prescribed_actions kept = Inr actions"
    "EvidenceToSignalEntries kept = Inr (List.map_filter (signal_entry actions) kept)" "\<forall>e\<in>set kept. decodes e"
    "ses = filterSignalEntriesByToolAndScope (List.map_filter (signal_entry actions) kept) (fiTool fs) (fiScope fs)"
proof -
  let ?kept = "filterEntries now es (fiActor fs) (fiPeriod fs) (fiSessionID fs)"
  obtain all where all: "EvidenceToSignalEntries ?kept = Inr all"
    "ses = filterSignalEntriesByToolAndScope all (fiTool fs) (fiScope fs)"
    using assms by (auto simp: filteredSignalEntries_def)
  have dec: "\<forall>e\<in>set ?kept. decodes e" by (rule Evidence_to_signal_Inr [OF all(1)])
  then obtain actions where "EvidenceToSignalEntries ?kept = Inr (List.map_filter (signal_entry actions) ?kept)"
    "prescribed_actions ?kept = Inr actions"
    using Evidence_to_signal [of ?kept] by metis
  with all dec that show thesis by simp
qed

lemma filtered_exists:
  assumes "EvidenceToSignalEntries es = Inr all"
  shows "\<exists>ses. filteredSignalEntries now es fs = Inr ses"
proof -
  let ?kept = "filterEntries now es (fiActor fs) (fiPeriod fs) (fiSessionID fs)"
  have "\<forall>e\<in>set ?kept. decodes e" using Evidence_to_signal_Inr [OF assms] by (auto simp: filterEntries_def Let_def)
  then obtain actions where "EvidenceToSignalEntries ?kept = Inr (List.map_filter (signal_entry actions) ?kept)"
    using Evidence_to_signal [of ?kept] by metis
  then show ?thesis by (simp add: filteredSignalEntries_def)
qed

lemma with_action_class: "enTool (with_action (Some a) se) = caTool a" "enScopeClass (with_action (Some a) se) = caScopeClass a"
  by (simp_all add: with_action_def)

text \<open>The action that a report carries is that of a prescription in the log, which carries it too.\<close>

lemma report_action:
  assumes "prescribed_actions es = Inr actions" "\<forall>e\<in>set es. decodes e" "r \<in> set es" "signal_entry actions r = Some sr"
    and "enIsReport sr" "enTool sr \<noteq> [] \<or> enScopeClass sr \<noteq> []"
  shows "\<exists>p\<in>set es. \<exists>sp. signal_entry actions p = Some sp \<and> enIsPrescription sp \<and> enEventID sp = enPrescriptionID sr \<and>
    enTool sp = enTool sr \<and> enScopeClass sp = enScopeClass sr"
proof -
  have "is_report r" "\<not> is_prescribe r" using signal_entry_SomeD(7) [OF assms(4)] assms(5) types_differ by auto
  then obtain rep where rep: "unmarshal_report (Payload r) = Some rep"
    "sr = with_action (actions (rpPrescriptionID rep)) ((base_entry r)\<lparr>enIsReport := True,
       enPrescriptionID := rpPrescriptionID rep, enExitCode := rpExitCode rep\<rparr>)"
    using assms(4) by (auto simp: signal_entry_def bridge_entry_def split: option.splits)
  then obtain a where a: "actions (rpPrescriptionID rep) = Some a"
    using assms(6) by (cases "actions (rpPrescriptionID rep)") (auto simp: with_action_def base_entry_def)
  have "actions = collect (\<lambda>e. if is_prescribe e then map_option (\<lambda>a. (EntryID e, a)) (prescribed_action e) else None) Map.empty es"
    using assms(1) by (simp add: prescribed_actions_def split: option.splits)
  with a obtain p where p: "p \<in> set es" "is_prescribe p" "EntryID p = rpPrescriptionID rep" "prescribed_action p = Some a"
    by (auto dest!: collect_SomeD split: if_splits)
  obtain pp where pp: "unmarshal_prescription (Payload p) = Some pp" "extractCanonicalAction (ppCanonicalAction pp) = Some a"
    using p(4) by (auto simp: prescribed_action_def split: option.splits)
  let ?sp = "with_action (Some a) ((base_entry p)\<lparr>enIsPrescription := True, enRiskTags := NativeRiskTags pp\<rparr>)"
  have "signal_entry actions p = Some ?sp" using p(2) pp by (simp add: signal_entry_def bridge_entry_def)
  moreover have "enEventID ?sp = enPrescriptionID sr" "enTool ?sp = enTool sr" "enScopeClass ?sp = enScopeClass sr"
    using rep(2) a p(3) by (simp_all add: with_action_class base_entry_def)
  ultimately show ?thesis using p(1) by (intro bexI [of _ p] exI [of _ ?sp]) simp_all
qed

section \<open>Properties\<close>

text \<open>
  C18. A scorecard of one tool or one scope never shows an unprescribed action: a report gets its tool and
  scope from the prescription it names, so a report of an unknown prescription has neither and
  the filter drops it before the protocol detector looks. This holds for every log, whatever
  was reported without a prescription.
\<close>

theorem tool_filter_hides_unprescribed:
  assumes "filteredSignalEntries now es fs = Inr ses" "fiTool fs \<noteq> [] \<or> fiScope fs \<noteq> []"
  shows "\<forall>ev\<in>set (DetectProtocolViolationEvents ses ttl t). seSubSignal ev \<noteq> ''unprescribed_action''"
proof -
  obtain kept actions where k: "prescribed_actions kept = Inr actions" "\<forall>e\<in>set kept. decodes e"
    "ses = filterSignalEntriesByToolAndScope (List.map_filter (signal_entry actions) kept) (fiTool fs) (fiScope fs)"
    using filtered_bridge [OF assms(1)] by metis
  have ses: "se \<in> set ses \<longleftrightarrow> (\<exists>e\<in>set kept. signal_entry actions e = Some se) \<and>
      (fiTool fs = [] \<or> enTool se = fiTool fs) \<and> (fiScope fs = [] \<or> enScopeClass se = fiScope fs)" for se
    using assms(2) by (auto simp: k(3) filterSignalEntriesByToolAndScope_def map_filter_in)
  have "\<exists>p\<in>set ses. enIsPrescription p \<and> enEventID p = enPrescriptionID r" if rs: "r \<in> set ses" "enIsReport r" for r
  proof -
    have r: "fiTool fs = [] \<or> enTool r = fiTool fs" "fiScope fs = [] \<or> enScopeClass r = fiScope fs"
      using rs(1) by (simp_all add: ses)
    then have "enTool r \<noteq> [] \<or> enScopeClass r \<noteq> []" using assms(2) by auto
    moreover obtain e where "e \<in> set kept" "signal_entry actions e = Some r" using ses [THEN iffD1, OF rs(1)] by blast
    ultimately obtain p sp where p: "p \<in> set kept" "signal_entry actions p = Some sp" "enIsPrescription sp"
      "enEventID sp = enPrescriptionID r" "enTool sp = enTool r" "enScopeClass sp = enScopeClass r"
      using report_action [OF k(1,2) _ _ rs(2)] by blast
    have "sp \<in> set ses" unfolding ses using p(1,2) r p(5,6) by auto
    with p(3,4) show ?thesis by blast
  qed
  then show ?thesis using unprescribed_iff [of ses ttl t] by blast
qed

definition sample_filters :: Filters where
  "sample_filters = \<lparr>fiPeriod = [], fiActor = [], fiTool = [], fiScope = [], fiSessionID = [], fiMinOperations = 0\<rparr>"

definition sample_lone_report :: "string \<Rightarrow> time \<Rightarrow> EvidenceEntry" where
  "sample_lone_report pid t = sample_wire_entry\<lparr>EntryID := ''r1'', Type := EntryTypeReport, Timestamp := t,
     ArtifactDigest := ''d1'', Payload := report_json \<lparr>rpReportID = ''r1'', rpPrescriptionID = pid, rpExitCode = Some 0,
       rpVerdict = VerdictSuccess, rpDecisionContext = None, rpExternalRefs = [], rpFlavor = [], rpEvidence = None,
       rpSource = None\<rparr>\<rparr>"

lemma sample_session: "SessionID sample_wire_entry = ''s1''"
  unfolding sample_wire_entry_def EvidenceEntry.select_convs ..

lemma sample_lone_fields [simp]:
  "is_report (sample_lone_report pid t)" "\<not> is_prescribe (sample_lone_report pid t)"
  "EntryID (sample_lone_report pid t) = ''r1''" "Timestamp (sample_lone_report pid t) = t"
  "ArtifactDigest (sample_lone_report pid t) = ''d1''" "EActor (sample_lone_report pid t) = EActor sample_wire_entry"
  "SessionID (sample_lone_report pid t) = ''s1''" "decodes (sample_lone_report pid t)"
  "\<exists>rep. unmarshal_report (Payload (sample_lone_report pid t)) = Some rep \<and> rpPrescriptionID rep = pid \<and> rpExitCode rep = Some 0"
proof -
  have t: "Type (sample_lone_report pid t) = EntryTypeReport" by (simp add: sample_lone_report_def)
  then show ty: "is_report (sample_lone_report pid t)" "\<not> is_prescribe (sample_lone_report pid t)"
    by (simp_all add: is_report_def is_prescribe_def entry_type_defs)
  show p: "\<exists>rep. unmarshal_report (Payload (sample_lone_report pid t)) = Some rep \<and> rpPrescriptionID rep = pid \<and> rpExitCode rep = Some 0"
    by (simp add: sample_lone_report_def)
  show "decodes (sample_lone_report pid t)" using ty p by (auto simp: decodes_def)
qed (simp_all add: sample_lone_report_def sample_session)

theorem tool_filter_hides_unprescribed_witness:
  "\<exists>ses. filteredSignalEntries 0 [sample_lone_report ''nobody'' 5] (sample_filters\<lparr>fiTool := ''kubectl''\<rparr>) = Inr ses \<and>
     ''unprescribed_action'' \<notin> seSubSignal ` set (DetectProtocolViolationEvents ses DefaultTTL 10)"
proof -
  have "\<forall>e\<in>set [sample_lone_report ''nobody'' 5]. decodes e" by simp
  then obtain all where "EvidenceToSignalEntries [sample_lone_report ''nobody'' 5] = Inr all"
    using Evidence_to_signal [of "[sample_lone_report ''nobody'' 5]"] by metis
  from filtered_exists [OF this, of 0 "sample_filters\<lparr>fiTool := ''kubectl''\<rparr>"] obtain ses
    where ses: "filteredSignalEntries 0 [sample_lone_report ''nobody'' 5] (sample_filters\<lparr>fiTool := ''kubectl''\<rparr>) = Inr ses" by blast
  from tool_filter_hides_unprescribed [OF this, of DefaultTTL 10] show ?thesis
    using ses by (intro exI [of _ ses]) auto
qed

text \<open>
  C19. A scorecard of a period invents violations: in a history without any, a prescription made before the
  cutoff and reported after it loses its entry but not its report, and the report then counts
  as an unprescribed action.
\<close>

theorem period_filter_fabricates:
  assumes "EvidenceToSignalEntries es = Inr all" "DetectProtocolViolationEvents all ttl t = []"
    and "parsePeriodCutoff now (fiPeriod fs) = Some cutoff" "fiActor fs = []" "fiSessionID fs = []" "fiTool fs = []" "fiScope fs = []"
    and "r \<in> set es" "is_report r" "unmarshal_report (Payload r) = Some rep" "rpPrescriptionID rep \<noteq> []" "cutoff \<le> Timestamp r"
    and "\<And>p. p \<in> set es \<Longrightarrow> is_prescribe p \<Longrightarrow> EntryID p = rpPrescriptionID rep \<Longrightarrow> Timestamp p < cutoff"
  shows "\<exists>ses. filteredSignalEntries now es fs = Inr ses \<and>
    (\<exists>ev\<in>set (DetectProtocolViolationEvents ses ttl t). seSubSignal ev = ''unprescribed_action'')"
proof -
  obtain ses where ses: "filteredSignalEntries now es fs = Inr ses" using filtered_exists [OF assms(1)] by blast
  obtain kept actions where k: "kept = filterEntries now es (fiActor fs) (fiPeriod fs) (fiSessionID fs)"
    "\<forall>e\<in>set kept. decodes e" "ses = filterSignalEntriesByToolAndScope (List.map_filter (signal_entry actions) kept) (fiTool fs) (fiScope fs)"
    using filtered_bridge [OF ses] by metis
  have kept: "e \<in> set kept \<longleftrightarrow> e \<in> set es \<and> cutoff \<le> Timestamp e" for e
    using assms(3-5) by (auto simp: k(1) filterEntries_def kept_entry_def Let_def)
  have in_ses: "se \<in> set ses \<longleftrightarrow> (\<exists>e\<in>set kept. signal_entry actions e = Some se)" for se
    using assms(6,7) by (simp add: k(3) filterSignalEntriesByToolAndScope_def map_filter_in)
  have "r \<in> set kept" using assms(8,12) kept by blast
  then obtain sr where sr: "signal_entry actions r = Some sr" "sr \<in> set ses"
    using signal_entry_Some [of r actions] assms(9) k(2) in_ses by metis
  have rep: "enIsReport sr" "enPrescriptionID sr = rpPrescriptionID rep"
    using signal_entry_SomeD(7) [OF sr(1)] signal_entry_SomeD(9) [OF sr(1) assms(9)] assms(9,10) by auto
  have "enEventID p \<noteq> enPrescriptionID sr" if ps: "p \<in> set ses" "enIsPrescription p" for p
  proof -
    obtain e where e: "e \<in> set kept" "signal_entry actions e = Some p" using in_ses [THEN iffD1, OF ps(1)] by blast
    have "is_prescribe e" "enEventID p = EntryID e" using signal_entry_SomeD(1,6) [OF e(2)] ps(2) by simp_all
    then show ?thesis using assms(13) [of e] e(1) kept rep(2) by force
  qed
  then show ?thesis using unprescribed_iff [of ses ttl t] sr(2) rep assms(11) ses by metis
qed

definition sample_prescribe_entry :: "string \<Rightarrow> time \<Rightarrow> EvidenceEntry" where
  "sample_prescribe_entry pid t = sample_wire_entry\<lparr>EntryID := pid, Type := EntryTypePrescribe, Timestamp := t,
     Payload := prescription_json \<lparr>ppPrescriptionID = pid, ppCanonicalAction = Some (action_json sample_kube_action),
       ppRiskInputs = [], ppEffectiveRisk = ''low'', ppRiskLevel = [], ppRiskDetails = [], ppRiskTags = [], ppTTLMs = DefaultTTLMs,
       ppCanonSource = ''external'', ppFlavor = [], ppEvidence = None, ppSource = None\<rparr>\<rparr>"

lemma sample_prescribe_fields [simp]:
  "\<not> is_report (sample_prescribe_entry pid t)" "is_prescribe (sample_prescribe_entry pid t)"
  "EntryID (sample_prescribe_entry pid t) = pid" "Timestamp (sample_prescribe_entry pid t) = t"
  "EActor (sample_prescribe_entry pid t) = EActor sample_wire_entry"
  "SessionID (sample_prescribe_entry pid t) = ''s1''" "decodes (sample_prescribe_entry pid t)"
proof -
  have t: "Type (sample_prescribe_entry pid t) = EntryTypePrescribe" by (simp add: sample_prescribe_entry_def)
  then show ty: "is_prescribe (sample_prescribe_entry pid t)" "\<not> is_report (sample_prescribe_entry pid t)"
    by (simp_all add: is_report_def is_prescribe_def entry_type_defs)
  have "unmarshal_prescription (Payload (sample_prescribe_entry pid t)) \<noteq> None" by (simp add: sample_prescribe_entry_def)
  then show "decodes (sample_prescribe_entry pid t)" using ty by (simp add: decodes_def)
qed (simp_all add: sample_prescribe_entry_def sample_session)

theorem period_filter_fabricates_witness:
  "\<exists>ses. filteredSignalEntries (2 * Hour) [sample_prescribe_entry ''p'' 0, sample_lone_report ''p'' Hour]
       (sample_filters\<lparr>fiPeriod := ''1h''\<rparr>) = Inr ses \<and>
     ''unprescribed_action'' \<in> seSubSignal ` set (DetectProtocolViolationEvents ses DefaultTTL (2 * Hour))"
proof -
  let ?p = "sample_prescribe_entry ''p'' 0" and ?r = "sample_lone_report ''p'' Hour"
  have cut: "parsePeriodCutoff (2 * Hour) ''1h'' = Some Hour"
    by (simp add: parsePeriodCutoff_def Sscanf_d_def is_space_def is_digit_def digits_val_def Hour_def Minute_def)
  obtain all where all: "EvidenceToSignalEntries [?p, ?r] = Inr all" "DetectProtocolViolationEvents all DefaultTTL (2 * Hour) = []"
    using round_clean [of "[?p, ?r]" ?p "[]" ?r "''p''" "[]" "[]" undefined "''d1''" "Some 0" DefaultTTL "2 * Hour"]
    by auto
  obtain rep where rep: "unmarshal_report (Payload ?r) = Some rep" "rpPrescriptionID rep = ''p''"
    using sample_lone_fields(9) by blast
  have "Timestamp p < Hour" if "p \<in> set [?p, ?r]" "is_prescribe p" for p
    using that by (auto simp: Hour_def Minute_def)
  then show ?thesis
    using period_filter_fabricates [OF all, of "2 * Hour" "sample_filters\<lparr>fiPeriod := ''1h''\<rparr>" Hour ?r rep] rep cut
    by (simp add: sample_filters_def) (metis image_eqI)
qed

end
