(* ===== verification/Entry_Table.thy ===== *)
theory Entry_Table
  imports Entry_Json Analytics
begin

text \<open>
  The evidence tables of the server (\<^verbatim>\<open>internal/store/entries.go\<close>) and the analytics that replay them
  (\<^verbatim>\<open>internal/analyticsdb\<close>, \<^verbatim>\<open>internal/analyticsvc\<close>). Each method sends one SQL statement; its meaning on
  the rows, in the order of their insertion, is written out here, with the constraints of the
  migrations (primary keys). That a statement can fail is the argument of the callers.
  \<open>now\<close> is the time of the statement's transaction, which is when the transaction began.
\<close>

section \<open>Rows\<close>

record StoredEntry =
  rwID :: string
  rwTenantID :: string
  rwEntryType :: string
  rwSessionID :: string
  rwOperationID :: string
  rwPreviousHash :: string
  rwHash :: string
  rwSignature :: string
  rwIntentDigest :: string
  rwArtifactDigest :: string
  rwPayload :: json
  rwScopeDimensions :: json
  rwCreatedAt :: time

record WebhookEvent =
  wePayload :: json
  weEntryID :: "string option"
  weEffectiveRisk :: "string option"

record DB =
  dbEntries :: "StoredEntry list"
  dbEvents :: "string \<times> string \<times> string \<rightharpoonup> WebhookEvent"

datatype DBError = QueryFailed | ErrNotFound

type_synonym 'a sql = "DB \<Rightarrow> DB \<times> (DBError + 'a)"

section \<open>Statements\<close>

definition insert_row :: "StoredEntry \<Rightarrow> string sql" where
  "insert_row row db =
     (if rwID row \<in> rwID ` set (dbEntries db) then (db, Inl QueryFailed)
      else (db\<lparr>dbEntries := dbEntries db @ [row]\<rparr>, Inr (rwID row)))"

definition SaveEntry :: "string \<Rightarrow> string \<Rightarrow> StoredEntry \<Rightarrow> string sql" where
  "SaveEntry fresh tenantID entry =
     insert_row (entry\<lparr>rwID := (if rwID entry = [] then fresh else rwID entry), rwTenantID := tenantID\<rparr>)"

text \<open>\<open>SaveRaw\<close> ignores the error of \<open>Unmarshal\<close>: a field keeps its last string value, or stays empty.\<close>

definition envelope_field :: "string \<Rightarrow> json \<Rightarrow> string" where
  "envelope_field name raw =
     (case fields_of raw of None \<Rightarrow> []
      | Some fs \<Rightarrow> (case List.map_filter str_of (values_for name fs) of [] \<Rightarrow> [] | ss \<Rightarrow> last ss))"

definition raw_row :: "string \<Rightarrow> time \<Rightarrow> string \<Rightarrow> json \<Rightarrow> StoredEntry" where
  "raw_row fresh now tenantID raw =
     (let eid = envelope_field ''entry_id'' raw; typ = envelope_field ''type'' raw in
      \<lparr>rwID = (if eid = [] then fresh else eid), rwTenantID = tenantID,
       rwEntryType = (if typ = [] then ''raw'' else typ), rwSessionID = envelope_field ''session_id'' raw,
       rwOperationID = envelope_field ''operation_id'' raw, rwPreviousHash = envelope_field ''previous_hash'' raw,
       rwHash = envelope_field ''hash'' raw, rwSignature = envelope_field ''signature'' raw,
       rwIntentDigest = envelope_field ''intent_digest'' raw, rwArtifactDigest = envelope_field ''artifact_digest'' raw,
       rwPayload = raw, rwScopeDimensions = JObj [], rwCreatedAt = now\<rparr>)"

definition SaveRaw :: "string \<Rightarrow> time \<Rightarrow> string \<Rightarrow> json \<Rightarrow> string sql" where
  "SaveRaw fresh now tenantID raw = insert_row (raw_row fresh now tenantID raw)"

definition GetEntry :: "string \<Rightarrow> string \<Rightarrow> StoredEntry sql" where
  "GetEntry tenantID entryID db =
     (db, case find (\<lambda>r. rwID r = entryID \<and> rwTenantID r = tenantID) (dbEntries db) of
            None \<Rightarrow> Inl ErrNotFound | Some r \<Rightarrow> Inr r)"

text \<open>\<open>ORDER BY created_at DESC, id DESC LIMIT 1\<close>: the row that no other row follows.\<close>

definition row_after :: "StoredEntry \<Rightarrow> StoredEntry \<Rightarrow> bool" where
  "row_after a b \<longleftrightarrow> rwCreatedAt b < rwCreatedAt a \<or> rwCreatedAt b = rwCreatedAt a \<and> rwID b < rwID a"

definition newest_row :: "StoredEntry list \<Rightarrow> StoredEntry option" where
  "newest_row rows = fold (\<lambda>r best. case best of None \<Rightarrow> Some r | Some b \<Rightarrow> if row_after r b then Some r else best) rows None"

definition tenant_rows :: "string \<Rightarrow> DB \<Rightarrow> StoredEntry list" where
  "tenant_rows tenantID db = filter (\<lambda>r. rwTenantID r = tenantID) (dbEntries db)"

definition LastHash :: "string \<Rightarrow> string sql" where
  "LastHash tenantID db =
     (db, Inr (case newest_row (tenant_rows tenantID db) of None \<Rightarrow> [] | Some r \<Rightarrow> rwHash r))"

text \<open>An absent or blank payload (\<^term>\<open>None\<close>) is stored as an empty object.\<close>

definition normalizeWebhookPayload :: "json option \<Rightarrow> json" where
  "normalizeWebhookPayload payload = (case payload of None \<Rightarrow> JObj [] | Some j \<Rightarrow> j)"

definition ClaimWebhookEvent :: "string \<Rightarrow> string \<Rightarrow> string \<Rightarrow> json option \<Rightarrow> bool sql" where
  "ClaimWebhookEvent tenantID source key payload db =
     (case dbEvents db (tenantID, source, key) of
        Some _ \<Rightarrow> (db, Inr True)
      | None \<Rightarrow> (db\<lparr>dbEvents := (dbEvents db)((tenantID, source, key) \<mapsto>
            \<lparr>wePayload = normalizeWebhookPayload payload, weEntryID = None, weEffectiveRisk = None\<rparr>)\<rparr>, Inr False))"

definition ReleaseWebhookEvent :: "string \<Rightarrow> string \<Rightarrow> string \<Rightarrow> unit sql" where
  "ReleaseWebhookEvent tenantID source key db =
     (db\<lparr>dbEvents := (dbEvents db)((tenantID, source, key) := None)\<rparr>, Inr ())"

record WebhookEventResult =
  wrEntryID :: string
  wrEffectiveRisk :: string

definition coalesce :: "string option \<Rightarrow> string" where
  "coalesce x = (case x of None \<Rightarrow> [] | Some s \<Rightarrow> s)"

definition GetWebhookEventResult :: "string \<Rightarrow> string \<Rightarrow> string \<Rightarrow> WebhookEventResult sql" where
  "GetWebhookEventResult tenantID source key db =
     (db, case dbEvents db (tenantID, source, key) of None \<Rightarrow> Inl ErrNotFound
          | Some ev \<Rightarrow> Inr \<lparr>wrEntryID = coalesce (weEntryID ev), wrEffectiveRisk = coalesce (weEffectiveRisk ev)\<rparr>)"

definition FinalizeWebhookEvent :: "string \<Rightarrow> string \<Rightarrow> string \<Rightarrow> string \<Rightarrow> string \<Rightarrow> unit sql" where
  "FinalizeWebhookEvent tenantID source key entryID effectiveRisk db =
     (case dbEvents db (tenantID, source, key) of
        None \<Rightarrow> (db, Inl ErrNotFound)
      | Some ev \<Rightarrow> (db\<lparr>dbEvents := (dbEvents db)((tenantID, source, key) \<mapsto>
            ev\<lparr>weEntryID := Some entryID, weEffectiveRisk := Some effectiveRisk\<rparr>)\<rparr>, Inr ()))"

section \<open>Listing\<close>

record ListOptions =
  loLimit :: int
  loOffset :: int
  loEntryType :: string
  loPeriod :: string
  loSessionID :: string
  loActor :: string

definition withDefaults :: "ListOptions \<Rightarrow> ListOptions" where
  "withDefaults opts =
     (let o1 = (if loLimit opts \<le> 0 then opts\<lparr>loLimit := 100\<rparr> else opts)
      in if 1000 < loLimit o1 then o1\<lparr>loLimit := 1000\<rparr> else o1)"

text \<open>\<open>strconv.Atoi\<close>: a sign and digits only, within \<open>int64\<close>.\<close>

definition Atoi :: "string \<Rightarrow> int option" where
  "Atoi s =
     (let signed = (s \<noteq> [] \<and> hd s \<in> {CHR ''+'', CHR ''-''}); ds = (if signed then tl s else s);
          v = (if signed \<and> hd s = CHR ''-'' then - int (digits_val ds) else int (digits_val ds))
      in if ds = [] \<or> \<not> list_all is_digit ds \<or> v < - (2 ^ 63) \<or> 2 ^ 63 \<le> v then None else Some v)"

definition parsePeriod :: "string \<Rightarrow> duration" where
  "parsePeriod period =
     (let s = TrimSpace period in
      if s = [] then 30 * Day
      else if HasSuffix s ''d'' then
        (case Atoi (butlast s) of
           Some days \<Rightarrow> if 0 < days then wrap64 (days * Day) else 30 * Day
         | None \<Rightarrow> 30 * Day)
      else 30 * Day)"

text \<open>\<open>payload->'actor'->>'id'\<close> is an operator of the database, the argument \<open>actorID\<close>.\<close>

definition listed :: "(json \<Rightarrow> string option) \<Rightarrow> time \<Rightarrow> string \<Rightarrow> ListOptions \<Rightarrow> StoredEntry \<Rightarrow> bool" where
  "listed actorID now tenantID opts r \<longleftrightarrow> rwTenantID r = tenantID \<and>
     (loEntryType opts \<noteq> [] \<longrightarrow> rwEntryType r = loEntryType opts) \<and>
     (loSessionID opts \<noteq> [] \<longrightarrow> rwSessionID r = loSessionID opts) \<and>
     (loActor opts \<noteq> [] \<longrightarrow> actorID (rwPayload r) = Some (loActor opts)) \<and>
     (loPeriod opts \<noteq> [] \<longrightarrow> now + wrap64 (- parsePeriod (loPeriod opts)) \<le> rwCreatedAt r)"

text \<open>\<open>ORDER BY created_at DESC\<close> leaves the order of equal instants to the database (\<open>desc\<close>).\<close>

definition ListEntries :: "(json \<Rightarrow> string option) \<Rightarrow> (StoredEntry list \<Rightarrow> StoredEntry list) \<Rightarrow> time \<Rightarrow> string
    \<Rightarrow> ListOptions \<Rightarrow> DB \<Rightarrow> StoredEntry list \<times> int" where
  "ListEntries actorID desc now tenantID opts0 db =
     (let opts = withDefaults opts0; rows = filter (listed actorID now tenantID opts) (dbEntries db)
      in (take (nat (loLimit opts)) (drop (nat (loOffset opts)) (desc rows)), int (length rows)))"

section \<open>Replay\<close>

text \<open>
  \<open>collectReplayEntries\<close> (and its twin \<open>collectAnalyticsReplayEntries\<close>) pages through a list function until
  it has everything. The \<open>n\<close>-th call may find another table, so the function takes \<open>n\<close>. The loop has
  no bound of its own.
\<close>

type_synonym 'a lister = "nat \<Rightarrow> ListOptions \<Rightarrow> DBError + 'a list \<times> int"

partial_function (option) replay_loop :: "'a lister \<Rightarrow> nat \<Rightarrow> ListOptions \<Rightarrow> 'a list \<Rightarrow> (DBError + 'a list) option" where
  "replay_loop list n opts all =
     (case list n opts of
        Inl e \<Rightarrow> Some (Inl e)
      | Inr (page, rowCount) \<Rightarrow>
          if rowCount \<le> int (length (all @ page)) \<or> int (length page) < loLimit opts then Some (Inr (all @ page))
          else replay_loop list (Suc n) (opts\<lparr>loOffset := loOffset opts + int (length page)\<rparr>) (all @ page))"

definition collectReplayEntries :: "'a lister \<Rightarrow> ListOptions \<Rightarrow> int \<Rightarrow> (DBError + 'a list) option" where
  "collectReplayEntries list baseOpts pageSize =
     (let size = (if pageSize \<le> 0 then 1000 else pageSize)
      in replay_loop list 0 (baseOpts\<lparr>loLimit := size, loOffset := 0\<rparr>) [])"

text \<open>The stored payloads decoded and put in the order of time and id, which \<open>srt\<close> does.\<close>

definition time_id :: "EvidenceEntry \<Rightarrow> time \<times> string" where
  "time_id e = (Timestamp e, EntryID e)"

fun decode_rows :: "StoredEntry list \<Rightarrow> string + EvidenceEntry list" where
  "decode_rows [] = Inr []"
| "decode_rows (r # rs) =
     (case unmarshal_entry (rwPayload r) of
        None \<Rightarrow> Inl (rwID r)
      | Some e \<Rightarrow> bindE (decode_rows rs) (\<lambda>es. Inr (e # es)))"

definition EvidenceEntriesFromStoredRows ::
  "(EvidenceEntry list \<Rightarrow> EvidenceEntry list) \<Rightarrow> StoredEntry list \<Rightarrow> string + EvidenceEntry list" where
  "EvidenceEntriesFromStoredRows srt rows = bindE (decode_rows rows) (\<lambda>es. Inr (srt es))"

datatype ReplayError = ListFailed DBError | RowNotDecoded string | ReplayFailed AnalyticsError

definition ComputeScorecardFromStoredRows where
  "ComputeScorecardFromStoredRows pe rt vis srt now rows filters =
     bindE (lift_error RowNotDecoded (EvidenceEntriesFromStoredRows srt rows)) (\<lambda>entries.
       lift_error ReplayFailed (ComputeScorecard pe rt vis now entries filters))"

definition ComputeExplainFromStoredRows where
  "ComputeExplainFromStoredRows pe rt vis srt now rows filters =
     bindE (lift_error RowNotDecoded (EvidenceEntriesFromStoredRows srt rows)) (\<lambda>entries.
       lift_error ReplayFailed (ComputeExplain pe rt vis now entries filters))"

definition replay_options :: "Filters \<Rightarrow> ListOptions" where
  "replay_options filters = \<lparr>loLimit = 0, loOffset = 0, loEntryType = [], loPeriod = fiPeriod filters,
     loSessionID = fiSessionID filters, loActor = []\<rparr>"

definition analyticsReplayPageSize :: int where "analyticsReplayPageSize = 1000"

record SignalSummaryEntry =
  sseDetected :: bool
  sseWeight :: rat
  sseCount :: nat

record ScorecardAPIResponse =
  apScore :: rat
  apBand :: string
  apBasis :: string
  apConfidence :: string
  apTotalEntries :: int
  apSignalSummary :: "string \<rightharpoonup> SignalSummaryEntry"
  apPeriod :: string
  apGeneratedAt :: time

definition summary_entry :: "Profile \<Rightarrow> Scorecard \<Rightarrow> string \<Rightarrow> SignalSummaryEntry" where
  "summary_entry profile sc name =
     (let c = (case scSignals sc name of None \<Rightarrow> 0 | Some n \<Rightarrow> n)
      in \<lparr>sseDetected = 0 < c, sseWeight = Weight profile name, sseCount = c\<rparr>)"

definition toScorecardAPIResponse :: "ScorecardOutput \<Rightarrow> Profile \<Rightarrow> ScorecardAPIResponse" where
  "toScorecardAPIResponse out profile =
     (let sc = soScorecard out in
      \<lparr>apScore = scScore sc, apBand = scBand sc, apBasis = (if scSufficient sc then ''sufficient'' else ''insufficient''),
       apConfidence = cfLevel (scConfidence sc), apTotalEntries = scTotalOperations sc,
       apSignalSummary = (\<lambda>name. if name \<in> set stablePublicSignalNames then Some (summary_entry profile sc name) else None),
       apPeriod = soPeriod out, apGeneratedAt = soGeneratedAt out\<rparr>)"

text \<open>The service; a raw scorecard, when the profile does not resolve a second time, is \<open>Inl\<close> of the pair.\<close>

definition Service_ComputeScorecard where
  "Service_ComputeScorecard pe rt vis srt now lister filters =
     map_option (\<lambda>r. bindE (lift_error ListFailed r) (\<lambda>rows.
         bindE (ComputeScorecardFromStoredRows pe rt vis srt now rows filters) (\<lambda>out.
           Inr (case ResolveProfile pe [] of Inl _ \<Rightarrow> Inl out | Inr profile \<Rightarrow> Inr (toScorecardAPIResponse out profile)))))
       (collectReplayEntries lister (replay_options filters) analyticsReplayPageSize)"

definition Service_ComputeExplain where
  "Service_ComputeExplain pe rt vis srt now lister filters =
     map_option (\<lambda>r. bindE (lift_error ListFailed r) (\<lambda>rows. ComputeExplainFromStoredRows pe rt vis srt now rows filters))
       (collectReplayEntries lister (replay_options filters) analyticsReplayPageSize)"

end
