(* ===== verification/Entry_Table_Props.thy ===== *)
theory Entry_Table_Props
  imports Entry_Table
begin

text \<open>
  Replaying a table page by page: complete over a table that stands still, and what goes wrong when it
  does not. The interface between the loop and the table is the locale \<open>paged\<close>: from call \<open>first\<close> on
  the function serves the pages of \<open>rows\<close>.
\<close>

section \<open>The interface\<close>

locale paged =
  fixes lister :: "'a lister" and rows :: "'a list" and base :: ListOptions and max_page :: int and first :: nat
  assumes page: "first \<le> n \<Longrightarrow> 0 < l \<Longrightarrow> l \<le> max_page \<Longrightarrow> lister n (base\<lparr>loLimit := l, loOffset := int k\<rparr>)
    = Inr (take (nat l) (drop k rows), int (length rows))"
begin

text \<open>Whatever was read before, if it is as long as the offset, the rest of the rows follows.\<close>

lemma loop_from:
  "first \<le> n \<Longrightarrow> 0 < l \<Longrightarrow> l \<le> max_page \<Longrightarrow> k \<le> length rows \<Longrightarrow> length pre = k \<Longrightarrow>
    replay_loop lister n (base\<lparr>loLimit := l, loOffset := int k\<rparr>) pre = Some (Inr (pre @ drop k rows))"
proof (induction "length rows - k" arbitrary: k n pre rule: less_induct)
  case less
  let ?page = "take (nat l) (drop k rows)"
  have step: "lister n (base\<lparr>loLimit := l, loOffset := int k\<rparr>) = Inr (?page, int (length rows))"
    using less.prems by (simp add: page)
  show ?case
  proof (cases "length rows \<le> k + nat l")
    case True
    then have "?page = drop k rows" by simp
    then show ?thesis using True less.prems step by (subst replay_loop.simps) simp
  next
    case False
    have "replay_loop lister (Suc n) (base\<lparr>loLimit := l, loOffset := int (k + nat l)\<rparr>) (pre @ ?page)
        = Some (Inr ((pre @ ?page) @ drop (k + nat l) rows))"
      using False less.prems by (intro less.hyps) auto
    moreover have "?page @ drop (k + nat l) rows = drop k rows"
      by (metis add.commute append_take_drop_id drop_drop)
    moreover have "length ?page = nat l" using False by simp
    ultimately show ?thesis using False less.prems step by (subst replay_loop.simps) simp
  qed
qed

lemma replay_all:
  "first = 0 \<Longrightarrow> 0 < l \<Longrightarrow> l \<le> max_page \<Longrightarrow> collectReplayEntries lister base l = Some (Inr rows)"
  using loop_from [of 0 l 0 "[]"] by (simp add: collectReplayEntries_def)

end

text \<open>The table serves pages, as long as nothing is inserted and the clock stands still.\<close>

definition listed_rows where
  "listed_rows actorID desc now tenantID base db = desc (filter (listed actorID now tenantID base) (dbEntries db))"

lemma listed_limit [simp]: "listed actorID now tenantID (base\<lparr>loLimit := l, loOffset := k\<rparr>) = listed actorID now tenantID base"
  by (rule ext) (simp add: listed_def)

lemma ListEntries_page:
  assumes "0 < l" "l \<le> 1000" "\<forall>xs. length (desc xs) = length xs"
  shows "ListEntries actorID desc now tenantID (base\<lparr>loLimit := l, loOffset := int k\<rparr>) db =
    (take (nat l) (drop k (listed_rows actorID desc now tenantID base db)), int (length (listed_rows actorID desc now tenantID base db)))"
proof -
  have "withDefaults (base\<lparr>loLimit := l, loOffset := int k\<rparr>) = base\<lparr>loLimit := l, loOffset := int k\<rparr>"
    using assms(1,2) by (simp add: withDefaults_def)
  with assms(3) show ?thesis by (simp add: ListEntries_def listed_rows_def Let_def)
qed

definition newest_first :: "StoredEntry list \<Rightarrow> StoredEntry list" where
  "newest_first = sort_key (\<lambda>r. - rwCreatedAt r)"

lemma newest_first_length [simp]: "length (newest_first xs) = length xs"
  by (simp add: newest_first_def)

interpretation table: paged "\<lambda>n opts. Inr (ListEntries actorID newest_first now tenantID opts db)"
  "listed_rows actorID newest_first now tenantID base db" base 1000 0
  for actorID now tenantID base db
  by unfold_locales (simp add: ListEntries_page)

text \<open>The table with one more row from the second call on.\<close>

definition insert_after_first ::
  "(json \<Rightarrow> string option) \<Rightarrow> time \<Rightarrow> string \<Rightarrow> DB \<Rightarrow> StoredEntry \<Rightarrow> StoredEntry lister" where
  "insert_after_first actorID now tenantID db x n opts =
     Inr (ListEntries actorID newest_first now tenantID opts (if n = 0 then db else db\<lparr>dbEntries := dbEntries db @ [x]\<rparr>))"

interpretation grown: paged "insert_after_first actorID now tenantID db x"
  "listed_rows actorID newest_first now tenantID base (db\<lparr>dbEntries := dbEntries db @ [x]\<rparr>)" base 1000 1
  for actorID now tenantID base db x
  by unfold_locales (simp add: ListEntries_page insert_after_first_def)

lemma newest_first_snoc:
  assumes "\<forall>r\<in>set xs. rwCreatedAt r < rwCreatedAt x"
  shows "newest_first (xs @ [x]) = x # newest_first xs"
proof -
  have "mset (x # newest_first xs) = mset (xs @ [x])" by (simp add: newest_first_def)
  moreover have "sorted (map (\<lambda>r. - rwCreatedAt r) (x # newest_first xs))"
    using assms by (auto simp: newest_first_def less_imp_le)
  moreover have "filter (\<lambda>y. - rwCreatedAt k = - rwCreatedAt y) (xs @ [x]) = filter (\<lambda>y. - rwCreatedAt k = - rwCreatedAt y) (x # newest_first xs)"
    for k :: StoredEntry
  proof -
    have "filter (\<lambda>y. rwCreatedAt k = rwCreatedAt y) (newest_first xs) = filter (\<lambda>y. rwCreatedAt k = rwCreatedAt y) xs"
      using sort_key_stable [of "\<lambda>r. - rwCreatedAt r" "- rwCreatedAt k" xs] by (simp add: newest_first_def eq_commute)
    moreover have "rwCreatedAt k = rwCreatedAt x \<Longrightarrow> filter (\<lambda>y. rwCreatedAt k = rwCreatedAt y) xs = []"
      using assms by (auto simp: filter_empty_conv)
    ultimately show ?thesis by (cases "rwCreatedAt k = rwCreatedAt x") simp_all
  qed
  ultimately show ?thesis
    unfolding newest_first_def by (intro properties_for_sort_key) (auto simp: eq_commute)
qed

lemma replay_of_quiet:
  "0 < pageLen \<Longrightarrow> pageLen \<le> 1000 \<Longrightarrow>
    collectReplayEntries (\<lambda>n opts. Inr (ListEntries actorID newest_first now tenantID opts db)) base pageLen =
    Some (Inr (newest_first (filter (listed actorID now tenantID base) (dbEntries db))))"
  using table.replay_all [OF refl, of pageLen] by (simp add: listed_rows_def)

definition sample_period :: "string \<Rightarrow> Filters" where
  "sample_period p = \<lparr>fiPeriod = p, fiActor = [], fiTool = [], fiScope = [], fiSessionID = [], fiMinOperations = 0\<rparr>"

section \<open>Properties\<close>


definition sample_row :: "string \<Rightarrow> time \<Rightarrow> StoredEntry" where
  "sample_row i t = \<lparr>rwID = i, rwTenantID = ''t1'', rwEntryType = ''report'', rwSessionID = [], rwOperationID = [],
     rwPreviousHash = [], rwHash = ''h'', rwSignature = [], rwIntentDigest = [], rwArtifactDigest = [],
     rwPayload = JObj [], rwScopeDimensions = JObj [], rwCreatedAt = t\<rparr>"

definition sample_db :: DB where
  "sample_db = \<lparr>dbEntries = [sample_row ''a'' 1, sample_row ''b'' 2, sample_row ''c'' 3], dbEvents = Map.empty\<rparr>"

definition sample_options :: ListOptions where
  "sample_options = \<lparr>loLimit = 0, loOffset = 0, loEntryType = [], loPeriod = [], loSessionID = [], loActor = []\<rparr>"

lemma sample_row_simps [simp]: "rwCreatedAt (sample_row i t) = t" "rwID (sample_row i t) = i"
  by (simp_all add: sample_row_def)

lemma sample_listed [simp]: "listed actorID now ''t1'' sample_options (sample_row i t)"
  by (simp add: listed_def sample_options_def sample_row_def)

lemma sample_newest [simp]: "newest_first (filter (listed actorID now ''t1'' sample_options) (dbEntries sample_db)) =
    [sample_row ''c'' 3, sample_row ''b'' 2, sample_row ''a'' 1]"
  by (simp add: sample_db_def newest_first_def)


text \<open>
  The replay of a busy table reads a row twice: pages are numbered from the newest row, so when one entry
  arrives after the first page was read, the last row of that page comes again as the first of the
  next, and the new entry is missing. The result has a row twice, which no later step removes.
\<close>

theorem insert_duplicates_row:
  assumes "0 < pageLen" "pageLen \<le> 1000" "listed actorID now tenantID base x"
    and "\<And>r. r \<in> set (dbEntries db) \<Longrightarrow> rwCreatedAt r < rwCreatedAt x"
    and "rows = newest_first (filter (listed actorID now tenantID base) (dbEntries db))" "nat pageLen < length rows"
  shows "collectReplayEntries (insert_after_first actorID now tenantID db x) base pageLen =
      Some (Inr (take (nat pageLen) rows @ drop (nat pageLen - 1) rows)) \<and>
    \<not> distinct (take (nat pageLen) rows @ drop (nat pageLen - 1) rows) \<and>
    x \<notin> set (take (nat pageLen) rows @ drop (nat pageLen - 1) rows)"
proof -
  let ?o = "base\<lparr>loLimit := pageLen, loOffset := int 0\<rparr>" and ?page = "take (nat pageLen) rows"
  have first: "insert_after_first actorID now tenantID db x 0 ?o = Inr (?page, int (length rows))"
    using assms(1,2) ListEntries_page [of pageLen newest_first actorID now tenantID 0 base db]
    by (simp add: insert_after_first_def listed_rows_def assms(5))
  have grown: "listed_rows actorID newest_first now tenantID base (db\<lparr>dbEntries := dbEntries db @ [x]\<rparr>) = x # rows"
    using assms(3,4) by (simp add: listed_rows_def assms(5) newest_first_snoc)
  have len: "length ?page = nat pageLen" "\<not> int (length rows) \<le> pageLen" using assms(6) by auto
  have "replay_loop (insert_after_first actorID now tenantID db x) 1 (base\<lparr>loLimit := pageLen, loOffset := int (nat pageLen)\<rparr>) ?page
      = Some (Inr (?page @ drop (nat pageLen) (x # rows)))"
    using grown.loop_from [where n = 1 and l = pageLen and k = "nat pageLen" and pre = ?page and base = base and db = db
        and x = x and actorID = actorID and now = now and tenantID = tenantID] assms(1,2,6) len(1)
    by (simp add: grown)
  moreover have "drop (nat pageLen) (x # rows) = drop (nat pageLen - 1) rows"
    using assms(1) by (simp add: drop_Cons')
  ultimately have res: "collectReplayEntries (insert_after_first actorID now tenantID db x) base pageLen =
      Some (Inr (?page @ drop (nat pageLen - 1) rows))"
    using first len assms(1,6) replay_loop.simps [of "insert_after_first actorID now tenantID db x" 0 ?o "[]"]
    by (simp add: collectReplayEntries_def)
  have "rows ! (nat pageLen - 1) \<in> set ?page"
    using assms(1,6) by (auto simp: in_set_conv_nth intro!: exI [of _ "nat pageLen - 1"])
  moreover have "rows ! (nat pageLen - 1) \<in> set (drop (nat pageLen - 1) rows)"
    using assms(1,6) by (metis Cons_nth_drop_Suc less_imp_diff_less list.set_intros(1))
  ultimately have "\<not> distinct (?page @ drop (nat pageLen - 1) rows)" by auto
  moreover have "x \<notin> set rows" using assms(4,5) by (auto simp: newest_first_def)
  ultimately show ?thesis using res by (auto dest: in_set_takeD in_set_dropD)
qed

theorem insert_duplicates_row_witness:
  "map_option (map_sum id (map rwID)) (collectReplayEntries (insert_after_first (\<lambda>_. None) 9 ''t1'' sample_db (sample_row ''d'' 4))
     sample_options 2) = Some (Inr [''c'', ''b'', ''b'', ''a''])"
proof -
  have "rwCreatedAt r < 4" if "r \<in> set (dbEntries sample_db)" for r using that by (auto simp: sample_db_def)
  then show ?thesis
    using insert_duplicates_row [of 2 "\<lambda>_. None" 9 "''t1''" sample_options "sample_row ''d'' 4" sample_db] by simp
qed

text \<open>
  The server cuts a period in hours to 30 days: the table knows periods in days only and takes 30 for
  every other, so a row older than that is never replayed, whatever cutoff the engine
  computes from the same text.
\<close>

theorem hour_period_cut:
  assumes "\<not> HasSuffix (TrimSpace period) ''d''" "period \<noteq> []" "fiPeriod filters = period"
    and "collectReplayEntries (\<lambda>n opts. Inr (ListEntries actorID newest_first now tenantID opts db))
      (replay_options filters) analyticsReplayPageSize = Some (Inr rows)" "r \<in> set rows"
  shows "now - 30 * Day \<le> rwCreatedAt r"
proof -
  have "rows = newest_first (filter (listed actorID now tenantID (replay_options filters)) (dbEntries db))"
    using assms(4) replay_of_quiet [of analyticsReplayPageSize] by (simp add: analyticsReplayPageSize_def)
  then have "listed actorID now tenantID (replay_options filters) r"
    using assms(5) by (simp add: newest_first_def)
  moreover have "parsePeriod period = 30 * Day" using assms(1) by (simp add: parsePeriod_def Let_def)
  ultimately show ?thesis
    using assms(2,3) by (simp add: listed_def replay_options_def Day_def Hour_def Minute_def)
qed


theorem hour_period_cut_witness:
  "parsePeriodCutoff (50 * Day) ''1000h'' = Some (50 * Day - 1000 * Hour) \<and>
   collectReplayEntries (\<lambda>n opts. Inr (ListEntries (\<lambda>_. None) newest_first (50 * Day) ''t1'' opts
     \<lparr>dbEntries = [sample_row ''a'' (50 * Day - 900 * Hour)], dbEvents = Map.empty\<rparr>))
     (replay_options (sample_period ''1000h'')) analyticsReplayPageSize = Some (Inr [])"
proof -
  let ?db = "\<lparr>dbEntries = [sample_row ''a'' (50 * Day - 900 * Hour)], dbEvents = Map.empty\<rparr>"
  let ?f = "sample_period ''1000h''"
  have cut: "parsePeriodCutoff (50 * Day) ''1000h'' = Some (50 * Day - 1000 * Hour)"
    by (simp add: parsePeriodCutoff_def Sscanf_d_def is_space_def is_digit_def digits_val_def Hour_def Minute_def)
  obtain rows where rows: "collectReplayEntries (\<lambda>n opts. Inr (ListEntries (\<lambda>_. None) newest_first (50 * Day) ''t1'' opts ?db))
      (replay_options ?f) analyticsReplayPageSize = Some (Inr rows)" "set rows \<subseteq> set (dbEntries ?db)"
    using replay_of_quiet [of analyticsReplayPageSize "\<lambda>_. None" "50 * Day" "''t1''" ?db "replay_options ?f"]
    by (force simp: analyticsReplayPageSize_def newest_first_def)
  have "\<not> HasSuffix (TrimSpace ''1000h'') ''d''" by code_simp
  then have "50 * Day - 30 * Day \<le> rwCreatedAt r" if "r \<in> set rows" for r
    using hour_period_cut [of "''1000h''" ?f "\<lambda>_. None" "50 * Day" "''t1''" ?db rows r] rows(1) that by (simp add: sample_period_def)
  then have "rows = []" using rows(2) by (cases rows) (force simp: Day_def Hour_def Minute_def)+
  with rows(1) cut show ?thesis by simp
qed

end
