(* ===== verification/Ingest_Contracts.thy ===== *)
theory Ingest_Contracts
  imports Canon Entry_Json
begin

text \<open>
  The requests of the ingest service and their validation (\<^verbatim>\<open>internal/ingest/contracts.go\<close>). A validator
  collects the text of every violation, in order; a request is valid when there is none.
\<close>

section \<open>Requests\<close>

text \<open>A \<open>json.RawMessage\<close>: no bytes but white space, text that is not JSON, or a value.\<close>

datatype raw_json = RawBlank | RawInvalid | RawValue json

record Claim =
  clSource :: string
  clKey :: string
  clPayload :: raw_json

record SmartTarget =
  smTool :: string
  smOperation :: string
  smResource :: string
  smNamespace :: string

record Envelope =
  enContractVersion :: string
  enClaim :: "Claim option"
  enActor :: Actor
  enSessionID :: string
  enOperationID :: string
  enTraceID :: string
  enSpanID :: string
  enParentSpanID :: string
  enScopeDimensions :: "(string \<times> string) list"
  enFlavor :: Flavor
  enEvidence :: "EvidenceKind option"
  enSource :: "string option"

record PrescribeRequest =
  prEnvelope :: Envelope
  prPrescriptionID :: string
  prArtifactDigest :: string
  prCanonicalAction :: "CanonicalAction option"
  prSmartTarget :: "SmartTarget option"
  prPayloadOverride :: "raw_json option"

record ReportRequest =
  rrEnvelope :: Envelope
  rrPrescriptionID :: string
  rrArtifactDigest :: string
  rrVerdict :: Verdict
  rrExitCode :: "int option"
  rrDecisionContext :: "DecisionContext option"
  rrExternalRefs :: "ExternalRef list"
  rrPayloadOverride :: "raw_json option"

type_synonym violations = "string list"

definition blank :: "string \<Rightarrow> bool" where
  "blank s \<longleftrightarrow> TrimSpace s = []"

definition add_if :: "bool \<Rightarrow> string \<Rightarrow> violations" where
  "add_if b s = (if b then [s] else [])"

definition hasRawJSON :: "raw_json \<Rightarrow> bool" where
  "hasRawJSON raw \<longleftrightarrow> raw \<noteq> RawBlank"

section \<open>Validators\<close>

definition validateClaim :: "Claim option \<Rightarrow> violations" where
  "validateClaim claim =
     (case claim of None \<Rightarrow> []
      | Some c \<Rightarrow> add_if (blank (clSource c)) ''claim.source is required'' @ add_if (blank (clKey c)) ''claim.key is required'')"

definition validateActor :: "Actor \<Rightarrow> violations" where
  "validateActor a =
     add_if (blank (acType a)) ''actor.type is required'' @ add_if (blank (acID a)) ''actor.id is required''
     @ add_if (blank (acProvenance a)) ''actor.provenance is required''"

definition validateFlavor :: "Flavor \<Rightarrow> violations" where
  "validateFlavor flavor =
     (if flavor \<in> {''imperative'', ''reconcile'', ''workflow''} then []
      else if flavor = [] then [''flavor is required'']
      else [''flavor must be one of imperative, reconcile, workflow''])"

definition validateEvidenceKind :: "EvidenceKind \<Rightarrow> violations" where
  "validateEvidenceKind kind =
     (if kind \<in> {''declared'', ''observed'', ''translated''} then []
      else if kind = [] then [''evidence.kind is required'']
      else [''evidence.kind must be one of declared, observed, translated''])"

definition validateEnvelope :: "Envelope \<Rightarrow> violations" where
  "validateEnvelope env =
     (if blank (enContractVersion env) then [''contract_version is required'']
      else if TrimSpace (enContractVersion env) \<noteq> ''v1'' then [''contract_version must be v1''] else [])
     @ validateClaim (enClaim env) @ validateActor (enActor env)
     @ add_if (blank (enSessionID env)) ''session_id is required''
     @ add_if (blank (enOperationID env)) ''operation_id is required''
     @ add_if (blank (enTraceID env)) ''trace_id is required''
     @ validateFlavor (enFlavor env)
     @ (case enEvidence env of None \<Rightarrow> [''evidence.kind is required''] | Some k \<Rightarrow> validateEvidenceKind k)
     @ add_if (case enSource env of None \<Rightarrow> True | Some s \<Rightarrow> blank s) ''source.system is required''"

definition validateSmartTarget :: "SmartTarget \<Rightarrow> violations" where
  "validateSmartTarget t =
     add_if (blank (smTool t)) ''smart_target.tool is required''
     @ add_if (blank (smOperation t)) ''smart_target.operation is required''
     @ add_if (blank (smResource t)) ''smart_target.resource is required''"

definition validateCanonicalAction :: "CanonicalAction \<Rightarrow> violations" where
  "validateCanonicalAction a =
     add_if (blank (caTool a)) ''canonical_action.tool is required''
     @ add_if (blank (caOperation a)) ''canonical_action.operation is required''
     @ add_if (blank (caTool a) \<and> blank (caOperation a) \<and> blank (caOperationClass a) \<and> blank (caScopeClass a)
         \<and> caResourceCount a = 0 \<and> blank (caResourceShapeHash a) \<and> caResourceIdentity a = [])
         ''canonical_action must not be empty''"

definition validatePrescribeIntent :: "CanonicalAction option \<Rightarrow> SmartTarget option \<Rightarrow> violations" where
  "validatePrescribeIntent action target =
     (case (action, target) of
        (Some _, Some _) \<Rightarrow> [''canonical_action and smart_target are mutually exclusive'']
      | (Some a, None) \<Rightarrow> validateCanonicalAction a
      | (None, Some t) \<Rightarrow> validateSmartTarget t
      | (None, None) \<Rightarrow> [''canonical_action or smart_target is required''])"

definition ValidatePrescribeRequest :: "PrescribeRequest \<Rightarrow> violations" where
  "ValidatePrescribeRequest req =
     validateEnvelope (prEnvelope req) @
     (case prPayloadOverride req of
        Some raw \<Rightarrow>
          add_if (\<not> hasRawJSON raw) ''payload_override must not be empty''
          @ add_if (\<not> blank (prPrescriptionID req)) ''payload_override is mutually exclusive with prescription_id''
          @ add_if (prCanonicalAction req \<noteq> None \<or> prSmartTarget req \<noteq> None)
              ''payload_override is mutually exclusive with explicit prescribe fields''
      | None \<Rightarrow> validatePrescribeIntent (prCanonicalAction req) (prSmartTarget req))"

definition validateReportVerdict :: "Verdict \<Rightarrow> int option \<Rightarrow> DecisionContext option \<Rightarrow> violations" where
  "validateReportVerdict verdict exitCode decisionContext =
     (if verdict = VerdictDeclined then
        add_if (exitCode \<noteq> None) ''declined reports must not include exit_code'' @
        (case decisionContext of
           None \<Rightarrow> [''decision_context is required for declined reports'']
         | Some dc \<Rightarrow>
             add_if (blank (dcTrigger dc)) ''decision_context.trigger is required'' @
             (if blank (dcReason dc) then [''decision_context.reason is required'']
              else add_if (512 < length (TrimSpace (dcReason dc))) ''decision_context.reason exceeds 512 characters''))
      else
        add_if (decisionContext \<noteq> None) ''decision_context is only valid for declined reports'' @
        (case exitCode of
           None \<Rightarrow> [''report verdict '' @ verdict @ '' requires exit_code'']
         | Some code \<Rightarrow> add_if (VerdictFromExitCode code \<noteq> verdict)
             (''report verdict '' @ verdict @ '' does not match exit_code '' @ dec_int code)))"

definition ValidateReportRequest :: "ReportRequest \<Rightarrow> violations" where
  "ValidateReportRequest req =
     validateEnvelope (rrEnvelope req) @
     (case rrPayloadOverride req of
        Some raw \<Rightarrow>
          add_if (\<not> hasRawJSON raw) ''payload_override must not be empty''
          @ add_if (\<not> blank (rrPrescriptionID req) \<or> \<not> blank (rrVerdict req) \<or> rrExitCode req \<noteq> None
              \<or> rrDecisionContext req \<noteq> None \<or> rrExternalRefs req \<noteq> [])
              ''payload_override is mutually exclusive with explicit report fields''
      | None \<Rightarrow>
          add_if (blank (rrPrescriptionID req)) ''prescription_id is required'' @
          (if \<not> Verdict_Valid (rrVerdict req)
           then [''verdict is required and must be one of success, failure, error, declined'']
           else validateReportVerdict (rrVerdict req) (rrExitCode req) (rrDecisionContext req)))"

end
