(* ===== verification/Ingest.thy ===== *)
theory Ingest
  imports Ingest_Contracts Entry_Table Assess Bridge
begin

text \<open>
  The ingest service of the server (\<^verbatim>\<open>internal/ingest/service.go\<close>, \<^verbatim>\<open>errors.go\<close>): prescriptions and reports
  that arrive over the network are validated, signed and appended to the tenant's chain in one
  transaction, and a claim makes a repeated delivery return the first result. A transaction works on
  a copy of the tables that replaces them on commit. Which database call fails, the identifiers, the
  clock and the time at which a transaction began are arguments, indexed by the count of steps.
\<close>

section \<open>Errors, results and surroundings\<close>

datatype IngestCode = IngestInvalidInput | IngestNotFound | IngestInternal | IngestNoSigner | IngestUntyped

datatype IngestError =
    SignerMissing
  | RequestInvalid violations
  | OverrideNotJSON
  | OverrideWithoutAction
  | OverrideActionInvalid
  | ScopeClassInvalid string
  | ActionMissing
  | OverrideReportInvalid violations
  | NotAPrescription string
  | ReportSessionMismatch string string
  | PrescriptionUnknown
  | PrescriptionUnreadable
  | TxBeginFailed
  | TxCommitFailed
  | ClaimFailed
  | ClaimWithoutResult
  | ClaimResultMissing
  | ClaimFinalizeFailed
  | LastHashFailed
  | StoreEntryFailed
  | EntryNotBuilt BuildError
  | PipelineFailed string
  | StoredEntryNotDecoded
  | Unwrapped DBError

fun Ingest_ErrorCode :: "IngestError \<Rightarrow> IngestCode" where
  "Ingest_ErrorCode SignerMissing = IngestNoSigner"
| "Ingest_ErrorCode (RequestInvalid vs) = IngestInvalidInput"
| "Ingest_ErrorCode OverrideNotJSON = IngestInvalidInput"
| "Ingest_ErrorCode OverrideWithoutAction = IngestInvalidInput"
| "Ingest_ErrorCode OverrideActionInvalid = IngestInvalidInput"
| "Ingest_ErrorCode (ScopeClassInvalid v) = IngestInvalidInput"
| "Ingest_ErrorCode ActionMissing = IngestInvalidInput"
| "Ingest_ErrorCode (OverrideReportInvalid vs) = IngestInvalidInput"
| "Ingest_ErrorCode (NotAPrescription i) = IngestInvalidInput"
| "Ingest_ErrorCode (ReportSessionMismatch a b) = IngestInvalidInput"
| "Ingest_ErrorCode PrescriptionUnknown = IngestNotFound"
| "Ingest_ErrorCode (Unwrapped e) = IngestUntyped"
| "Ingest_ErrorCode _ = IngestInternal"

record IngestResult =
  irDuplicate :: bool
  irEntryID :: string
  irEffectiveRisk :: string
  irPrescriptionID :: string
  irEntry :: "EvidenceEntry option"   \<comment> \<open>\<^term>\<open>None\<close> is the zero entry\<close>

record IngestService =
  isSigner :: "Signer option"
  isPipeline :: "Assessor list option"
  isClaimPrefix :: string
  isLegacyFallback :: bool

definition NewService :: "Signer option \<Rightarrow> IngestService" where
  "NewService signer = \<lparr>isSigner = signer, isPipeline = None, isClaimPrefix = ''api:'', isLegacyFallback = False\<rparr>"

definition NewWebhookService :: "Signer option \<Rightarrow> IngestService" where
  "NewWebhookService signer = \<lparr>isSigner = signer, isPipeline = None, isClaimPrefix = [], isLegacyFallback = True\<rparr>"

definition SetPipeline :: "Assessor list \<Rightarrow> IngestService \<Rightarrow> IngestService" where
  "SetPipeline p s = s\<lparr>isPipeline := Some p\<rparr>"

record IngestEnv =
  ixDigest :: "json \<Rightarrow> string option"
  ixFresh :: "nat \<Rightarrow> string"
  ixNow :: "nat \<Rightarrow> time"
  ixTxTime :: "nat \<Rightarrow> time"
  ixFails :: "nat \<Rightarrow> bool"
  ixHashes :: Hashes
  ixVersion :: string

record IngestWorld =
  iwDB :: DB
  iwStep :: nat

type_synonym 'a ing = "IngestWorld \<Rightarrow> IngestWorld \<times> (IngestError + 'a)"

definition bindI :: "'a ing \<Rightarrow> ('a \<Rightarrow> 'b ing) \<Rightarrow> 'b ing" where
  "bindI m f w = (case m w of (w', Inl e) \<Rightarrow> (w', Inl e) | (w', Inr x) \<Rightarrow> f x w')"

definition returnI :: "'a \<Rightarrow> 'a ing" where "returnI x w = (w, Inr x)"

definition failI :: "IngestError \<Rightarrow> 'a ing" where "failI e w = (w, Inl e)"

definition liftI :: "IngestError + 'a \<Rightarrow> 'a ing" where "liftI r w = (w, r)"

text \<open>A call of the database in the transaction, and one outside it, on the committed tables.\<close>

definition txcall :: "IngestEnv \<Rightarrow> 'a sql \<Rightarrow> (DBError + 'a) ing" where
  "txcall env q w =
     (let n = iwStep w in
      if ixFails env n then (w\<lparr>iwStep := Suc n\<rparr>, Inr (Inl QueryFailed))
      else (case q (iwDB w) of (db, r) \<Rightarrow> (w\<lparr>iwDB := db, iwStep := Suc n\<rparr>, Inr r)))"

definition storecall :: "IngestEnv \<Rightarrow> DB \<Rightarrow> 'a sql \<Rightarrow> (DBError + 'a) ing" where
  "storecall env committed q w =
     (let n = iwStep w in
      (w\<lparr>iwStep := Suc n\<rparr>, Inr (if ixFails env n then Inl QueryFailed else snd (q committed))))"

section \<open>Normalisation\<close>

definition Ingest_normalizeToken :: "string \<Rightarrow> string" where
  "Ingest_normalizeToken v = ToLower (TrimSpace v)"

definition Ingest_normalizeActor :: "Actor \<Rightarrow> Actor" where
  "Ingest_normalizeActor a = \<lparr>acType = TrimSpace (acType a), acID = TrimSpace (acID a),
     acProvenance = TrimSpace (acProvenance a), acInstanceID = TrimSpace (acInstanceID a),
     acVersion = TrimSpace (acVersion a), acSkillVersion = TrimSpace (acSkillVersion a)\<rparr>"

definition Ingest_normalizeIngressScopeClass :: "string \<Rightarrow> IngestError + string" where
  "Ingest_normalizeIngressScopeClass raw =
     (let v = TrimSpace raw; normalized = NormalizeScopeClass v in
      if v = [] then Inr ''unknown''
      else if normalized \<noteq> ''unknown'' \<or> EqualFold v ''unknown'' then Inr normalized
      else Inl (ScopeClassInvalid v))"

definition Ingest_normalizeCanonicalAction :: "CanonicalAction \<Rightarrow> IngestError + CanonicalAction" where
  "Ingest_normalizeCanonicalAction a =
     bindE (Ingest_normalizeIngressScopeClass (caScopeClass a)) (\<lambda>sc.
       Inr (a\<lparr>caTool := Ingest_normalizeToken (caTool a), caOperation := Ingest_normalizeToken (caOperation a),
         caOperationClass := TrimSpace (caOperationClass a), caResourceShapeHash := TrimSpace (caResourceShapeHash a),
         caScopeClass := sc\<rparr>))"

definition inferOperationClass :: "string \<Rightarrow> string" where
  "inferOperationClass operation =
     (let oper = ToLower (TrimSpace operation) in
      if oper \<in> {''delete'', ''destroy'', ''remove'', ''rm'', ''uninstall''} then ''destroy''
      else if oper \<in> {''plan'', ''validate'', ''diff'', ''show'', ''get'', ''describe'', ''logs'', ''top''} then ''read''
      else ''mutate'')"

definition buildSmartTargetCanonicalAction :: "Hashes \<Rightarrow> SmartTarget \<Rightarrow> CanonicalAction" where
  "buildSmartTargetCanonicalAction h t =
     (let identity = [no_id\<lparr>ridName := TrimSpace (smResource t), ridNamespace := TrimSpace (smNamespace t)\<rparr>] in
      \<lparr>caTool = TrimSpace (smTool t), caOperation = TrimSpace (smOperation t),
       caOperationClass = inferOperationClass (smOperation t), caResourceIdentity = identity,
       caScopeClass = ResolveScopeClass (TrimSpace (smNamespace t)) identity, caResourceCount = 1,
       caResourceShapeHash = hBytes h (Join [smTool t, smOperation t, smResource t, smNamespace t] ''|'')\<rparr>)"

definition Ingest_payloadEvidenceMetadata :: "EvidenceKind option \<Rightarrow> EvidenceKind option" where
  "Ingest_payloadEvidenceMetadata meta =
     (case meta of None \<Rightarrow> None | Some k \<Rightarrow> if TrimSpace k = [] then None else Some k)"

definition Ingest_payloadSourceMetadata :: "string option \<Rightarrow> string option" where
  "Ingest_payloadSourceMetadata meta =
     (case meta of None \<Rightarrow> None | Some s \<Rightarrow> (let system = TrimSpace s in if system = [] then None else Some system))"

definition trim_envelope :: "Envelope \<Rightarrow> Envelope" where
  "trim_envelope env = env\<lparr>enActor := Ingest_normalizeActor (enActor env), enSessionID := TrimSpace (enSessionID env),
     enOperationID := TrimSpace (enOperationID env), enTraceID := TrimSpace (enTraceID env),
     enSpanID := TrimSpace (enSpanID env), enParentSpanID := TrimSpace (enParentSpanID env)\<rparr>"

section \<open>Building a prescription\<close>

definition zero_prescription :: PrescriptionPayload where
  "zero_prescription = \<lparr>ppPrescriptionID = [], ppCanonicalAction = None, ppRiskInputs = [], ppEffectiveRisk = [],
     ppRiskLevel = [], ppRiskDetails = [], ppRiskTags = [], ppTTLMs = 0, ppCanonSource = [], ppFlavor = [],
     ppEvidence = None, ppSource = None\<rparr>"

text \<open>The \<open>switch\<close>: the payload to start from, the action and the id asked for.\<close>

definition prescribe_source :: "Hashes \<Rightarrow> PrescribeRequest \<Rightarrow> IngestError + PrescriptionPayload \<times> CanonicalAction \<times> string" where
  "prescribe_source h req =
     (case prPayloadOverride req of
        Some raw \<Rightarrow>
          (case raw of
             RawValue j \<Rightarrow>
               (case unmarshal_prescription j of
                  None \<Rightarrow> Inl OverrideNotJSON
                | Some payload \<Rightarrow>
                    (case ppCanonicalAction payload of
                       None \<Rightarrow> Inl OverrideWithoutAction
                     | Some ca \<Rightarrow>
                         (case action_of ca of
                            None \<Rightarrow> Inl OverrideActionInvalid
                          | Some action \<Rightarrow>
                              bindE (Ingest_normalizeCanonicalAction action) (\<lambda>a.
                                let eid = TrimSpace (prPrescriptionID req) in
                                Inr (payload, a, if eid = [] then TrimSpace (ppPrescriptionID payload) else eid)))))
           | _ \<Rightarrow> Inl OverrideNotJSON)
      | None \<Rightarrow>
          (case (prCanonicalAction req, prSmartTarget req) of
             (Some action, _) \<Rightarrow>
               bindE (Ingest_normalizeCanonicalAction action) (\<lambda>a. Inr (zero_prescription, a, TrimSpace (prPrescriptionID req)))
           | (None, Some t) \<Rightarrow>
               bindE (Ingest_normalizeCanonicalAction (buildSmartTargetCanonicalAction h t)) (\<lambda>a.
                 Inr (zero_prescription, a, TrimSpace (prPrescriptionID req)))
           | (None, None) \<Rightarrow> Inl ActionMissing))"

text \<open>What is not set by the override is filled in: the assessment, the time to live, the source.\<close>

definition fill_payload :: "PrescribeRequest \<Rightarrow> string \<Rightarrow> CanonicalAction \<Rightarrow> AssessResult \<Rightarrow> PrescriptionPayload \<Rightarrow> PrescriptionPayload" where
  "fill_payload req entryID action res payload =
     payload\<lparr>ppPrescriptionID := entryID, ppCanonicalAction := Some (action_json action),
       ppRiskInputs := (if ppRiskInputs payload = [] then arRiskInputs res else ppRiskInputs payload),
       ppEffectiveRisk := (if ppEffectiveRisk payload = [] then arEffectiveRisk res else ppEffectiveRisk payload),
       ppTTLMs := (if ppTTLMs payload = 0 then DefaultTTLMs else ppTTLMs payload),
       ppCanonSource := (if ppCanonSource payload = [] then ''external'' else ppCanonSource payload),
       ppFlavor := enFlavor (prEnvelope req), ppEvidence := Ingest_payloadEvidenceMetadata (enEvidence (prEnvelope req)),
       ppSource := Ingest_payloadSourceMetadata (enSource (prEnvelope req))\<rparr>"

definition buildPrescribePayload ::
  "Hashes \<Rightarrow> string \<Rightarrow> Assessor list option \<Rightarrow> PrescribeRequest \<Rightarrow> IngestError + PrescriptionPayload \<times> CanonicalAction" where
  "buildPrescribePayload h fresh pipeline req =
     bindE (prescribe_source h req) (\<lambda>(payload, action, eid).
       let entryID = (if TrimSpace eid = [] then fresh else eid);
           assessors = (case pipeline of None \<Rightarrow> [MatrixAssessor] | Some p \<Rightarrow> p)
       in case Pipeline_Run assessors action [] of
            Inl e \<Rightarrow> Inl (PipelineFailed e)
          | Inr res \<Rightarrow> Inr (fill_payload req entryID action res payload, action))"

definition buildPrescribeEntry ::
  "IngestEnv \<Rightarrow> IngestService \<Rightarrow> PrescribeRequest \<Rightarrow> nat \<Rightarrow> string \<Rightarrow> IngestError + EvidenceEntry \<times> string" where
  "buildPrescribeEntry env s req n lastHash =
     bindE (buildPrescribePayload (ixHashes env) (ixFresh env n) (isPipeline s) req) (\<lambda>(payload, action).
       let e = prEnvelope req in
       case BuildEntry (ixDigest env) (ixNow env n) (ixFresh env n)
         \<lparr>bpEntryID = ppPrescriptionID payload, bpType = EntryTypePrescribe, bpTenantID = [],
          bpSessionID = TrimSpace (enSessionID e), bpOperationID = TrimSpace (enOperationID e), bpAttempt = 0,
          bpTraceID = TrimSpace (enTraceID e), bpSpanID = TrimSpace (enSpanID e),
          bpParentSpanID = TrimSpace (enParentSpanID e), bpActor = enActor e,
          bpIntentDigest = ComputeIntentDigest (ixHashes env) action,
          bpArtifactDigest = TrimSpace (prArtifactDigest req), bpPayload = prescription_json payload,
          bpPreviousHash = lastHash, bpScopeDimensions = enScopeDimensions e, bpSpecVersion = ''v1.1.0'',
          bpCanonVersion = ''external/v1'', bpAdapterVersion = ixVersion env, bpScoringVersion = ''v1.1.0'',
          bpSigner = isSigner s\<rparr> of
         Inl b \<Rightarrow> Inl (EntryNotBuilt b)
       | Inr entry \<Rightarrow> Inr (entry, ppEffectiveRisk payload))"

section \<open>Building a report\<close>

definition validateReportPayloadBody :: "ReportPayload \<Rightarrow> violations" where
  "validateReportPayloadBody p =
     (if TrimSpace (rpPrescriptionID p) = [] then [''payload_override prescription_id is required'']
      else if \<not> Verdict_Valid (rpVerdict p)
        then [''payload_override verdict is required and must be one of success, failure, error, declined'']
      else if rpVerdict p = VerdictDeclined then
        (if rpExitCode p \<noteq> None then [''declined reports must not include exit_code'']
         else case rpDecisionContext p of
           None \<Rightarrow> [''decision_context is required for declined reports'']
         | Some dc \<Rightarrow>
             if TrimSpace (dcTrigger dc) = [] then [''decision_context.trigger is required'']
             else if TrimSpace (dcReason dc) = [] then [''decision_context.reason is required'']
             else if 512 < length (TrimSpace (dcReason dc)) then [''decision_context.reason exceeds 512 characters'']
             else [])
      else if rpDecisionContext p \<noteq> None then [''decision_context is only valid for declined reports'']
      else case rpExitCode p of
        None \<Rightarrow> [''report verdict '' @ rpVerdict p @ '' requires exit_code'']
      | Some code \<Rightarrow> if VerdictFromExitCode code \<noteq> rpVerdict p
          then [''report verdict '' @ rpVerdict p @ '' does not match exit_code '' @ dec_int code] else [])"

definition parseReportPayloadOverride :: "raw_json \<Rightarrow> Envelope \<Rightarrow> IngestError + ReportPayload \<times> string" where
  "parseReportPayloadOverride raw env =
     (case (case raw of RawValue j \<Rightarrow> unmarshal_report j | _ \<Rightarrow> None) of
        None \<Rightarrow> Inl OverrideNotJSON
      | Some payload \<Rightarrow>
          if validateReportPayloadBody payload \<noteq> [] then Inl (OverrideReportInvalid (validateReportPayloadBody payload))
          else Inr (payload\<lparr>rpFlavor := enFlavor env, rpEvidence := Ingest_payloadEvidenceMetadata (enEvidence env),
                 rpSource := Ingest_payloadSourceMetadata (enSource env)\<rparr>, TrimSpace (rpPrescriptionID payload)))"

definition buildReportPayloadState :: "ReportRequest \<Rightarrow> IngestError + ReportPayload \<times> string" where
  "buildReportPayloadState req =
     (case rrPayloadOverride req of
        Some raw \<Rightarrow> parseReportPayloadOverride raw (rrEnvelope req)
      | None \<Rightarrow>
          (let env = rrEnvelope req;
               payload = \<lparr>rpReportID = [], rpPrescriptionID = TrimSpace (rrPrescriptionID req), rpExitCode = rrExitCode req,
                 rpVerdict = rrVerdict req, rpDecisionContext = rrDecisionContext req, rpExternalRefs = rrExternalRefs req,
                 rpFlavor = enFlavor env, rpEvidence = Ingest_payloadEvidenceMetadata (enEvidence env),
                 rpSource = Ingest_payloadSourceMetadata (enSource env)\<rparr>
           in Inr (payload, rpPrescriptionID payload)))"

definition reportUsesSoftResolution :: "ReportRequest \<Rightarrow> bool" where
  "reportUsesSoftResolution req \<longleftrightarrow> enEvidence (rrEnvelope req) = Some ''translated''"

text \<open>An unknown prescription of a soft report: a row with the id and nothing else.\<close>

definition bare_row :: "string \<Rightarrow> StoredEntry" where
  "bare_row i = \<lparr>rwID = i, rwTenantID = [], rwEntryType = [], rwSessionID = [], rwOperationID = [], rwPreviousHash = [],
     rwHash = [], rwSignature = [], rwIntentDigest = [], rwArtifactDigest = [], rwPayload = JNull,
     rwScopeDimensions = JNull, rwCreatedAt = zero_time\<rparr>"

definition resolvePrescriptionForReport ::
  "IngestEnv \<Rightarrow> DB \<Rightarrow> string \<Rightarrow> string \<Rightarrow> bool \<Rightarrow> StoredEntry ing" where
  "resolvePrescriptionForReport env committed tenantID prescriptionID soft =
     bindI (storecall env committed (GetEntry tenantID prescriptionID)) (\<lambda>r. case r of
       Inl ErrNotFound \<Rightarrow> if soft then returnI (bare_row prescriptionID) else failI PrescriptionUnknown
     | Inl QueryFailed \<Rightarrow> failI PrescriptionUnreadable
     | Inr entry \<Rightarrow> if rwEntryType entry \<noteq> EntryTypePrescribe then failI (NotAPrescription prescriptionID) else returnI entry)"

definition buildReportEntry ::
  "IngestEnv \<Rightarrow> IngestService \<Rightarrow> ReportRequest \<Rightarrow> ReportPayload \<Rightarrow> StoredEntry \<Rightarrow> bool \<Rightarrow> nat \<Rightarrow> string \<Rightarrow> IngestError + EvidenceEntry" where
  "buildReportEntry env s req payload0 p soft n lastHash =
     (let e = rrEnvelope req; entryID = ixFresh env n; payload = payload0\<lparr>rpReportID := entryID\<rparr>;
          own = TrimSpace (enSessionID e); theirs = TrimSpace (rwSessionID p);
          sessionID = (if own = [] then theirs else own);
          operationID = (if TrimSpace (enOperationID e) = [] then TrimSpace (rwOperationID p) else TrimSpace (enOperationID e));
          trace0 = TrimSpace (enTraceID e); trace1 = (if trace0 = [] then sessionID else trace0);
          traceID = (if trace1 = [] then rwID p else trace1)
      in if \<not> soft \<and> sessionID \<noteq> [] \<and> theirs \<noteq> [] \<and> sessionID \<noteq> theirs
         then Inl (ReportSessionMismatch sessionID theirs)
         else case BuildEntry (ixDigest env) (ixNow env n) (ixFresh env n)
           \<lparr>bpEntryID = entryID, bpType = EntryTypeReport, bpTenantID = [], bpSessionID = sessionID,
            bpOperationID = operationID, bpAttempt = 0, bpTraceID = traceID, bpSpanID = TrimSpace (enSpanID e),
            bpParentSpanID = TrimSpace (enParentSpanID e), bpActor = enActor e, bpIntentDigest = [],
            bpArtifactDigest = TrimSpace (rrArtifactDigest req), bpPayload = report_json payload,
            bpPreviousHash = lastHash, bpScopeDimensions = enScopeDimensions e, bpSpecVersion = ''v1.1.0'',
            bpCanonVersion = ''external/v1'', bpAdapterVersion = ixVersion env, bpScoringVersion = ''v1.1.0'',
            bpSigner = isSigner s\<rparr> of
           Inl b \<Rightarrow> Inl (EntryNotBuilt b)
         | Inr entry \<Rightarrow> Inr entry)"

section \<open>Claims\<close>

definition hasMeaningfulClaim :: "Claim option \<Rightarrow> bool" where
  "hasMeaningfulClaim claim \<longleftrightarrow> (case claim of None \<Rightarrow> False
     | Some c \<Rightarrow> TrimSpace (clSource c) \<noteq> [] \<or> TrimSpace (clKey c) \<noteq> [] \<or> clPayload c \<noteq> RawBlank)"

definition claimSource :: "IngestService \<Rightarrow> Claim option \<Rightarrow> string" where
  "claimSource s claim = (case claim of None \<Rightarrow> []
     | Some c \<Rightarrow> (let source = TrimSpace (clSource c) in if source = [] then [] else isClaimPrefix s @ source))"

definition claim_key :: "Claim option \<Rightarrow> string" where
  "claim_key claim = (case claim of None \<Rightarrow> [] | Some c \<Rightarrow> clKey c)"

text \<open>The payload column is JSON: text that is not makes the statement fail.\<close>

definition claim_statement :: "string \<Rightarrow> string \<Rightarrow> Claim option \<Rightarrow> bool sql" where
  "claim_statement tenantID source claim db =
     (case (case claim of None \<Rightarrow> RawBlank | Some c \<Rightarrow> clPayload c) of
        RawInvalid \<Rightarrow> (db, Inl QueryFailed)
      | RawBlank \<Rightarrow> ClaimWebhookEvent tenantID source (claim_key claim) None db
      | RawValue j \<Rightarrow> ClaimWebhookEvent tenantID source (claim_key claim) (Some j) db)"

definition claimIfNeeded :: "IngestEnv \<Rightarrow> string \<Rightarrow> string \<Rightarrow> Claim option \<Rightarrow> bool ing" where
  "claimIfNeeded env tenantID source claim =
     (if \<not> hasMeaningfulClaim claim then returnI False
      else bindI (txcall env (claim_statement tenantID source claim)) (\<lambda>r. case r of
        Inl _ \<Rightarrow> failI ClaimFailed | Inr dup \<Rightarrow> returnI dup))"

definition finalizeClaim :: "IngestEnv \<Rightarrow> string \<Rightarrow> string \<Rightarrow> Claim option \<Rightarrow> string \<Rightarrow> string \<Rightarrow> unit ing" where
  "finalizeClaim env tenantID source claim entryID effectiveRisk =
     (if \<not> hasMeaningfulClaim claim then returnI ()
      else bindI (txcall env (FinalizeWebhookEvent tenantID source (claim_key claim) entryID effectiveRisk)) (\<lambda>r. case r of
        Inl _ \<Rightarrow> failI ClaimFinalizeFailed | Inr _ \<Rightarrow> returnI ()))"

text \<open>\<open>build\<close> makes the result of the decoded entry; id and risk are then those of the claim.\<close>

definition loadDuplicateResult ::
  "IngestEnv \<Rightarrow> IngestService \<Rightarrow> string \<Rightarrow> string \<Rightarrow> Claim option \<Rightarrow> (EvidenceEntry \<Rightarrow> IngestResult) \<Rightarrow> IngestResult ing" where
  "loadDuplicateResult env s tenantID source claim build =
     (if \<not> hasMeaningfulClaim claim
      then returnI \<lparr>irDuplicate = True, irEntryID = [], irEffectiveRisk = [], irPrescriptionID = [], irEntry = None\<rparr>
      else bindI (txcall env (GetWebhookEventResult tenantID source (claim_key claim))) (\<lambda>r. case r of
        Inl e \<Rightarrow> failI (Unwrapped e)
      | Inr meta \<Rightarrow>
          if TrimSpace (wrEntryID meta) = [] then
            (if isLegacyFallback s
             then returnI \<lparr>irDuplicate = True, irEntryID = [], irEffectiveRisk = [], irPrescriptionID = [], irEntry = None\<rparr>
             else failI ClaimWithoutResult)
          else bindI (txcall env (GetEntry tenantID (wrEntryID meta))) (\<lambda>g. case g of
            Inl ErrNotFound \<Rightarrow> failI ClaimResultMissing
          | Inl e \<Rightarrow> failI (Unwrapped e)
          | Inr row \<Rightarrow>
              (case unmarshal_entry (rwPayload row) of
                 None \<Rightarrow> failI StoredEntryNotDecoded
               | Some decoded \<Rightarrow>
                   returnI ((build decoded)\<lparr>irEntryID := wrEntryID meta, irEffectiveRisk := wrEffectiveRisk meta\<rparr>)))))"

definition duplicate_prescribe :: "EvidenceEntry \<Rightarrow> IngestResult" where
  "duplicate_prescribe e = \<lparr>irDuplicate = True, irEntryID = EntryID e, irEffectiveRisk = [],
     irPrescriptionID = EntryID e, irEntry = Some e\<rparr>"

definition duplicate_report :: "EvidenceEntry \<Rightarrow> IngestResult" where
  "duplicate_report e = \<lparr>irDuplicate = True, irEntryID = EntryID e, irEffectiveRisk = [], irPrescriptionID = [], irEntry = Some e\<rparr>"

section \<open>The operations\<close>

definition saveEntry ::
  "IngestEnv \<Rightarrow> time \<Rightarrow> string \<Rightarrow> (nat \<Rightarrow> string \<Rightarrow> IngestError + EvidenceEntry \<times> 'a) \<Rightarrow> (EvidenceEntry \<times> 'a) ing" where
  "saveEntry env txTime tenantID build =
     bindI (txcall env (LastHash tenantID)) (\<lambda>r. case r of
       Inl _ \<Rightarrow> failI LastHashFailed
     | Inr h \<Rightarrow> (\<lambda>w. bindI (liftI (build (iwStep w) h)) (\<lambda>(entry, x).
         bindI (txcall env (SaveRaw (ixFresh env (iwStep w)) txTime tenantID (entry_json entry))) (\<lambda>sv. case sv of
           Inl _ \<Rightarrow> failI StoreEntryFailed
         | Inr _ \<Rightarrow> returnI (entry, x))) w))"

text \<open>
  A transaction: the body works on the tables and says whether to commit; without a commit, or when
  it fails, the tables are as they were.
\<close>

definition run_tx :: "IngestEnv \<Rightarrow> (DB \<Rightarrow> time \<Rightarrow> (bool \<times> IngestResult) ing) \<Rightarrow> IngestResult ing" where
  "run_tx env body w =
     (let n = iwStep w; w0 = w\<lparr>iwStep := Suc n\<rparr> in
      if ixFails env n then (w0, Inl TxBeginFailed)
      else case body (iwDB w) (ixTxTime env n) w0 of
        (w1, Inl e) \<Rightarrow> (w1\<lparr>iwDB := iwDB w\<rparr>, Inl e)
      | (w1, Inr (commit, res)) \<Rightarrow>
          if \<not> commit then (w1\<lparr>iwDB := iwDB w\<rparr>, Inr res)
          else if ixFails env (iwStep w1) then (w1\<lparr>iwDB := iwDB w, iwStep := Suc (iwStep w1)\<rparr>, Inl TxCommitFailed)
          else (w1\<lparr>iwStep := Suc (iwStep w1)\<rparr>, Inr res))"

definition prescribe_body ::
  "IngestEnv \<Rightarrow> IngestService \<Rightarrow> string \<Rightarrow> PrescribeRequest \<Rightarrow> DB \<Rightarrow> time \<Rightarrow> (bool \<times> IngestResult) ing" where
  "prescribe_body env s tenantID req committed txTime =
     (let claim = enClaim (prEnvelope req); source = claimSource s claim in
      bindI (claimIfNeeded env tenantID source claim) (\<lambda>dup.
        if dup then bindI (loadDuplicateResult env s tenantID source claim duplicate_prescribe) (\<lambda>res. returnI (False, res))
        else bindI (saveEntry env txTime tenantID (buildPrescribeEntry env s req)) (\<lambda>(entry, risk).
          bindI (finalizeClaim env tenantID source claim (EntryID entry) risk) (\<lambda>_.
            returnI (True, \<lparr>irDuplicate = False, irEntryID = EntryID entry, irEffectiveRisk = risk,
              irPrescriptionID = EntryID entry, irEntry = Some entry\<rparr>)))))"

definition Ingest_Prescribe :: "IngestEnv \<Rightarrow> IngestService \<Rightarrow> string \<Rightarrow> PrescribeRequest \<Rightarrow> IngestResult ing" where
  "Ingest_Prescribe env s tenantID req =
     (if isSigner s = None then failI SignerMissing
      else if ValidatePrescribeRequest req \<noteq> [] then failI (RequestInvalid (ValidatePrescribeRequest req))
      else run_tx env (prescribe_body env s tenantID (req\<lparr>prEnvelope := trim_envelope (prEnvelope req)\<rparr>)))"

definition report_body ::
  "IngestEnv \<Rightarrow> IngestService \<Rightarrow> string \<Rightarrow> ReportRequest \<Rightarrow> DB \<Rightarrow> time \<Rightarrow> (bool \<times> IngestResult) ing" where
  "report_body env s tenantID req committed txTime =
     (let claim = enClaim (rrEnvelope req); source = claimSource s claim in
      bindI (claimIfNeeded env tenantID source claim) (\<lambda>dup.
        if dup then bindI (loadDuplicateResult env s tenantID source claim duplicate_report) (\<lambda>res. returnI (False, res))
        else bindI (liftI (buildReportPayloadState req)) (\<lambda>(payload, prescriptionID).
          let soft = (isLegacyFallback s \<and> reportUsesSoftResolution req) in
          bindI (resolvePrescriptionForReport env committed tenantID prescriptionID soft) (\<lambda>p.
          bindI (saveEntry env txTime tenantID (\<lambda>n h. bindE (buildReportEntry env s req payload p soft n h) (\<lambda>e. Inr (e, ())))) (\<lambda>(entry, _).
          bindI (finalizeClaim env tenantID source claim (EntryID entry) []) (\<lambda>_.
            returnI (True, \<lparr>irDuplicate = False, irEntryID = EntryID entry, irEffectiveRisk = [], irPrescriptionID = [],
              irEntry = Some entry\<rparr>)))))))"

definition Ingest_Report :: "IngestEnv \<Rightarrow> IngestService \<Rightarrow> string \<Rightarrow> ReportRequest \<Rightarrow> IngestResult ing" where
  "Ingest_Report env s tenantID req =
     (if isSigner s = None then failI SignerMissing
      else if ValidateReportRequest req \<noteq> [] then failI (RequestInvalid (ValidateReportRequest req))
      else run_tx env (report_body env s tenantID (req\<lparr>rrEnvelope := trim_envelope (rrEnvelope req)\<rparr>)))"

end
