(* ===== verification/Ingest_Facts.thy ===== *)
theory Ingest_Facts
  imports Ingest
begin

text \<open>
  What a request to the ingest service does to the tables: nothing, or one row and one claim more
  (\<open>committed\<close>); and the invariant of a tenant's rows, that they are a valid chain (\<open>tenant_ok\<close>).
\<close>

section \<open>Steps\<close>

lemma bindI_Inr: "bindI m f w = (w', Inr y) \<longleftrightarrow> (\<exists>w1 x. m w = (w1, Inr x) \<and> f x w1 = (w', Inr y))"
  by (auto simp: bindI_def split: prod.splits sum.splits)

lemma ing_Inr [simp]:
  "returnI x w = (w', Inr y) \<longleftrightarrow> w' = w \<and> y = x" "failI e w = (w', Inr y) \<longleftrightarrow> False"
  "liftI r w = (w', Inr y) \<longleftrightarrow> w' = w \<and> r = Inr y"
  by (auto simp: returnI_def failI_def liftI_def)

text \<open>A call whose failure fails the operation.\<close>

lemma txcall_bind:
  "bindI (txcall env q) (case_sum (\<lambda>e. failI (F e)) g) w = (w', Inr y) \<longleftrightarrow>
    (\<exists>v db. \<not> ixFails env (iwStep w) \<and> q (iwDB w) = (db, Inr v) \<and> g v \<lparr>iwDB = db, iwStep = Suc (iwStep w)\<rparr> = (w', Inr y))"
  by (cases w) (auto simp: bindI_def txcall_def failI_def Let_def split: prod.splits sum.splits)

lemma liftI_bind: "bindI (liftI r) f w = (w', Inr y) \<longleftrightarrow> (\<exists>x. r = Inr x \<and> f x w = (w', Inr y))"
  by (cases r) (auto simp: bindI_def liftI_def)

lemma storecall_bind: "bindI (storecall env c q) f w =
    f (if ixFails env (iwStep w) then Inl QueryFailed else snd (q c)) (w\<lparr>iwStep := Suc (iwStep w)\<rparr>)"
  by (simp add: bindI_def storecall_def Let_def)

lemma resolve_Inr:
  "resolvePrescriptionForReport env c t pid soft w = (w', Inr p) \<Longrightarrow> w' = w\<lparr>iwStep := Suc (iwStep w)\<rparr> \<and>
    (p \<in> set (dbEntries c) \<and> rwTenantID p = t \<and> rwID p = pid \<and> rwEntryType p = EntryTypePrescribe \<or> soft \<and> p = bare_row pid)"
  by (auto simp: resolvePrescriptionForReport_def storecall_bind GetEntry_def find_Some_iff
      split: sum.splits DBError.splits if_splits option.splits)

section \<open>Rows\<close>

lemma envelope_written [simp]:
  "envelope_field ''entry_id'' (entry_json e) = EntryID e" "envelope_field ''type'' (entry_json e) = Type e"
  "envelope_field ''hash'' (entry_json e) = Hash e" "envelope_field ''session_id'' (entry_json e) = SessionID e"
  "envelope_field ''operation_id'' (entry_json e) = OperationID e"
  by (simp_all add: envelope_field_def entry_json_def json_simps map_filter_simps)

lemma raw_row_written [simp]:
  "rwHash (raw_row u t tenant (entry_json e)) = Hash e" "rwPayload (raw_row u t tenant j) = j"
  "rwCreatedAt (raw_row u t tenant j) = t" "rwTenantID (raw_row u t tenant j) = tenant"
  "EntryID e \<noteq> [] \<Longrightarrow> rwID (raw_row u t tenant (entry_json e)) = EntryID e"
  "rwEntryType (raw_row u t tenant (entry_json e)) = (if Type e = [] then ''raw'' else Type e)"
  "rwSessionID (raw_row u t tenant (entry_json e)) = SessionID e"
  by (simp_all add: raw_row_def Let_def)

definition head_hash :: "string \<Rightarrow> DB \<Rightarrow> string" where
  "head_hash tenantID db = (case newest_row (tenant_rows tenantID db) of None \<Rightarrow> [] | Some r \<Rightarrow> rwHash r)"

lemma newest_snoc:
  "newest_row (rows @ [r]) = (case newest_row rows of None \<Rightarrow> Some r | Some b \<Rightarrow> if row_after r b then Some r else Some b)"
  by (cases "newest_row rows") (simp_all add: newest_row_def)

lemma newest_last:
  "rows \<noteq> [] \<Longrightarrow> sorted_wrt (\<lambda>a b. rwCreatedAt a < rwCreatedAt b) rows \<Longrightarrow> newest_row rows = Some (last rows)"
proof (induction rows rule: rev_induct)
  case (snoc r rows)
  show ?case
  proof (cases "rows = []")
    case False
    then have "newest_row rows = Some (last rows)" using snoc by (simp add: sorted_wrt_append)
    moreover have "rwCreatedAt (last rows) < rwCreatedAt r" using snoc.prems(2) False by (simp add: sorted_wrt_append)
    ultimately show ?thesis by (simp add: newest_snoc row_after_def)
  qed (simp add: newest_row_def)
qed simp

section \<open>A committed entry\<close>

definition committed_entry ::
  "string \<Rightarrow> string \<Rightarrow> Claim option \<Rightarrow> time \<Rightarrow> EvidenceEntry \<Rightarrow> string \<Rightarrow> DB \<Rightarrow> DB \<Rightarrow> bool" where
  "committed_entry tenantID source claim txTime entry risk db db' \<longleftrightarrow>
     (\<exists>u. dbEntries db' = dbEntries db @ [raw_row u txTime tenantID (entry_json entry)] \<and>
        rwID (raw_row u txTime tenantID (entry_json entry)) \<notin> rwID ` set (dbEntries db)) \<and>
     (if hasMeaningfulClaim claim
      then dbEvents db (tenantID, source, claim_key claim) = None \<and>
        (\<exists>p. dbEvents db' = (dbEvents db)((tenantID, source, claim_key claim) \<mapsto>
           \<lparr>wePayload = p, weEntryID = Some (EntryID entry), weEffectiveRisk = Some risk\<rparr>))
      else dbEvents db' = dbEvents db)"

lemma claim_False:
  "claimIfNeeded env t source claim w = (w', Inr False) \<Longrightarrow> dbEntries (iwDB w') = dbEntries (iwDB w) \<and> iwStep w \<le> iwStep w' \<and>
    (if hasMeaningfulClaim claim then dbEvents (iwDB w) (t, source, claim_key claim) = None \<and>
       (\<exists>p. dbEvents (iwDB w') = (dbEvents (iwDB w))((t, source, claim_key claim) \<mapsto>
          \<lparr>wePayload = p, weEntryID = None, weEffectiveRisk = None\<rparr>))
     else iwDB w' = iwDB w)"
  by (cases claim) (auto simp: claimIfNeeded_def txcall_bind claim_statement_def ClaimWebhookEvent_def
      split: if_splits raw_json.splits option.splits)

lemma claim_True:
  "claimIfNeeded env t source claim w = (w', Inr True) \<Longrightarrow> hasMeaningfulClaim claim \<and>
    dbEvents (iwDB w) (t, source, claim_key claim) \<noteq> None \<and> iwDB w' = iwDB w \<and> iwStep w' = Suc (iwStep w)"
  by (cases claim) (auto simp: claimIfNeeded_def txcall_bind claim_statement_def ClaimWebhookEvent_def
      split: if_splits raw_json.splits option.splits)

lemma saveEntry_Inr:
  assumes "saveEntry env txTime t build w = (w', Inr (entry, x))"
  shows "\<exists>n. build n (head_hash t (iwDB w)) = Inr (entry, x)" "iwStep w \<le> iwStep w'" "dbEvents (iwDB w') = dbEvents (iwDB w)"
    "\<exists>u. dbEntries (iwDB w') = dbEntries (iwDB w) @ [raw_row u txTime t (entry_json entry)] \<and>
       rwID (raw_row u txTime t (entry_json entry)) \<notin> rwID ` set (dbEntries (iwDB w))"
  using assms
  by (auto simp: saveEntry_def txcall_bind liftI_bind LastHash_def head_hash_def SaveRaw_def insert_row_def
      split: if_splits prod.splits)

lemma finalize_Inr:
  "finalizeClaim env t source claim i risk w = (w', Inr ()) \<Longrightarrow> dbEntries (iwDB w') = dbEntries (iwDB w) \<and> iwStep w \<le> iwStep w' \<and>
    (if hasMeaningfulClaim claim
     then (\<exists>ev. dbEvents (iwDB w) (t, source, claim_key claim) = Some ev \<and>
       dbEvents (iwDB w') = (dbEvents (iwDB w))((t, source, claim_key claim) \<mapsto> ev\<lparr>weEntryID := Some i, weEffectiveRisk := Some risk\<rparr>))
     else iwDB w' = iwDB w)"
  by (auto simp: finalizeClaim_def txcall_bind FinalizeWebhookEvent_def split: if_splits option.splits)

lemma commit_compose:
  assumes "claimIfNeeded env t source claim w = (w1, Inr False)" "iwDB w1' = iwDB w1"
    and "saveEntry env txTime t build w1' = (w2, Inr (entry, x))"
    and "finalizeClaim env t source claim (EntryID entry) risk w2 = (w3, Inr ())"
  shows "committed_entry t source claim txTime entry risk (iwDB w) (iwDB w3) \<and>
    (\<exists>n. build n (head_hash t (iwDB w)) = Inr (entry, x))"
proof -
  note c = claim_False [OF assms(1)] and s = saveEntry_Inr [OF assms(3)] and f = finalize_Inr [OF assms(4)]
  have "head_hash t (iwDB w1') = head_hash t (iwDB w)"
    using c assms(2) by (simp add: head_hash_def tenant_rows_def)
  with s(1) have b: "\<exists>n. build n (head_hash t (iwDB w)) = Inr (entry, x)" by simp
  show ?thesis
  proof (cases "hasMeaningfulClaim claim")
    case True
    then obtain p where p: "dbEvents (iwDB w) (t, source, claim_key claim) = None"
      "dbEvents (iwDB w1) = (dbEvents (iwDB w))((t, source, claim_key claim) \<mapsto> \<lparr>wePayload = p, weEntryID = None, weEffectiveRisk = None\<rparr>)"
      using c by auto
    have "dbEvents (iwDB w2) = dbEvents (iwDB w1)" using s(3) assms(2) by simp
    then have "dbEvents (iwDB w3) = (dbEvents (iwDB w))((t, source, claim_key claim) \<mapsto>
        \<lparr>wePayload = p, weEntryID = Some (EntryID entry), weEffectiveRisk = Some risk\<rparr>)"
      using f True p by auto
    then show ?thesis using b p(1) True s(4) c f assms(2) by (auto simp: committed_entry_def)
  next
    case False
    then show ?thesis using b s(3,4) c f assms(2) by (auto simp: committed_entry_def)
  qed
qed

section \<open>The two operations\<close>

lemma run_tx_cases:
  assumes "run_tx env body w = (w', r)"
  shows "(iwDB w' = iwDB w \<and> ((\<exists>e. r = Inl e) \<or> (\<exists>w1 res. body (iwDB w) (ixTxTime env (iwStep w)) (w\<lparr>iwStep := Suc (iwStep w)\<rparr>) = (w1, Inr (False, res)) \<and> r = Inr res))) \<or>
    (\<exists>w1 res. body (iwDB w) (ixTxTime env (iwStep w)) (w\<lparr>iwStep := Suc (iwStep w)\<rparr>) = (w1, Inr (True, res)) \<and> r = Inr res \<and> iwDB w' = iwDB w1)"
  using assms by (auto simp: run_tx_def Let_def split: if_splits prod.splits sum.splits bool.splits)

lemma fail_cases: "case_DBError (failI a) (failI b) = (\<lambda>e. failI (case e of QueryFailed \<Rightarrow> a | ErrNotFound \<Rightarrow> b))"
  by (rule ext) (simp split: DBError.split)

text \<open>A duplicate: the result recorded with the claim, on the entry it names.\<close>

lemma duplicate_Inr:
  assumes "loadDuplicateResult env s t source claim build w = (w', Inr res)" "hasMeaningfulClaim claim"
  shows "\<exists>ev. dbEvents (iwDB w) (t, source, claim_key claim) = Some ev \<and>
    (if TrimSpace (coalesce (weEntryID ev)) = []
     then isLegacyFallback s \<and> res = \<lparr>irDuplicate = True, irEntryID = [], irEffectiveRisk = [], irPrescriptionID = [], irEntry = None\<rparr>
     else \<exists>row e. find (\<lambda>r. rwID r = coalesce (weEntryID ev) \<and> rwTenantID r = t) (dbEntries (iwDB w)) = Some row \<and>
       unmarshal_entry (rwPayload row) = Some e \<and>
       res = (build e)\<lparr>irEntryID := coalesce (weEntryID ev), irEffectiveRisk := coalesce (weEffectiveRisk ev)\<rparr>)"
  using assms
  by (auto simp: loadDuplicateResult_def txcall_bind fail_cases GetWebhookEventResult_def GetEntry_def
      split: if_splits option.splits)

lemma duplicate_flag:
  "loadDuplicateResult env s t source claim build w = (w', Inr res) \<Longrightarrow> (\<And>e. irDuplicate (build e)) \<Longrightarrow> irDuplicate res"
proof (cases "hasMeaningfulClaim claim")
  case True
  then show "loadDuplicateResult env s t source claim build w = (w', Inr res) \<Longrightarrow> (\<And>e. irDuplicate (build e)) \<Longrightarrow> irDuplicate res"
    by (auto dest!: duplicate_Inr split: if_splits)
qed (simp add: loadDuplicateResult_def)

lemma duplicate_builds: "irDuplicate (duplicate_prescribe e)" "irDuplicate (duplicate_report e)"
  by (simp_all add: duplicate_prescribe_def duplicate_report_def)

lemma prescribe_body_Inr:
  assumes "prescribe_body env s t req c txTime w = (w', Inr (commit, res))"
  shows "if commit
    then (\<exists>n entry risk. buildPrescribeEntry env s req n (head_hash t (iwDB w)) = Inr (entry, risk) \<and>
      committed_entry t (claimSource s (enClaim (prEnvelope req))) (enClaim (prEnvelope req)) txTime entry risk (iwDB w) (iwDB w') \<and>
      res = \<lparr>irDuplicate = False, irEntryID = EntryID entry, irEffectiveRisk = risk, irPrescriptionID = EntryID entry, irEntry = Some entry\<rparr>)
    else irDuplicate res"
proof -
  let ?claim = "enClaim (prEnvelope req)"
  let ?source = "claimSource s ?claim"
  obtain w1 dup where c: "claimIfNeeded env t ?source ?claim w = (w1, Inr dup)"
    using assms by (auto simp: prescribe_body_def bindI_Inr Let_def)
  show ?thesis
  proof (cases dup)
    case True
    then show ?thesis
      using assms c by (auto simp: prescribe_body_def bindI_Inr Let_def duplicate_builds dest!: duplicate_flag)
  next
    case False
    with assms c obtain w2 entry risk w3 where
      "saveEntry env txTime t (buildPrescribeEntry env s req) w1 = (w2, Inr (entry, risk))"
      "finalizeClaim env t ?source ?claim (EntryID entry) risk w2 = (w3, Inr ())" "w' = w3" "commit"
      "res = \<lparr>irDuplicate = False, irEntryID = EntryID entry, irEffectiveRisk = risk, irPrescriptionID = EntryID entry, irEntry = Some entry\<rparr>"
      by (auto simp: prescribe_body_def bindI_Inr Let_def)
    with commit_compose [OF _ refl, of env t ?source ?claim w w1 txTime "buildPrescribeEntry env s req" w2 entry risk risk w3] c False
    show ?thesis by auto
  qed
qed

lemma report_body_Inr:
  assumes "report_body env s t req c txTime w = (w', Inr (commit, res))"
  shows "if commit
    then (\<exists>n entry payload pid p. buildReportPayloadState req = Inr (payload, pid) \<and>
      (p \<in> set (dbEntries c) \<and> rwTenantID p = t \<and> rwID p = pid \<and> rwEntryType p = EntryTypePrescribe \<or>
       isLegacyFallback s \<and> reportUsesSoftResolution req \<and> p = bare_row pid) \<and>
      buildReportEntry env s req payload p (isLegacyFallback s \<and> reportUsesSoftResolution req) n (head_hash t (iwDB w)) = Inr entry \<and>
      committed_entry t (claimSource s (enClaim (rrEnvelope req))) (enClaim (rrEnvelope req)) txTime entry [] (iwDB w) (iwDB w') \<and>
      res = \<lparr>irDuplicate = False, irEntryID = EntryID entry, irEffectiveRisk = [], irPrescriptionID = [], irEntry = Some entry\<rparr>)
    else irDuplicate res"
proof -
  let ?claim = "enClaim (rrEnvelope req)"
  let ?source = "claimSource s ?claim" and ?soft = "isLegacyFallback s \<and> reportUsesSoftResolution req"
  obtain w1 dup where c: "claimIfNeeded env t ?source ?claim w = (w1, Inr dup)"
    using assms by (auto simp: report_body_def bindI_Inr Let_def)
  show ?thesis
  proof (cases dup)
    case True
    then show ?thesis
      using assms c by (auto simp: report_body_def bindI_Inr Let_def duplicate_builds dest!: duplicate_flag)
  next
    case False
    with assms c obtain payload pid w1' p w2 entry w3 where r:
      "buildReportPayloadState req = Inr (payload, pid)" "resolvePrescriptionForReport env c t pid ?soft w1 = (w1', Inr p)"
      "saveEntry env txTime t (\<lambda>n h. bindE (buildReportEntry env s req payload p ?soft n h) (\<lambda>e. Inr (e, ()))) w1' = (w2, Inr (entry, ()))"
      "finalizeClaim env t ?source ?claim (EntryID entry) [] w2 = (w3, Inr ())" "w' = w3" "commit"
      "res = \<lparr>irDuplicate = False, irEntryID = EntryID entry, irEffectiveRisk = [], irPrescriptionID = [], irEntry = Some entry\<rparr>"
      by (auto simp: report_body_def bindI_Inr Let_def)
    note p = resolve_Inr [OF r(2)]
    have "claimIfNeeded env t ?source ?claim w = (w1, Inr False)" using c False by simp
    from commit_compose [OF this _ r(3,4)] r p show ?thesis by auto
  qed
qed

end
