(* ===== verification/Ingest_Chain.thy ===== *)
theory Ingest_Chain
  imports Ingest_Facts Signal_Protocol Chain
begin

text \<open>
  What one request to the ingest service leaves in the tables: nothing, or one signed row at the head of
  the tenant's chain; and what any sequence of requests keeps of the chains.
\<close>

section \<open>One request\<close>

datatype ingest_request = IngestPrescribing PrescribeRequest | IngestReporting ReportRequest

definition request_envelope :: "ingest_request \<Rightarrow> Envelope" where
  "request_envelope rq = (case rq of IngestPrescribing r \<Rightarrow> prEnvelope r | IngestReporting r \<Rightarrow> rrEnvelope r)"

definition ingest :: "IngestEnv \<Rightarrow> IngestService \<times> string \<times> ingest_request \<Rightarrow> IngestWorld \<Rightarrow> IngestWorld \<times> (IngestError + IngestResult)" where
  "ingest env rq w = (case rq of
     (s, t, IngestPrescribing r) \<Rightarrow> Ingest_Prescribe env s t r w
   | (s, t, IngestReporting r) \<Rightarrow> Ingest_Report env s t r w)"

definition ingest_all :: "IngestEnv \<Rightarrow> (IngestService \<times> string \<times> ingest_request) list \<Rightarrow> IngestWorld \<Rightarrow> IngestWorld" where
  "ingest_all env rqs w = fold (\<lambda>rq w. fst (ingest env rq w)) rqs w"

subsection \<open>Steps are counted\<close>

definition counts_up :: "'a ing \<Rightarrow> bool" where
  "counts_up m \<longleftrightarrow> (\<forall>w. iwStep w \<le> iwStep (fst (m w)))"

named_theorems counting \<open>operations that count their steps\<close>

lemma counts_bind [counting]: "counts_up m \<Longrightarrow> (\<And>x. counts_up (f x)) \<Longrightarrow> counts_up (bindI m f)"
  unfolding counts_up_def
proof (rule allI)
  fix w assume m: "\<forall>w. iwStep w \<le> iwStep (fst (m w))" and f: "\<And>x. \<forall>w. iwStep w \<le> iwStep (fst (f x w))"
  obtain w1 r where w1: "m w = (w1, r)" by (cases "m w")
  then have "iwStep w \<le> iwStep w1" using m by (metis fst_conv)
  then show "iwStep w \<le> iwStep (fst (bindI m f w))"
    using f w1 by (cases r) (auto simp: bindI_def intro: order_trans)
qed

lemma counts_basic [counting]: "counts_up (returnI x)" "counts_up (failI e)" "counts_up (liftI r)"
  "counts_up (txcall env q)" "counts_up (storecall env c q)"
  by (auto simp: counts_up_def returnI_def failI_def liftI_def txcall_def storecall_def Let_def split: prod.splits)

lemma counts_at: "(\<And>n. counts_up (m n)) \<Longrightarrow> counts_up (\<lambda>w. m (iwStep w) w)"
  by (simp add: counts_up_def)

lemma counts_save [counting]: "counts_up (saveEntry env tx t build)"
  unfolding saveEntry_def
  by (intro counting) (auto split: sum.splits intro!: counting counts_at [where m = "\<lambda>n. bindI (liftI (build n _)) (\<lambda>(entry, x).
         bindI (txcall env (SaveRaw (ixFresh env n) tx t (entry_json entry))) (\<lambda>sv. case sv of
           Inl _ \<Rightarrow> failI StoreEntryFailed | Inr _ \<Rightarrow> returnI (entry, x)))"])

lemma counts_claim [counting]: "counts_up (claimIfNeeded env t source claim)" "counts_up (finalizeClaim env t source claim i r)"
  "counts_up (loadDuplicateResult env s t source claim build)" "counts_up (resolvePrescriptionForReport env c t pid soft)"
  unfolding claimIfNeeded_def finalizeClaim_def loadDuplicateResult_def resolvePrescriptionForReport_def
  by (auto split: sum.splits option.splits DBError.splits intro!: counting)

lemma counts_body: "counts_up (prescribe_body env s t r c tx)" "counts_up (report_body env s t r' c tx)"
  unfolding prescribe_body_def report_body_def Let_def
  by (auto split: sum.splits prod.splits intro!: counting)

lemma run_tx_steps: "(\<And>c tx. counts_up (body c tx)) \<Longrightarrow> run_tx env body w = (w', r) \<Longrightarrow> Suc (iwStep w) \<le> iwStep w'"
proof -
  assume b: "\<And>c tx. counts_up (body c tx)" and run: "run_tx env body w = (w', r)"
  let ?w0 = "w\<lparr>iwStep := Suc (iwStep w)\<rparr>"
  obtain w1 q where w1: "body (iwDB w) (ixTxTime env (iwStep w)) ?w0 = (w1, q)"
    by (cases "body (iwDB w) (ixTxTime env (iwStep w)) ?w0")
  have "iwStep ?w0 \<le> iwStep (fst (body (iwDB w) (ixTxTime env (iwStep w)) ?w0))" using b unfolding counts_up_def by blast
  then have "Suc (iwStep w) \<le> iwStep w1" by (simp add: w1)
  then show ?thesis using run w1
    by (cases q) (auto simp: run_tx_def Let_def split: if_splits prod.splits)
qed

subsection \<open>What a request leaves\<close>

definition signed_entry :: "IngestEnv \<Rightarrow> string \<Rightarrow> Envelope \<Rightarrow> EvidenceEntry \<Rightarrow> bool" where
  "signed_entry env h e entry \<longleftrightarrow> PreviousHash entry = h \<and> computeEntryHash (ixDigest env) entry = Some (Hash entry) \<and>
     ScopeDimensions entry = enScopeDimensions e"

lemma case_sum_Inr [simp]:
  "(case r of Inl b \<Rightarrow> Inl (E b) | Inr e \<Rightarrow> Inr (f e)) = Inr y \<longleftrightarrow> (\<exists>e. r = Inr e \<and> y = f e)"
  by (cases r) auto

lemma BuildEntry_fields:
  assumes "BuildEntry digest now u p = Inr e"
  shows "PreviousHash e = bpPreviousHash p \<and> computeEntryHash digest e = Some (Hash e) \<and> ScopeDimensions e = bpScopeDimensions p \<and>
    Type e = bpType p \<and> Payload e = bpPayload p \<and> SessionID e = bpSessionID p \<and> EntryID e = (if bpEntryID p = [] then u else bpEntryID p)"
proof -
  have "ScopeDimensions e = bpScopeDimensions p"
    using assms by (auto simp: BuildEntry_def Let_def split: option.splits if_splits sum.splits)
  with BuildEntry_Inr [OF assms] show ?thesis by simp
qed

lemma prescribe_entry_signed:
  assumes "buildPrescribeEntry env s req n h = Inr (entry, risk)"
  shows "signed_entry env h (prEnvelope req) entry"
    "\<exists>payload action. buildPrescribePayload (ixHashes env) (ixFresh env n) (isPipeline s) req = Inr (payload, action) \<and>
       Payload entry = prescription_json payload \<and> risk = ppEffectiveRisk payload \<and> Type entry = EntryTypePrescribe \<and>
       (ppPrescriptionID payload \<noteq> [] \<longrightarrow> EntryID entry = ppPrescriptionID payload)"
  using assms by (auto simp: buildPrescribeEntry_def Let_def signed_entry_def dest!: BuildEntry_fields)

lemma report_entry_signed:
  assumes "buildReportEntry env s req payload p soft n h = Inr entry"
  shows "signed_entry env h (rrEnvelope req) entry" "EntryID entry = ixFresh env n" "Type entry = EntryTypeReport"
    "Payload entry = report_json (payload\<lparr>rpReportID := ixFresh env n\<rparr>)"
    "soft \<or> SessionID entry = [] \<or> TrimSpace (rwSessionID p) = [] \<or> SessionID entry = TrimSpace (rwSessionID p)"
  using assms by (auto simp: buildReportEntry_def Let_def signed_entry_def split: if_splits dest!: BuildEntry_fields)

lemma prescribe_id:
  assumes "buildPrescribePayload h fresh pipeline req = Inr (payload, action)" "TrimSpace fresh \<noteq> []"
  shows "TrimSpace (ppPrescriptionID payload) \<noteq> []"
proof -
  from assms(1) obtain src where "prescribe_source h req = Inr src" by (auto simp: buildPrescribePayload_def)
  then obtain p0 a eid where src: "prescribe_source h req = Inr (p0, a, eid)" by (cases src) simp
  with assms(1) obtain res where "payload = fill_payload req (if TrimSpace eid = [] then fresh else eid) a res p0"
    by (auto simp: buildPrescribePayload_def Let_def)
  then have "ppPrescriptionID payload = (if TrimSpace eid = [] then fresh else eid)" by (simp add: fill_payload_def)
  with assms(2) show ?thesis by simp
qed

text \<open>The ids that the surroundings provide are not blank.\<close>

definition sound_env :: "IngestEnv \<Rightarrow> bool" where
  "sound_env env \<longleftrightarrow> (\<forall>n. TrimSpace (ixFresh env n) \<noteq> [])"

lemma prescribe_entry_id:
  assumes "buildPrescribeEntry env s req n h = Inr (entry, risk)" "sound_env env"
  shows "TrimSpace (EntryID entry) \<noteq> []"
proof -
  obtain payload action where p: "buildPrescribePayload (ixHashes env) (ixFresh env n) (isPipeline s) req = Inr (payload, action)"
    "ppPrescriptionID payload \<noteq> [] \<longrightarrow> EntryID entry = ppPrescriptionID payload"
    using prescribe_entry_signed(2) [OF assms(1)] by blast
  have "TrimSpace (ppPrescriptionID payload) \<noteq> []"
    using prescribe_id [OF p(1)] assms(2) by (simp add: sound_env_def)
  with p(2) show ?thesis by force
qed

lemma trim_envelope_simps [simp]:
  "enClaim (trim_envelope e) = enClaim e" "enScopeDimensions (trim_envelope e) = enScopeDimensions e"
  "enEvidence (trim_envelope e) = enEvidence e" "enFlavor (trim_envelope e) = enFlavor e" "enSource (trim_envelope e) = enSource e"
  by (simp_all add: trim_envelope_def)

definition request_claim :: "ingest_request \<Rightarrow> Claim option" where
  "request_claim rq = enClaim (request_envelope rq)"

text \<open>Scope dimensions are maps.\<close>

definition map_dims :: "ingest_request \<Rightarrow> bool" where
  "map_dims rq \<longleftrightarrow> distinct (map fst (enScopeDimensions (request_envelope rq)))"

lemma ingest_cases:
  assumes "ingest env (s, t, rq) w = (w', r)" "sound_env env"
  obtains (same) "iwDB w' = iwDB w" "iwStep w \<le> iwStep w'" "\<And>res. r = Inr res \<Longrightarrow> irDuplicate res"
  | (added) entry risk res where "r = Inr res" "\<not> irDuplicate res" "irEntryID res = EntryID entry" "irEffectiveRisk res = risk"
      "irEntry res = Some entry" "iwStep w < iwStep w'" "TrimSpace (EntryID entry) \<noteq> []"
      "committed_entry t (claimSource s (request_claim rq)) (request_claim rq) (ixTxTime env (iwStep w)) entry risk (iwDB w) (iwDB w')"
      "signed_entry env (head_hash t (iwDB w)) (request_envelope rq) entry"
proof (cases rq)
  case (IngestPrescribing req)
  let ?req = "req\<lparr>prEnvelope := trim_envelope (prEnvelope req)\<rparr>"
  show thesis
  proof (cases "isSigner s = None \<or> ValidatePrescribeRequest req \<noteq> []")
    case True
    then have "w' = w \<and> (\<exists>e. r = Inl e)"
      using assms(1) by (auto simp: ingest_def IngestPrescribing Ingest_Prescribe_def failI_def split: if_splits)
    with same show thesis by auto
  next
    case False
    then have run: "run_tx env (prescribe_body env s t ?req) w = (w', r)"
      using assms(1) by (auto simp: ingest_def IngestPrescribing Ingest_Prescribe_def split: if_splits)
    have steps: "Suc (iwStep w) \<le> iwStep w'" by (rule run_tx_steps [OF counts_body(1) run])
    from run_tx_cases [OF run] show thesis
    proof (elim disjE exE conjE)
      fix w1 res
      assume b: "prescribe_body env s t ?req (iwDB w) (ixTxTime env (iwStep w)) (w\<lparr>iwStep := Suc (iwStep w)\<rparr>) = (w1, Inr (True, res))"
        and r: "r = Inr res" "iwDB w' = iwDB w1"
      from prescribe_body_Inr [OF b] obtain n entry risk where e:
        "buildPrescribeEntry env s ?req n (head_hash t (iwDB w)) = Inr (entry, risk)"
        "committed_entry t (claimSource s (request_claim rq)) (request_claim rq) (ixTxTime env (iwStep w)) entry risk (iwDB w) (iwDB w')"
        "res = \<lparr>irDuplicate = False, irEntryID = EntryID entry, irEffectiveRisk = risk, irPrescriptionID = EntryID entry, irEntry = Some entry\<rparr>"
        using r(2) by (auto simp: request_claim_def request_envelope_def IngestPrescribing)
      have "TrimSpace (EntryID entry) \<noteq> []"
        using prescribe_entry_id [OF e(1) assms(2)] .
      with e r(1) steps prescribe_entry_signed(1) [OF e(1)] show thesis
        by (intro added) (auto simp: request_envelope_def IngestPrescribing signed_entry_def)
    next
      fix e assume "iwDB w' = iwDB w" "r = Inl e"
      with steps show thesis by (intro same) auto
    next
      fix w1 res assume "iwDB w' = iwDB w" "r = Inr res"
        "prescribe_body env s t ?req (iwDB w) (ixTxTime env (iwStep w)) (w\<lparr>iwStep := Suc (iwStep w)\<rparr>) = (w1, Inr (False, res))"
      with steps prescribe_body_Inr [OF this(3)] show thesis by (intro same) auto
    qed
  qed
next
  case (IngestReporting req)
  let ?req = "req\<lparr>rrEnvelope := trim_envelope (rrEnvelope req)\<rparr>"
  show thesis
  proof (cases "isSigner s = None \<or> ValidateReportRequest req \<noteq> []")
    case True
    then have "w' = w \<and> (\<exists>e. r = Inl e)"
      using assms(1) by (auto simp: ingest_def IngestReporting Ingest_Report_def failI_def split: if_splits)
    with same show thesis by auto
  next
    case False
    then have run: "run_tx env (report_body env s t ?req) w = (w', r)"
      using assms(1) by (auto simp: ingest_def IngestReporting Ingest_Report_def split: if_splits)
    have steps: "Suc (iwStep w) \<le> iwStep w'" by (rule run_tx_steps [OF counts_body(2) run])
    from run_tx_cases [OF run] show thesis
    proof (elim disjE exE conjE)
      fix w1 res
      assume b: "report_body env s t ?req (iwDB w) (ixTxTime env (iwStep w)) (w\<lparr>iwStep := Suc (iwStep w)\<rparr>) = (w1, Inr (True, res))"
        and r: "r = Inr res" "iwDB w' = iwDB w1"
      from report_body_Inr [OF b] obtain n entry payload p soft where e:
        "buildReportEntry env s ?req payload p soft n (head_hash t (iwDB w)) = Inr entry"
        "committed_entry t (claimSource s (request_claim rq)) (request_claim rq) (ixTxTime env (iwStep w)) entry [] (iwDB w) (iwDB w')"
        "res = \<lparr>irDuplicate = False, irEntryID = EntryID entry, irEffectiveRisk = [], irPrescriptionID = [], irEntry = Some entry\<rparr>"
        using r(2) by (auto simp: request_claim_def request_envelope_def IngestReporting)
      have "TrimSpace (EntryID entry) \<noteq> []" using report_entry_signed(2) [OF e(1)] assms(2) by (simp add: sound_env_def)
      with e r(1) steps report_entry_signed(1) [OF e(1)] show thesis
        by (intro added) (auto simp: request_envelope_def IngestReporting signed_entry_def)
    next
      fix e assume "iwDB w' = iwDB w" "r = Inl e"
      with steps show thesis by (intro same) auto
    next
      fix w1 res assume "iwDB w' = iwDB w" "r = Inr res"
        "report_body env s t ?req (iwDB w) (ixTxTime env (iwStep w)) (w\<lparr>iwStep := Suc (iwStep w)\<rparr>) = (w1, Inr (False, res))"
      with steps report_body_Inr [OF this(3)] show thesis by (intro same) auto
    qed
  qed
qed

section \<open>The chain of a tenant\<close>

definition holds_entry :: "StoredEntry \<Rightarrow> EvidenceEntry \<Rightarrow> bool" where
  "holds_entry r e \<longleftrightarrow> rwPayload r = entry_json e \<and> rwHash r = Hash e \<and> distinct (map fst (ScopeDimensions e))"

definition tenant_ok :: "IngestEnv \<Rightarrow> string \<Rightarrow> IngestWorld \<Rightarrow> bool" where
  "tenant_ok env t w \<longleftrightarrow> (let rows = tenant_rows t (iwDB w) in
     (\<exists>es. list_all2 holds_entry rows es \<and> chain_ok (ixDigest env) [] es) \<and>
     sorted_wrt (\<lambda>a b. rwCreatedAt a < rwCreatedAt b) rows \<and>
     (\<forall>r\<in>set rows. \<exists>m<iwStep w. rwCreatedAt r = ixTxTime env m))"

lemma tenant_rows_committed:
  "committed_entry t source claim txTime entry risk db db' \<Longrightarrow>
    \<exists>u. tenant_rows t' db' = tenant_rows t' db @ (if t' = t then [raw_row u txTime t (entry_json entry)] else [])"
  by (auto simp: committed_entry_def tenant_rows_def)

lemma holds_last: "list_all2 P xs ys \<Longrightarrow> xs \<noteq> [] \<Longrightarrow> P (last xs) (last ys)"
  by (induction rule: list_all2_induct) (auto simp: list_all2_Nil)

lemma head_of_chain:
  assumes "list_all2 holds_entry (tenant_rows t db) es" "sorted_wrt (\<lambda>a b. rwCreatedAt a < rwCreatedAt b) (tenant_rows t db)"
  shows "head_hash t db = last_hash [] es"
proof (cases "tenant_rows t db = []")
  case True
  then show ?thesis using assms(1) by (simp add: head_hash_def newest_row_def)
next
  case False
  then have "newest_row (tenant_rows t db) = Some (last (tenant_rows t db))" using newest_last assms(2) by blast
  moreover have "es \<noteq> []" using False assms(1) by auto
  moreover have "holds_entry (last (tenant_rows t db)) (last es)"
    using assms(1) False by (metis holds_last)
  ultimately show ?thesis by (simp add: head_hash_def last_hash_snoc holds_entry_def)
qed

lemma ingest_step:
  assumes "ingest env (s, t, rq) w = (w', r)" "sound_env env" "map_dims rq" "\<forall>t. tenant_ok env t w"
    and "\<And>m. m < iwStep w \<Longrightarrow> ixTxTime env m < ixTxTime env (iwStep w)"
  shows "(\<forall>t. tenant_ok env t w') \<and> (\<exists>rows. dbEntries (iwDB w') = dbEntries (iwDB w) @ rows)"
  using assms(1,2)
proof (cases rule: ingest_cases)
  case same
  have "tenant_ok env t' w'" for t'
    using assms(4) same(1,2) order.strict_trans2 unfolding tenant_ok_def Let_def by metis
  with same(1) show ?thesis by simp
next
  case (added entry risk res)
  have "tenant_ok env t' w'" for t'
  proof -
    let ?rows = "tenant_rows t' (iwDB w)"
    have ok: "tenant_ok env t' w" using assms(4) by blast
    then obtain es where es: "list_all2 holds_entry ?rows es" "chain_ok (ixDigest env) [] es"
      "sorted_wrt (\<lambda>a b. rwCreatedAt a < rwCreatedAt b) ?rows" "\<forall>r\<in>set ?rows. \<exists>m<iwStep w. rwCreatedAt r = ixTxTime env m"
      by (auto simp: tenant_ok_def Let_def)
    obtain u where u: "tenant_rows t' (iwDB w') = ?rows @
        (if t' = t then [raw_row u (ixTxTime env (iwStep w)) t (entry_json entry)] else [])"
      using tenant_rows_committed [OF added(8)] by blast
    have steps: "\<forall>r\<in>set (tenant_rows t' (iwDB w')). \<exists>m<iwStep w'. rwCreatedAt r = ixTxTime env m"
      using es(4) added(6) u by (auto intro: less_trans)
    show ?thesis
    proof (cases "t' = t")
      case True
      have "PreviousHash entry = last_hash [] es"
        using added(9) head_of_chain [OF es(1,3)] True by (simp add: signed_entry_def)
      moreover have "distinct (map fst (ScopeDimensions entry))"
        using added(9) assms(3) by (simp add: signed_entry_def map_dims_def)
      ultimately have "list_all2 holds_entry (tenant_rows t' (iwDB w')) (es @ [entry])" "chain_ok (ixDigest env) [] (es @ [entry])"
        using es(1,2) u True added(9)
        by (auto simp: chain_ok_append holds_entry_def signed_entry_def intro: list_all2_appendI)
      moreover have "sorted_wrt (\<lambda>a b. rwCreatedAt a < rwCreatedAt b) (tenant_rows t' (iwDB w'))"
        using es(3,4) assms(5) u True by (force simp: sorted_wrt_append)
      ultimately show ?thesis using steps unfolding tenant_ok_def Let_def by blast
    qed (use es u steps in \<open>auto simp: tenant_ok_def Let_def\<close>)
  qed
  with added(8) show ?thesis by (auto simp: committed_entry_def)
qed

lemma decode_holds: "list_all2 holds_entry rows es \<Longrightarrow> decode_rows rows = Inr (map wire_entry es)"
  by (induction rule: list_all2_induct) (simp_all add: holds_entry_def unmarshal_entry_json)

lemma chain_wire: "chain_ok digest p (map wire_entry es) = chain_ok digest p es"
proof (induction es arbitrary: p)
  case (Cons e es)
  have "PreviousHash (wire_entry e) = PreviousHash e" by (simp add: wire_entry_def)
  with Cons show ?case by (simp add: wire_entry_hash)
qed simp

lemma ingest_all_ok:
  assumes "sound_env env" "\<forall>(s, t, rq)\<in>set rqs. map_dims rq" "\<forall>t. tenant_ok env t w"
    and "\<And>m n. m < n \<Longrightarrow> ixTxTime env m < ixTxTime env n"
  shows "(\<forall>t. tenant_ok env t (ingest_all env rqs w)) \<and> (\<exists>rows. dbEntries (iwDB (ingest_all env rqs w)) = dbEntries (iwDB w) @ rows)"
  using assms(2,3)
proof (induction rqs arbitrary: w)
  case Nil
  then show ?case by (simp add: ingest_all_def)
next
  case (Cons rq rqs)
  obtain s t q where rq: "rq = (s, t, q)" by (cases rq)
  obtain w1 r where w1: "ingest env rq w = (w1, r)" by (cases "ingest env rq w")
  have step: "(\<forall>t. tenant_ok env t w1) \<and> (\<exists>rows. dbEntries (iwDB w1) = dbEntries (iwDB w) @ rows)"
    using ingest_step [OF w1 [unfolded rq] assms(1) _ Cons.prems(2) assms(4)] Cons.prems(1) rq by auto
  have "ingest_all env (rq # rqs) w = ingest_all env rqs w1" by (simp add: ingest_all_def w1)
  with Cons.IH [of w1] step Cons.prems(1) show ?case by auto
qed

end
