(* ===== verification/Ingest_Props.thy ===== *)
theory Ingest_Props
  imports Ingest_Chain
begin

text \<open>
  Properties of the ingest service: every tenant's rows stay a valid chain while transactions begin in
  the order in which they commit, and fork when they do not; a claim is honoured once; what an
  accepted report guarantees, and what it does not.
\<close>

section \<open>Requests that succeed\<close>

text \<open>A claim that can be made: none, or a new one.\<close>

definition claimable :: "IngestService \<Rightarrow> string \<Rightarrow> Claim option \<Rightarrow> DB \<Rightarrow> bool" where
  "claimable s t claim db \<longleftrightarrow> (\<forall>c. claim = Some c \<longrightarrow> clPayload c = RawBlank \<and> hasMeaningfulClaim claim \<and>
     dbEvents db (t, claimSource s claim, clKey c) = None)"

lemma claim_ok:
  assumes "\<And>n. \<not> ixFails env n" "claimable s t claim (iwDB w)"
  shows "\<exists>w'. claimIfNeeded env t (claimSource s claim) claim w = (w', Inr False) \<and> dbEntries (iwDB w') = dbEntries (iwDB w) \<and>
    (hasMeaningfulClaim claim \<longrightarrow> dbEvents (iwDB w') (t, claimSource s claim, claim_key claim) \<noteq> None)"
proof (cases claim)
  case (Some c)
  then show ?thesis using assms
    by (simp add: claimable_def claimIfNeeded_def bindI_def txcall_def returnI_def claim_statement_def ClaimWebhookEvent_def claim_key_def)
qed (simp add: claimIfNeeded_def returnI_def hasMeaningfulClaim_def)

lemma save_ok:
  assumes "\<And>n. \<not> ixFails env n" "\<And>n. \<exists>entry x. build n (head_hash t (iwDB w)) = Inr (entry, x) \<and> EntryID entry \<noteq> [] \<and>
      EntryID entry \<notin> rwID ` set (dbEntries (iwDB w))"
  shows "\<exists>w' entry x. saveEntry env tx t build w = (w', Inr (entry, x)) \<and> dbEvents (iwDB w') = dbEvents (iwDB w)"
proof -
  obtain entry x where b: "build (Suc (iwStep w)) (head_hash t (iwDB w)) = Inr (entry, x)" "EntryID entry \<noteq> []"
      "EntryID entry \<notin> rwID ` set (dbEntries (iwDB w))"
    using assms(2) by blast
  have "LastHash t (iwDB w) = (iwDB w, Inr (head_hash t (iwDB w)))" by (simp add: LastHash_def head_hash_def)
  then show ?thesis using b assms(1)
    by (simp add: saveEntry_def bindI_def liftI_def txcall_def returnI_def SaveRaw_def insert_row_def)
qed

lemma finalize_ok:
  assumes "\<And>n. \<not> ixFails env n" "hasMeaningfulClaim claim \<longrightarrow> dbEvents (iwDB w) (t, source, claim_key claim) \<noteq> None"
  shows "\<exists>w'. finalizeClaim env t source claim i risk w = (w', Inr ())"
  using assms by (auto simp: finalizeClaim_def bindI_def txcall_def returnI_def FinalizeWebhookEvent_def)

lemma run_tx_commits:
  assumes "\<And>n. \<not> ixFails env n" "body (iwDB w) (ixTxTime env (iwStep w)) (w\<lparr>iwStep := Suc (iwStep w)\<rparr>) = (w1, Inr (True, res))"
  shows "\<exists>w'. run_tx env body w = (w', Inr res)"
  using assms by (simp add: run_tx_def Let_def)

text \<open>Over a database that works, a valid request whose entry can be built, under a new id, is committed.\<close>

lemma prescribe_commits:
  assumes "isSigner s \<noteq> None" "ValidatePrescribeRequest req = []" "\<And>n. \<not> ixFails env n" "claimable s t (enClaim (prEnvelope req)) (iwDB w)"
    and build: "\<And>n. \<exists>entry risk. buildPrescribeEntry env s (req\<lparr>prEnvelope := trim_envelope (prEnvelope req)\<rparr>) n (head_hash t (iwDB w)) = Inr (entry, risk) \<and>
      EntryID entry \<noteq> [] \<and> EntryID entry \<notin> rwID ` set (dbEntries (iwDB w))"
  shows "\<exists>w' res. Ingest_Prescribe env s t req w = (w', Inr res) \<and> \<not> irDuplicate res"
proof -
  let ?claim = "enClaim (prEnvelope req)" and ?req = "req\<lparr>prEnvelope := trim_envelope (prEnvelope req)\<rparr>"
  let ?w = "w\<lparr>iwStep := Suc (iwStep w)\<rparr>"
  obtain w1 where c: "claimIfNeeded env t (claimSource s ?claim) ?claim ?w = (w1, Inr False)" "dbEntries (iwDB w1) = dbEntries (iwDB w)"
    "hasMeaningfulClaim ?claim \<longrightarrow> dbEvents (iwDB w1) (t, claimSource s ?claim, claim_key ?claim) \<noteq> None"
    using claim_ok [OF assms(3), of s t ?claim ?w] assms(4) by auto
  have "head_hash t (iwDB w1) = head_hash t (iwDB w)" by (simp add: head_hash_def tenant_rows_def c(2))
  then obtain w2 entry risk where s2: "saveEntry env (ixTxTime env (iwStep w)) t (buildPrescribeEntry env s ?req) w1 = (w2, Inr (entry, risk))"
      "dbEvents (iwDB w2) = dbEvents (iwDB w1)"
    using save_ok [OF assms(3), of "buildPrescribeEntry env s ?req" t w1 "ixTxTime env (iwStep w)"] build c(2) by auto
  obtain w3 where f: "finalizeClaim env t (claimSource s ?claim) ?claim (EntryID entry) risk w2 = (w3, Inr ())"
    using finalize_ok [OF assms(3), of ?claim w2 t "claimSource s ?claim" "EntryID entry" risk] c(3) s2(2) by auto
  have "prescribe_body env s t ?req (iwDB w) (ixTxTime env (iwStep w)) ?w = (w3, Inr (True, \<lparr>irDuplicate = False,
      irEntryID = EntryID entry, irEffectiveRisk = risk, irPrescriptionID = EntryID entry, irEntry = Some entry\<rparr>))"
    using c(1) s2(1) f by (simp add: prescribe_body_def Let_def bindI_def returnI_def)
  from run_tx_commits [of env "prescribe_body env s t ?req", OF assms(3) this]
  show ?thesis using assms(1,2) by (auto simp: Ingest_Prescribe_def)
qed

lemma payload_state_trimmed [simp]:
  "buildReportPayloadState (req\<lparr>rrEnvelope := trim_envelope (rrEnvelope req)\<rparr>) = buildReportPayloadState req"
  by (auto simp: buildReportPayloadState_def parseReportPayloadOverride_def Let_def split: option.split)

lemma report_commits:
  assumes "isSigner s \<noteq> None" "ValidateReportRequest req = []" "\<And>n. \<not> ixFails env n" "claimable s t (enClaim (rrEnvelope req)) (iwDB w)"
    and "buildReportPayloadState req = Inr (payload, pid)" "find (\<lambda>r. rwID r = pid \<and> rwTenantID r = t) (dbEntries (iwDB w)) = Some p"
    and "rwEntryType p = EntryTypePrescribe" "\<not> reportUsesSoftResolution req"
    and build: "\<And>n. \<exists>entry. buildReportEntry env s (req\<lparr>rrEnvelope := trim_envelope (rrEnvelope req)\<rparr>) payload p False n (head_hash t (iwDB w)) = Inr entry \<and>
      EntryID entry \<noteq> [] \<and> EntryID entry \<notin> rwID ` set (dbEntries (iwDB w))"
  shows "\<exists>w' res. Ingest_Report env s t req w = (w', Inr res) \<and> \<not> irDuplicate res"
proof -
  let ?claim = "enClaim (rrEnvelope req)" and ?req = "req\<lparr>rrEnvelope := trim_envelope (rrEnvelope req)\<rparr>"
  let ?w = "w\<lparr>iwStep := Suc (iwStep w)\<rparr>"
  obtain w1 where c: "claimIfNeeded env t (claimSource s ?claim) ?claim ?w = (w1, Inr False)" "dbEntries (iwDB w1) = dbEntries (iwDB w)"
    "hasMeaningfulClaim ?claim \<longrightarrow> dbEvents (iwDB w1) (t, claimSource s ?claim, claim_key ?claim) \<noteq> None"
    using claim_ok [OF assms(3), of s t ?claim ?w] assms(4) by auto
  let ?w1 = "w1\<lparr>iwStep := Suc (iwStep w1)\<rparr>"
  have soft: "reportUsesSoftResolution ?req = False" using assms(8) by (simp add: reportUsesSoftResolution_def)
  have r: "resolvePrescriptionForReport env (iwDB w) t pid False w1 = (?w1, Inr p)"
    using assms(3,6,7) by (simp add: resolvePrescriptionForReport_def storecall_bind GetEntry_def returnI_def)
  have "head_hash t (iwDB ?w1) = head_hash t (iwDB w)" by (simp add: head_hash_def tenant_rows_def c(2))
  then obtain w2 entry x where s2: "saveEntry env (ixTxTime env (iwStep w)) t (\<lambda>n h. bindE (buildReportEntry env s ?req payload p False n h) (\<lambda>e. Inr (e, ()))) ?w1 = (w2, Inr (entry, x))"
      "dbEvents (iwDB w2) = dbEvents (iwDB w1)"
    using save_ok [OF assms(3), of "\<lambda>n h. bindE (buildReportEntry env s ?req payload p False n h) (\<lambda>e. Inr (e, ()))" t ?w1 "ixTxTime env (iwStep w)"]
      build c(2) by auto
  obtain w3 where f: "finalizeClaim env t (claimSource s ?claim) ?claim (EntryID entry) [] w2 = (w3, Inr ())"
    using finalize_ok [OF assms(3), of ?claim w2 t "claimSource s ?claim" "EntryID entry" "[]"] c(3) s2(2) by auto
  have "report_body env s t ?req (iwDB w) (ixTxTime env (iwStep w)) ?w = (w3, Inr (True, \<lparr>irDuplicate = False,
      irEntryID = EntryID entry, irEffectiveRisk = [], irPrescriptionID = [], irEntry = Some entry\<rparr>))"
    using c(1) s2(1) f r soft assms(5) by (simp add: report_body_def Let_def bindI_def returnI_def liftI_def)
  from run_tx_commits [of env "report_body env s t ?req", OF assms(3) this]
  show ?thesis using assms(1,2) by (auto simp: Ingest_Report_def)
qed

section \<open>Sample requests\<close>

definition sample_ingest_digest :: "json \<Rightarrow> string option" where
  "sample_ingest_digest j = (case fields_of j of None \<Rightarrow> None | Some fs \<Rightarrow> decode_str ''entry_id'' fs)"

definition sample_ingest_env :: "(nat \<Rightarrow> time) \<Rightarrow> IngestEnv" where
  "sample_ingest_env tx = \<lparr>ixDigest = sample_ingest_digest, ixFresh = (\<lambda>_. ''u''), ixNow = (\<lambda>_. 5), ixTxTime = tx,
     ixFails = (\<lambda>_. False), ixHashes = \<lparr>hBytes = (\<lambda>_. []), hJson = (\<lambda>_. []), hShape = (\<lambda>_. None)\<rparr>, ixVersion = ''0.5.20''\<rparr>"

definition sample_ingest_service :: IngestService where
  "sample_ingest_service = NewService (Some \<lparr>Sign = (\<lambda>s. s), Verify = (\<lambda>a b. a = b)\<rparr>)"

definition sample_claim :: Claim where
  "sample_claim = \<lparr>clSource = ''ci'', clKey = ''k1'', clPayload = RawBlank\<rparr>"

definition sample_envelope :: "Claim option \<Rightarrow> Envelope" where
  "sample_envelope c = \<lparr>enContractVersion = ''v1'', enClaim = c,
     enActor = \<lparr>acType = ''agent'', acID = ''a'', acProvenance = ''ci'', acInstanceID = [], acVersion = [], acSkillVersion = []\<rparr>,
     enSessionID = ''s1'', enOperationID = ''o1'', enTraceID = ''t1'', enSpanID = [], enParentSpanID = [],
     enScopeDimensions = [], enFlavor = ''imperative'', enEvidence = Some ''declared'', enSource = Some ''ci''\<rparr>"

definition sample_ingest_prescribe :: "Claim option \<Rightarrow> string \<Rightarrow> PrescribeRequest" where
  "sample_ingest_prescribe c i = \<lparr>prEnvelope = sample_envelope c, prPrescriptionID = i, prArtifactDigest = [],
     prCanonicalAction = None, prSmartTarget = Some \<lparr>smTool = ''kubectl'', smOperation = ''apply'', smResource = ''web'', smNamespace = ''dev''\<rparr>,
     prPayloadOverride = None\<rparr>"

abbreviation sample_request :: "Claim option \<Rightarrow> string \<Rightarrow> ingest_request" where
  "sample_request c i \<equiv> IngestPrescribing (sample_ingest_prescribe c i)"

lemma sample_ingest_env [simp]: "ixTxTime (sample_ingest_env tx) = tx" "\<not> ixFails (sample_ingest_env tx) n"
  "sound_env (sample_ingest_env tx)"
proof -
  show "sound_env (sample_ingest_env tx)" unfolding sound_env_def by (simp add: sample_ingest_env_def) code_simp
qed (simp_all add: sample_ingest_env_def)

lemma sample_ingest_service [simp]: "isSigner sample_ingest_service \<noteq> None" "isClaimPrefix sample_ingest_service = ''api:''"
  by (simp_all add: sample_ingest_service_def NewService_def)

lemma sample_envelopes [simp]: "prEnvelope (sample_ingest_prescribe c i) = sample_envelope c" "enClaim (sample_envelope c) = c"
  "request_claim (sample_request c i) = c" "map_dims (sample_request c i)"
  by (simp_all add: sample_ingest_prescribe_def sample_envelope_def request_claim_def request_envelope_def map_dims_def)

definition sample_ids :: "string set" where "sample_ids = {''p1'', ''p2'', ''p3''}"

lemma sample_ingest_built:
  assumes "i \<in> sample_ids"
  shows "map_sum id (\<lambda>(e, r). (EntryID e, Hash e, SessionID e, ScopeDimensions e)) (buildPrescribeEntry (sample_ingest_env tx) sample_ingest_service
    ((sample_ingest_prescribe c i)\<lparr>prEnvelope := trim_envelope (sample_envelope c)\<rparr>) n h) = Inr (i, i, ''s1'', [])"
  using assms unfolding sample_ids_def by (elim insertE emptyE) (erule ssubst, code_simp)+

lemma sample_valid:
  assumes "i \<in> sample_ids" "c \<in> {None, Some sample_claim}"
  shows "ValidatePrescribeRequest (sample_ingest_prescribe c i) = []"
  using assms unfolding sample_ids_def by (elim insertE emptyE) (hypsubst, code_simp)+

text \<open>A sample request is committed under its id.\<close>

lemma sample_ingest:
  assumes "i \<in> sample_ids" "c \<in> {None, Some sample_claim}" "claimable sample_ingest_service t c (iwDB w)" "i \<notin> rwID ` set (dbEntries (iwDB w))"
  shows "\<exists>w' res e u. ingest (sample_ingest_env tx) (sample_ingest_service, t, sample_request c i) w = (w', Inr res) \<and> \<not> irDuplicate res \<and>
    irEntry res = Some e \<and> EntryID e = i \<and> Hash e = i \<and> PreviousHash e = head_hash t (iwDB w) \<and>
    dbEntries (iwDB w') = dbEntries (iwDB w) @ [raw_row u (tx (iwStep w)) t (entry_json e)] \<and> iwStep w < iwStep w' \<and>
    Type e = EntryTypePrescribe \<and> unmarshal_prescription (Payload e) \<noteq> None \<and> SessionID e = ''s1'' \<and> ScopeDimensions e = []"
proof -
  let ?env = "sample_ingest_env tx" and ?req = "sample_ingest_prescribe c i"
  have i: "i \<noteq> []" using assms(1) by (auto simp: sample_ids_def)
  have built: "EntryID e = i \<and> Hash e = i \<and> Type e = EntryTypePrescribe \<and> unmarshal_prescription (Payload e) \<noteq> None \<and> SessionID e = ''s1'' \<and> ScopeDimensions e = []" if "buildPrescribeEntry ?env sample_ingest_service
      (?req\<lparr>prEnvelope := trim_envelope (sample_envelope c)\<rparr>) n h = Inr (e, r)" for n h e r
    using sample_ingest_built [OF assms(1), of tx c n h] that prescribe_entry_signed(2) [OF that] by auto
  have builds: "\<exists>e r. buildPrescribeEntry ?env sample_ingest_service (?req\<lparr>prEnvelope := trim_envelope (prEnvelope ?req)\<rparr>) n h = Inr (e, r) \<and>
      EntryID e \<noteq> [] \<and> EntryID e \<notin> rwID ` set (dbEntries (iwDB w))" for n h
    using sample_ingest_built [OF assms(1), of tx c n h] built [of n h] i assms(4)
    by (cases "buildPrescribeEntry ?env sample_ingest_service (?req\<lparr>prEnvelope := trim_envelope (sample_envelope c)\<rparr>) n h") auto
  obtain w' res where run: "Ingest_Prescribe ?env sample_ingest_service t ?req w = (w', Inr res)" "\<not> irDuplicate res"
    using prescribe_commits [of sample_ingest_service ?req ?env t w, OF _ sample_valid [OF assms(1,2)]] builds assms(3) by auto
  then have ing: "ingest ?env (sample_ingest_service, t, sample_request c i) w = (w', Inr res)" by (simp add: ingest_def)
  obtain e where e: "irEntry res = Some e" "irEntryID res = EntryID e" "iwStep w < iwStep w'"
      "PreviousHash e = head_hash t (iwDB w)" "\<exists>u. dbEntries (iwDB w') = dbEntries (iwDB w) @ [raw_row u (tx (iwStep w)) t (entry_json e)]"
    using ing sample_ingest_env(3) by (cases rule: ingest_cases) (use run(2) in \<open>auto simp: committed_entry_def signed_entry_def\<close>)
  have "EntryID e = i \<and> Hash e = i \<and> Type e = EntryTypePrescribe \<and> unmarshal_prescription (Payload e) \<noteq> None \<and> SessionID e = ''s1'' \<and> ScopeDimensions e = []"
  proof -
    have "run_tx ?env (prescribe_body ?env sample_ingest_service t (?req\<lparr>prEnvelope := trim_envelope (sample_envelope c)\<rparr>)) w = (w', Inr res)"
      using run(1) sample_valid [OF assms(1,2)] by (simp add: Ingest_Prescribe_def)
    from run_tx_cases [OF this] show ?thesis
      using run(2) e(1) by (auto dest!: prescribe_body_Inr built)
  qed
  with run(2) e ing show ?thesis by blast
qed

lemma claimable_None [simp]: "claimable s t None db" by (simp add: claimable_def)

lemma sample_claim [simp]: "hasMeaningfulClaim (Some sample_claim)" "clPayload sample_claim = RawBlank"
  by (code_simp, simp add: sample_claim_def)

lemma sample_claimable: "dbEvents db = Map.empty \<Longrightarrow> claimable s t (Some sample_claim) db"
  by (simp add: claimable_def)

section \<open>Properties\<close>

definition empty_tables :: IngestWorld where
  "empty_tables = \<lparr>iwDB = \<lparr>dbEntries = [], dbEvents = Map.empty\<rparr>, iwStep = 0\<rparr>"



text \<open>
  C15. Transactions that commit out of order fork the chain: the head is the newest row by the time at which
  its transaction began, so an entry whose transaction began before the newest row's is never the
  head; the next entry links to the same predecessor, and the tenant's chain is invalid for good.
\<close>

theorem late_commit_forks_chain:
  assumes "sound_env env" "tenant_ok env t w" "r \<in> set (tenant_rows t (iwDB w))" "ixTxTime env (iwStep w) < rwCreatedAt r"
    and "ingest env (s, t, rq) w = (w1, Inr res1)" "irEntry res1 = Some e1" "\<not> irDuplicate res1" "map_dims rq"
    and "ingest env (s', t, rq') w1 = (w2, Inr res2)" "irEntry res2 = Some e2" "\<not> irDuplicate res2" "map_dims rq'"
  shows "PreviousHash e2 = PreviousHash e1 \<and> (Hash e1 \<noteq> PreviousHash e1 \<longrightarrow>
    \<not> (\<exists>es. decode_rows (tenant_rows t (iwDB w2)) = Inr es \<and> validateChainEntries (ixDigest env) es = None))"
proof -
  let ?rows = "tenant_rows t (iwDB w)"
  obtain es where es: "list_all2 holds_entry ?rows es" "sorted_wrt (\<lambda>a b. rwCreatedAt a < rwCreatedAt b) ?rows"
    using assms(2) by (auto simp: tenant_ok_def Let_def)
  obtain risk where c1: "committed_entry t (claimSource s (request_claim rq)) (request_claim rq) (ixTxTime env (iwStep w)) e1 risk (iwDB w) (iwDB w1)"
    "signed_entry env (head_hash t (iwDB w)) (request_envelope rq) e1"
    using assms(5,1) by (cases rule: ingest_cases) (use assms(6,7) in auto)
  obtain risk' where c2: "committed_entry t (claimSource s' (request_claim rq')) (request_claim rq') (ixTxTime env (iwStep w1)) e2 risk' (iwDB w1) (iwDB w2)"
    "signed_entry env (head_hash t (iwDB w1)) (request_envelope rq') e2"
    using assms(9,1) by (cases rule: ingest_cases) (use assms(10,11) in auto)
  obtain u1 u2 where rows: "tenant_rows t (iwDB w1) = ?rows @ [raw_row u1 (ixTxTime env (iwStep w)) t (entry_json e1)]"
    "tenant_rows t (iwDB w2) = tenant_rows t (iwDB w1) @ [raw_row u2 (ixTxTime env (iwStep w1)) t (entry_json e2)]"
    using tenant_rows_committed [OF c1(1), of t] tenant_rows_committed [OF c2(1), of t] by auto
  have ne: "?rows \<noteq> []" using assms(3) by auto
  then have newest: "newest_row ?rows = Some (last ?rows)" by (rule newest_last [OF _ es(2)])
  have "rwCreatedAt r \<le> rwCreatedAt (last ?rows)"
  proof (cases "r = last ?rows")
    case False
    then have "r \<in> set (butlast ?rows)" using assms(3) ne by (metis append_butlast_last_id in_set_conv_decomp rotate1.simps(2) set_ConsD set_rotate1)
    moreover have "sorted_wrt (\<lambda>a b. rwCreatedAt a < rwCreatedAt b) (butlast ?rows @ [last ?rows])" using es(2) ne by simp
    ultimately show ?thesis by (fastforce simp: sorted_wrt_append)
  qed simp
  then have "head_hash t (iwDB w1) = head_hash t (iwDB w)"
    using newest assms(4) by (simp add: head_hash_def rows(1) newest_snoc row_after_def)
  then have same: "PreviousHash e2 = PreviousHash e1" using c1(2) c2(2) by (simp add: signed_entry_def)
  have "list_all2 holds_entry (tenant_rows t (iwDB w2)) ((es @ [e1]) @ [e2])"
    unfolding rows using es(1) c1(2) c2(2) assms(8,12)
    by (intro list_all2_appendI) (simp_all add: holds_entry_def signed_entry_def map_dims_def)
  then have "decode_rows (tenant_rows t (iwDB w2)) = Inr (map wire_entry ((es @ [e1]) @ [e2]))" by (rule decode_holds)
  moreover have "\<not> chain_ok (ixDigest env) [] (map wire_entry ((es @ [e1]) @ [e2]))" if "Hash e1 \<noteq> PreviousHash e1"
    unfolding chain_wire using that same by (simp add: chain_ok_append)
  ultimately show ?thesis using same by (simp add: validateChainEntries_iff)
qed

lemma late_commit_forks_chain_witness:
  "\<exists>w w1 w2 res1 res2 e1 e2.
     ingest (sample_ingest_env (\<lambda>n. - int n)) (sample_ingest_service, ''t'', sample_request None ''p2'') w = (w1, Inr res1) \<and> irEntry res1 = Some e1 \<and>
     ingest (sample_ingest_env (\<lambda>n. - int n)) (sample_ingest_service, ''t'', sample_request None ''p3'') w1 = (w2, Inr res2) \<and> irEntry res2 = Some e2 \<and>
     PreviousHash e2 = PreviousHash e1 \<and>
     \<not> (\<exists>es. decode_rows (tenant_rows ''t'' (iwDB w2)) = Inr es \<and>
       validateChainEntries (ixDigest (sample_ingest_env (\<lambda>n. - int n))) es = None)"
proof -
  let ?tx = "\<lambda>n. - int n" and ?s = sample_ingest_service
  let ?env = "sample_ingest_env ?tx"
  obtain w r e0 u where w: "ingest ?env (?s, ''t'', sample_request None ''p1'') empty_tables = (w, r)"
      "dbEntries (iwDB w) = [raw_row u 0 ''t'' (entry_json e0)]" "EntryID e0 = ''p1''" "Hash e0 = ''p1''" "0 < iwStep w"
    using sample_ingest [of "''p1''" None "''t''" empty_tables ?tx] by (auto simp: sample_ids_def empty_tables_def)
  have "\<forall>t. tenant_ok ?env t empty_tables" by (simp add: tenant_ok_def tenant_rows_def empty_tables_def)
  then have ok: "tenant_ok ?env ''t'' w" using ingest_step [OF w(1)] by (simp add: empty_tables_def)
  have rows: "tenant_rows ''t'' (iwDB w) = [raw_row u 0 ''t'' (entry_json e0)]" using w(2) by (simp add: tenant_rows_def)
  have head: "head_hash ''t'' (iwDB w) = ''p1''" using w(4) by (simp add: head_hash_def rows newest_row_def)
  obtain w1 res1 e1 u1 where w1: "ingest ?env (?s, ''t'', sample_request None ''p2'') w = (w1, Inr res1)" "\<not> irDuplicate res1"
      "irEntry res1 = Some e1" "EntryID e1 = ''p2''" "Hash e1 = ''p2''" "PreviousHash e1 = ''p1''"
      "dbEntries (iwDB w1) = dbEntries (iwDB w) @ [raw_row u1 (?tx (iwStep w)) ''t'' (entry_json e1)]"
    using sample_ingest [of "''p2''" None "''t''" w ?tx] w(2,3) head by (auto simp: sample_ids_def)
  obtain w2 res2 e2 where w2: "ingest ?env (?s, ''t'', sample_request None ''p3'') w1 = (w2, Inr res2)" "\<not> irDuplicate res2" "irEntry res2 = Some e2"
    using sample_ingest [of "''p3''" None "''t''" w1 ?tx] w(2,3) w1(4,7) by (auto simp: sample_ids_def)
  have "PreviousHash e2 = PreviousHash e1 \<and> (Hash e1 \<noteq> PreviousHash e1 \<longrightarrow>
      \<not> (\<exists>es. decode_rows (tenant_rows ''t'' (iwDB w2)) = Inr es \<and> validateChainEntries (ixDigest ?env) es = None))"
    by (rule late_commit_forks_chain [where r = "raw_row u 0 ''t'' (entry_json e0)", OF _ ok _ _ w1(1,3,2) _ w2(1,3,2)]) (use w(5) rows in simp_all)
  with w1 w2 show ?thesis by fastforce
qed

text \<open>What later requests leave of a claim and of the rows.\<close>

lemma ingest_persists:
  assumes "ingest env (s, t, rq) w = (w', r)" "sound_env env"
  shows "(\<exists>rows. dbEntries (iwDB w') = dbEntries (iwDB w) @ rows \<and> rwID ` set rows \<inter> rwID ` set (dbEntries (iwDB w)) = {}) \<and>
    (\<forall>k ev. dbEvents (iwDB w) k = Some ev \<longrightarrow> dbEvents (iwDB w') k = Some ev)"
  using assms
proof (cases rule: ingest_cases)
  case (added entry risk res)
  then show ?thesis by (auto simp: committed_entry_def split: if_splits)
qed simp

lemma ingest_all_persists:
  assumes "sound_env env"
  shows "(\<exists>rows. dbEntries (iwDB (ingest_all env rqs w)) = dbEntries (iwDB w) @ rows \<and> rwID ` set rows \<inter> rwID ` set (dbEntries (iwDB w)) = {}) \<and>
    (\<forall>k ev. dbEvents (iwDB w) k = Some ev \<longrightarrow> dbEvents (iwDB (ingest_all env rqs w)) k = Some ev)"
proof (induction rqs arbitrary: w)
  case (Cons rq rqs)
  obtain s t q where rq: "rq = (s, t, q)" by (cases rq)
  obtain w1 r where w1: "ingest env rq w = (w1, r)" by (cases "ingest env rq w")
  have "ingest_all env (rq # rqs) w = ingest_all env rqs w1" by (simp add: ingest_all_def w1)
  with ingest_persists [OF w1 [unfolded rq] assms] Cons.IH [of w1] show ?case by fastforce
qed (simp add: ingest_all_def)

lemma find_append_None: "find P xs = None \<Longrightarrow> find P (xs @ ys) = find P ys"
  by (induction xs) (auto split: if_splits)

text \<open>
  C13. A claim is honoured once: after a prescription with a claim was accepted, and whatever requests came
  in between, a request with the same claim from the same tenant, over a database that works, stores
  nothing and returns the id and the risk of the first.
\<close>

theorem claim_exactly_once:
  assumes "sound_env env" "map_dims (IngestPrescribing req)"
    and "Ingest_Prescribe env s t req w = (w1, Inr res)" "\<not> irDuplicate res" "enClaim (prEnvelope req) = Some c" "hasMeaningfulClaim (Some c)"
    and "w2 = ingest_all env rqs w1" "isSigner s' \<noteq> None" "isClaimPrefix s' = isClaimPrefix s"
    and "ValidatePrescribeRequest req' = []" "enClaim (prEnvelope req') = Some c" "clPayload c \<noteq> RawInvalid"
    and "\<And>n. iwStep w2 \<le> n \<Longrightarrow> \<not> ixFails env n"
  shows "\<exists>w3 res'. Ingest_Prescribe env s' t req' w2 = (w3, Inr res') \<and> iwDB w3 = iwDB w2 \<and>
    irDuplicate res' \<and> irEntryID res' = irEntryID res \<and> irEffectiveRisk res' = irEffectiveRisk res"
proof -
  let ?src = "claimSource s (Some c)"
  have "ingest env (s, t, IngestPrescribing req) w = (w1, Inr res)" by (simp add: ingest_def assms(3))
  then obtain entry where e: "committed_entry t ?src (Some c) (ixTxTime env (iwStep w)) entry (irEffectiveRisk res) (iwDB w) (iwDB w1)"
    "irEntryID res = EntryID entry" "TrimSpace (EntryID entry) \<noteq> []"
    "signed_entry env (head_hash t (iwDB w)) (prEnvelope req) entry"
    by (cases rule: ingest_cases [OF _ assms(1)]) (use assms(4,5) in \<open>auto simp: request_claim_def request_envelope_def\<close>)
  have ne: "EntryID entry \<noteq> []" using e(3) by auto
  obtain u p where c1: "dbEntries (iwDB w1) = dbEntries (iwDB w) @ [raw_row u (ixTxTime env (iwStep w)) t (entry_json entry)]"
    "EntryID entry \<notin> rwID ` set (dbEntries (iwDB w))"
    "dbEvents (iwDB w1) (t, ?src, clKey c) = Some \<lparr>wePayload = p, weEntryID = Some (EntryID entry), weEffectiveRisk = Some (irEffectiveRisk res)\<rparr>"
    using e(1) ne assms(6) by (auto simp: committed_entry_def claim_key_def)
  obtain rows where c2: "dbEntries (iwDB w2) = dbEntries (iwDB w1) @ rows"
    "dbEvents (iwDB w2) (t, ?src, clKey c) = Some \<lparr>wePayload = p, weEntryID = Some (EntryID entry), weEffectiveRisk = Some (irEffectiveRisk res)\<rparr>"
    using ingest_all_persists [OF assms(1), of rqs w1] c1(3) assms(7) by blast
  let ?row = "raw_row u (ixTxTime env (iwStep w)) t (entry_json entry)"
  have find: "find (\<lambda>r. rwID r = EntryID entry \<and> rwTenantID r = t) (dbEntries (iwDB w2)) = Some ?row"
  proof -
    have "find (\<lambda>r. rwID r = EntryID entry \<and> rwTenantID r = t) (dbEntries (iwDB w)) = None"
      using c1(2) unfolding find_None_iff by (metis image_eqI)
    then show ?thesis by (simp add: c1(1) c2(1) find_append_None ne)
  qed
  have dec: "unmarshal_entry (rwPayload ?row) = Some (wire_entry entry)"
    using unmarshal_entry_json [of entry] e(4) assms(2) by (simp add: signed_entry_def map_dims_def request_envelope_def)
  let ?w0 = "w2\<lparr>iwStep := Suc (iwStep w2)\<rparr>"
  let ?res = "(duplicate_prescribe (wire_entry entry))\<lparr>irEntryID := EntryID entry, irEffectiveRisk := irEffectiveRisk res\<rparr>"
  have src: "claimSource s' (Some c) = ?src" using assms(9) by (simp add: claimSource_def Let_def)
  have ok: "\<not> ixFails env (iwStep w2)" "\<not> ixFails env (Suc (iwStep w2))" "\<not> ixFails env (Suc (Suc (iwStep w2)))"
    "\<not> ixFails env (Suc (Suc (Suc (iwStep w2))))" using assms(13) by simp_all
  have claim: "claim_statement t ?src (Some c) (iwDB w2) = (iwDB w2, Inr True)"
    using assms(12) c2(2) by (cases "clPayload c") (simp_all add: claim_statement_def ClaimWebhookEvent_def claim_key_def)
  have "\<exists>w3. prescribe_body env s' t (req'\<lparr>prEnvelope := trim_envelope (prEnvelope req')\<rparr>) (iwDB w2) (ixTxTime env (iwStep w2)) ?w0
      = (w3, Inr (False, ?res))"
    using assms(6,11) ok claim c2(2) find dec e(3) src
    by (simp add: prescribe_body_def Let_def claimIfNeeded_def loadDuplicateResult_def bindI_def txcall_def returnI_def
        GetWebhookEventResult_def GetEntry_def claim_key_def coalesce_def)
  then show ?thesis
    using assms(8,10) ok(1) e(2) by (auto simp: Ingest_Prescribe_def run_tx_def Let_def duplicate_prescribe_def)
qed

lemma claim_exactly_once_witness:
  "\<exists>w1 w2 w3 res res'. Ingest_Prescribe (sample_ingest_env int) sample_ingest_service ''t'' (sample_ingest_prescribe (Some sample_claim) ''p1'') empty_tables = (w1, Inr res) \<and>
     w2 = ingest_all (sample_ingest_env int) [(sample_ingest_service, ''t'', sample_request None ''p2'')] w1 \<and>
     Ingest_Prescribe (sample_ingest_env int) sample_ingest_service ''t'' (sample_ingest_prescribe (Some sample_claim) ''p3'') w2 = (w3, Inr res') \<and>
     \<not> irDuplicate res \<and> irDuplicate res' \<and> iwDB w3 = iwDB w2 \<and> irEntryID res' = irEntryID res"
proof -
  let ?env = "sample_ingest_env int" and ?s = sample_ingest_service
  let ?w2 = "\<lambda>w1. ingest_all ?env [(?s, ''t'', sample_request None ''p2'')] w1"
  obtain w1 res where w1: "ingest ?env (?s, ''t'', sample_request (Some sample_claim) ''p1'') empty_tables = (w1, Inr res)" "\<not> irDuplicate res"
    using sample_ingest [of "''p1''" "Some sample_claim" "''t''" empty_tables int] sample_claimable
    by (auto simp: sample_ids_def empty_tables_def)
  then have w1': "Ingest_Prescribe ?env ?s ''t'' (sample_ingest_prescribe (Some sample_claim) ''p1'') empty_tables = (w1, Inr res)"
    by (simp add: ingest_def)
  have "\<exists>w3 res'. Ingest_Prescribe ?env ?s ''t'' (sample_ingest_prescribe (Some sample_claim) ''p3'') (?w2 w1) = (w3, Inr res') \<and>
      iwDB w3 = iwDB (?w2 w1) \<and> irDuplicate res' \<and> irEntryID res' = irEntryID res \<and> irEffectiveRisk res' = irEffectiveRisk res"
    by (rule claim_exactly_once [OF _ _ w1' w1(2) _ sample_claim(1) refl _ refl])
      (simp_all add: sample_valid sample_ids_def)
  with w1' w1(2) show ?thesis by blast
qed

end
