(* ===== verification/Ingest_Reports.thy ===== *)
theory Ingest_Reports
  imports Ingest_Props
begin

text \<open>
  Properties of reports over the network: what an accepted report guarantees, for the explicit fields
  and for a payload that overrides them, and the id that an override stores as it was sent.
\<close>

section \<open>Accepted reports\<close>

text \<open>The rules of a verdict, as the contract states them.\<close>

definition verdict_rules :: "ReportPayload \<Rightarrow> bool" where
  "verdict_rules p \<longleftrightarrow> TrimSpace (rpPrescriptionID p) \<noteq> [] \<and> Verdict_Valid (rpVerdict p) \<and>
     (if rpVerdict p = VerdictDeclined
      then rpExitCode p = None \<and> (\<exists>dc. rpDecisionContext p = Some dc \<and> TrimSpace (dcTrigger dc) \<noteq> [] \<and>
        TrimSpace (dcReason dc) \<noteq> [] \<and> length (TrimSpace (dcReason dc)) \<le> 512)
      else rpDecisionContext p = None \<and> (\<exists>c. rpExitCode p = Some c \<and> VerdictFromExitCode c = rpVerdict p))"

lemma body_rules: "validateReportPayloadBody p = [] \<longleftrightarrow> verdict_rules p"
  by (auto simp: validateReportPayloadBody_def verdict_rules_def split: option.splits if_splits)

lemma add_if_Nil [simp]: "add_if b v = [] \<longleftrightarrow> \<not> b"
  by (simp add: add_if_def)

lemma verdict_Nil: "validateReportVerdict v c d = [] \<longleftrightarrow>
    (if v = VerdictDeclined then c = None \<and> (\<exists>dc. d = Some dc \<and> TrimSpace (dcTrigger dc) \<noteq> [] \<and>
        TrimSpace (dcReason dc) \<noteq> [] \<and> length (TrimSpace (dcReason dc)) \<le> 512)
     else d = None \<and> (\<exists>x. c = Some x \<and> VerdictFromExitCode x = v))"
  by (auto simp: validateReportVerdict_def blank_def split: option.splits)

lemma state_rules:
  assumes "buildReportPayloadState (req\<lparr>rrEnvelope := e\<rparr>) = Inr (payload, pid)" "ValidateReportRequest req = []"
  shows "verdict_rules payload" "pid = TrimSpace (rpPrescriptionID payload)"
proof -
  have "verdict_rules payload \<and> pid = TrimSpace (rpPrescriptionID payload)"
  proof (cases "rrPayloadOverride req")
    case None
    with assms show ?thesis
      by (auto simp: buildReportPayloadState_def Let_def ValidateReportRequest_def verdict_Nil verdict_rules_def blank_def split: if_splits)
  next
    case (Some raw)
    with assms(1) show ?thesis
      by (auto simp: buildReportPayloadState_def parseReportPayloadOverride_def body_rules verdict_rules_def
          split: option.splits if_splits)
  qed
  then show "verdict_rules payload" "pid = TrimSpace (rpPrescriptionID payload)" by simp_all
qed

text \<open>What a committed report is made of.\<close>

lemma report_committed:
  assumes "Ingest_Report env s t req w = (w', Inr res)" "\<not> irDuplicate res"
  obtains n entry payload pid p where
    "buildReportPayloadState (req\<lparr>rrEnvelope := trim_envelope (rrEnvelope req)\<rparr>) = Inr (payload, pid)"
    "p \<in> set (dbEntries (iwDB w)) \<and> rwTenantID p = t \<and> rwID p = pid \<and> rwEntryType p = EntryTypePrescribe \<or>
      isLegacyFallback s \<and> reportUsesSoftResolution req \<and> p = bare_row pid"
    "buildReportEntry env s (req\<lparr>rrEnvelope := trim_envelope (rrEnvelope req)\<rparr>) payload p
      (isLegacyFallback s \<and> reportUsesSoftResolution req) n (head_hash t (iwDB w)) = Inr entry"
    "committed_entry t (claimSource s (enClaim (rrEnvelope req))) (enClaim (rrEnvelope req)) (ixTxTime env (iwStep w)) entry [] (iwDB w) (iwDB w')"
    "irEntry res = Some entry" "ValidateReportRequest req = []"
proof -
  let ?req = "req\<lparr>rrEnvelope := trim_envelope (rrEnvelope req)\<rparr>"
  have valid: "ValidateReportRequest req = []" "run_tx env (report_body env s t ?req) w = (w', Inr res)"
    using assms(1) by (auto simp: Ingest_Report_def split: if_splits)
  have soft: "reportUsesSoftResolution ?req = reportUsesSoftResolution req" by (simp add: reportUsesSoftResolution_def)
  have "\<exists>w1. report_body env s t ?req (iwDB w) (ixTxTime env (iwStep w)) (w\<lparr>iwStep := Suc (iwStep w)\<rparr>) = (w1, Inr (True, res)) \<and> iwDB w' = iwDB w1"
    using run_tx_cases [OF valid(2)] assms(2) report_body_Inr by fastforce
  then obtain w1 where b: "report_body env s t ?req (iwDB w) (ixTxTime env (iwStep w)) (w\<lparr>iwStep := Suc (iwStep w)\<rparr>) = (w1, Inr (True, res))"
    "iwDB w' = iwDB w1" by blast
  have step_db: "iwDB (w\<lparr>iwStep := Suc (iwStep w)\<rparr>) = iwDB w" by simp
  have claim: "enClaim (rrEnvelope ?req) = enClaim (rrEnvelope req)" by simp
  obtain n entry payload pid p where
    "buildReportPayloadState ?req = Inr (payload, pid)"
    "p \<in> set (dbEntries (iwDB w)) \<and> rwTenantID p = t \<and> rwID p = pid \<and> rwEntryType p = EntryTypePrescribe \<or>
      isLegacyFallback s \<and> reportUsesSoftResolution req \<and> p = bare_row pid"
    "buildReportEntry env s ?req payload p (isLegacyFallback s \<and> reportUsesSoftResolution req) n (head_hash t (iwDB w)) = Inr entry"
    "committed_entry t (claimSource s (enClaim (rrEnvelope req))) (enClaim (rrEnvelope req)) (ixTxTime env (iwStep w)) entry [] (iwDB w) (iwDB w')"
    "irEntry res = Some entry"
    using report_body_Inr [OF b(1), unfolded if_True soft step_db claim, folded b(2)]
    by (elim exE conjE) (rule that, assumption+, simp)
  with that valid(1) show thesis by blast
qed

lemma decode_snoc: "decode_rows (rows @ [r]) = Inr es \<Longrightarrow> \<exists>e. unmarshal_entry (rwPayload r) = Some e \<and> e \<in> set es"
proof (induction rows arbitrary: es)
  case (Cons a rows)
  then show ?case by (cases "decode_rows (rows @ [r])") (auto split: option.splits)
qed (auto split: option.splits)

section \<open>Sample reports\<close>

definition sample_report_payload :: "string \<Rightarrow> ReportPayload" where
  "sample_report_payload i = \<lparr>rpReportID = [], rpPrescriptionID = i, rpExitCode = Some 0, rpVerdict = ''success'',
     rpDecisionContext = None, rpExternalRefs = [], rpFlavor = [], rpEvidence = None, rpSource = None\<rparr>"

definition sample_explicit :: ReportRequest where
  "sample_explicit = \<lparr>rrEnvelope = sample_envelope None, rrPrescriptionID = ''p1'', rrArtifactDigest = [], rrVerdict = ''success'',
     rrExitCode = Some 0, rrDecisionContext = None, rrExternalRefs = [], rrPayloadOverride = None\<rparr>"

definition sample_override :: ReportRequest where
  "sample_override = \<lparr>rrEnvelope = sample_envelope None, rrPrescriptionID = [], rrArtifactDigest = [], rrVerdict = [],
     rrExitCode = None, rrDecisionContext = None, rrExternalRefs = [],
     rrPayloadOverride = Some (RawValue (report_json (sample_report_payload ''p1 '')))\<rparr>"

lemma sample_report_states:
  "map_sum id snd (buildReportPayloadState sample_explicit) = Inr ''p1''"
  "map_sum id snd (buildReportPayloadState sample_override) = Inr ''p1''"
  "ValidateReportRequest sample_explicit = []" "ValidateReportRequest sample_override = []"
  by code_simp+

lemma sample_digest_total: "computeEntryHash (ixDigest (sample_ingest_env tx)) e \<noteq> None"
  by (simp add: sample_ingest_env_def computeEntryHash_def sample_ingest_digest_def hashableEntry_def json_simps decode_str_def)

lemma BuildEntry_builds:
  assumes "bpSigner p = Some signer" "EntryType_Valid (bpType p)" "bpIntentDigest p = []" "bpArtifactDigest p = []"
    and "\<And>e. computeEntryHash digest e \<noteq> None"
  shows "\<exists>e. BuildEntry digest now u p = Inr e"
proof -
  obtain f where "\<And>e. computeEntryHash digest e = Some (f e)" 
    using assms(5) by (rule_tac that [of "\<lambda>e. the (computeEntryHash digest e)"]) simp
  then show ?thesis using assms(1-4) unfolding BuildEntry_def Let_def by (auto simp: FormatDigest_def)
qed

lemma sample_report_built:
  assumes "TrimSpace (rwSessionID p) = ''s1''" "rrEnvelope req = trim_envelope (sample_envelope None)" "rrArtifactDigest req = []"
  shows "\<exists>entry. buildReportEntry (sample_ingest_env tx) sample_ingest_service req payload p False n h = Inr entry \<and> EntryID entry = ''u''"
proof -
  have s: "TrimSpace (enSessionID (trim_envelope (sample_envelope None))) = ''s1''" by code_simp
  have v: "EntryType_Valid EntryTypeReport" by code_simp
  obtain signer where "isSigner sample_ingest_service = Some signer" by fastforce
  then have "\<exists>entry. buildReportEntry (sample_ingest_env tx) sample_ingest_service req payload p False n h = Inr entry"
    using assms s v BuildEntry_builds [OF _ _ _ _ sample_digest_total [of tx], where signer = signer]
    by (simp add: buildReportEntry_def Let_def)
  then show ?thesis using report_entry_signed(2) by (fastforce simp: sample_ingest_env_def)
qed

text \<open>The sample reports are accepted on the row of the sample prescription.\<close>

lemma sample_report:
  assumes "req \<in> {sample_explicit, sample_override}"
  shows "\<exists>w w' res e u. Ingest_Report (sample_ingest_env int) sample_ingest_service ''t'' req w = (w', Inr res) \<and> \<not> irDuplicate res \<and>
    dbEntries (iwDB w) = [raw_row u 0 ''t'' (entry_json e)] \<and> EntryID e = ''p1'' \<and> is_prescribe e \<and> decodes e \<and>
    distinct (map fst (ScopeDimensions e))"
proof -
  let ?env = "sample_ingest_env int" and ?s = sample_ingest_service and ?req = "req\<lparr>rrEnvelope := trim_envelope (rrEnvelope req)\<rparr>"
  obtain w r u e where w: "ingest ?env (?s, ''t'', sample_request None ''p1'') empty_tables = (w, r)"
      "dbEntries (iwDB w) = [raw_row u 0 ''t'' (entry_json e)]" "EntryID e = ''p1''" "Type e = EntryTypePrescribe"
      "unmarshal_prescription (Payload e) \<noteq> None" "SessionID e = ''s1''" "ScopeDimensions e = []"
    using sample_ingest [of "''p1''" None "''t''" empty_tables int] by (auto simp: sample_ids_def empty_tables_def)
  let ?p = "raw_row u 0 ''t'' (entry_json e)"
  have env: "rrEnvelope req = sample_envelope None" "rrArtifactDigest req = []" using assms by (auto simp: sample_explicit_def sample_override_def)
  obtain payload where st: "buildReportPayloadState req = Inr (payload, ''p1'')" "ValidateReportRequest req = []"
    using assms sample_report_states by (cases "buildReportPayloadState req") auto
  have s1: "TrimSpace (rwSessionID ?p) = ''s1''" unfolding raw_row_written w(6) by code_simp
  have p: "find (\<lambda>r. rwID r = ''p1'' \<and> rwTenantID r = ''t'') (dbEntries (iwDB w)) = Some ?p" "rwEntryType ?p = EntryTypePrescribe"
    using w(2-4) by (simp_all add: entry_type_defs)
  have "\<exists>w' res. Ingest_Report ?env ?s ''t'' req w = (w', Inr res) \<and> \<not> irDuplicate res"
  proof (rule report_commits [OF _ st(2) _ _ st(1) p])
    show "\<exists>entry. buildReportEntry ?env ?s ?req payload ?p False n (head_hash ''t'' (iwDB w)) = Inr entry \<and>
        EntryID entry \<noteq> [] \<and> EntryID entry \<notin> rwID ` set (dbEntries (iwDB w))" for n
      using sample_report_built [OF s1, of ?req int payload n "head_hash ''t'' (iwDB w)"] env w(2,3) by auto
    show "\<not> reportUsesSoftResolution req" by (simp add: reportUsesSoftResolution_def env sample_envelope_def)
  qed (simp_all add: env)
  moreover have "is_prescribe e" "decodes e" using w(4,5) by (simp_all add: is_prescribe_def decodes_def is_report_def entry_type_defs)
  moreover have "distinct (map fst (ScopeDimensions e))" using w(7) by simp
  ultimately show ?thesis using w(2,3) by blast
qed

lemma wire_decodes [simp]: "decodes (wire_entry e) = decodes e"
  by (simp add: decodes_def wire_entry_def is_report_def is_prescribe_def)

section \<open>Properties\<close>

text \<open>
  C14. An accepted report satisfies the rules of its verdict, however it was sent, and names a prescription
  that is on record for the same tenant, from the same session: a report on nothing is stored only by
  the webhook service, for evidence it declares as translated.
\<close>

theorem ingest_report_sound:
  assumes "Ingest_Report env s t req w = (w', Inr res)" "\<not> irDuplicate res"
  shows "\<exists>entry row payload. irEntry res = Some entry \<and> dbEntries (iwDB w') = dbEntries (iwDB w) @ [row] \<and>
    rwTenantID row = t \<and> rwPayload row = entry_json entry \<and> Type entry = EntryTypeReport \<and>
    Payload entry = report_json payload \<and> verdict_rules payload \<and>
    (isLegacyFallback s \<and> enEvidence (rrEnvelope req) = Some ''translated'' \<or>
     (\<exists>p\<in>set (dbEntries (iwDB w)). rwTenantID p = t \<and> rwEntryType p = EntryTypePrescribe \<and>
        rwID p = TrimSpace (rpPrescriptionID payload) \<and>
        (SessionID entry = [] \<or> TrimSpace (rwSessionID p) = [] \<or> SessionID entry = TrimSpace (rwSessionID p))))"
  using assms
proof (cases rule: report_committed)
  case (1 n entry payload pid p)
  note rules = state_rules [OF 1(1,6)] and fields = report_entry_signed [OF 1(3)]
  let ?payload = "payload\<lparr>rpReportID := ixFresh env n\<rparr>"
  obtain u where row: "dbEntries (iwDB w') = dbEntries (iwDB w) @ [raw_row u (ixTxTime env (iwStep w)) t (entry_json entry)]"
    using 1(4) by (auto simp: committed_entry_def)
  have p: "isLegacyFallback s \<and> enEvidence (rrEnvelope req) = Some ''translated'' \<or>
     (\<exists>p\<in>set (dbEntries (iwDB w)). rwTenantID p = t \<and> rwEntryType p = EntryTypePrescribe \<and> rwID p = TrimSpace (rpPrescriptionID payload) \<and>
        (SessionID entry = [] \<or> TrimSpace (rwSessionID p) = [] \<or> SessionID entry = TrimSpace (rwSessionID p)))"
    using 1(2) fields(5) rules(2) unfolding reportUsesSoftResolution_def by blast
  have v: "verdict_rules ?payload" using rules(1) by (simp add: verdict_rules_def)
  show ?thesis
    by (rule exI [of _ entry], rule exI [of _ "raw_row u (ixTxTime env (iwStep w)) t (entry_json entry)"], rule exI [of _ ?payload])
      (use 1(5) row fields(3,4) v p in simp)
qed

lemma ingest_report_sound_witness:
  "\<exists>w w' res entry payload. Ingest_Report (sample_ingest_env int) sample_ingest_service ''t'' sample_explicit w = (w', Inr res) \<and>
     \<not> irDuplicate res \<and> irEntry res = Some entry \<and> Payload entry = report_json payload \<and> verdict_rules payload \<and>
     (\<exists>p\<in>set (dbEntries (iwDB w)). rwTenantID p = ''t'' \<and> rwID p = TrimSpace (rpPrescriptionID payload))"
proof -
  obtain w w' res where r: "Ingest_Report (sample_ingest_env int) sample_ingest_service ''t'' sample_explicit w = (w', Inr res)" "\<not> irDuplicate res"
    using sample_report [of sample_explicit] by blast
  have "\<not> isLegacyFallback sample_ingest_service" by (simp add: sample_ingest_service_def NewService_def)
  with ingest_report_sound [OF r] r show ?thesis by blast
qed

text \<open>
  A report that overrides its payload is checked against the prescription its trimmed id names, but
  stored with the id as sent: an id with surrounding space is accepted, and every later score of the
  tenant's entries counts the report as an action nobody prescribed.
\<close>

theorem override_id_untrimmed:
  assumes "Ingest_Report env s t req w = (w', Inr res)" "\<not> irDuplicate res" "\<not> isLegacyFallback s" "map_dims (IngestReporting req)"
    and "rrPayloadOverride req = Some (RawValue j)" "unmarshal_report j = Some r"
    and "decode_rows (tenant_rows t (iwDB w')) = Inr es" "EvidenceToSignalEntries es = Inr ses" "rpPrescriptionID r \<notin> EntryID ` set es"
  shows "(\<exists>p\<in>set (dbEntries (iwDB w)). rwTenantID p = t \<and> rwEntryType p = EntryTypePrescribe \<and> rwID p = TrimSpace (rpPrescriptionID r)) \<and>
    (\<exists>ev\<in>set (DetectProtocolViolationEvents ses ttl now). seSubSignal ev = ''unprescribed_action'')"
  using assms(1,2)
proof (cases rule: report_committed)
  case (1 n entry payload pid p)
  note rules = state_rules [OF 1(1,6)] and fields = report_entry_signed [OF 1(3)]
  let ?e = "wire_entry entry"
  obtain u where row: "tenant_rows t (iwDB w') = tenant_rows t (iwDB w) @ [raw_row u (ixTxTime env (iwStep w)) t (entry_json entry)]"
    using tenant_rows_committed [OF 1(4), of t] by auto
  have "unmarshal_entry (entry_json entry) = Some ?e"
    using unmarshal_entry_json [of entry] fields(1) assms(4) by (simp add: signed_entry_def map_dims_def request_envelope_def)
  then have e: "?e \<in> set es" using assms(7) unfolding row by (auto dest!: decode_snoc)
  have same: "rpPrescriptionID payload = rpPrescriptionID r"
    using 1(1) assms(5,6) by (auto simp: buildReportPayloadState_def parseReportPayloadOverride_def split: if_splits)
  have wire: "Type ?e = Type entry" "Payload ?e = Payload entry" by (simp_all add: wire_entry_def)
  have kind: "is_report ?e" "unmarshal_report (Payload ?e) = Some (payload\<lparr>rpReportID := ixFresh env n\<rparr>)"
    using fields(3,4) by (simp_all add: wire is_report_def)
  obtain actions where b: "ses = List.map_filter (signal_entry actions) es" "decodes ?e"
    using Evidence_to_signal_Inr [OF assms(8)] Evidence_to_signal [of es] assms(8) e by (metis sum.inject(2))
  then obtain se where se: "signal_entry actions ?e = Some se" "se \<in> set ses"
    using signal_entry_Some [of ?e actions] kind(1) e by (auto simp: map_filter_in)
  have report: "enIsReport se" "enPrescriptionID se = rpPrescriptionID r" "rpPrescriptionID r \<noteq> []"
    using signal_entry_SomeD(7,9) [OF se(1)] kind same rules(1) by (auto simp: verdict_rules_def)
  have "\<not> (\<exists>p\<in>set ses. enIsPrescription p \<and> enEventID p = enPrescriptionID se)"
  proof
    assume "\<exists>q\<in>set ses. enIsPrescription q \<and> enEventID q = enPrescriptionID se"
    then obtain q e where q: "e \<in> set es" "signal_entry actions e = Some q" "enEventID q = rpPrescriptionID r"
      by (auto simp: b(1) map_filter_in report(2))
    with signal_entry_SomeD(1) [OF q(2)] assms(9) show False by simp
  qed
  then have "\<exists>ev\<in>set (DetectProtocolViolationEvents ses ttl now). seSubSignal ev = ''unprescribed_action''"
    using unprescribed_iff [of ses ttl now] se(2) report by metis
  moreover have "p \<in> set (dbEntries (iwDB w)) \<and> rwTenantID p = t \<and> rwEntryType p = EntryTypePrescribe \<and> rwID p = TrimSpace (rpPrescriptionID r)"
    using 1(2) assms(3) rules(2) same by simp
  ultimately show ?thesis by blast
qed

lemma override_id_untrimmed_witness:
  "\<exists>w w' res es ses. Ingest_Report (sample_ingest_env int) sample_ingest_service ''t'' sample_override w = (w', Inr res) \<and>
     decode_rows (tenant_rows ''t'' (iwDB w')) = Inr es \<and> EvidenceToSignalEntries es = Inr ses \<and>
     (\<exists>p\<in>set (dbEntries (iwDB w)). rwTenantID p = ''t'' \<and> rwID p = ''p1'') \<and>
     (\<exists>ev\<in>set (DetectProtocolViolationEvents ses 0 0). seSubSignal ev = ''unprescribed_action'')"
proof -
  let ?j = "report_json (sample_report_payload ''p1 '')" and ?env = "sample_ingest_env int" and ?s = sample_ingest_service
  obtain w w' res e u where w: "Ingest_Report ?env ?s ''t'' sample_override w = (w', Inr res)" "\<not> irDuplicate res"
    "dbEntries (iwDB w) = [raw_row u 0 ''t'' (entry_json e)]" "EntryID e = ''p1''" "decodes e" "distinct (map fst (ScopeDimensions e))"
    using sample_report [of sample_override] by blast
  have plain: "\<not> isLegacyFallback ?s" by (simp add: sample_ingest_service_def NewService_def)
  have dims: "map_dims (IngestReporting sample_override)" "enScopeDimensions (rrEnvelope sample_override) = []"
    by (simp_all add: map_dims_def request_envelope_def sample_override_def sample_envelope_def)
  have ov: "rrPayloadOverride sample_override = Some (RawValue ?j)" by (simp add: sample_override_def)
  obtain entry u' where e: "tenant_rows ''t'' (iwDB w') = tenant_rows ''t'' (iwDB w) @ [raw_row u' (int (iwStep w)) ''t'' (entry_json entry)]"
    "EntryID entry = ''u''" "decodes entry" "distinct (map fst (ScopeDimensions entry))"
    using w(1,2)
  proof (cases rule: report_committed)
    case (1 n entry payload pid p)
    note fields = report_entry_signed [OF 1(3)]
    have "decodes entry" using fields(3,4) by (simp add: decodes_def is_prescribe_def is_report_def entry_type_defs)
    moreover have "EntryID entry = ''u''" "ScopeDimensions entry = []"
      using fields(1,2) dims(2) by (simp_all add: sample_ingest_env_def signed_entry_def)
    ultimately show thesis using tenant_rows_committed [OF 1(4), of "''t''"] that [of _ entry] by auto
  qed
  have dec: "decode_rows (tenant_rows ''t'' (iwDB w')) = Inr [wire_entry e, wire_entry entry]"
    using w(3,6) e(1,4) unmarshal_entry_json by (simp add: tenant_rows_def)
  moreover have "decodes x" if "x \<in> set [wire_entry e, wire_entry entry]" for x using that w(5) e(3) by auto
  then obtain ses where ses: "EvidenceToSignalEntries [wire_entry e, wire_entry entry] = Inr ses"
    using Evidence_to_signal [of "[wire_entry e, wire_entry entry]"] by blast
  moreover have "rpPrescriptionID (sample_report_payload ''p1 '') \<notin> EntryID ` set [wire_entry e, wire_entry entry]"
    using w(4) e(2) by (simp add: sample_report_payload_def wire_entry_def)
  moreover have "TrimSpace (rpPrescriptionID (sample_report_payload ''p1 '')) = ''p1''" by code_simp
  ultimately have "(\<exists>p\<in>set (dbEntries (iwDB w)). rwTenantID p = ''t'' \<and> rwID p = ''p1'') \<and>
      (\<exists>ev\<in>set (DetectProtocolViolationEvents ses 0 0). seSubSignal ev = ''unprescribed_action'')"
    using override_id_untrimmed [OF w(1,2) plain dims(1) ov _ dec ses, of "sample_report_payload ''p1 ''" 0 0] by fastforce
  with w(1) dec ses show ?thesis by blast
qed

end
