(* ===== verification/Go_Strings.thy ===== *)
theory Go_Strings
  imports Prelude
begin

text \<open>
  The functions of \<^verbatim>\<open>strings\<close> that the command line, the MCP tools and the exports use, on byte
  strings, with the laws the components need.
\<close>

section \<open>Splitting and trimming\<close>

text \<open>\<open>strings.Split(s, sep)\<close> for a separator of one byte: the pieces between its occurrences.\<close>

fun SplitOn :: "char \<Rightarrow> string \<Rightarrow> string list" where
  "SplitOn c [] = [[]]"
| "SplitOn c (d # s) =
     (if d = c then [] # SplitOn c s
      else case SplitOn c s of [] \<Rightarrow> [[d]] | p # ps \<Rightarrow> (d # p) # ps)"

abbreviation newline :: char where "newline \<equiv> CHR 0x0A"

text \<open>\<open>strings.SplitN(s, sep, 2)\<close>: the parts around the first separator, if there is one.\<close>

definition CutOn :: "char \<Rightarrow> string \<Rightarrow> (string \<times> string) option" where
  "CutOn c s = (if c \<in> set s then Some (takeWhile (\<lambda>d. d \<noteq> c) s, tl (dropWhile (\<lambda>d. d \<noteq> c) s)) else None)"

definition TrimPrefix :: "string \<Rightarrow> string \<Rightarrow> string" where
  "TrimPrefix s p = (if HasPrefix s p then drop (length p) s else s)"

definition TrimSuffix :: "string \<Rightarrow> string \<Rightarrow> string" where
  "TrimSuffix s p = (if HasSuffix s p then take (length s - length p) s else s)"

text \<open>\<open>strings.Index\<close>: where the first occurrence starts.\<close>

fun Index :: "string \<Rightarrow> string \<Rightarrow> nat option" where
  "Index [] p = (if p = [] then Some 0 else None)"
| "Index (c # s) p = (if HasPrefix (c # s) p then Some 0 else map_option Suc (Index s p))"

definition upper_char :: "char \<Rightarrow> char" where
  "upper_char c = (let n = (of_char c :: nat) in if 97 \<le> n \<and> n \<le> 122 then char_of (n - 32) else c)"

definition ToUpper :: "string \<Rightarrow> string" where
  "ToUpper s = map upper_char s"

section \<open>Laws\<close>

lemma SplitOn_not_Nil [simp]: "SplitOn c s \<noteq> []"
  by (induction s) (auto split: list.splits)

lemma SplitOn_none [simp]: "c \<notin> set s \<Longrightarrow> SplitOn c s = [s]"
  by (induction s) auto

lemma SplitOn_append: "c \<notin> set a \<Longrightarrow> SplitOn c (a @ c # b) = a # SplitOn c b"
  by (induction a) auto

lemma SplitOn_join: "Join (SplitOn c s) [c] = s"
proof (induction s)
  case (Cons d s)
  obtain p ps where p: "SplitOn c s = p # ps" by (cases "SplitOn c s") auto
  with Cons show ?case by (cases ps) auto
qed simp

lemma SplitOn_pieces: "p \<in> set (SplitOn c s) \<Longrightarrow> c \<notin> set p"
  by (induction s arbitrary: p) (auto split: list.splits if_splits)

lemma HasPrefix_self [simp]: "HasPrefix (p @ s) p"
  by (simp add: HasPrefix_append)

lemma TrimPrefix_append [simp]: "TrimPrefix (p @ s) p = s"
  by (simp add: TrimPrefix_def)

lemma HasSuffix_append: "HasSuffix s p \<longleftrightarrow> (\<exists>t. s = t @ p)"
proof -
  have "rev s = rev p @ t \<longleftrightarrow> s = rev t @ p" for t by (metis rev_append rev_rev_ident)
  then show ?thesis unfolding HasSuffix_def HasPrefix_append by (metis rev_rev_ident)
qed

text \<open>\<open>Fields\<close> of words that hold no white space, one blank apart.\<close>

lemma Fields_Nil [simp]: "Fields [] = []"
  by (simp add: Fields.simps)

lemma Fields_space [simp]: "is_space c \<Longrightarrow> Fields (c # s) = Fields s"
  by (subst (1 2) Fields.simps) simp

lemma takeWhile_word: "list_all (\<lambda>c. \<not> P c) w \<Longrightarrow> s = [] \<or> P (hd s) \<Longrightarrow> takeWhile (\<lambda>c. \<not> P c) (w @ s) = w"
  by (induction w) (cases s; auto)+

lemma dropWhile_word: "list_all (\<lambda>c. \<not> P c) w \<Longrightarrow> s = [] \<or> P (hd s) \<Longrightarrow> dropWhile (\<lambda>c. \<not> P c) (w @ s) = s"
  by (induction w) (cases s; auto)+

lemma Fields_word:
  assumes "w \<noteq> []" "list_all (\<lambda>c. \<not> is_space c) w" "s = [] \<or> is_space (hd s)"
  shows "Fields (w @ s) = w # Fields s"
proof -
  have "dropWhile is_space (w @ s) = w @ s" using assms(1,2) by (cases w) auto
  with assms show ?thesis
    by (subst Fields.simps) (simp add: Let_def takeWhile_word dropWhile_word)
qed

lemma Fields_join:
  assumes "list_all (\<lambda>w. w \<noteq> [] \<and> list_all (\<lambda>c. \<not> is_space c) w) ws"
  shows "Fields (Join ws '' '') = ws"
  using assms
proof (induction ws rule: induct_list012)
  case (2 w)
  then show ?case using Fields_word [of w "[]"] by simp
next
  case (3 w v ws)
  have "is_space CHR '' ''" by (simp add: is_space_def)
  then show ?case using 3 Fields_word [of w "CHR '' '' # Join (v # ws) '' ''"] by simp
qed simp

end
