(* ===== verification/Command.thy ===== *)
theory Command
  imports Go_Strings
begin

text \<open>
  Command lines: the tokeniser and the guards of the \<open>run_command\<close> tool
  (\<^verbatim>\<open>pkg/mcpserver/command_parse.go\<close>, \<^verbatim>\<open>run_command.go\<close>), and the classification of
  commands that decides what is recorded (\<^verbatim>\<open>pkg/proxy/detect.go\<close>). The tokeniser is a state machine
  over the characters; \<open>unicode.IsSpace\<close> is modelled on ASCII, as everywhere.
\<close>

section \<open>The tokeniser\<close>

datatype parseState = ParseBare | ParseSingleQuote | ParseDoubleQuote

record parser =
  psArgs :: "string list"
  psCurrent :: string
  psState :: parseState
  psEscaped :: bool
  psStarted :: bool

datatype ParseError = TrailingEscape | UnterminatedQuote | CommandEmpty

definition start_parser :: parser where
  "start_parser = \<lparr>psArgs = [], psCurrent = [], psState = ParseBare, psEscaped = False, psStarted = False\<rparr>"

definition flush_token :: "parser \<Rightarrow> parser" where
  "flush_token p = (if \<not> psStarted p then p
     else p\<lparr>psArgs := psArgs p @ [psCurrent p], psCurrent := [], psStarted := False\<rparr>)"

definition write_char :: "char \<Rightarrow> parser \<Rightarrow> parser" where
  "write_char c p = p\<lparr>psCurrent := psCurrent p @ [c]\<rparr>"

abbreviation single_quote :: char where "single_quote \<equiv> CHR 0x27"
abbreviation double_quote :: char where "double_quote \<equiv> CHR 0x22"
abbreviation backslash :: char where "backslash \<equiv> CHR 0x5C"

definition parse_step :: "char \<Rightarrow> parser \<Rightarrow> parser" where
  "parse_step c p =
     (case psState p of
        ParseSingleQuote \<Rightarrow>
          (let p = p\<lparr>psStarted := True\<rparr> in
           if c = single_quote then p\<lparr>psState := ParseBare\<rparr> else write_char c p)
      | ParseDoubleQuote \<Rightarrow>
          (let p = p\<lparr>psStarted := True\<rparr> in
           if psEscaped p then (write_char c p)\<lparr>psEscaped := False\<rparr>
           else if c = backslash then p\<lparr>psEscaped := True\<rparr>
           else if c = double_quote then p\<lparr>psState := ParseBare\<rparr>
           else write_char c p)
      | ParseBare \<Rightarrow>
          (if psEscaped p then (write_char c (p\<lparr>psStarted := True\<rparr>))\<lparr>psEscaped := False\<rparr>
           else if is_space c then flush_token p
           else if c = single_quote then p\<lparr>psStarted := True, psState := ParseSingleQuote\<rparr>
           else if c = double_quote then p\<lparr>psStarted := True, psState := ParseDoubleQuote\<rparr>
           else if c = backslash then p\<lparr>psStarted := True, psEscaped := True\<rparr>
           else write_char c (p\<lparr>psStarted := True\<rparr>)))"

definition parse_end :: "parser \<Rightarrow> ParseError + string list" where
  "parse_end p =
     (if psEscaped p then Inl TrailingEscape
      else if psState p \<noteq> ParseBare then Inl UnterminatedQuote
      else (let args = psArgs (flush_token p) in if args = [] then Inl CommandEmpty else Inr args))"

definition parseCommand :: "string \<Rightarrow> ParseError + string list" where
  "parseCommand command = parse_end (fold parse_step command start_parser)"

definition commandFields :: "string \<Rightarrow> string list" where
  "commandFields command = (case parseCommand command of Inl _ \<Rightarrow> Fields (TrimSpace command) | Inr args \<Rightarrow> args)"

section \<open>Classification\<close>

datatype OperationClass = OpMutate | OpDestroy | OpRead | OpPlan | OpUnknown

fun class_text :: "OperationClass \<Rightarrow> string" where
  "class_text OpMutate = ''mutate''"
| "class_text OpDestroy = ''destroy''"
| "class_text OpRead = ''read''"
| "class_text OpPlan = ''plan''"
| "class_text OpUnknown = ''unknown''"

definition toolOps :: "string \<rightharpoonup> (string \<rightharpoonup> OperationClass)" where
  "toolOps = map_of
     [(''kubectl'', map_of
        ([(x, OpMutate). x \<leftarrow> [''apply'', ''create'', ''patch'', ''replace'', ''set'', ''annotate'', ''label'', ''rollout'',
            ''scale'', ''autoscale'', ''taint'', ''cordon'', ''uncordon'']] @
         [(x, OpDestroy). x \<leftarrow> [''delete'', ''drain'']] @
         [(x, OpRead). x \<leftarrow> [''get'', ''describe'', ''logs'', ''top'', ''diff'', ''explain'', ''events'', ''auth'']])),
      (''helm'', map_of
        ([(x, OpMutate). x \<leftarrow> [''install'', ''upgrade'', ''rollback'']] @ [(''uninstall'', OpDestroy)] @
         [(x, OpRead). x \<leftarrow> [''list'', ''status'', ''template'', ''show'']])),
      (''terraform'', map_of
        ([(x, OpMutate). x \<leftarrow> [''apply'', ''import'']] @ [(''destroy'', OpDestroy)] @
         [(x, OpPlan). x \<leftarrow> [''plan'', ''validate'', ''refresh'']] @ [(x, OpRead). x \<leftarrow> [''show'', ''state'', ''output'']])),
      (''argocd'', map_of
        [(''app sync'', OpMutate), (''app delete'', OpDestroy), (''app set'', OpMutate), (''app get'', OpRead), (''app list'', OpRead)]),
      (''docker'', map_of
        [(''run'', OpMutate), (''rm'', OpDestroy), (''stop'', OpMutate), (''kill'', OpDestroy),
         (''ps'', OpRead), (''images'', OpRead), (''logs'', OpRead), (''inspect'', OpRead)])]"

definition classify_words :: "string list \<Rightarrow> string \<times> string \<times> OperationClass" where
  "classify_words words =
     (case words of
        [] \<Rightarrow> ([], [], OpUnknown)
      | tool # rest \<Rightarrow>
          (case toolOps tool of
             None \<Rightarrow> (tool, [], OpUnknown)
           | Some ops \<Rightarrow>
               (case rest of
                  [] \<Rightarrow> (tool, [], OpUnknown)
                | [operation] \<Rightarrow> (case ops operation of Some c \<Rightarrow> (tool, operation, c) | None \<Rightarrow> (tool, operation, OpUnknown))
                | operation # w # _ \<Rightarrow>
                    (case ops (operation @ '' '' @ w) of
                       Some c \<Rightarrow> (tool, operation @ '' '' @ w, c)
                     | None \<Rightarrow> (case ops operation of Some c \<Rightarrow> (tool, operation, c) | None \<Rightarrow> (tool, operation, OpUnknown))))))"

definition ClassifyCommand :: "string \<Rightarrow> string \<times> string \<times> OperationClass" where
  "ClassifyCommand command = classify_words (Fields (TrimSpace command))"

definition IsMutation :: "string \<Rightarrow> bool" where
  "IsMutation command \<longleftrightarrow> snd (snd (ClassifyCommand command)) \<in> {OpMutate, OpDestroy}"

definition token_class :: "string \<Rightarrow> OperationClass option" where
  "token_class t =
     (if t \<in> {''delete'', ''destroy'', ''uninstall'', ''remove'', ''rm'', ''down''} then Some OpDestroy
      else if t \<in> {''apply'', ''create'', ''patch'', ''update'', ''install'', ''upgrade'', ''sync'', ''restart'',
        ''rollout'', ''scale'', ''annotate'', ''label'', ''set'', ''import'', ''deploy''} then Some OpMutate
      else if t \<in> {''get'', ''list'', ''describe'', ''logs'', ''read'', ''show'', ''status'', ''top'', ''diff''} then Some OpRead
      else None)"

definition ClassifyToolName :: "string \<Rightarrow> string \<times> string \<times> OperationClass" where
  "ClassifyToolName name =
     (let normalized = ToLower (TrimSpace name) in
      if normalized = [] then ([], [], OpUnknown)
      else case find (\<lambda>t. token_class t \<noteq> None)
             (Fields (map (\<lambda>c. if c \<in> set ''._-/'' then CHR '' '' else c) normalized)) of
             None \<Rightarrow> (normalized, [], OpUnknown)
           | Some t \<Rightarrow> (normalized, t, the (token_class t)))"

section \<open>The guards of run\_command\<close>

definition defaultAllowedPrefixes :: "string list" where
  "defaultAllowedPrefixes = [''kubectl'', ''helm'', ''argocd'', ''kind'', ''terraform'', ''aws'', ''kustomize'',
     ''cat'', ''echo'', ''grep'', ''head'', ''tail'', ''wc'', ''ls'', ''find'', ''openssl'', ''jq'', ''yq'']"

definition defaultBlockedSubcommands :: "string list" where
  "defaultBlockedSubcommands = [''kubectl edit '', ''kubectl exec '', ''kubectl attach '', ''kubectl port-forward '',
     ''kubectl proxy'', ''kubectl run '', ''kubectl debug '', ''helm shell'', ''terraform console'']"

definition shellMetachars :: "string list" where
  "shellMetachars = ['';'', ''&&'', ''||'', ''|'', [CHR 0x60], ''$('', ''${'', ''>'', ''<'', [newline]]"

definition truncateCmd :: "string \<Rightarrow> nat \<Rightarrow> string" where
  "truncateCmd s n = (if length s \<le> n then s else take n s @ ''...'')"

datatype CommandError = Metachar string | CommandBlocked string | NotAllowed string

definition validateRunCommand :: "string \<Rightarrow> string list \<Rightarrow> string list \<Rightarrow> CommandError option" where
  "validateRunCommand command allowed blocked =
     (let trimmed = TrimSpace command in
      case find (\<lambda>m. Contains trimmed m) shellMetachars of
        Some m \<Rightarrow> Some (Metachar m)
      | None \<Rightarrow>
          if \<exists>b\<in>set blocked. trimmed = TrimSpace b \<or> HasPrefix trimmed b then Some (CommandBlocked (truncateCmd trimmed 60))
          else if \<exists>p\<in>set allowed. trimmed = p \<or> HasPrefix trimmed (p @ '' '') then None
          else Some (NotAllowed (truncateCmd trimmed 50)))"

end
