(* ===== verification/Command_Props.thy ===== *)
theory Command_Props
  imports Command
begin

text \<open>
  Properties of command lines: every argument vector can be written as a command, commands
  without quotes are cut as \<open>strings.Fields\<close> cuts them and so classified by what they execute, and
  quoting evades both the guards and the record.
\<close>

section \<open>Runs of the tokeniser\<close>

text \<open>A word in single quotes; a quote inside closes, escapes and reopens.\<close>

definition quote_arg :: "string \<Rightarrow> string" where
  "quote_arg w = single_quote # concat (map (\<lambda>c. if c = single_quote
     then [single_quote, backslash, single_quote, single_quote] else [c]) w) @ [single_quote]"

lemma blank [simp]: "is_space CHR '' ''" "\<not> is_space single_quote" "\<not> is_space backslash" "\<not> is_space double_quote"
  by (simp_all add: is_space_def)

text \<open>Characters that mean nothing to the tokeniser.\<close>

definition plain_char :: "char \<Rightarrow> bool" where
  "plain_char c \<longleftrightarrow> c \<notin> {single_quote, double_quote, backslash}"

text \<open>The steps of the tokeniser, by state.\<close>

lemma step_quoted:
  "psState p = ParseSingleQuote \<Longrightarrow> parse_step single_quote p = p\<lparr>psStarted := True, psState := ParseBare\<rparr>"
  "psState p = ParseSingleQuote \<Longrightarrow> c \<noteq> single_quote \<Longrightarrow> parse_step c p = p\<lparr>psStarted := True, psCurrent := psCurrent p @ [c]\<rparr>"
  by (simp_all add: parse_step_def write_char_def)

lemma step_bare:
  assumes "psState p = ParseBare" "\<not> psEscaped p"
  shows "is_space c \<Longrightarrow> parse_step c p = flush_token p"
    "parse_step single_quote p = p\<lparr>psStarted := True, psState := ParseSingleQuote\<rparr>"
    "parse_step backslash p = p\<lparr>psStarted := True, psEscaped := True\<rparr>"
    "plain_char c \<Longrightarrow> \<not> is_space c \<Longrightarrow> parse_step c p = p\<lparr>psStarted := True, psCurrent := psCurrent p @ [c]\<rparr>"
  using assms by (simp_all add: parse_step_def write_char_def plain_char_def)

lemma step_escaped:
  "psState p = ParseBare \<Longrightarrow> psEscaped p \<Longrightarrow> parse_step c p = p\<lparr>psStarted := True, psCurrent := psCurrent p @ [c], psEscaped := False\<rparr>"
  by (simp add: parse_step_def write_char_def)

lemmas steps = step_quoted step_bare step_escaped

lemma parse_quoted_body:
  assumes "psState p = ParseSingleQuote" "\<not> psEscaped p" "psStarted p"
  shows "fold parse_step (concat (map (\<lambda>c. if c = single_quote
     then [single_quote, backslash, single_quote, single_quote] else [c]) w)) p = p\<lparr>psCurrent := psCurrent p @ w\<rparr>"
  using assms by (induction w arbitrary: p) (auto simp: steps)

lemma parse_quoted:
  assumes "psState p = ParseBare" "\<not> psEscaped p"
  shows "fold parse_step (quote_arg w) p = p\<lparr>psCurrent := psCurrent p @ w, psStarted := True\<rparr>"
proof -
  let ?p = "p\<lparr>psStarted := True, psState := ParseSingleQuote\<rparr>"
  have "fold parse_step (quote_arg w) p = parse_step single_quote (?p\<lparr>psCurrent := psCurrent ?p @ w\<rparr>)"
    using assms parse_quoted_body [of ?p w] by (simp add: quote_arg_def steps)
  then show ?thesis using assms by (simp add: steps)
qed

lemma parse_quoted_args:
  assumes "psState p = ParseBare" "\<not> psEscaped p" "\<not> psStarted p" "psCurrent p = []" "args \<noteq> []"
  shows "parse_end (fold parse_step (Join (map quote_arg args) '' '') p) = Inr (psArgs p @ args)"
  using assms
proof (induction args arbitrary: p rule: induct_list012)
  case (2 w)
  then show ?case by (simp add: parse_quoted parse_end_def flush_token_def Let_def)
next
  case (3 w v ws)
  let ?q = "p\<lparr>psArgs := psArgs p @ [w]\<rparr>"
  have "fold parse_step (quote_arg w @ '' '') p = ?q"
    using 3(3-6) by (simp add: parse_quoted steps flush_token_def)
  then have "fold parse_step (Join (map quote_arg (w # v # ws)) '' '') p = fold parse_step (Join (map quote_arg (v # ws)) '' '') ?q"
    by simp
  with 3(2) [of ?q] 3(3-6) show ?case by simp
qed simp

lemma parse_plain_word:
  assumes "psState p = ParseBare" "\<not> psEscaped p" "list_all plain_char w" "list_all (\<lambda>c. \<not> is_space c) w" "w \<noteq> []"
  shows "fold parse_step w p = p\<lparr>psCurrent := psCurrent p @ w, psStarted := True\<rparr>"
  using assms
proof (induction w arbitrary: p)
  case (Cons c w)
  have "parse_step c p = p\<lparr>psCurrent := psCurrent p @ [c], psStarted := True\<rparr>"
    using Cons.prems by (simp add: steps)
  with Cons show ?case by (cases "w = []") simp_all
qed simp

lemma parse_plain:
  assumes "psState p = ParseBare" "\<not> psEscaped p" "\<not> psStarted p" "psCurrent p = []" "list_all plain_char s"
  shows "parse_end (fold parse_step s p) = (let args = psArgs p @ Fields s in if args = [] then Inl CommandEmpty else Inr args)"
  using assms
proof (induction s arbitrary: p rule: length_induct)
  case (1 s)
  obtain w t where wt: "w = takeWhile (\<lambda>c. \<not> is_space c) s" "t = dropWhile (\<lambda>c. \<not> is_space c) s" by blast
  show ?case
  proof (cases s)
    case Nil
    then show ?thesis using 1 by (simp add: parse_end_def flush_token_def Let_def)
  next
    case (Cons c cs)
    show ?thesis
    proof (cases "is_space c")
      case True
      have "parse_step c p = p" using 1(2-5) True by (simp add: steps flush_token_def)
      then show ?thesis using 1(1) [rule_format, of cs p] 1(2-6) True Cons by simp
    next
      case False
      have s: "s = w @ t" using wt by simp
      have w: "w \<noteq> []" "list_all (\<lambda>c. \<not> is_space c) w" "list_all plain_char w"
        using False Cons 1(6) unfolding wt by (auto simp: list_all_iff dest: set_takeWhileD)
      have t: "t = [] \<or> is_space (hd t)" "list_all plain_char t"
        using hd_dropWhile [of "\<lambda>c. \<not> is_space c" s] 1(6) unfolding wt by (auto simp: list_all_iff dest: set_dropWhileD)
      have F: "Fields s = w # Fields t" using Fields_word [OF w(1,2) t(1)] s by simp
      let ?q = "p\<lparr>psCurrent := w, psStarted := True\<rparr>"
      have q: "fold parse_step s p = fold parse_step t ?q"
        using parse_plain_word [OF 1(2,3) w(3,2,1)] 1(5) s by (metis append_Nil fold_append o_apply)
      show ?thesis
      proof (cases "t = []")
        case True
        then show ?thesis using q F 1(2,3) by (simp add: parse_end_def flush_token_def Let_def)
      next
        case False
        then obtain d ds where d: "t = d # ds" "is_space d" using t(1) by (cases t) auto
        let ?r = "p\<lparr>psArgs := psArgs p @ [w]\<rparr>"
        have "parse_step d ?q = ?r" using d(2) 1(2-5) by (simp add: steps flush_token_def)
        then have f: "fold parse_step s p = fold parse_step ds ?r" using q d(1) by simp
        have "length ds < length s" using d(1) length_dropWhile_le [of "\<lambda>c. \<not> is_space c" s] wt(2) by simp
        moreover have "list_all plain_char ds" using t(2) d(1) by simp
        moreover have "Fields t = Fields ds" using d by simp
        ultimately show ?thesis using 1(1) [rule_format, of ds ?r] 1(2-5) f F by (simp add: Let_def)
      qed
    qed
  qed
qed

section \<open>Trimming does not change the words\<close>

lemma Fields_lead: "Fields (dropWhile is_space s) = Fields s"
  by (subst (1 2) Fields.simps) simp

lemma Fields_spaces: "list_all is_space t \<Longrightarrow> Fields t = []"
  by (subst Fields.simps) (simp add: list_all_iff Let_def)

lemma Fields_trail: "list_all is_space t \<Longrightarrow> Fields (s @ t) = Fields s"
proof (induction s rule: length_induct)
  case (1 s)
  let ?nsp = "\<lambda>c. \<not> is_space c"
  show ?case
  proof (cases s)
    case Nil
    then show ?thesis using 1(2) Fields_spaces by simp
  next
    case (Cons c cs)
    show ?thesis
    proof (cases "is_space c")
      case True
      then show ?thesis using 1 Cons by simp
    next
      case False
      obtain w u where wu: "w = takeWhile ?nsp s" "u = dropWhile ?nsp s" by blast
      have s: "s = w @ u" using wu by simp
      have w: "w \<noteq> []" "list_all ?nsp w" using wu False Cons by (auto simp: list_all_iff dest: set_takeWhileD)
      have u: "u = [] \<or> is_space (hd u)" using hd_dropWhile [of ?nsp s] wu(2) by auto
      then have "u @ t = [] \<or> is_space (hd (u @ t))" using 1(2) by (cases u; cases t) auto
      then have "Fields (s @ t) = w # Fields (u @ t)" using Fields_word [OF w] by (simp add: s)
      moreover have "Fields (u @ t) = Fields u" using 1 w(1) s by simp
      ultimately show ?thesis using Fields_word [OF w u] s by simp
    qed
  qed
qed

lemma Fields_TrimSpace [simp]: "Fields (TrimSpace s) = Fields s"
proof -
  let ?u = "dropWhile is_space s"
  have "?u = TrimSpace s @ rev (takeWhile is_space (rev ?u))"
    unfolding TrimSpace_def by (metis rev_append rev_rev_ident takeWhile_dropWhile_id)
  moreover have "list_all is_space (rev (takeWhile is_space (rev ?u)))" by (auto simp: list_all_iff dest: set_takeWhileD)
  ultimately show ?thesis by (metis Fields_lead Fields_trail)
qed

section \<open>Properties\<close>

text \<open>
  C11. Every argument vector can be written as a command: quoted one by one and joined by blanks, the
  arguments, empty ones, blanks and quotes included, come back as they were.
\<close>

theorem command_roundtrip:
  assumes "args \<noteq> []"
  shows "parseCommand (Join (map quote_arg args) '' '') = Inr args"
  unfolding parseCommand_def using assms parse_quoted_args [of start_parser args] by (simp add: start_parser_def)

lemma command_roundtrip_witness:
  "parseCommand (Join (map quote_arg [''echo'', [], ''it'' @ [single_quote] @ ''s a'']) '' '') = Inr [''echo'', [], ''it'' @ [single_quote] @ ''s a'']"
  by (rule command_roundtrip) simp

text \<open>
  C10. Without quotes and backslashes a command is cut as \<open>strings.Fields\<close> cuts it, and so the class that
  decides whether it is recorded is the class of the arguments that are executed.
\<close>

theorem plain_command_classified:
  assumes "list_all plain_char command" "parseCommand command = Inr args"
  shows "args = Fields command \<and> ClassifyCommand command = classify_words args"
proof -
  have "parseCommand command = (if Fields command = [] then Inl CommandEmpty else Inr (Fields command))"
    unfolding parseCommand_def using parse_plain [of start_parser command] assms(1) by (simp add: start_parser_def Let_def)
  with assms(2) have "args = Fields command" by (simp split: if_splits)
  then show ?thesis by (simp add: ClassifyCommand_def)
qed

lemma plain_command_classified_witness:
  "[''kubectl'', ''delete'', ''pod''] = Fields ''kubectl delete  pod'' \<and>
   ClassifyCommand ''kubectl delete  pod'' = classify_words [''kubectl'', ''delete'', ''pod'']"
proof (rule plain_command_classified)
  show "list_all plain_char ''kubectl delete  pod''" by code_simp
  show "parseCommand ''kubectl delete  pod'' = Inr [''kubectl'', ''delete'', ''pod'']" by code_simp
qed

text \<open>The characters that the guard looks for.\<close>

definition harmless :: "char \<Rightarrow> bool" where
  "harmless c \<longleftrightarrow> c \<notin> {CHR '';'', CHR ''&'', CHR ''|'', CHR 0x60, CHR ''$'', CHR ''>'', CHR ''<'', newline, single_quote}"

lemma quote_arg_harmless: "list_all harmless w \<Longrightarrow> quote_arg w = single_quote # w @ [single_quote]"
proof -
  assume "list_all harmless w"
  then have "concat (map (\<lambda>c. if c = single_quote then [single_quote, backslash, single_quote, single_quote] else [c]) w) = w"
    by (induction w) (auto simp: harmless_def)
  then show ?thesis by (simp add: quote_arg_def)
qed

lemma no_metachar:
  assumes "list_all (\<lambda>c. harmless c \<or> c = single_quote) s" "m \<in> set shellMetachars"
  shows "\<not> Contains s m"
proof
  assume "Contains s m"
  then obtain a b where "s = a @ m @ b" by (auto simp: Contains_iff)
  with assms(1) have "list_all (\<lambda>c. harmless c \<or> c = single_quote) m" by simp
  with assms(2) show False by (auto simp: shellMetachars_def harmless_def)
qed

lemma quoted_operation_unknown: "toolOps t = Some ops \<Longrightarrow> ops (single_quote # x) = None"
  by (auto simp: toolOps_def split: if_splits)

lemma blocked_trimmed: "map TrimSpace defaultBlockedSubcommands = [''kubectl edit'', ''kubectl exec'', ''kubectl attach'',
    ''kubectl port-forward'', ''kubectl proxy'', ''kubectl run'', ''kubectl debug'', ''helm shell'', ''terraform console'']"
  by code_simp

lemma quoted_not_blocked:
  assumes "t \<in> set defaultAllowedPrefixes" "b \<in> set defaultBlockedSubcommands"
  shows "\<not> HasPrefix (t @ CHR '' '' # single_quote # x) b" "t @ CHR '' '' # single_quote # x \<noteq> TrimSpace b"
proof -
  show "\<not> HasPrefix (t @ CHR '' '' # single_quote # x) b"
    using assms unfolding defaultAllowedPrefixes_def defaultBlockedSubcommands_def by auto
  have "TrimSpace b \<in> set (map TrimSpace defaultBlockedSubcommands)" using assms(2) by simp
  then show "t @ CHR '' '' # single_quote # x \<noteq> TrimSpace b"
    using assms(1) unfolding blocked_trimmed defaultAllowedPrefixes_def by auto
qed

lemma allowed_word: "t \<in> set defaultAllowedPrefixes \<Longrightarrow> t \<noteq> [] \<and> list_all (\<lambda>c. \<not> is_space c \<and> plain_char c \<and> harmless c) t"
  unfolding defaultAllowedPrefixes_def by (auto simp: is_space_def plain_char_def harmless_def)

lemma quote_arg_ends: "quote_arg w \<noteq> []" "hd (quote_arg w) = single_quote" "last (quote_arg w) = single_quote"
  by (simp_all add: quote_arg_def)

lemma quoted_join_ends: "args \<noteq> [] \<Longrightarrow> Join (map quote_arg args) '' '' \<noteq> [] \<and> hd (Join (map quote_arg args) '' '') = single_quote \<and>
    last (Join (map quote_arg args) '' '') = single_quote"
  by (induction args rule: induct_list012) (simp_all add: quote_arg_ends)

lemma TrimSpace_solid: "s \<noteq> [] \<Longrightarrow> \<not> is_space (hd s) \<Longrightarrow> \<not> is_space (last s) \<Longrightarrow> TrimSpace s = s"
  by (simp add: TrimSpace_def dropWhile_id hd_rev)

text \<open>
  C9. Quoting evades both the list of blocked subcommands and the record: the guards look at the text of
  the command and the classification at its words, but what is executed are the arguments of
  the tokeniser. Whatever arguments are wanted, without shell metacharacters, after an allowed tool,
  \<open>kubectl exec\<close> or \<open>kubectl delete\<close> included, the command that quotes them is accepted, executes
  exactly them, and is not taken for a mutation, so nothing is recorded.
\<close>

theorem quoting_evades_guards:
  assumes "tool \<in> set defaultAllowedPrefixes" "args \<noteq> []" "list_all (list_all harmless) args"
    and "command = tool @ '' '' @ Join (map quote_arg args) '' ''"
  shows "validateRunCommand command defaultAllowedPrefixes defaultBlockedSubcommands = None \<and>
    parseCommand command = Inr (tool # args) \<and> \<not> IsMutation command"
proof (intro conjI)
  obtain a as where args: "args = a # as" using assms(2) by (cases args) auto
  note tool = allowed_word [OF assms(1)]
  have tool': "tool \<noteq> []" "list_all (\<lambda>c. \<not> is_space c) tool" "list_all plain_char tool" "list_all harmless tool"
    using tool by (auto simp: list_all_iff)
  note ends = quoted_join_ends [OF assms(2)]
  obtain x where x: "Join (map quote_arg args) '' '' = single_quote # x"
    using ends by (cases "Join (map quote_arg args) '' ''") auto
  then have c: "command = tool @ CHR '' '' # single_quote # x" using assms(4) by simp
  have chars: "list_all (\<lambda>c. harmless c \<or> c = single_quote) (Join (map quote_arg args) '' '')"
    using assms(3)
  proof (induction args rule: induct_list012)
    case (3 v w ws)
    have "harmless CHR '' ''" by (simp add: harmless_def)
    with 3 show ?case by (simp add: quote_arg_harmless) (auto simp: list_all_iff)
  qed (auto simp: quote_arg_harmless list_all_iff)
  have trim: "TrimSpace command = command"
    by (rule TrimSpace_solid) (use ends tool'(1,2) in \<open>auto simp: assms(4) list_all_iff\<close>)
  have "harmless CHR '' ''" by (simp add: harmless_def)
  then have "list_all (\<lambda>c. harmless c \<or> c = single_quote) command"
    using chars tool'(4) by (auto simp: assms(4) list_all_iff)
  then have meta: "find (\<lambda>m. Contains command m) shellMetachars = None"
    using no_metachar by (simp add: find_None_iff)
  show "validateRunCommand command defaultAllowedPrefixes defaultBlockedSubcommands = None"
  proof -
    have "\<not> (\<exists>b\<in>set defaultBlockedSubcommands. command = TrimSpace b \<or> HasPrefix command b)"
      using quoted_not_blocked [OF assms(1), of _ x] unfolding c by blast
    moreover have "HasPrefix command (tool @ '' '')" by (simp add: c HasPrefix_append)
    ultimately show ?thesis
      using assms(1) unfolding validateRunCommand_def trim Let_def meta by auto
  qed
  have "fold parse_step (tool @ '' '') start_parser = start_parser\<lparr>psArgs := [tool]\<rparr>"
    using parse_plain_word [of start_parser tool] tool' by (simp add: start_parser_def steps flush_token_def)
  then have "fold parse_step command start_parser = fold parse_step (Join (map quote_arg args) '' '') (start_parser\<lparr>psArgs := [tool]\<rparr>)"
    unfolding assms(4) by simp
  then show "parseCommand command = Inr (tool # args)"
    unfolding parseCommand_def using parse_quoted_args [of "start_parser\<lparr>psArgs := [tool]\<rparr>" args] assms(2)
    by (simp add: start_parser_def)
  have "Fields command = tool # Fields (single_quote # x)"
    using Fields_word [OF tool'(1,2), of "CHR '' '' # single_quote # x"] by (simp add: c)
  then obtain y z where "Fields command = tool # (single_quote # y) # z"
    by (subst (asm) (2) Fields.simps) (simp add: Let_def)
  then show "\<not> IsMutation command"
    by (cases z) (auto simp: IsMutation_def ClassifyCommand_def classify_words_def quoted_operation_unknown split: option.split)
qed

lemma quoting_evades_guards_witness:
  "\<exists>command. command = ''kubectl'' @ '' '' @ Join (map quote_arg [''delete'', ''ns'', ''prod'']) '' '' \<and>
     validateRunCommand command defaultAllowedPrefixes defaultBlockedSubcommands = None \<and>
     parseCommand command = Inr [''kubectl'', ''delete'', ''ns'', ''prod''] \<and> \<not> IsMutation command \<and>
     classify_words [''kubectl'', ''delete'', ''ns'', ''prod''] = (''kubectl'', ''delete'', OpDestroy)"
proof -
  have "list_all (list_all harmless) [''delete'', ''ns'', ''prod'']" by code_simp
  moreover have "''kubectl'' \<in> set defaultAllowedPrefixes" by (simp add: defaultAllowedPrefixes_def)
  moreover have "classify_words [''kubectl'', ''delete'', ''ns'', ''prod''] = (''kubectl'', ''delete'', OpDestroy)" by code_simp
  ultimately show ?thesis using quoting_evades_guards [of "''kubectl''" "[''delete'', ''ns'', ''prod'']"] by blast
qed

end
