(* ===== verification/Exec_Contract.thy ===== *)
theory Exec_Contract
  imports Go_Strings Payloads
begin

text \<open>
  The execution contract shared by the tools that call the service (\<^verbatim>\<open>pkg/execcontract/contracts.go\<close>):
  the inputs of prescribe and report, their validation, which stops at the first error, and the
  normalisation of tool schemas. An error is its message. The JSON tags repeat the field names, and the
  tool definitions read embedded files; neither is modelled.
\<close>

section \<open>Inputs\<close>

record ExecActor =
  xaType :: string
  xaID :: string
  xaOrigin :: string
  xaInstanceID :: string
  xaVersion :: string
  xaSkillVersion :: string

record ExecResourceID =
  xrAPIVersion :: string
  xrKind :: string
  xrNamespace :: string
  xrName :: string
  xrType :: string
  xrActions :: string

record ExecCanonicalAction =
  xcResourceIdentity :: "ExecResourceID list"
  xcResourceCount :: int
  xcOperationClass :: string
  xcScopeClass :: string
  xcResourceShapeHash :: string

record ExecPrescribeInput =
  xpTool :: string
  xpOperation :: string
  xpRawArtifact :: string
  xpResource :: string
  xpNamespace :: string
  xpCanonicalAction :: "ExecCanonicalAction option"
  xpActor :: ExecActor
  xpSessionID :: string
  xpOperationID :: string
  xpAttempt :: int
  xpTraceID :: string
  xpSpanID :: string
  xpParentSpanID :: string
  xpEnvironment :: string
  xpScopeDimensions :: "(string \<times> string) list"

record ExecPrescribeFullInput =
  xfTool :: string
  xfOperation :: string
  xfRawArtifact :: string
  xfCanonicalAction :: "ExecCanonicalAction option"
  xfActor :: ExecActor
  xfSessionID :: string
  xfOperationID :: string
  xfAttempt :: int
  xfTraceID :: string
  xfSpanID :: string
  xfParentSpanID :: string
  xfEnvironment :: string
  xfScopeDimensions :: "(string \<times> string) list"

record ExecPrescribeSmartInput =
  xsTool :: string
  xsOperation :: string
  xsResource :: string
  xsNamespace :: string
  xsActor :: ExecActor
  xsSessionID :: string
  xsOperationID :: string
  xsAttempt :: int
  xsTraceID :: string
  xsSpanID :: string
  xsParentSpanID :: string
  xsEnvironment :: string
  xsScopeDimensions :: "(string \<times> string) list"

record ExecReportInput =
  xtPrescriptionID :: string
  xtVerdict :: string
  xtExitCode :: "int option"
  xtDecisionContext :: "DecisionContext option"
  xtArtifactDigest :: string
  xtActor :: ExecActor
  xtExternalRefs :: "ExternalRef list"
  xtSessionID :: string
  xtOperationID :: string
  xtSpanID :: string
  xtParentSpanID :: string

section \<open>Validation\<close>

definition Exec_validateActor :: "ExecActor \<Rightarrow> string option" where
  "Exec_validateActor a =
     (if TrimSpace (xaType a) = [] then Some ''actor.type is required''
      else if TrimSpace (xaID a) = [] then Some ''actor.id is required''
      else if TrimSpace (xaOrigin a) = [] then Some ''actor.origin is required''
      else None)"

definition actorIsZero :: "ExecActor \<Rightarrow> bool" where
  "actorIsZero a \<longleftrightarrow> TrimSpace (xaType a) = [] \<and> TrimSpace (xaID a) = [] \<and> TrimSpace (xaOrigin a) = []"

definition validateToolOperation :: "string \<Rightarrow> string \<Rightarrow> string option" where
  "validateToolOperation tool operation =
     (if TrimSpace tool = [] then Some ''tool is required''
      else if TrimSpace operation = [] then Some ''operation is required''
      else None)"

definition ValidatePrescribeInput :: "ExecPrescribeInput \<Rightarrow> string option" where
  "ValidatePrescribeInput input =
     (case validateToolOperation (xpTool input) (xpOperation input) of
        Some e \<Rightarrow> Some e
      | None \<Rightarrow>
          if TrimSpace (xpRawArtifact input) = [] \<and> TrimSpace (xpResource input) = [] \<and> xpCanonicalAction input = None
          then Some ''one of raw_artifact, resource, or canonical_action is required''
          else Exec_validateActor (xpActor input))"

definition ValidatePrescribeFullInput :: "ExecPrescribeFullInput \<Rightarrow> string option" where
  "ValidatePrescribeFullInput input =
     (case validateToolOperation (xfTool input) (xfOperation input) of
        Some e \<Rightarrow> Some e
      | None \<Rightarrow>
          if TrimSpace (xfRawArtifact input) = [] then Some ''raw_artifact is required''
          else Exec_validateActor (xfActor input))"

definition ValidatePrescribeSmartInput :: "ExecPrescribeSmartInput \<Rightarrow> string option" where
  "ValidatePrescribeSmartInput input =
     (case validateToolOperation (xsTool input) (xsOperation input) of
        Some e \<Rightarrow> Some e
      | None \<Rightarrow>
          if TrimSpace (xsResource input) = [] then Some ''resource is required''
          else Exec_validateActor (xsActor input))"

definition validate_report_actor :: "ExecActor \<Rightarrow> string option" where
  "validate_report_actor a = (if actorIsZero a then None else Exec_validateActor a)"

definition ValidateReportInput :: "ExecReportInput \<Rightarrow> string option" where
  "ValidateReportInput input =
     (let verdict = TrimSpace (xtVerdict input) in
      if TrimSpace (xtPrescriptionID input) = [] then Some ''prescription_id is required''
      else if verdict \<in> {''success'', ''failure'', ''error''} then
        (if xtExitCode input = None then Some (''verdict '' @ xtVerdict input @ '' requires exit_code'')
         else if xtDecisionContext input \<noteq> None then Some ''decision_context is only valid for declined verdicts''
         else validate_report_actor (xtActor input))
      else if verdict = ''declined'' then
        (if xtExitCode input \<noteq> None then Some ''declined verdict must not include exit_code''
         else case xtDecisionContext input of
           None \<Rightarrow> Some ''declined verdict requires decision_context''
         | Some dc \<Rightarrow>
             if TrimSpace (dcTrigger dc) = [] then Some ''declined decision_context.trigger is required''
             else if TrimSpace (dcReason dc) = [] then Some ''declined decision_context.reason is required''
             else validate_report_actor (xtActor input))
      else Some (''invalid verdict '' @ xtVerdict input))"

section \<open>Schemas\<close>

text \<open>A value decoded into \<^verbatim>\<open>any\<close>, and the slices of strings that the normalisation makes of it.\<close>

datatype schema_value =
    SvScalar json
  | SvString string
  | SvMap "(string \<times> schema_value) list"
  | SvList "schema_value list"
  | SvStrings "string list"

fun sv_string :: "schema_value \<Rightarrow> string option" where
  "sv_string (SvString s) = Some s"
| "sv_string _ = None"

fun sv_strings :: "schema_value list \<Rightarrow> string list option" where
  "sv_strings [] = Some []"
| "sv_strings (v # vs) = (case (sv_string v, sv_strings vs) of (Some s, Some ss) \<Rightarrow> Some (s # ss) | _ \<Rightarrow> None)"

fun normalizeSchema :: "schema_value \<Rightarrow> schema_value" where
  "normalizeSchema (SvMap kvs) = SvMap (map (\<lambda>(k, v). (k, normalizeSchema v)) kvs)"
| "normalizeSchema (SvList vs) =
     (case sv_strings vs of Some ss \<Rightarrow> SvStrings ss | None \<Rightarrow> SvList (map normalizeSchema vs))"
| "normalizeSchema (SvScalar j) = SvScalar j"
| "normalizeSchema (SvString s) = SvString s"
| "normalizeSchema (SvStrings ss) = SvStrings ss"

text \<open>The JSON that a value stands for.\<close>

fun sv_json :: "schema_value \<Rightarrow> json" where
  "sv_json (SvScalar j) = j"
| "sv_json (SvString s) = JStr s"
| "sv_json (SvMap kvs) = JObj (map (\<lambda>(k, v). (k, sv_json v)) kvs)"
| "sv_json (SvList vs) = JArr (map sv_json vs)"
| "sv_json (SvStrings ss) = JArr (map JStr ss)"

lemma sv_strings_json: "sv_strings vs = Some ss \<Longrightarrow> map sv_json vs = map JStr ss"
proof (induction vs arbitrary: ss)
  case (Cons v vs)
  then show ?case by (cases v; cases "sv_strings vs") auto
qed simp

lemma normalizeSchema_json: "sv_json (normalizeSchema v) = sv_json v"
  by (induction v rule: normalizeSchema.induct) (auto simp: sv_strings_json split: option.split)

end
