(* ===== verification/Mcp_Inputs.thy ===== *)
theory Mcp_Inputs
  imports Lifecycle Command Exec_Contract Signal_Types
begin

text \<open>
  The inputs of the MCP tools and their translation (\<^verbatim>\<open>pkg/mcpserver/server.go\<close>, \<^verbatim>\<open>correlation.go\<close>,
  \<^verbatim>\<open>smart_prescribe.go\<close>, \<^verbatim>\<open>prescribe_smart.go\<close>, \<^verbatim>\<open>run_command_intent.go\<close>): what a tool is given, the check
  against the execution contract, the canonical action made up from a resource name or from a command,
  and the retry tracker (\<^verbatim>\<open>retry_tracker.go\<close>). The skill version of the embedded contract is an argument.
\<close>

section \<open>Inputs\<close>

record InputActor =
  iaType :: string
  iaID :: string
  iaOrigin :: string
  iaInstanceID :: string
  iaVersion :: string
  iaSkillVersion :: string

record McpPrescribeInput =
  mpActor :: InputActor
  mpTool :: string
  mpOperation :: string
  mpRawArtifact :: string
  mpResource :: string
  mpNamespace :: string
  mpEnvironment :: string
  mpCanonicalAction :: "CanonicalAction option"
  mpSessionID :: string
  mpOperationID :: string
  mpAttempt :: int
  mpTraceID :: string
  mpSpanID :: string
  mpParentSpanID :: string
  mpScopeDimensions :: "(string \<times> string) list"

record McpPrescribeFullInput =
  mfActor :: InputActor
  mfTool :: string
  mfOperation :: string
  mfRawArtifact :: string
  mfEnvironment :: string
  mfCanonicalAction :: "CanonicalAction option"
  mfSessionID :: string
  mfOperationID :: string
  mfAttempt :: int
  mfTraceID :: string
  mfSpanID :: string
  mfParentSpanID :: string
  mfScopeDimensions :: "(string \<times> string) list"

record McpPrescribeSmartInput =
  msiActor :: InputActor
  msiTool :: string
  msiOperation :: string
  msiResource :: string
  msiNamespace :: string
  msiEnvironment :: string
  msiSessionID :: string
  msiOperationID :: string
  msiAttempt :: int
  msiTraceID :: string
  msiSpanID :: string
  msiParentSpanID :: string
  msiScopeDimensions :: "(string \<times> string) list"

record McpReportInput =
  mrPrescriptionID :: string
  mrVerdict :: Verdict
  mrExitCode :: "int option"
  mrDecisionContext :: "DecisionContext option"
  mrArtifactDigest :: string
  mrActor :: InputActor
  mrExternalRefs :: "ExternalRef list"
  mrSessionID :: string
  mrOperationID :: string
  mrSpanID :: string
  mrParentSpanID :: string

definition full_prescribe_input :: "McpPrescribeFullInput \<Rightarrow> McpPrescribeInput" where
  "full_prescribe_input input =
     \<lparr>mpActor = mfActor input, mpTool = mfTool input, mpOperation = mfOperation input, mpRawArtifact = mfRawArtifact input,
      mpResource = [], mpNamespace = [], mpEnvironment = mfEnvironment input, mpCanonicalAction = mfCanonicalAction input,
      mpSessionID = mfSessionID input, mpOperationID = mfOperationID input, mpAttempt = mfAttempt input,
      mpTraceID = mfTraceID input, mpSpanID = mfSpanID input, mpParentSpanID = mfParentSpanID input,
      mpScopeDimensions = mfScopeDimensions input\<rparr>"

definition toPrescribeInput :: "McpPrescribeSmartInput \<Rightarrow> McpPrescribeInput" where
  "toPrescribeInput input =
     \<lparr>mpActor = msiActor input, mpTool = msiTool input, mpOperation = msiOperation input, mpRawArtifact = [],
      mpResource = msiResource input, mpNamespace = msiNamespace input, mpEnvironment = msiEnvironment input,
      mpCanonicalAction = None, mpSessionID = msiSessionID input, mpOperationID = msiOperationID input,
      mpAttempt = msiAttempt input, mpTraceID = msiTraceID input, mpSpanID = msiSpanID input,
      mpParentSpanID = msiParentSpanID input, mpScopeDimensions = msiScopeDimensions input\<rparr>"

section \<open>Translation to the service\<close>

definition toEvidenceActor :: "string \<Rightarrow> InputActor \<Rightarrow> Actor" where
  "toEvidenceActor contractSkillVersion a =
     \<lparr>acType = iaType a, acID = iaID a, acProvenance = iaOrigin a, acInstanceID = iaInstanceID a, acVersion = iaVersion a,
      acSkillVersion = (if iaSkillVersion a = [] then contractSkillVersion else iaSkillVersion a)\<rparr>"

definition toLifecyclePrescribeInput :: "string \<Rightarrow> McpPrescribeInput \<Rightarrow> PrescribeInput" where
  "toLifecyclePrescribeInput skill input =
     \<lparr>piActor = toEvidenceActor skill (mpActor input), piTool = mpTool input, piOperation = mpOperation input,
      piRawArtifact = mpRawArtifact input, piEnvironment = mpEnvironment input, piCanonicalAction = mpCanonicalAction input,
      piExternalFindings = [], piSessionID = mpSessionID input, piOperationID = mpOperationID input,
      piAttempt = mpAttempt input, piTraceID = mpTraceID input, piSpanID = mpSpanID input,
      piParentSpanID = mpParentSpanID input, piScopeDimensions = mpScopeDimensions input,
      piFlavor = ''imperative'', piEvidenceKind = ''declared'', piSourceSystem = ''mcp''\<rparr>"

definition toLifecycleReportInput :: "string \<Rightarrow> McpReportInput \<Rightarrow> ReportInput" where
  "toLifecycleReportInput skill input =
     \<lparr>tiPrescriptionID = mrPrescriptionID input, tiVerdict = mrVerdict input, tiExitCode = mrExitCode input,
      tiDecisionContext = mrDecisionContext input, tiArtifactDigest = mrArtifactDigest input,
      tiActor = toEvidenceActor skill (mrActor input), tiExternalRefs = mrExternalRefs input,
      tiSessionID = mrSessionID input, tiOperationID = mrOperationID input, tiSpanID = mrSpanID input,
      tiParentSpanID = mrParentSpanID input, tiFlavor = ''imperative'', tiEvidenceKind = ''declared'',
      tiSourceSystem = ''mcp''\<rparr>"

section \<open>The contract\<close>

definition exec_resource :: "ResourceID \<Rightarrow> ExecResourceID" where
  "exec_resource r = \<lparr>xrAPIVersion = ridAPIVersion r, xrKind = ridKind r, xrNamespace = ridNamespace r, xrName = ridName r,
     xrType = ridType r, xrActions = ridActions r\<rparr>"

definition toExecContractCanonicalAction :: "CanonicalAction option \<Rightarrow> ExecCanonicalAction option" where
  "toExecContractCanonicalAction action =
     map_option (\<lambda>a. \<lparr>xcResourceIdentity = map exec_resource (caResourceIdentity a), xcResourceCount = caResourceCount a,
       xcOperationClass = caOperationClass a, xcScopeClass = caScopeClass a,
       xcResourceShapeHash = caResourceShapeHash a\<rparr>) action"

definition toExecContractPrescribeInput :: "McpPrescribeInput \<Rightarrow> ExecPrescribeInput" where
  "toExecContractPrescribeInput input =
     \<lparr>xpTool = mpTool input, xpOperation = mpOperation input, xpRawArtifact = mpRawArtifact input,
      xpResource = mpResource input, xpNamespace = mpNamespace input,
      xpCanonicalAction = toExecContractCanonicalAction (mpCanonicalAction input),
      xpActor = \<lparr>xaType = iaType (mpActor input), xaID = iaID (mpActor input), xaOrigin = iaOrigin (mpActor input),
        xaInstanceID = iaInstanceID (mpActor input), xaVersion = iaVersion (mpActor input),
        xaSkillVersion = iaSkillVersion (mpActor input)\<rparr>,
      xpSessionID = mpSessionID input, xpOperationID = mpOperationID input, xpAttempt = mpAttempt input,
      xpTraceID = mpTraceID input, xpSpanID = mpSpanID input, xpParentSpanID = mpParentSpanID input,
      xpEnvironment = mpEnvironment input, xpScopeDimensions = mpScopeDimensions input\<rparr>"

section \<open>Actions from names\<close>

definition resource_required :: string where
  "resource_required = ''resource is required when raw_artifact is omitted''"

definition parseSmartResource :: "string \<Rightarrow> string \<Rightarrow> string + ResourceID" where
  "parseSmartResource raw namespace =
     (let value = TrimSpace raw in
      if value = [] then Inl resource_required
      else (let ns = no_id\<lparr>ridNamespace := TrimSpace namespace\<rparr>;
                i = (case CutOn CHR ''/'' value of
                       Some (k, n) \<Rightarrow> ns\<lparr>ridKind := TrimSpace k, ridName := TrimSpace n\<rparr>
                     | None \<Rightarrow> ns\<lparr>ridName := value\<rparr>)
            in if ridName i = [] then Inl resource_required else Inr i))"

definition smartK8sOperationClass :: "string \<Rightarrow> string" where
  "smartK8sOperationClass operation =
     (let o' = ToLower (TrimSpace operation) in
      if o' \<in> {''apply'', ''create'', ''patch'', ''upgrade'', ''install'', ''replace'', ''set'', ''annotate'', ''label'',
        ''rollout'', ''scale'', ''autoscale'', ''taint'', ''cordon'', ''uncordon'', ''rollback''} then ''mutate''
      else if o' \<in> {''delete'', ''uninstall'', ''drain'', ''destroy''} then ''destroy''
      else if o' \<in> {''get'', ''describe'', ''logs'', ''top'', ''diff'', ''list'', ''status'', ''show'', ''template'', ''plan''} then ''read''
      else ''unknown'')"

definition smartOperationClass :: "string \<Rightarrow> string \<Rightarrow> string" where
  "smartOperationClass tool operation =
     (let t = ToLower (TrimSpace tool); o' = ToLower (TrimSpace operation) in
      if t \<in> {''kubectl'', ''oc'', ''helm'', ''kustomize''} then smartK8sOperationClass operation
      else if t = ''terraform'' then
        (if o' \<in> {''apply'', ''import''} then ''mutate''
         else if o' = ''destroy'' then ''destroy''
         else if o' \<in> {''plan'', ''validate'', ''refresh'', ''show'', ''state''} then ''plan''
         else ''unknown'')
      else if t \<in> {''docker'', ''podman'', ''nerdctl'', ''docker-compose'', ''compose''} then
        (if o' \<in> {''run'', ''create'', ''build'', ''push'', ''start'', ''up''} then ''mutate''
         else if o' \<in> {''rm'', ''stop'', ''kill'', ''down''} then ''destroy''
         else if o' \<in> {''inspect'', ''ps'', ''logs'', ''images''} then ''read''
         else ''unknown'')
      else smartK8sOperationClass operation)"

definition buildSmartCanonicalAction :: "McpPrescribeInput \<Rightarrow> string + CanonicalAction" where
  "buildSmartCanonicalAction input =
     (case parseSmartResource (mpResource input) (mpNamespace input) of
        Inl e \<Rightarrow> Inl e
      | Inr resource \<Rightarrow> Inr
          \<lparr>caTool = ToLower (TrimSpace (mpTool input)), caOperation = ToLower (TrimSpace (mpOperation input)),
           caOperationClass = smartOperationClass (mpTool input) (mpOperation input), caResourceIdentity = [resource],
           caScopeClass = ResolveScopeClass (mpEnvironment input) [resource], caResourceCount = 1, caResourceShapeHash = []\<rparr>)"

definition preparePrescribeInput :: "McpPrescribeInput \<Rightarrow> string + McpPrescribeInput" where
  "preparePrescribeInput input =
     (case ValidatePrescribeInput (toExecContractPrescribeInput input) of
        Some e \<Rightarrow> Inl e
      | None \<Rightarrow>
          if TrimSpace (mpRawArtifact input) \<noteq> [] \<or> mpCanonicalAction input \<noteq> None then Inr input
          else (case buildSmartCanonicalAction input of
                  Inl e \<Rightarrow> Inl e
                | Inr action \<Rightarrow> Inr (input\<lparr>mpCanonicalAction := Some action\<rparr>)))"

section \<open>Actions from commands\<close>

definition normalizeCommandResource :: "string \<Rightarrow> string \<Rightarrow> string" where
  "normalizeCommandResource kind0 name0 =
     (let kind = TrimSpace kind0; name = TrimSpace name0 in
      if kind = [] \<or> name = [] then []
      else if CHR ''/'' \<in> set kind then kind
      else if CHR ''/'' \<in> set name then name
      else kind @ ''/'' @ name)"

fun commandNamespace :: "string list \<Rightarrow> string" where
  "commandNamespace [] = []"
| "commandNamespace (x # xs) =
     (if x = ''-n'' \<or> x = ''--namespace'' then (case xs of [] \<Rightarrow> [] | y # _ \<Rightarrow> TrimSpace y)
      else if HasPrefix x ''--namespace='' then TrimSpace (TrimPrefix x ''--namespace='')
      else commandNamespace xs)"

definition target_verbs :: "string list" where
  "target_verbs = [''patch'', ''delete'', ''describe'', ''get'', ''logs'', ''scale'', ''annotate'', ''label'', ''rollout'']"

text \<open>The resource and namespace of a command, if it names one; the namespace alone is not used.\<close>

definition deriveCommandTarget :: "string \<Rightarrow> (string \<times> string) option" where
  "deriveCommandTarget command =
     (case Fields (TrimSpace command) of
        t # v # k # n # rest \<Rightarrow>
          if v \<in> set target_verbs \<and> \<not> HasPrefix n ''-''
          then Some (normalizeCommandResource k n, commandNamespace (t # v # k # n # rest)) else None
      | _ \<Rightarrow> None)"

definition agent_actor :: "string \<Rightarrow> InputActor" where
  "agent_actor actorID = \<lparr>iaType = ''agent'', iaID = actorID, iaOrigin = ''mcp'', iaInstanceID = [], iaVersion = [], iaSkillVersion = []\<rparr>"

definition derived_input :: "string \<Rightarrow> string \<Rightarrow> string \<Rightarrow> CanonicalAction \<Rightarrow> McpPrescribeInput" where
  "derived_input actorID tool operation action =
     \<lparr>mpActor = agent_actor actorID, mpTool = tool, mpOperation = operation, mpRawArtifact = [], mpResource = [],
      mpNamespace = [], mpEnvironment = [], mpCanonicalAction = Some action, mpSessionID = [], mpOperationID = [],
      mpAttempt = 0, mpTraceID = [], mpSpanID = [], mpParentSpanID = [], mpScopeDimensions = []\<rparr>"

definition deriveAutoPrescribeInput :: "string \<Rightarrow> string \<Rightarrow> string + McpPrescribeInput option" where
  "deriveAutoPrescribeInput command actorID0 =
     (let actorID = (if actorID0 = [] then ''infrastructure-agent'' else actorID0);
          (tool, operation, class) = ClassifyCommand command;
          action = zero_action\<lparr>caTool := ToLower (TrimSpace tool), caOperation := ToLower (TrimSpace operation),
            caOperationClass := class_text class, caScopeClass := ''unknown''\<rparr>
      in if class \<noteq> OpMutate \<and> class \<noteq> OpDestroy then Inr None
         else case deriveCommandTarget command of
           None \<Rightarrow> Inr (Some (derived_input actorID tool operation action))
         | Some (resource, namespace) \<Rightarrow>
             (case parseSmartResource resource namespace of
                Inl e \<Rightarrow> Inl e
              | Inr i \<Rightarrow> Inr (Some (derived_input actorID tool operation
                  (action\<lparr>caResourceIdentity := [i], caResourceCount := 1, caScopeClass := ResolveScopeClass [] [i]\<rparr>)))))"

section \<open>The retry tracker\<close>

record retryEntry =
  reFirstSeen :: time
  reLastSeen :: time
  reCount :: int
  reShapeHash :: string

type_synonym RetryTracker = "string \<rightharpoonup> retryEntry"

definition retry_expired :: "duration \<Rightarrow> time \<Rightarrow> retryEntry \<Rightarrow> bool" where
  "retry_expired ttl now e \<longleftrightarrow> ttl < TimeSub now (reFirstSeen e)"

definition Retry_Record :: "duration \<Rightarrow> time \<Rightarrow> string \<Rightarrow> string \<Rightarrow> RetryTracker \<Rightarrow> int \<times> RetryTracker" where
  "Retry_Record ttl now intentDigest shapeHash entries =
     (let key = intentDigest @ '':'' @ shapeHash in
      case entries key of
        Some e \<Rightarrow>
          if retry_expired ttl now e
          then (1, entries(key \<mapsto> \<lparr>reFirstSeen = now, reLastSeen = now, reCount = 1, reShapeHash = shapeHash\<rparr>))
          else (reCount e + 1, entries(key \<mapsto> e\<lparr>reCount := reCount e + 1, reLastSeen := now\<rparr>))
      | None \<Rightarrow> (1, entries(key \<mapsto> \<lparr>reFirstSeen = now, reLastSeen = now, reCount = 1, reShapeHash = shapeHash\<rparr>)))"

definition Retry_Cleanup :: "duration \<Rightarrow> time \<Rightarrow> RetryTracker \<Rightarrow> RetryTracker" where
  "Retry_Cleanup ttl now entries =
     (\<lambda>k. case entries k of None \<Rightarrow> None | Some e \<Rightarrow> if retry_expired ttl now e then None else Some e)"

end
