(* ===== verification/Smart_Output.thy ===== *)
theory Smart_Output
  imports Command Segments Canon
begin

text \<open>
  The summaries that \<open>run_command\<close> returns instead of raw output (\<^verbatim>\<open>pkg/mcpserver/smart_output.go\<close>).
  \<open>json.Unmarshal\<close> into \<open>any\<close> and \<open>json.MarshalIndent\<close> are arguments, and so is the order in which the map
  of pod statuses is visited.
\<close>

section \<open>Helpers\<close>

definition maxFallbackLen :: nat where "maxFallbackLen = 2000"
definition maxErrorLen :: nat where "maxErrorLen = 500"
definition maxLogLines :: nat where "maxLogLines = 50"

text \<open>\<open>%d\<close>.\<close>

definition Itoa :: "int \<Rightarrow> string" where
  "Itoa i = (if i < 0 then CHR ''-'' # dec (nat (- i)) else dec (nat i))"

definition truncateString :: "string \<Rightarrow> nat \<Rightarrow> string" where
  "truncateString s n = (if length s \<le> n then s else take n s @ ''...'')"

definition trimmed_lines :: "string \<Rightarrow> string list" where
  "trimmed_lines rawOutput = SplitOn newline (TrimSpace rawOutput)"

definition findColumn :: "string list \<Rightarrow> string list \<Rightarrow> int" where
  "findColumn headers names =
     (let i = length (takeWhile (\<lambda>h. \<not> (\<exists>n\<in>set names. EqualFold h n)) headers)
      in if i < length headers then int i else - 1)"

definition safeCol :: "string list \<Rightarrow> int \<Rightarrow> string" where
  "safeCol cols idx = (if idx < 0 \<or> int (length cols) \<le> idx then [] else cols ! nat idx)"

section \<open>Which command it was\<close>

fun hasOutputFlag :: "string list \<Rightarrow> string \<Rightarrow> bool" where
  "hasOutputFlag [] f = False"
| "hasOutputFlag (x # xs) f \<longleftrightarrow>
     (if x = ''-o'' \<or> x = ''--output'' then (case xs of [] \<Rightarrow> False | y # _ \<Rightarrow> EqualFold y f)
      else if HasPrefix x ''-o='' then EqualFold (TrimPrefix x ''-o='') f
      else if HasPrefix x ''--output='' then EqualFold (TrimPrefix x ''--output='') f
      else if HasPrefix x ''-o'' \<and> 2 < length x then EqualFold (TrimPrefix x ''-o'') f
      else False) \<or> hasOutputFlag xs f"

definition isGetDeployments :: "string list \<Rightarrow> bool" where
  "isGetDeployments args \<longleftrightarrow> 3 \<le> length args \<and> args ! 0 = ''kubectl'' \<and> args ! 1 = ''get'' \<and>
     ToLower (args ! 2) \<in> {''deployment'', ''deployments'', ''deploy'', ''deployment.apps'', ''deployments.apps''}"

definition isGetPods :: "string list \<Rightarrow> bool" where
  "isGetPods args \<longleftrightarrow> 3 \<le> length args \<and> args ! 0 = ''kubectl'' \<and> args ! 1 = ''get'' \<and>
     ToLower (args ! 2) \<in> {''pod'', ''pods'', ''po''}"

definition isDescribe :: "string list \<Rightarrow> bool" where
  "isDescribe args \<longleftrightarrow> 3 \<le> length args \<and> args ! 0 = ''kubectl'' \<and> args ! 1 = ''describe''"

definition isLogs :: "string list \<Rightarrow> bool" where
  "isLogs args \<longleftrightarrow> 3 \<le> length args \<and> args ! 0 = ''kubectl'' \<and> args ! 1 = ''logs''"

definition isTerraformPlan :: "string list \<Rightarrow> bool" where
  "isTerraformPlan args \<longleftrightarrow> 2 \<le> length args \<and> args ! 0 = ''terraform'' \<and> args ! 1 = ''plan''"

definition isTerraformApply :: "string list \<Rightarrow> bool" where
  "isTerraformApply args \<longleftrightarrow> 2 \<le> length args \<and> args ! 0 = ''terraform'' \<and> args ! 1 = ''apply''"

definition isHelmStatus :: "string list \<Rightarrow> bool" where
  "isHelmStatus args \<longleftrightarrow> 2 \<le> length args \<and> args ! 0 = ''helm'' \<and> args ! 1 = ''status''"

definition isHelmList :: "string list \<Rightarrow> bool" where
  "isHelmList args \<longleftrightarrow> 2 \<le> length args \<and> args ! 0 = ''helm'' \<and> args ! 1 = ''list''"

definition isEKSUpdateKubeconfig :: "string list \<Rightarrow> bool" where
  "isEKSUpdateKubeconfig args \<longleftrightarrow>
     3 \<le> length args \<and> args ! 0 = ''aws'' \<and> args ! 1 = ''eks'' \<and> args ! 2 = ''update-kubeconfig''"

section \<open>Errors and tables\<close>

definition formatError :: "string \<Rightarrow> int \<Rightarrow> string" where
  "formatError rawOutput exitCode =
     (let output = TrimSpace rawOutput;
          shown = (if maxErrorLen < length output then take maxErrorLen output @ ''...'' else output)
      in ''error (exit code '' @ Itoa exitCode @ ''):'' @ [newline] @ shown)"

definition deployment_line :: "string list \<Rightarrow> string list \<Rightarrow> string" where
  "deployment_line headers cols =
     (let name = safeCol cols (findColumn headers [''NAME'']);
          ready = safeCol cols (findColumn headers [''READY'']);
          ns = safeCol cols (findColumn headers [''NAMESPACE'']);
          loc = (if ns \<noteq> [] then name @ '' ('' @ ns @ '')'' else name);
          image = safeCol cols (findColumn headers [''CONTAINERS'', ''IMAGE''])
      in ''deployment/'' @ loc @ '': '' @ ready @ '' ready'' @ (if image \<noteq> [] then '' | image: '' @ image else []))"

definition formatGetDeployments :: "string \<Rightarrow> string" where
  "formatGetDeployments rawOutput =
     (case trimmed_lines rawOutput of
        h # l # ls \<Rightarrow> Join (map (\<lambda>line. deployment_line (Fields h) (Fields line)) (l # ls)) [newline]
      | _ \<Rightarrow> rawOutput)"

record podInfo =
  pdName :: string
  pdStatus :: string
  pdReady :: string

definition pod_of :: "string list \<Rightarrow> string \<Rightarrow> podInfo" where
  "pod_of headers line = (let cols = Fields line in
     \<lparr>pdName = safeCol cols (findColumn headers [''NAME'']), pdStatus = safeCol cols (findColumn headers [''STATUS'']),
      pdReady = safeCol cols (findColumn headers [''READY''])\<rparr>)"

definition status_count :: "podInfo list \<Rightarrow> string \<Rightarrow> nat" where
  "status_count pods s = length (filter (\<lambda>p. pdStatus p = s) pods)"

definition pod_detail :: "podInfo \<Rightarrow> string" where
  "pod_detail p = ''  '' @ pdName p @ '': '' @ pdStatus p @
     (if pdReady p \<noteq> [] then '' ('' @ pdReady p @ '' ready)'' else [])"

definition formatGetPods :: "(string list \<Rightarrow> string list) \<Rightarrow> string \<Rightarrow> string" where
  "formatGetPods visit rawOutput =
     (case trimmed_lines rawOutput of
        h # l # ls \<Rightarrow>
          (let pods = map (pod_of (Fields h)) (l # ls);
               summary = (''pods: '' @ dec (length pods) @ '' total'') #
                 map (\<lambda>s. dec (status_count pods s) @ '' '' @ ToLower s) (visit (keys_of (map pdStatus pods)))
           in Join summary '', '' @ [newline] @ Join (map pod_detail pods) [newline])
      | _ \<Rightarrow> rawOutput)"

section \<open>Describe\<close>

definition isDescribeKeyField :: "string \<Rightarrow> bool \<Rightarrow> bool" where
  "isDescribeKeyField line inEvents \<longleftrightarrow>
     (\<exists>p\<in>set [''Name:'', ''Namespace:'', ''Replicas:'', ''Image:'', ''Status:'', ''Ready:'', ''Restart Count:'']. HasPrefix line p) \<or>
     HasPrefix line ''Type:'' \<and> inEvents"

definition isDescribeHeaderRow :: "string \<Rightarrow> bool" where
  "isDescribeHeaderRow line \<longleftrightarrow> HasPrefix line ''Type'' \<and> Contains line ''Reason''"

definition conditionPrefixes :: "string list" where
  "conditionPrefixes = [''Available'', ''Progressing'', ''Ready'', ''PodScheduled'', ''Initialized'', ''ContainersReady'']"

definition isConditionRow :: "string \<Rightarrow> bool" where
  "isConditionRow line \<longleftrightarrow>
     (\<exists>p\<in>set conditionPrefixes. HasPrefix line p \<and> (Contains line ''True'' \<or> Contains line ''False''))"

type_synonym describe_state = "bool \<times> nat \<times> string list"

definition handleEventLine :: "string \<Rightarrow> nat \<Rightarrow> string list \<Rightarrow> describe_state" where
  "handleEventLine trimmed eventCount result =
     (if trimmed = [] then (False, eventCount, result)
      else if isDescribeHeaderRow trimmed then (True, eventCount, result)
      else (True, Suc eventCount, if Suc eventCount \<le> 5 then result @ [''  '' @ trimmed] else result))"

definition describe_line :: "string \<Rightarrow> describe_state \<Rightarrow> describe_state" where
  "describe_line line state =
     (case state of (inEvents, eventCount, result) \<Rightarrow>
        let trimmed = TrimSpace line in
        if isDescribeKeyField trimmed inEvents then (inEvents, eventCount, result @ [trimmed])
        else if trimmed = ''Conditions:'' then (inEvents, eventCount, result @ [''conditions:''])
        else if trimmed = ''Events:'' then (True, 0, result @ [''events (last 5):''])
        else if inEvents then handleEventLine trimmed eventCount result
        else if isConditionRow trimmed then (inEvents, eventCount, result @ [''  '' @ trimmed])
        else state)"

definition formatDescribe :: "string \<Rightarrow> string" where
  "formatDescribe rawOutput =
     (case fold describe_line (SplitOn newline rawOutput) (False, 0, []) of (_, _, result) \<Rightarrow>
        if result = [] then truncateString rawOutput maxFallbackLen else Join result [newline])"

section \<open>Logs, terraform, helm and EKS\<close>

definition formatLogs :: "string list \<Rightarrow> string \<Rightarrow> string" where
  "formatLogs args rawOutput =
     (let lines = trimmed_lines rawOutput; total = length lines;
          kept = drop (if maxLogLines < total then total - maxLogLines else 0) lines;
          podName = (if 3 \<le> length args then args ! 2 else [])
      in ''logs '' @ podName @ '' (last '' @ dec (length kept) @ '' lines, '' @ dec total @ '' total):'' @ [newline] @
         Join kept [newline])"

definition no_changes :: string where
  "no_changes = ''No changes. Your infrastructure matches the configuration.''"

fun plan_line :: "string list \<Rightarrow> string option" where
  "plan_line [] = None"
| "plan_line (line # ls) =
     (let trimmed = TrimSpace line in
      if HasPrefix trimmed ''Plan:'' then Some (''terraform plan: '' @ TrimPrefix trimmed ''Plan: '')
      else if trimmed = no_changes then Some ''terraform plan: no changes''
      else plan_line ls)"

definition formatTerraformPlan :: "string \<Rightarrow> string" where
  "formatTerraformPlan rawOutput =
     (case plan_line (trimmed_lines rawOutput) of Some s \<Rightarrow> s | None \<Rightarrow> truncateString rawOutput maxFallbackLen)"

fun apply_line :: "string list \<Rightarrow> string option" where
  "apply_line [] = None"
| "apply_line (line # ls) =
     (let trimmed = TrimSpace line in
      if HasPrefix trimmed ''Apply complete! Resources:''
      then Some (''terraform apply complete: '' @ TrimPrefix trimmed ''Apply complete! Resources: '')
      else if trimmed = no_changes then Some ''terraform apply: no changes''
      else apply_line ls)"

definition formatTerraformApply :: "string \<Rightarrow> string" where
  "formatTerraformApply rawOutput =
     (case apply_line (trimmed_lines rawOutput) of Some s \<Rightarrow> s | None \<Rightarrow> truncateString rawOutput maxFallbackLen)"

definition helm_value :: "string \<Rightarrow> (string \<times> string) option" where
  "helm_value line = map_option (\<lambda>(k, v). (ToUpper (TrimSpace k), TrimSpace v)) (CutOn CHR '':'' line)"

definition formatHelmStatus :: "string \<Rightarrow> string" where
  "formatHelmStatus rawOutput =
     (let m = collect helm_value Map.empty (trimmed_lines rawOutput);
          get = (\<lambda>k. case m k of None \<Rightarrow> [] | Some v \<Rightarrow> v);
          part = (\<lambda>label k. if get k \<noteq> [] then [label @ get k] else [])
      in if get ''NAME'' = [] \<or> get ''STATUS'' = [] then truncateString rawOutput maxFallbackLen
         else Join ([''helm release '' @ get ''NAME'' @ '': '' @ ToLower (get ''STATUS'')] @
                part ''namespace: '' ''NAMESPACE'' @ part ''revision: '' ''REVISION'' @
                part ''last deployed: '' ''LAST DEPLOYED'') [newline])"

definition helm_row :: "string \<Rightarrow> string option" where
  "helm_row line =
     (let args = Fields line; n = length args in
      if n < 6 then None
      else (let chart = args ! (n - 2) in
        Some (''release/'' @ args ! 0 @ '' ('' @ args ! 1 @ ''): '' @ ToLower (args ! (n - 3)) @ '' | rev '' @ args ! 2 @
          (if chart \<noteq> [] then '' | chart '' @ chart else []))))"

definition formatHelmList :: "string \<Rightarrow> string" where
  "formatHelmList rawOutput =
     (case trimmed_lines rawOutput of
        h # l # ls \<Rightarrow>
          (let result = List.map_filter helm_row (l # ls) in
           if result = [] then truncateString rawOutput maxFallbackLen else Join result [newline])
      | _ \<Rightarrow> truncateString rawOutput maxFallbackLen)"

definition context_name :: "string \<Rightarrow> string" where
  "context_name remainder =
     (case Index remainder '' to '' of
        Some i \<Rightarrow> take i remainder
      | None \<Rightarrow> (case Index remainder '' in '' of Some i \<Rightarrow> take i remainder | None \<Rightarrow> remainder))"

definition formatEKSKubeconfig :: "string \<Rightarrow> string" where
  "formatEKSKubeconfig rawOutput =
     (let output = TrimSpace rawOutput in
      case find (HasPrefix output) [''Added new context '', ''Updated context ''] of
        Some prefix \<Rightarrow> ''kubeconfig updated: '' @ context_name (TrimPrefix output prefix)
      | None \<Rightarrow> truncateString rawOutput maxFallbackLen)"

section \<open>JSON noise\<close>

definition noiseMetadataKeys :: "string list" where
  "noiseMetadataKeys = [''managedFields'', ''uid'', ''resourceVersion'', ''generation'', ''creationTimestamp'']"

definition lastAppliedConfigAnnotation :: string where
  "lastAppliedConfigAnnotation = ''kubectl.kubernetes.io/last-applied-configuration''"

text \<open>The value of a key, when it is an object, replaced by another object.\<close>

definition on_map :: "string \<Rightarrow> (gmap \<Rightarrow> gmap) \<Rightarrow> gmap \<Rightarrow> gmap" where
  "on_map k f m = map (\<lambda>(j, v). (j, if j = k then (case v of GMap a \<Rightarrow> GMap (f a) | _ \<Rightarrow> v) else v)) m"

definition strip_annotations :: "gmap \<Rightarrow> gmap" where
  "strip_annotations meta =
     (case as_map (map_of meta ''annotations'') of
        None \<Rightarrow> meta
      | Some annotations \<Rightarrow>
          if gdelete lastAppliedConfigAnnotation annotations = [] then gdelete ''annotations'' meta
          else on_map ''annotations'' (gdelete lastAppliedConfigAnnotation) meta)"

definition strip_metadata :: "gmap \<Rightarrow> gmap" where
  "strip_metadata meta = strip_annotations (fold gdelete noiseMetadataKeys meta)"

definition strip_object :: "gmap \<Rightarrow> gmap" where
  "strip_object obj = gdelete ''managedFields'' (on_map ''metadata'' strip_metadata obj)"

text \<open>Stripping never makes a value larger, so that the recursion into the stripped object ends.\<close>

abbreviation gsize :: "gmap \<Rightarrow> nat" where
  "gsize m \<equiv> size_list (size_prod (\<lambda>x. 0) size) m"

lemma gsize_filter: "gsize (filter P m) \<le> gsize m"
  by (induction m) auto

lemma gsize_gdelete: "gsize (gdelete k m) \<le> gsize m"
  unfolding gdelete_def by (rule gsize_filter)

lemma gsize_fold: "gsize (fold gdelete ks m) \<le> gsize m"
proof (induction ks arbitrary: m)
  case (Cons k ks)
  then show ?case using gsize_gdelete [of k m] order_trans by fastforce
qed simp

lemma gsize_on_map: "(\<And>a. gsize (f a) \<le> gsize a) \<Longrightarrow> gsize (on_map k f m) \<le> gsize m"
proof (induction m)
  case (Cons x m)
  have "gsize (on_map k f m) \<le> gsize m" using Cons by simp
  moreover have "size (case v of GMap a \<Rightarrow> GMap (f a) | _ \<Rightarrow> v) \<le> size v" for v
    using Cons.prems by (cases v) simp_all
  ultimately show ?case by (cases x) (simp add: on_map_def add_mono)
qed (simp add: on_map_def)

lemma gsize_strip: "gsize (strip_object obj) \<le> gsize obj"
proof -
  have "gsize (strip_annotations meta) \<le> gsize meta" for meta
    by (auto simp: strip_annotations_def gsize_gdelete gsize_on_map split: option.split)
  then have "gsize (strip_metadata meta) \<le> gsize meta" for meta
    unfolding strip_metadata_def using gsize_fold order_trans by blast
  then show ?thesis unfolding strip_object_def using gsize_gdelete gsize_on_map order_trans by blast
qed

function stripNoiseFields :: "gval \<Rightarrow> gval" where
  "stripNoiseFields (GMap obj) = GMap (map (\<lambda>(k, v). (k, stripNoiseFields v)) (strip_object obj))"
| "stripNoiseFields (GSlice l) = GSlice (map stripNoiseFields l)"
| "stripNoiseFields GNil = GNil"
| "stripNoiseFields (GBool b) = GBool b"
| "stripNoiseFields (GInt i) = GInt i"
| "stripNoiseFields (GFloat r) = GFloat r"
| "stripNoiseFields (GStr s) = GStr s"
| "stripNoiseFields GOther = GOther"
  by pat_completeness auto

lemma gsize_member: "(k, v) \<in> set m \<Longrightarrow> size v < Suc (gsize m)"
  by (induction m) (auto simp: less_Suc_eq_le)

termination stripNoiseFields
proof (relation "measure size")
  fix obj x k v
  assume "x \<in> set (strip_object obj)" "(k, v) = x"
  then have "size v < Suc (gsize (strip_object obj))" using gsize_member by blast
  then show "(v, GMap obj) \<in> measure size" using gsize_strip [of obj] by simp
next
  fix l :: "gval list" and x
  assume "x \<in> set l"
  then show "(x, GSlice l) \<in> measure size" by (induction l) auto
qed simp

definition stripJSONNoise :: "(string \<Rightarrow> gval option) \<Rightarrow> (gval \<Rightarrow> string option) \<Rightarrow> string \<Rightarrow> string" where
  "stripJSONNoise decode encode rawOutput =
     (case decode rawOutput of
        None \<Rightarrow> truncateString rawOutput maxFallbackLen
      | Some data \<Rightarrow>
          (case encode (stripNoiseFields data) of
             None \<Rightarrow> truncateString rawOutput maxFallbackLen
           | Some out \<Rightarrow> out))"

section \<open>The summary of a command\<close>

record OutputEnv =
  oeDecode :: "string \<Rightarrow> gval option"
  oeEncode :: "gval \<Rightarrow> string option"
  oeVisit :: "string list \<Rightarrow> string list"

definition FormatSmartOutput :: "OutputEnv \<Rightarrow> string \<Rightarrow> string \<Rightarrow> int \<Rightarrow> string" where
  "FormatSmartOutput oe command rawOutput exitCode =
     (if exitCode \<noteq> 0 then formatError rawOutput exitCode
      else (let args = commandFields (TrimSpace command) in
        if hasOutputFlag args ''json'' then stripJSONNoise (oeDecode oe) (oeEncode oe) rawOutput
        else if hasOutputFlag args ''yaml'' then truncateString rawOutput maxFallbackLen
        else if isGetDeployments args then formatGetDeployments rawOutput
        else if isGetPods args then formatGetPods (oeVisit oe) rawOutput
        else if isDescribe args then formatDescribe rawOutput
        else if isLogs args then formatLogs args rawOutput
        else if isTerraformPlan args then formatTerraformPlan rawOutput
        else if isTerraformApply args then formatTerraformApply rawOutput
        else if isHelmStatus args then formatHelmStatus rawOutput
        else if isHelmList args then formatHelmList rawOutput
        else if isEKSUpdateKubeconfig args then formatEKSKubeconfig rawOutput
        else truncateString rawOutput maxFallbackLen))"

end
