(* ===== verification/Assessment.thy ===== *)
theory Assessment
  imports Analytics Lookup
begin

text \<open>
  The assessment of a session (\<^verbatim>\<open>internal/assessment/assessment.go\<close>, \<^verbatim>\<open>tracker.go\<close>): the snapshot computed
  from signal results, its computation from the log, and the tracker that keeps the signal entries of
  the sessions it has seen, with a fingerprint of the manifest to notice other writers. A map of
  sessions that points to mutable states is a map of values here: whoever changes a state puts it back.
  The store operations of one call take their lock outcome and faults from \<open>TrackerEnv\<close>, by position.
\<close>

section \<open>Snapshots\<close>

record Basis =
  baAssessmentMode :: string
  baSufficient :: bool
  baTotalOperations :: int
  baSufficientThreshold :: int
  baPreviewMinOperations :: int

record Snapshot =
  snScore :: rat
  snScoreBand :: string
  snScoringProfileID :: string
  snSignalSummary :: "string \<rightharpoonup> nat"
  snConfidence :: Confidence
  snBasis :: Basis

definition PreviewMinOperations :: int where "PreviewMinOperations = 1"

definition BuildFromResultsWithProfile ::
  "(string list \<Rightarrow> string list) \<Rightarrow> Profile \<Rightarrow> SignalResult list \<Rightarrow> int \<Rightarrow> Snapshot" where
  "BuildFromResultsWithProfile visit profile results totalOps =
     (let strict = ComputeWithProfile visit profile results totalOps 0;
          preview = ComputeWithProfileAndMinOperations visit profile results totalOps 0 PreviewMinOperations;
          selected = (if scSufficient strict then strict else preview)
      in \<lparr>snScore = scScore selected, snScoreBand = scBand selected, snScoringProfileID = scScoringProfileID selected,
          snSignalSummary = scSignals selected, snConfidence = scConfidence selected,
          snBasis = \<lparr>baAssessmentMode = (if scSufficient strict then ''sufficient'' else ''preview''),
            baSufficient = scSufficient strict, baTotalOperations = totalOps,
            baSufficientThreshold = prMinOperations profile, baPreviewMinOperations = PreviewMinOperations\<rparr>\<rparr>)"

definition BuildFromResults :: "ProfileEnv \<Rightarrow> (string list \<Rightarrow> string list) \<Rightarrow> SignalResult list \<Rightarrow> int \<Rightarrow> Snapshot" where
  "BuildFromResults pe visit results totalOps =
     BuildFromResultsWithProfile visit
       (case ResolveProfile pe [] of Inr profile \<Rightarrow> profile | Inl _ \<Rightarrow> cloneProfile default_profile) results totalOps"

definition session_entries :: "string \<Rightarrow> EvidenceEntry list \<Rightarrow> EvidenceEntry list" where
  "session_entries sessionID entries = (if sessionID = [] then entries else filter (\<lambda>e. SessionID e = sessionID) entries)"

definition count_prescriptions :: "SEntry list \<Rightarrow> int" where
  "count_prescriptions ses = int (length (filter enIsPrescription ses))"

datatype AssessError =
    ReadForAssessment StoreErr
  | ConvertForAssessment BridgeError
  | LoadManifestFailed StoreErr
  | RebuildRead StoreErr
  | RebuildEntry BridgeError
  | ResolveForAssessment ProfileLoadError

definition buildSnapshotFromEntries ::
  "Runtime \<Rightarrow> (string list \<Rightarrow> string list) \<Rightarrow> EvidenceEntry list \<Rightarrow> string \<Rightarrow> Profile \<Rightarrow> AssessError + Snapshot" where
  "buildSnapshotFromEntries rt visit entries sessionID profile =
     (case EvidenceToSignalEntries (session_entries sessionID entries) of
        Inl e \<Rightarrow> Inl (ConvertForAssessment e)
      | Inr ses \<Rightarrow> Inr (BuildFromResultsWithProfile visit profile (AllSignals rt ses DefaultTTL) (count_prescriptions ses)))"

section \<open>The state of a session\<close>

record sessionState =
  ssPrescriptions :: "string \<rightharpoonup> CanonicalAction"
  ssSignalEntries :: "SEntry list"
  ssTotalOps :: int
  ssResults :: "SignalResult list"
  ssResultsDirty :: bool
  ssInvalid :: bool
  ssSnapshots :: "string \<rightharpoonup> Snapshot"

definition newSessionState :: sessionState where
  "newSessionState = \<lparr>ssPrescriptions = Map.empty, ssSignalEntries = [], ssTotalOps = 0, ssResults = [],
     ssResultsDirty = False, ssInvalid = False, ssSnapshots = Map.empty\<rparr>"

text \<open>What both kinds of entry do after building the signal entry.\<close>

definition observe_signal :: "SEntry \<Rightarrow> sessionState \<Rightarrow> sessionState" where
  "observe_signal se s = s\<lparr>ssSignalEntries := ssSignalEntries s @ [se], ssResultsDirty := True, ssSnapshots := Map.empty\<rparr>"

definition observeEntry :: "EvidenceEntry \<Rightarrow> sessionState \<Rightarrow> sessionState \<times> BridgeError option" where
  "observeEntry entry s =
     (if is_prescribe entry then
        (case unmarshal_prescription (Payload entry) of
           None \<Rightarrow> (s\<lparr>ssInvalid := True\<rparr>, Some (BadPrescription (EntryID entry)))
         | Some p \<Rightarrow>
             (let ca = extractCanonicalAction (ppCanonicalAction p);
                  se = with_action ca ((base_entry entry)\<lparr>enIsPrescription := True, enRiskTags := NativeRiskTags p\<rparr>);
                  s1 = (case ca of None \<Rightarrow> s | Some a \<Rightarrow> s\<lparr>ssPrescriptions := (ssPrescriptions s)(EntryID entry \<mapsto> a)\<rparr>)
              in ((observe_signal se s1)\<lparr>ssTotalOps := ssTotalOps s + 1\<rparr>, None)))
      else if is_report entry then
        (case unmarshal_report (Payload entry) of
           None \<Rightarrow> (s\<lparr>ssInvalid := True\<rparr>, Some (BadReport (EntryID entry)))
         | Some r \<Rightarrow>
             (let ca = ssPrescriptions s (rpPrescriptionID r);
                  se = with_action ca ((base_entry entry)\<lparr>enIsReport := True, enPrescriptionID := rpPrescriptionID r,
                         enExitCode := rpExitCode r\<rparr>)
              in ((observe_signal se s)\<lparr>ssInvalid := ssInvalid s \<or> ca = None\<rparr>, None)))
      else (s, None))"

definition snapshot :: "Runtime \<Rightarrow> (string list \<Rightarrow> string list) \<Rightarrow> Profile \<Rightarrow> sessionState \<Rightarrow> sessionState \<times> Snapshot" where
  "snapshot rt visit profile s =
     (let s1 = (if ssResultsDirty s
                then s\<lparr>ssResults := AllSignals rt (ssSignalEntries s) DefaultTTL, ssResultsDirty := False, ssSnapshots := Map.empty\<rparr>
                else s);
          profileID = (if prID profile = [] then ''default'' else prID profile)
      in case ssSnapshots s1 profileID of
           Some sn \<Rightarrow> (s1, sn)
         | None \<Rightarrow> (let sn = BuildFromResultsWithProfile visit profile (ssResults s1) (ssTotalOps s1)
                    in (s1\<lparr>ssSnapshots := (ssSnapshots s1)(profileID \<mapsto> sn)\<rparr>, sn)))"

section \<open>The tracker\<close>

record trackerFingerprint =
  tfRecordsTotal :: int
  tfLastHash :: string

record Tracker =
  tkSessions :: "string \<rightharpoonup> sessionState"
  tkManifest :: trackerFingerprint
  tkManifestKnown :: bool
  tkScanCount :: nat

record TrackerEnv =
  teLock :: "nat \<Rightarrow> lock_outcome"
  teFaults :: "nat \<Rightarrow> Faults"
  teMaxBytes :: int

definition no_fingerprint :: trackerFingerprint where
  "no_fingerprint = \<lparr>tfRecordsTotal = 0, tfLastHash = []\<rparr>"

definition NewTracker :: Tracker where
  "NewTracker = \<lparr>tkSessions = Map.empty, tkManifest = no_fingerprint, tkManifestKnown = False, tkScanCount = 0\<rparr>"

text \<open>A store that does not exist has no fingerprint.\<close>

definition loadTrackerFingerprint ::
  "TrackerEnv \<Rightarrow> nat \<Rightarrow> store \<Rightarrow> store \<times> (AssessError + trackerFingerprint option)" where
  "loadTrackerFingerprint te i st =
     (case LoadManifest (teLock te i) (teFaults te i) (teMaxBytes te) st of
        (st', Inl NotExist) \<Rightarrow> (st', Inr None)
      | (st', Inl e) \<Rightarrow> (st', Inl (LoadManifestFailed e))
      | (st', Inr m) \<Rightarrow> (st', Inr (Some \<lparr>tfRecordsTotal = smRecordsTotal m, tfLastHash = smLastHash m\<rparr>)))"

definition known_fingerprint :: "trackerFingerprint option \<Rightarrow> trackerFingerprint" where
  "known_fingerprint fp = (case fp of None \<Rightarrow> no_fingerprint | Some x \<Rightarrow> x)"

definition refreshManifestLocked ::
  "TrackerEnv \<Rightarrow> nat \<Rightarrow> Tracker \<Rightarrow> store \<Rightarrow> Tracker \<times> store \<times> AssessError option" where
  "refreshManifestLocked te i t st =
     (case loadTrackerFingerprint te i st of
        (st', Inl e) \<Rightarrow> (t, st', Some e)
      | (st', Inr fp) \<Rightarrow> (t\<lparr>tkManifest := known_fingerprint fp, tkManifestKnown := (fp \<noteq> None)\<rparr>, st', None))"

definition refreshAndCheckManifestLocked ::
  "TrackerEnv \<Rightarrow> nat \<Rightarrow> Tracker \<Rightarrow> store \<Rightarrow> Tracker \<times> store \<times> (AssessError + bool)" where
  "refreshAndCheckManifestLocked te i t st =
     (case loadTrackerFingerprint te i st of
        (st', Inl e) \<Rightarrow> (t, st', Inl e)
      | (st', Inr None) \<Rightarrow>
          (t\<lparr>tkManifest := no_fingerprint, tkManifestKnown := False\<rparr>, st',
           Inr (tkManifestKnown t \<and> (tfRecordsTotal (tkManifest t) \<noteq> 0 \<or> tfLastHash (tkManifest t) \<noteq> [])))
      | (st', Inr (Some current)) \<Rightarrow>
          (if \<not> tkManifestKnown t then (t\<lparr>tkManifest := current, tkManifestKnown := True\<rparr>, st', Inr False)
           else (t\<lparr>tkManifest := current\<rparr>, st', Inr (tkManifest t \<noteq> current))))"

text \<open>An entry that cannot be decoded only marks the session; the error returned is that of the manifest.\<close>

definition Observe :: "TrackerEnv \<Rightarrow> EvidenceEntry \<Rightarrow> Tracker \<Rightarrow> store \<Rightarrow> Tracker \<times> store \<times> AssessError option" where
  "Observe te entry t st =
     (if SessionID entry = [] then (t, st, None)
      else (let state = (case tkSessions t (SessionID entry) of None \<Rightarrow> newSessionState | Some s \<Rightarrow> s);
                t1 = t\<lparr>tkSessions := (tkSessions t)(SessionID entry \<mapsto> fst (observeEntry entry state))\<rparr>
            in if tkManifestKnown t1
               then (t1\<lparr>tkManifest := \<lparr>tfRecordsTotal = tfRecordsTotal (tkManifest t1) + 1, tfLastHash = Hash entry\<rparr>\<rparr>, st, None)
               else refreshManifestLocked te 0 t1 st))"

text \<open>The scan stops at the first entry of the session that does not decode.\<close>

definition rebuild_step ::
  "string \<Rightarrow> sessionState \<times> BridgeError option \<Rightarrow> EvidenceEntry \<Rightarrow> bool \<times> sessionState \<times> BridgeError option" where
  "rebuild_step sessionID acc entry =
     (if SessionID entry \<noteq> sessionID then (False, acc)
      else (let r = observeEntry entry (fst acc) in (snd r \<noteq> None, r)))"

definition scan_session :: "lock_outcome \<Rightarrow> string \<Rightarrow> store \<Rightarrow> store \<times> (AssessError + sessionState)" where
  "scan_session lock sessionID st =
     (case withStoreLock lock
             (\<lambda>st. (st, Inr (forEachEntryAtPathUnlocked (rebuild_step sessionID) (newSessionState, None) st))) st of
        (st', Inl NotExist) \<Rightarrow> (st', Inr newSessionState)
      | (st', Inl e) \<Rightarrow> (st', Inl (RebuildRead e))
      | (st', Inr (Broken NotExist)) \<Rightarrow> (st', Inr newSessionState)
      | (st', Inr (Broken e)) \<Rightarrow> (st', Inl (RebuildRead e))
      | (st', Inr (Finished acc)) \<Rightarrow> (st', Inr (fst acc))
      | (st', Inr (Stopped acc)) \<Rightarrow>
          (st', case snd acc of None \<Rightarrow> Inr (fst acc) | Some e \<Rightarrow> Inl (RebuildEntry e)))"

definition rebuildSession ::
  "TrackerEnv \<Rightarrow> string \<Rightarrow> Tracker \<Rightarrow> store \<Rightarrow> Tracker \<times> store \<times> (AssessError + sessionState)" where
  "rebuildSession te sessionID t st =
     (case (if sessionID = [] then (st, Inr newSessionState) else scan_session (teLock te 1) sessionID st) of
        (st1, Inl e) \<Rightarrow> (t, st1, Inl e)
      | (st1, Inr state) \<Rightarrow>
          (case refreshManifestLocked te 2
                  (t\<lparr>tkScanCount := Suc (tkScanCount t), tkSessions := (tkSessions t)(sessionID \<mapsto> state)\<rparr>) st1 of
             (t2, st2, Some e) \<Rightarrow> (t2, st2, Inl e)
           | (t2, st2, None) \<Rightarrow> (t2, st2, Inr state)))"

definition read_snapshot ::
  "TrackerEnv \<Rightarrow> Runtime \<Rightarrow> (string list \<Rightarrow> string list) \<Rightarrow> Profile \<Rightarrow> store \<Rightarrow> store \<times> (AssessError + Snapshot)" where
  "read_snapshot te rt visit profile st =
     (case ReadAllEntriesAtPath (teLock te 0) st of
        (st', Inl e) \<Rightarrow> (st', Inl (ReadForAssessment e))
      | (st', Inr entries) \<Rightarrow> (st', buildSnapshotFromEntries rt visit entries [] profile))"

definition rebuild_snapshot ::
  "TrackerEnv \<Rightarrow> Runtime \<Rightarrow> (string list \<Rightarrow> string list) \<Rightarrow> string \<Rightarrow> Profile \<Rightarrow> Tracker \<Rightarrow> store
    \<Rightarrow> Tracker \<times> store \<times> (AssessError + Snapshot)" where
  "rebuild_snapshot te rt visit sessionID profile t st =
     (case rebuildSession te sessionID t st of
        (t', st', Inl e) \<Rightarrow> (t', st', Inl e)
      | (t', st', Inr rebuilt) \<Rightarrow>
          (case snapshot rt visit profile rebuilt of
             (state, sn) \<Rightarrow> (t'\<lparr>tkSessions := (tkSessions t')(sessionID \<mapsto> state)\<rparr>, st', Inr sn)))"

definition Tracker_Snapshot ::
  "TrackerEnv \<Rightarrow> Runtime \<Rightarrow> (string list \<Rightarrow> string list) \<Rightarrow> string \<Rightarrow> Profile \<Rightarrow> Tracker \<Rightarrow> store
    \<Rightarrow> Tracker \<times> store \<times> (AssessError + Snapshot)" where
  "Tracker_Snapshot te rt visit sessionID profile t st =
     (if sessionID = [] then (case read_snapshot te rt visit profile st of (st', r) \<Rightarrow> (t, st', r))
      else (case refreshAndCheckManifestLocked te 0 t st of
          (t1, st1, Inl e) \<Rightarrow> (t1, st1, Inl e)
        | (t1, st1, Inr changed) \<Rightarrow>
            (case tkSessions t1 sessionID of
               None \<Rightarrow> rebuild_snapshot te rt visit sessionID profile t1 st1
             | Some state \<Rightarrow>
                 if \<not> ssInvalid state \<and> \<not> changed
                 then (case snapshot rt visit profile state of
                     (state', sn) \<Rightarrow> (t1\<lparr>tkSessions := (tkSessions t1)(sessionID \<mapsto> state')\<rparr>, st1, Inr sn))
                 else rebuild_snapshot te rt visit sessionID profile t1 st1)))"

text \<open>The pool has one tracker per path; here for one path.\<close>

definition TrackerForPath :: "Tracker option \<Rightarrow> Tracker" where
  "TrackerForPath pool = (case pool of Some t \<Rightarrow> t | None \<Rightarrow> NewTracker)"

definition BuildAtPathWithProfile ::
  "TrackerEnv \<Rightarrow> Runtime \<Rightarrow> (string list \<Rightarrow> string list) \<Rightarrow> string \<Rightarrow> Profile \<Rightarrow> Tracker option \<Rightarrow> store
    \<Rightarrow> Tracker option \<times> store \<times> (AssessError + Snapshot)" where
  "BuildAtPathWithProfile te rt visit sessionID profile pool st =
     (if sessionID \<noteq> []
      then (case Tracker_Snapshot te rt visit sessionID profile (TrackerForPath pool) st of (t, st', r) \<Rightarrow> (Some t, st', r))
      else (case read_snapshot te rt visit profile st of (st', r) \<Rightarrow> (pool, st', r)))"

definition BuildAtPath ::
  "ProfileEnv \<Rightarrow> TrackerEnv \<Rightarrow> Runtime \<Rightarrow> (string list \<Rightarrow> string list) \<Rightarrow> string \<Rightarrow> Tracker option \<Rightarrow> store
    \<Rightarrow> Tracker option \<times> store \<times> (AssessError + Snapshot)" where
  "BuildAtPath pe te rt visit sessionID pool st =
     (case ResolveProfile pe [] of
        Inl e \<Rightarrow> (pool, st, Inl (ResolveForAssessment e))
      | Inr profile \<Rightarrow> BuildAtPathWithProfile te rt visit sessionID profile pool st)"

end
