(* ===== verification/Mcp.thy ===== *)
theory Mcp
  imports Mcp_Inputs Smart_Output Assessment
begin

text \<open>
  The MCP service (\<^verbatim>\<open>pkg/mcpserver/server.go\<close>) and the \<open>run_command\<close> tool that records mutations by
  itself (\<^verbatim>\<open>run_command.go\<close>). The fields that never change are \<open>MCPService\<close>; what changes is \<open>McpState\<close>: the
  world of the prescribe/report service, the assessment tracker, the lazily resolved profile and the entries handed
  to the forward callback. \<open>newMCPService\<close> and \<open>ensureInitialized\<close> build the same lifecycle service from the fields, so that
  it is computed where it is used. The executed process is an argument. Messages of errors are the errors.
\<close>

section \<open>State and errors\<close>

record RetryState =
  rsEntries :: RetryTracker
  rsTick :: nat

record MCPService =
  msEvidencePath :: string
  msRetryTracker :: bool
  msSigner :: "Signer option"
  msBestEffortWrites :: bool
  msForward :: bool

record McpState =
  mxWorld :: "RetryState World"
  mxTracker :: "Tracker option"
  mxPool :: "Tracker option"
  mxProfile :: Profile
  mxInit :: "ProfileLoadError option option"
  mxForwarded :: "EvidenceEntry list"

record McpEnv =
  meEnv :: Env
  meProfileEnv :: ProfileEnv
  meClock :: "nat \<Rightarrow> time"
  meObserve :: TrackerEnv
  meSnapshot :: TrackerEnv
  meRuntime :: Runtime
  meVisit :: "string list \<Rightarrow> string list"
  meSkillVersion :: string

datatype McpError =
    InitFailed ProfileLoadError
  | ContractFailed string
  | LifecycleFailed LifecycleError
  | SnapshotFailed AssessError

fun code_text :: "Code \<Rightarrow> string" where
  "code_text InvalidInput = ''invalid_input''"
| "code_text CodeParseError = ''parse_error''"
| "code_text CodeNotFound = ''not_found''"
| "code_text Internal = ''internal_error''"
| "code_text EvidenceRead = ''evidence_read_failed''"
| "code_text EvidenceWrite = ''evidence_write_failed''"
| "code_text NoSignerConfigured = ''no_signer_configured''"

text \<open>The code of the \<open>ErrInfo\<close> that the source returns for each error.\<close>

fun err_code :: "McpError \<Rightarrow> string" where
  "err_code (InitFailed e) = code_text Internal"
| "err_code (ContractFailed e) = code_text InvalidInput"
| "err_code (LifecycleFailed e) = code_text (ErrorCode e)"
| "err_code (SnapshotFailed e) = code_text Internal"

record McpPrescribeOutput =
  mpoOK :: bool
  mpoPrescriptionID :: string
  mpoRiskInputs :: "RiskInput list"
  mpoEffectiveRisk :: string
  mpoArtifactDigest :: string
  mpoIntentDigest :: string
  mpoShapeHash :: string
  mpoResourceCount :: int
  mpoOperationClass :: string
  mpoScopeClass :: string
  mpoCanonVersion :: string
  mpoRetryCount :: int
  mpoError :: "McpError option"

record McpReportOutput =
  mroOK :: bool
  mroReportID :: string
  mroPrescriptionID :: string
  mroExitCode :: "int option"
  mroVerdict :: Verdict
  mroDecisionContext :: "DecisionContext option"
  mroSnapshot :: "Snapshot option"
  mroError :: "McpError option"

section \<open>The service\<close>

definition retry_recorder :: "(nat \<Rightarrow> time) \<Rightarrow> duration \<Rightarrow> RetryState \<Rightarrow> string \<Rightarrow> string \<Rightarrow> int \<times> RetryState" where
  "retry_recorder clock ttl rs intentDigest shapeHash =
     (case Retry_Record ttl (clock (rsTick rs)) intentDigest shapeHash (rsEntries rs) of
        (n, entries) \<Rightarrow> (n, \<lparr>rsEntries = entries, rsTick = Suc (rsTick rs)\<rparr>))"

definition toRetryRecorder :: "McpEnv \<Rightarrow> bool \<Rightarrow> (RetryState \<Rightarrow> string \<Rightarrow> string \<Rightarrow> int \<times> RetryState) option" where
  "toRetryRecorder me present = (if present then Some (retry_recorder (meClock me) (10 * Minute)) else None)"

definition newLifecycleService :: "McpEnv \<Rightarrow> MCPService \<Rightarrow> RetryState Service" where
  "newLifecycleService me s =
     \<lparr>svEvidencePath = msEvidencePath s, svSigner = msSigner s, svRetryTracker = toRetryRecorder me (msRetryTracker s),
      svBestEffortWrites = msBestEffortWrites s, svPipeline = None\<rparr>"

text \<open>\<open>initOnce\<close>: the outcome of the first call stands.\<close>

definition ensureInitialized :: "McpEnv \<Rightarrow> McpState \<Rightarrow> McpState \<times> ProfileLoadError option" where
  "ensureInitialized me st =
     (case mxInit st of
        Some r \<Rightarrow> (st, r)
      | None \<Rightarrow>
          if prID (mxProfile st) \<noteq> [] then (st\<lparr>mxInit := Some None\<rparr>, None)
          else (case ResolveProfile (meProfileEnv me) [] of
                  Inl e \<Rightarrow> (st\<lparr>mxInit := Some (Some e)\<rparr>, Some e)
                | Inr p \<Rightarrow> (st\<lparr>mxProfile := p, mxInit := Some None\<rparr>, None)))"

definition observeWrittenEntry :: "McpEnv \<Rightarrow> EvidenceEntry \<Rightarrow> McpState \<Rightarrow> McpState" where
  "observeWrittenEntry me entry st =
     (case mxTracker st of
        None \<Rightarrow> st
      | Some t \<Rightarrow>
          if EntryID entry = [] then st
          else (case Observe (meObserve me) entry t (wStore (mxWorld st)) of
                  (t', store, _) \<Rightarrow> st\<lparr>mxTracker := Some t', mxWorld := (mxWorld st)\<lparr>wStore := store\<rparr>\<rparr>))"

definition tryForwardEntry :: "MCPService \<Rightarrow> EvidenceEntry \<Rightarrow> McpState \<Rightarrow> McpState" where
  "tryForwardEntry s entry st = (if msForward s then st\<lparr>mxForwarded := mxForwarded st @ [entry]\<rparr> else st)"

definition sessionSnapshot :: "McpEnv \<Rightarrow> string \<Rightarrow> McpState \<Rightarrow> McpState \<times> (AssessError + Snapshot)" where
  "sessionSnapshot me sessionID st =
     (case mxTracker st of
        Some t \<Rightarrow>
          (case Tracker_Snapshot (meSnapshot me) (meRuntime me) (meVisit me) sessionID (mxProfile st) t (wStore (mxWorld st)) of
             (t', store, r) \<Rightarrow> (st\<lparr>mxTracker := Some t', mxWorld := (mxWorld st)\<lparr>wStore := store\<rparr>\<rparr>, r))
      | None \<Rightarrow>
          (case BuildAtPathWithProfile (meSnapshot me) (meRuntime me) (meVisit me) sessionID (mxProfile st) (mxPool st)
                  (wStore (mxWorld st)) of
             (pool, store, r) \<Rightarrow> (st\<lparr>mxPool := pool, mxWorld := (mxWorld st)\<lparr>wStore := store\<rparr>\<rparr>, r)))"

definition written :: "McpEnv \<Rightarrow> MCPService \<Rightarrow> bool \<Rightarrow> EvidenceEntry \<Rightarrow> McpState \<Rightarrow> McpState" where
  "written me s persisted entry st = (if persisted then tryForwardEntry s entry (observeWrittenEntry me entry st) else st)"

definition prescribe_failed :: "McpError \<Rightarrow> McpPrescribeOutput" where
  "prescribe_failed e =
     \<lparr>mpoOK = False, mpoPrescriptionID = [], mpoRiskInputs = [], mpoEffectiveRisk = [], mpoArtifactDigest = [],
      mpoIntentDigest = [], mpoShapeHash = [], mpoResourceCount = 0, mpoOperationClass = [], mpoScopeClass = [],
      mpoCanonVersion = [], mpoRetryCount = 0, mpoError = Some e\<rparr>"

definition mcp_prescribe_output :: "PrescribeOutput \<Rightarrow> McpPrescribeOutput" where
  "mcp_prescribe_output out =
     \<lparr>mpoOK = True, mpoPrescriptionID = poPrescriptionID out, mpoRiskInputs = poRiskInputs out,
      mpoEffectiveRisk = poEffectiveRisk out, mpoArtifactDigest = poArtifactDigest out, mpoIntentDigest = poIntentDigest out,
      mpoShapeHash = poShapeHash out, mpoResourceCount = poResourceCount out, mpoOperationClass = poOperationClass out,
      mpoScopeClass = poScopeClass out, mpoCanonVersion = poCanonVersion out, mpoRetryCount = poRetryCount out, mpoError = None\<rparr>"

definition PrescribeCtx :: "McpEnv \<Rightarrow> MCPService \<Rightarrow> McpPrescribeInput \<Rightarrow> McpState \<Rightarrow> McpState \<times> McpPrescribeOutput" where
  "PrescribeCtx me s input st0 =
     (case ensureInitialized me st0 of
        (st, Some e) \<Rightarrow> (st, prescribe_failed (InitFailed e))
      | (st, None) \<Rightarrow>
          (case preparePrescribeInput input of
             Inl e \<Rightarrow> (st, prescribe_failed (ContractFailed e))
           | Inr prepared \<Rightarrow>
               (case Prescribe (meEnv me) (newLifecycleService me s)
                       (toLifecyclePrescribeInput (meSkillVersion me) prepared) (mxWorld st) of
                  (w, Inl e) \<Rightarrow> (st\<lparr>mxWorld := w\<rparr>, prescribe_failed (LifecycleFailed e))
                | (w, Inr out) \<Rightarrow> (written me s (poPersisted out) (poEntry out) (st\<lparr>mxWorld := w\<rparr>), mcp_prescribe_output out))))"

definition report_failed :: "string \<Rightarrow> int option \<Rightarrow> Verdict \<Rightarrow> DecisionContext option \<Rightarrow> McpError \<Rightarrow> McpReportOutput" where
  "report_failed pid code verdict dc e =
     \<lparr>mroOK = False, mroReportID = [], mroPrescriptionID = pid, mroExitCode = code, mroVerdict = verdict,
      mroDecisionContext = dc, mroSnapshot = None, mroError = Some e\<rparr>"

definition ReportCtx :: "McpEnv \<Rightarrow> MCPService \<Rightarrow> McpReportInput \<Rightarrow> McpState \<Rightarrow> McpState \<times> McpReportOutput" where
  "ReportCtx me s input st0 =
     (let failed = report_failed (mrPrescriptionID input) (mrExitCode input) (mrVerdict input) (mrDecisionContext input) in
      case ensureInitialized me st0 of
        (st, Some e) \<Rightarrow> (st, failed (InitFailed e))
      | (st, None) \<Rightarrow>
          (case Report (meEnv me) (newLifecycleService me s) (toLifecycleReportInput (meSkillVersion me) input) (mxWorld st) of
             (w, Inl e) \<Rightarrow> (st\<lparr>mxWorld := w\<rparr>, failed (LifecycleFailed e))
           | (w, Inr out) \<Rightarrow>
               (case sessionSnapshot me (toSessionID out) (written me s (toPersisted out) (toEntry out) (st\<lparr>mxWorld := w\<rparr>)) of
                  (st', Inl e) \<Rightarrow> (st', report_failed (toPrescriptionID out) (toExitCode out) (toVerdict out)
                      (toDecisionContext out) (SnapshotFailed e))
                | (st', Inr sn) \<Rightarrow> (st',
                    \<lparr>mroOK = True, mroReportID = toReportID out, mroPrescriptionID = toPrescriptionID out,
                     mroExitCode = toExitCode out, mroVerdict = toVerdict out, mroDecisionContext = toDecisionContext out,
                     mroSnapshot = Some sn, mroError = None\<rparr>))))"

section \<open>Looking up\<close>

datatype GetEventError = EventIDRequired | NoEvidencePath | ReadFailed StoreErr | EventNotFound

definition GetEvent :: "McpEnv \<Rightarrow> MCPService \<Rightarrow> string \<Rightarrow> McpState \<Rightarrow> McpState \<times> (GetEventError + EvidenceEntry)" where
  "GetEvent me s eventID st =
     (if eventID = [] then (st, Inl EventIDRequired)
      else if msEvidencePath s = [] then (st, Inl NoEvidencePath)
      else (case store_Find (meEnv me) eventID (mxWorld st) of
              (w, Inl _) \<Rightarrow> (st\<lparr>mxWorld := w\<rparr>, Inl EventNotFound)
            | (w, Inr (Inl e)) \<Rightarrow> (st\<lparr>mxWorld := w\<rparr>, Inl (ReadFailed e))
            | (w, Inr (Inr None)) \<Rightarrow> (st\<lparr>mxWorld := w\<rparr>, Inl EventNotFound)
            | (w, Inr (Inr (Some e))) \<Rightarrow> (st\<lparr>mxWorld := w\<rparr>, Inr e)))"

text \<open>The resources by their URI; every failure is \<open>ResourceNotFoundError\<close>.\<close>

definition event_uri :: string where "event_uri = ''evidra://event/''"
definition session_uri :: string where "session_uri = ''evidra://scorecard/session/''"

definition readResourceEvent :: "McpEnv \<Rightarrow> MCPService \<Rightarrow> string \<Rightarrow> McpState \<Rightarrow> McpState \<times> EvidenceEntry option" where
  "readResourceEvent me s uri st =
     (let eventID = TrimPrefix uri event_uri in
      if eventID = [] \<or> eventID = uri then (st, None)
      else if msEvidencePath s = [] then (st, None)
      else (case store_Find (meEnv me) eventID (mxWorld st) of
              (w, Inr (Inr (Some e))) \<Rightarrow> (st\<lparr>mxWorld := w\<rparr>, Some e)
            | (w, _) \<Rightarrow> (st\<lparr>mxWorld := w\<rparr>, None)))"

definition readResourceScorecard :: "McpEnv \<Rightarrow> MCPService \<Rightarrow> string \<Rightarrow> McpState \<Rightarrow> McpState \<times> Snapshot option" where
  "readResourceScorecard me s uri st =
     (let answer = (\<lambda>sid. case sessionSnapshot me sid st of (st', Inl _) \<Rightarrow> (st', None) | (st', Inr sn) \<Rightarrow> (st', Some sn)) in
      if msEvidencePath s = [] then (st, None)
      else if uri = ''evidra://scorecard/aggregate'' then answer []
      else if HasPrefix uri session_uri then
        (let sid = TrimPrefix uri session_uri in if TrimSpace sid = [] then (st, None) else answer sid)
      else (st, None))"

section \<open>run\_command\<close>

datatype ProcessError = NoProcessError | ExitError int | OtherProcessError

definition exitCodeFromError :: "ProcessError \<Rightarrow> int" where
  "exitCodeFromError e = (case e of NoProcessError \<Rightarrow> 0 | ExitError n \<Rightarrow> n | OtherProcessError \<Rightarrow> 1)"

record runCommandHandler =
  rhService :: "MCPService option"
  rhKubeconfigPath :: string
  rhActorID :: string
  rhAllowedPrefixes :: "string list"
  rhBlockedSubs :: "string list"

datatype ExecuteError = CommandRequired | CommandRefused CommandError | TargetRefused string | CommandUnparsed ParseError

record RunCommandOutput =
  roOK :: bool
  roOutput :: string
  roExitCode :: int
  roMutation :: bool
  roError :: "ExecuteError option"

definition refused :: "bool \<Rightarrow> ExecuteError \<Rightarrow> RunCommandOutput" where
  "refused mutation e = \<lparr>roOK = False, roOutput = [], roExitCode = 0, roMutation = mutation, roError = Some e\<rparr>"

text \<open>Arguments, the path of the kubeconfig: standard output, standard error, and how the process ended.\<close>

type_synonym process = "string list \<Rightarrow> string \<Rightarrow> string \<times> string \<times> ProcessError"

definition combined_output :: "string \<Rightarrow> string \<Rightarrow> string" where
  "combined_output out err = (if err = [] then out else if out = [] then err else out @ [newline] @ err)"

definition auto_report :: "string \<Rightarrow> int \<Rightarrow> McpReportInput" where
  "auto_report prescriptionID exitCode =
     \<lparr>mrPrescriptionID = prescriptionID, mrVerdict = (if exitCode \<noteq> 0 then ''failure'' else ''success''),
      mrExitCode = Some exitCode, mrDecisionContext = None, mrArtifactDigest = [],
      mrActor = \<lparr>iaType = ''proxy'', iaID = ''run_command'', iaOrigin = ''mcp'', iaInstanceID = [], iaVersion = [],
        iaSkillVersion = []\<rparr>,
      mrExternalRefs = [], mrSessionID = [], mrOperationID = [], mrSpanID = [], mrParentSpanID = []\<rparr>"

text \<open>The prescription before the command: the new state and the id, empty when nothing was recorded.\<close>

definition auto_prescribe ::
  "McpEnv \<Rightarrow> runCommandHandler \<Rightarrow> string \<Rightarrow> McpState \<Rightarrow> McpState \<times> (string + string)" where
  "auto_prescribe me h command st =
     (case rhService h of
        None \<Rightarrow> (st, Inr [])
      | Some s \<Rightarrow>
          if \<not> IsMutation command then (st, Inr [])
          else (case deriveAutoPrescribeInput command (rhActorID h) of
                  Inl e \<Rightarrow> (st, Inl e)
                | Inr None \<Rightarrow> (st, Inr [])
                | Inr (Some input) \<Rightarrow>
                    (case PrescribeCtx me s input st of
                       (st', out) \<Rightarrow> (st', Inr (if mpoOK out then mpoPrescriptionID out else [])))))"

definition auto_evidence :: "McpEnv \<Rightarrow> runCommandHandler \<Rightarrow> string \<Rightarrow> int \<Rightarrow> McpState \<Rightarrow> McpState" where
  "auto_evidence me h prescriptionID exitCode st =
     (case rhService h of
        None \<Rightarrow> st
      | Some s \<Rightarrow> if prescriptionID = [] then st else fst (ReportCtx me s (auto_report prescriptionID exitCode) st))"

definition execute ::
  "McpEnv \<Rightarrow> OutputEnv \<Rightarrow> process \<Rightarrow> runCommandHandler \<Rightarrow> string \<Rightarrow> McpState \<Rightarrow> McpState \<times> RunCommandOutput" where
  "execute me oe run h input st =
     (let command = TrimSpace input in
      if command = [] then (st, refused False CommandRequired)
      else case validateRunCommand command (rhAllowedPrefixes h) (rhBlockedSubs h) of
        Some e \<Rightarrow> (st, refused False (CommandRefused e))
      | None \<Rightarrow>
          (case auto_prescribe me h command st of
             (st1, Inl e) \<Rightarrow> (st1, refused True (TargetRefused e))
           | (st1, Inr prescriptionID) \<Rightarrow>
               (case parseCommand command of
                  Inl e \<Rightarrow> (st1, refused (IsMutation command) (CommandUnparsed e))
                | Inr args \<Rightarrow>
                    (case run args (rhKubeconfigPath h) of (out, err, ended) \<Rightarrow>
                       let exitCode = exitCodeFromError ended in
                       (auto_evidence me h prescriptionID exitCode st1,
                        \<lparr>roOK = (exitCode = 0), roOutput = FormatSmartOutput oe command (combined_output out err) exitCode,
                         roExitCode = exitCode, roMutation = IsMutation command, roError = None\<rparr>)))))"

end
