(* ===== verification/Mcp_Props.thy ===== *)
theory Mcp_Props
  imports Mcp Lifecycle_Props
begin

text \<open>
  The MCP service: the retry tracker with and without its background cleanup, and the evidence that
  \<open>run_command\<close> records by itself.
\<close>

section \<open>Retries\<close>

datatype retry_event = Recorded string string | Cleaned

text \<open>The counts returned by a sequence of calls, each at its time.\<close>

fun retry_run :: "duration \<Rightarrow> (time \<times> retry_event) list \<Rightarrow> RetryTracker \<Rightarrow> int list" where
  "retry_run ttl [] m = []"
| "retry_run ttl ((now, Recorded i h) # es) m = (case Retry_Record ttl now i h m of (n, m') \<Rightarrow> n # retry_run ttl es m')"
| "retry_run ttl ((now, Cleaned) # es) m = retry_run ttl es (Retry_Cleanup ttl now m)"

definition is_record :: "time \<times> retry_event \<Rightarrow> bool" where
  "is_record e \<longleftrightarrow> snd e \<noteq> Cleaned"

text \<open>The cleaned map misses only entries that have expired.\<close>

definition cleaned :: "duration \<Rightarrow> time \<Rightarrow> RetryTracker \<Rightarrow> RetryTracker \<Rightarrow> bool" where
  "cleaned ttl now a b \<longleftrightarrow> (\<forall>k. a k = b k \<or> a k = None \<and> (\<exists>e. b k = Some e \<and> retry_expired ttl now e))"

lemma expired_later: "retry_expired ttl t e \<Longrightarrow> t \<le> t' \<Longrightarrow> retry_expired ttl t' e"
  by (auto simp: retry_expired_def TimeSub_def max_def min_def split: if_splits)

lemma cleaned_later: "cleaned ttl t a b \<Longrightarrow> t \<le> t' \<Longrightarrow> cleaned ttl t' a b"
  unfolding cleaned_def using expired_later by blast

lemma cleaned_record:
  assumes "cleaned ttl now a b"
  shows "fst (Retry_Record ttl now i h a) = fst (Retry_Record ttl now i h b) \<and>
    cleaned ttl now (snd (Retry_Record ttl now i h a)) (snd (Retry_Record ttl now i h b))"
proof -
  let ?k = "i @ '':'' @ h"
  consider "a ?k = b ?k" | e where "a ?k = None" "b ?k = Some e" "retry_expired ttl now e"
    using assms unfolding cleaned_def by blast
  then show ?thesis
  proof cases
    case 1
    with assms show ?thesis by (cases "b ?k") (auto simp: Retry_Record_def cleaned_def Let_def)
  next
    case 2
    with assms show ?thesis by (auto simp: Retry_Record_def cleaned_def Let_def)
  qed
qed

lemma cleaned_cleanup: "cleaned ttl now a b \<Longrightarrow> cleaned ttl now (Retry_Cleanup ttl now a) b"
  unfolding cleaned_def
proof (intro allI)
  fix k
  assume "\<forall>k. a k = b k \<or> a k = None \<and> (\<exists>e. b k = Some e \<and> retry_expired ttl now e)"
  then have "a k = b k \<or> a k = None \<and> (\<exists>e. b k = Some e \<and> retry_expired ttl now e)" ..
  then show "Retry_Cleanup ttl now a k = b k \<or>
      Retry_Cleanup ttl now a k = None \<and> (\<exists>e. b k = Some e \<and> retry_expired ttl now e)"
    by (cases "a k"; cases "b k") (auto simp: Retry_Cleanup_def)
qed

lemma retry_run_cleaned:
  assumes "sorted (map fst es)" "\<forall>e\<in>set es. t \<le> fst e" "cleaned ttl t a b"
  shows "retry_run ttl es a = retry_run ttl (filter is_record es) b"
  using assms
proof (induction es arbitrary: t a b)
  case (Cons x es)
  obtain now ev where x: "x = (now, ev)" by (cases x)
  have later: "cleaned ttl now a b" using cleaned_later [OF Cons.prems(3)] Cons.prems(2) x by simp
  have rest: "sorted (map fst es)" "\<forall>e\<in>set es. now \<le> fst e" using Cons.prems(1) x by auto
  show ?case
  proof (cases ev)
    case (Recorded i h)
    have n: "fst (Retry_Record ttl now i h a) = fst (Retry_Record ttl now i h b)"
      and c: "cleaned ttl now (snd (Retry_Record ttl now i h a)) (snd (Retry_Record ttl now i h b))"
      using cleaned_record [OF later] by auto
    show ?thesis using Cons.IH [OF rest c] n by (simp add: x Recorded is_record_def case_prod_beta)
  next
    case Cleaned
    then show ?thesis using Cons.IH [OF rest cleaned_cleanup [OF later]] by (simp add: x is_record_def)
  qed
qed simp

text \<open>
  C6. The background cleanup cannot be noticed: whenever it runs, the counts that \<open>Record\<close> returns are those of
  a tracker that never cleans up, on a clock that does not go back.
\<close>

theorem cleanup_invisible:
  assumes "sorted (map fst es)"
  shows "retry_run ttl es Map.empty = retry_run ttl (filter is_record es) Map.empty"
proof (cases es)
  case (Cons x xs)
  show ?thesis
  proof (rule retry_run_cleaned [OF assms])
    show "\<forall>e\<in>set es. fst (hd es) \<le> fst e" using assms Cons by auto
    show "cleaned ttl (fst (hd es)) Map.empty Map.empty" by (simp add: cleaned_def)
  qed
qed simp

lemma cleanup_invisible_witness:
  "retry_run 10 [(0, Recorded ''i'' ''h''), (5, Recorded ''i'' ''h''), (11, Cleaned), (12, Recorded ''i'' ''h'')] Map.empty = [1, 2, 1]"
proof -
  have "retry_run 10 [(0, Recorded ''i'' ''h''), (5, Recorded ''i'' ''h''), (11, Cleaned), (12, Recorded ''i'' ''h'')] Map.empty =
      retry_run 10 (filter is_record [(0, Recorded ''i'' ''h''), (5, Recorded ''i'' ''h''), (11, Cleaned), (12, Recorded ''i'' ''h'')]) Map.empty"
    by (rule cleanup_invisible) simp
  also have "\<dots> = [1, 2, 1]" by (simp add: is_record_def Retry_Record_def retry_expired_def TimeSub_def)
  finally show ?thesis .
qed

section \<open>What a mutation is recorded as\<close>

lemma nonblank: "s \<noteq> [] \<Longrightarrow> \<not> is_space (hd s) \<Longrightarrow> TrimSpace s \<noteq> []"
  by (auto simp: TrimSpace_def dropWhile_id dropWhile_eq_Nil_conv hd_rev)

definition solid :: "string \<Rightarrow> bool" where
  "solid s \<longleftrightarrow> s \<noteq> [] \<and> \<not> is_space (hd s)"

lemma solid_keys: "map_of al k = Some v \<Longrightarrow> list_all (\<lambda>x. solid (fst x)) al \<Longrightarrow> solid k"
  by (auto simp: list_all_iff dest!: map_of_SomeD)

lemma toolOps_solid:
  assumes "toolOps tool = Some ops" "ops operation = Some c"
  shows "TrimSpace tool \<noteq> [] \<and> TrimSpace operation \<noteq> []"
proof -
  have "solid tool"
    by (rule solid_keys [OF assms(1) [unfolded toolOps_def]]) (simp add: solid_def is_space_def)
  moreover have "solid operation"
    using assms(2) map_of_SomeD [OF assms(1) [unfolded toolOps_def]]
    by (simp only: list.set insert_iff prod.inject empty_iff simp_thms)
      (elim disjE conjE, simp_all only:,
       (erule solid_keys, simp add: solid_def is_space_def)+)
  ultimately show ?thesis using nonblank by (simp add: solid_def)
qed

lemma classified_solid:
  assumes "ClassifyCommand command = (tool, operation, c)" "c = OpMutate \<or> c = OpDestroy"
  shows "TrimSpace tool \<noteq> [] \<and> TrimSpace operation \<noteq> []"
  using assms toolOps_solid
  unfolding ClassifyCommand_def classify_words_def
  by (auto split: list.splits option.splits)

lemma scope_accepted: "s \<in> scope_classes \<Longrightarrow> \<exists>c. normalizeIngressScopeClass s = Inr c"
  by (auto simp: scope_classes_def normalizeIngressScopeClass_def NormalizeScopeClass_def TrimSpace_def is_space_def
      EqualFold_def ToLower_def lower_char_def Let_def)

section \<open>The tracker leaves the store alone\<close>

lemma LoadManifest_store: "fst (LoadManifest lock f mb st) = st"
  by (simp add: LoadManifest_def withStoreLock_def loadOrInitManifest_def Let_def split: lock_outcome.split option.split manifest_file.split)

lemma fingerprint_store: "fst (loadTrackerFingerprint te i st) = st"
  using LoadManifest_store [of "teLock te i" "teFaults te i" "teMaxBytes te" st]
  by (auto simp: loadTrackerFingerprint_def split: prod.split sum.split StoreErr.split)

lemma refresh_store: "fst (snd (refreshManifestLocked te i t st)) = st" "fst (snd (refreshAndCheckManifestLocked te i t st)) = st"
  using fingerprint_store [of te i st]
  by (auto simp: refreshManifestLocked_def refreshAndCheckManifestLocked_def split: prod.split sum.split option.split)

lemma Observe_store: "fst (snd (Observe te e t st)) = st"
  by (simp add: Observe_def Let_def refresh_store)

lemma withStoreLock_pure: "fst (withStoreLock lock (\<lambda>st. (st, r st)) st) = st"
  by (simp add: withStoreLock_def split: lock_outcome.split)

lemma scan_store: "fst (scan_session lock sid st) = st"
  using withStoreLock_pure [of lock "\<lambda>st. Inr (forEachEntryAtPathUnlocked (rebuild_step sid) (newSessionState, None) st)" st]
  by (auto simp: scan_session_def split: prod.split sum.split StoreErr.split walk.split)

lemma rebuild_store: "fst (snd (rebuildSession te sid t st)) = st"
  using scan_store [of "teLock te 1" sid st] refresh_store(1) [of te 2 _ st]
  by (auto simp: rebuildSession_def split: prod.split sum.split option.split) (metis fst_conv snd_conv)+

lemma rebuild_snapshot_store: "fst (snd (rebuild_snapshot te rt visit sid profile t st)) = st"
  using rebuild_store [of te sid t st] by (auto simp: rebuild_snapshot_def split: prod.split sum.split)

lemma ReadAll_store: "fst (ReadAllEntriesAtPath lock st) = st"
  by (simp add: ReadAllEntriesAtPath_def withStoreLock_def readAllUnlocked_def split: lock_outcome.split)

lemma read_snapshot_store: "fst (read_snapshot te rt visit profile st) = st"
  using ReadAll_store [of "teLock te 0" st] by (auto simp: read_snapshot_def split: prod.split sum.split)

lemma Tracker_Snapshot_store: "fst (snd (Tracker_Snapshot te rt visit sid profile t st)) = st"
  using refresh_store(2) [of te 0 t st] read_snapshot_store [of te rt visit profile st]
    rebuild_snapshot_store [of te rt visit sid profile _ st]
  by (auto simp: Tracker_Snapshot_def split: prod.split sum.split option.split)

lemma BuildAtPath_store: "fst (snd (BuildAtPathWithProfile te rt visit sid profile pool st)) = st"
  using Tracker_Snapshot_store [of te rt visit sid profile "TrackerForPath pool" st] read_snapshot_store [of te rt visit profile st]
  by (auto simp: BuildAtPathWithProfile_def split: prod.split)

lemma world_store [simp]: "w\<lparr>wStore := wStore w\<rparr> = w"
  by simp

lemma written_world [simp]: "mxWorld (written me s p e st) = mxWorld st"
proof -
  have "mxWorld (observeWrittenEntry me e st) = mxWorld st"
    using Observe_store [of "meObserve me" e _ "wStore (mxWorld st)"]
    by (auto simp: observeWrittenEntry_def split: option.split prod.split) (metis fst_conv snd_conv world_store)+
  then show ?thesis by (simp add: written_def tryForwardEntry_def)
qed

lemma sessionSnapshot_world: "mxWorld (fst (sessionSnapshot me sid st)) = mxWorld st"
  using Tracker_Snapshot_store [of "meSnapshot me" "meRuntime me" "meVisit me" sid "mxProfile st" _ "wStore (mxWorld st)"]
    BuildAtPath_store [of "meSnapshot me" "meRuntime me" "meVisit me" sid "mxProfile st" "mxPool st" "wStore (mxWorld st)"]
  by (auto simp: sessionSnapshot_def split: option.split prod.split) (metis fst_conv snd_conv world_store)+

section \<open>The evidence of run\_command\<close>

text \<open>Surroundings that work, a service that records, and identifiers that are new.\<close>

definition ready :: "McpEnv \<Rightarrow> MCPService \<Rightarrow> McpState \<Rightarrow> bool" where
  "ready me s st \<longleftrightarrow> calm (meEnv me) \<and> good (meEnv me) (mxWorld st) \<and> length (wlog (mxWorld st)) + 3 < max_segments \<and>
     msEvidencePath s \<noteq> [] \<and> msSigner s \<noteq> None \<and> digests_ok (ceHashes (evCanon (meEnv me))) \<and>
     (\<forall>n. evFresh (meEnv me) n \<noteq> [] \<and> evFresh (meEnv me) n \<notin> EntryID ` set (wlog (mxWorld st)) \<and>
        TrimSpace (evFresh (meEnv me) n) = evFresh (meEnv me) n) \<and>
     (\<forall>j. evDigest (meEnv me) j \<noteq> None) \<and> prID (mxProfile st) \<noteq> [] \<and> (mxInit st = None \<or> mxInit st = Some None)"

text \<open>A command that the guards let through and that counts as a mutation.\<close>

definition recorded_mutation :: "runCommandHandler \<Rightarrow> string \<Rightarrow> McpPrescribeInput \<Rightarrow> bool" where
  "recorded_mutation h command input \<longleftrightarrow> TrimSpace command = command \<and> command \<noteq> [] \<and>
     validateRunCommand command (rhAllowedPrefixes h) (rhBlockedSubs h) = None \<and> IsMutation command \<and>
     deriveAutoPrescribeInput command (rhActorID h) = Inr (Some input)"

definition auto_actor_id :: "runCommandHandler \<Rightarrow> string" where
  "auto_actor_id h = (if rhActorID h = [] then ''infrastructure-agent'' else rhActorID h)"

lemma ensure_ready:
  assumes "ready me s st"
  obtains st' where "ensureInitialized me st = (st', None)" "mxWorld st' = mxWorld st" "mxProfile st' = mxProfile st" "mxInit st' = Some None"
  using assms by (auto simp: ready_def ensureInitialized_def)

lemma derived_shape:
  assumes "deriveAutoPrescribeInput command actorID = Inr (Some input)"
  obtains tool operation action where
    "input = derived_input (if actorID = [] then ''infrastructure-agent'' else actorID) tool operation action"
    "TrimSpace tool \<noteq> []" "TrimSpace operation \<noteq> []" "caScopeClass action \<in> scope_classes"
proof -
  obtain tool operation c where cl: "ClassifyCommand command = (tool, operation, c)" by (cases "ClassifyCommand command")
  then have c: "c = OpMutate \<or> c = OpDestroy" using assms by (auto simp: deriveAutoPrescribeInput_def Let_def split: if_splits)
  note sol = classified_solid [OF cl c]
  have u: "''unknown'' \<in> scope_classes" by (simp add: scope_classes_def)
  show thesis
    using assms sol u that [of tool operation] cl
    by (auto simp: deriveAutoPrescribeInput_def Let_def split: if_splits option.splits sum.splits)
qed

lemma derived_accepted:
  assumes "deriveAutoPrescribeInput command (rhActorID h) = Inr (Some input)" "TrimSpace (auto_actor_id h) \<noteq> []"
  shows "preparePrescribeInput input = Inr input" "accepted env (toLifecyclePrescribeInput skill input)"
    "piActor (toLifecyclePrescribeInput skill input) = toEvidenceActor skill (agent_actor (auto_actor_id h))"
    "piExternalFindings (toLifecyclePrescribeInput skill input) = []"
proof -
  obtain tool operation action where i: "input = derived_input (auto_actor_id h) tool operation action"
    "TrimSpace tool \<noteq> []" "TrimSpace operation \<noteq> []" "caScopeClass action \<in> scope_classes"
    by (rule derived_shape [OF assms(1)]) (simp add: auto_actor_id_def)
  have w: "TrimSpace ''agent'' = ''agent''" "TrimSpace ''mcp'' = ''mcp''" "TrimSpace [] = []"
    by (simp_all add: TrimSpace_def is_space_def)
  show "preparePrescribeInput input = Inr input"
    using i assms(2) w
    by (simp add: preparePrescribeInput_def ValidatePrescribeInput_def validateToolOperation_def toExecContractPrescribeInput_def
        toExecContractCanonicalAction_def derived_input_def agent_actor_def Exec_validateActor_def)
  show "accepted env (toLifecyclePrescribeInput skill input)"
    using i assms(2) w scope_accepted [OF i(4)]
    by (simp add: accepted_def toLifecyclePrescribeInput_def derived_input_def agent_actor_def toEvidenceActor_def
        validatePrescribeActor_def normalizeActor_def)
  show "piActor (toLifecyclePrescribeInput skill input) = toEvidenceActor skill (agent_actor (auto_actor_id h))"
    "piExternalFindings (toLifecyclePrescribeInput skill input) = []"
    by (simp_all add: i toLifecyclePrescribeInput_def derived_input_def)
qed

text \<open>The prescription that precedes the command.\<close>

lemma mutation_prescribed:
  assumes "ready me s st" "rhService h = Some s" "recorded_mutation h command input" "TrimSpace (auto_actor_id h) \<noteq> []"
  obtains st1 out w where "auto_prescribe me h command st = (st1, Inr (poPrescriptionID out))" "mxWorld st1 = w" "mxInit st1 = Some None"
    "good (meEnv me) w" "wlog w = wlog (mxWorld st) @ [poEntry out]"
    "prescribed (toLifecyclePrescribeInput (meSkillVersion me) input) (mxWorld st) out w"
    "poPrescriptionID out \<noteq> []" "TrimSpace (poPrescriptionID out) = poPrescriptionID out"
    "poPrescriptionID out \<notin> EntryID ` set (wlog (mxWorld st))"
proof -
  let ?env = "meEnv me" and ?s = "newLifecycleService me s" and ?w = "mxWorld st"
    and ?in = "toLifecyclePrescribeInput (meSkillVersion me) input"
  have r: "calm ?env" "good ?env ?w" "length (wlog ?w) + 1 < max_segments" "digests_ok (ceHashes (evCanon ?env))"
    "\<And>n. evFresh ?env n \<noteq> []" "\<And>j. evDigest ?env j \<noteq> None" and s: "svEvidencePath ?s \<noteq> []" "svSigner ?s \<noteq> None" "svPipeline ?s = None"
    using assms(1) by (simp_all add: ready_def newLifecycleService_def)
  have m: "IsMutation command" "deriveAutoPrescribeInput command (rhActorID h) = Inr (Some input)"
    using assms(3) by (simp_all add: recorded_mutation_def)
  note d = derived_accepted [OF m(2) assms(4)]
  obtain w out where out: "Prescribe ?env ?s ?in ?w = (w, Inr out)"
    using Prescribe_succeeds [OF r(1-3) s d(2) r(4-6)] by blast
  have "length (wlog ?w) + prescribe_budget ?in < max_segments"
    using assms(1) d(4) by (simp add: prescribe_budget_def ready_def)
  from Prescribe_run [OF r(1,2) this s(1) r(5) out]
  have w: "good ?env w" "prescribed ?in ?w out w" "\<exists>n. poPrescriptionID out = evFresh ?env n" by blast+
  then have "wlog w = wlog ?w @ [poEntry out]" using d(4) by (auto simp: prescribed_def)
  moreover obtain st' where e: "ensureInitialized me st = (st', None)" "mxWorld st' = ?w" "mxInit st' = Some None"
    by (rule ensure_ready [OF assms(1)])
  let ?st1 = "written me s (poPersisted out) (poEntry out) (st'\<lparr>mxWorld := w\<rparr>)"
  have "auto_prescribe me h command st = (?st1, Inr (poPrescriptionID out))"
    using assms(2) m d(1) e(1,2) out
    by (simp add: auto_prescribe_def PrescribeCtx_def mcp_prescribe_output_def)
  moreover have "mxInit ?st1 = Some None"
    using e(3) by (simp add: written_def tryForwardEntry_def observeWrittenEntry_def split: option.split prod.split)
  moreover have "poPrescriptionID out \<noteq> []" "TrimSpace (poPrescriptionID out) = poPrescriptionID out"
    "poPrescriptionID out \<notin> EntryID ` set (wlog ?w)"
    using assms(1) w(3) unfolding ready_def by metis+
  ultimately show thesis using that w by simp
qed

lemma validate_auto_report:
  "validateDecisionReportInput (toLifecycleReportInput skill (auto_report pid code)) =
    (if code < 0 then Inl (VerdictMismatch ''failure'' code) else Inr None)"
  by (simp add: validateDecisionReportInput_def toLifecycleReportInput_def auto_report_def Verdict_Valid_def verdict_defs
      VerdictFromExitCode_def)

section \<open>A concrete server\<close>

definition sample_me :: McpEnv where
  "sample_me = \<lparr>meEnv = sample_env, meProfileEnv = \<lparr>peVariable = [], peRead = (\<lambda>_. None), peUnmarshal = (\<lambda>_. None), peOrd = id\<rparr>,
     meClock = int, meObserve = \<lparr>teLock = (\<lambda>_. Acquired), teFaults = (\<lambda>_. no_faults), teMaxBytes = 1\<rparr>,
     meSnapshot = \<lparr>teLock = (\<lambda>_. Acquired), teFaults = (\<lambda>_. no_faults), teMaxBytes = 1\<rparr>,
     meRuntime = \<lparr>rtNow = 0, rtKeys = id, rtKeys' = id, rtPairs = id, rtInts = id, rtSort = sort_key enTimestamp\<rparr>,
     meVisit = id, meSkillVersion = ''1.3.0''\<rparr>"

definition sample_mcp :: MCPService where
  "sample_mcp = \<lparr>msEvidencePath = ''evidence'', msRetryTracker = True, msSigner = Some sample_signer,
     msBestEffortWrites = False, msForward = False\<rparr>"

definition sample_state :: McpState where
  "sample_state = \<lparr>mxWorld = fresh_world \<lparr>rsEntries = Map.empty, rsTick = 0\<rparr>, mxTracker = Some NewTracker, mxPool = None,
     mxProfile = default_profile, mxInit = None, mxForwarded = []\<rparr>"

definition sample_handler :: runCommandHandler where
  "sample_handler = \<lparr>rhService = Some sample_mcp, rhKubeconfigPath = [], rhActorID = [],
     rhAllowedPrefixes = defaultAllowedPrefixes, rhBlockedSubs = defaultBlockedSubcommands\<rparr>"

lemma sample_ready: "ready sample_me sample_mcp sample_state"
  by (simp add: ready_def sample_me_def sample_mcp_def sample_state_def max_segments_def default_profile_def)

lemma sample_mutation:
  obtains input where "recorded_mutation sample_handler ''kubectl delete pod web'' input"
    "parseCommand ''kubectl delete pod web'' = Inr [''kubectl'', ''delete'', ''pod'', ''web'']"
proof -
  have "(case deriveAutoPrescribeInput ''kubectl delete pod web'' [] of Inr (Some _) \<Rightarrow> True | _ \<Rightarrow> False)" by code_simp
  then obtain input where "deriveAutoPrescribeInput ''kubectl delete pod web'' [] = Inr (Some input)"
    by (auto split: sum.splits option.splits)
  moreover have "TrimSpace ''kubectl delete pod web'' = ''kubectl delete pod web''"
    "validateRunCommand ''kubectl delete pod web'' defaultAllowedPrefixes defaultBlockedSubcommands = None"
    "IsMutation ''kubectl delete pod web''"
    "parseCommand ''kubectl delete pod web'' = Inr [''kubectl'', ''delete'', ''pod'', ''web'']" by code_simp+
  ultimately show thesis using that by (simp add: recorded_mutation_def sample_handler_def)
qed

lemma sample_actor_id: "TrimSpace (auto_actor_id sample_handler) \<notin> {[], ''run_command''}"
proof -
  have "TrimSpace ''infrastructure-agent'' = ''infrastructure-agent''" by code_simp
  then show ?thesis by (simp add: auto_actor_id_def sample_handler_def)
qed

lemma sample_handler_service: "rhService sample_handler = Some sample_mcp"
  by (simp add: sample_handler_def)

lemma sample_log: "wlog (mxWorld sample_state) = []"
  by (simp add: sample_state_def)

definition sample_output :: OutputEnv where
  "sample_output = \<lparr>oeDecode = (\<lambda>_. None), oeEncode = (\<lambda>_. None), oeVisit = id\<rparr>"

text \<open>
  C2. A mutation that a signal kills, so that the process has a negative exit code, leaves a prescription without a
  report: the tool reports every exit code other than zero as \<open>failure\<close>, the service expects \<open>error\<close> for negative ones and
  refuses, and the refusal is dropped.
\<close>

theorem killed_mutation_unreported:
  assumes "ready me s st" "rhService h = Some s" "recorded_mutation h command input" "TrimSpace (auto_actor_id h) \<noteq> []"
    and "parseCommand command = Inr args" "run args (rhKubeconfigPath h) = (out, err, ExitError code)" "code < 0"
    and "execute me oe run h command st = (st', result)"
  shows "roExitCode result = code \<and> roError result = None \<and>
    (\<exists>p. wlog (mxWorld st') = wlog (mxWorld st) @ [p] \<and> is_prescribe p)"
proof -
  obtain st1 pout w where p: "auto_prescribe me h command st = (st1, Inr (poPrescriptionID pout))" "mxWorld st1 = w" "mxInit st1 = Some None"
    "good (meEnv me) w" "wlog w = wlog (mxWorld st) @ [poEntry pout]"
    "prescribed (toLifecyclePrescribeInput (meSkillVersion me) input) (mxWorld st) pout w"
    and pid: "poPrescriptionID pout \<noteq> []" "TrimSpace (poPrescriptionID pout) = poPrescriptionID pout"
    by (rule mutation_prescribed [OF assms(1-4)])
  have "msSigner s \<noteq> None" using assms(1) by (simp add: ready_def)
  then have "Report (meEnv me) (newLifecycleService me s)
      (toLifecycleReportInput (meSkillVersion me) (auto_report (poPrescriptionID pout) code)) w =
      (w, Inl (VerdictMismatch ''failure'' code))"
    using pid assms(7) validate_auto_report [of "meSkillVersion me" "poPrescriptionID pout" code]
    by (simp add: Report_def bindW_def liftW_def requiredSigner_def newLifecycleService_def Let_def)
      (simp add: toLifecycleReportInput_def auto_report_def)
  then have "mxWorld (auto_evidence me h (poPrescriptionID pout) code st1) = w"
    using assms(2) p(2,3) by (simp add: auto_evidence_def ReportCtx_def ensureInitialized_def Let_def)
  then show ?thesis
    using assms(3,5,6,8) p(1,5,6)
    by (auto simp: execute_def recorded_mutation_def exitCodeFromError_def prescribed_def Let_def)
qed

theorem killed_mutation_unreported_witness:
  "\<exists>p. wlog (mxWorld (fst (execute sample_me sample_output (\<lambda>args kc. ([], [], ExitError (- 1))) sample_handler ''kubectl delete pod web'' sample_state))) = [p]
     \<and> is_prescribe p"
proof -
  obtain input where m: "recorded_mutation sample_handler ''kubectl delete pod web'' input"
    "parseCommand ''kubectl delete pod web'' = Inr [''kubectl'', ''delete'', ''pod'', ''web'']"
    by (rule sample_mutation)
  have a: "TrimSpace (auto_actor_id sample_handler) \<noteq> []" using sample_actor_id by simp
  show ?thesis
    using killed_mutation_unreported [OF sample_ready sample_handler_service m(1) a m(2), of "\<lambda>args kc. ([], [], ExitError (- 1))" "[]" "[]" "- 1" sample_output]
    by (auto simp: sample_log intro: prod.collapse [symmetric])
qed

text \<open>A report by another actor, the first of its prescription, is a violation.\<close>

lemma check_reports_cross:
  assumes "\<forall>x\<in>set xs. enIsReport x \<longrightarrow> enPrescriptionID x \<noteq> i" "first i = None"
    and "enIsReport e" "enPrescriptionID e = i" "i \<noteq> []" "prescriptions i = Some rx"
    and "enActorID rx \<noteq> []" "enActorID e \<noteq> []" "enActorID rx \<noteq> enActorID e"
  shows "violation ''cross_actor_report'' e (ActorMismatch (enActorID e) (enActorID rx))
    \<in> set (check_reports prescriptions first (xs @ [e]))"
  using assms by (induction xs arbitrary: first) (auto split: option.split)

lemma cross_actor_log:
  assumes "legal (es @ [pe, re])" "is_prescribe pe" "is_report re" "EntryID pe = pid" "pid \<noteq> []" "pid \<notin> EntryID ` set es"
    and "\<exists>r. unmarshal_report (Payload re) = Some r \<and> rpPrescriptionID r = pid"
    and "acID (EActor pe) \<noteq> []" "acID (EActor re) \<noteq> []" "acID (EActor pe) \<noteq> acID (EActor re)"
  shows "\<exists>ses. EvidenceToSignalEntries (es @ [pe, re]) = Inr ses \<and>
    (\<exists>v\<in>set (DetectProtocolViolationEvents ses ttl now). seSubSignal v = ''cross_actor_report'' \<and> seEntryRef v = EntryID re)"
proof -
  have d: "decodes e" if "e \<in> set (es @ [pe, re])" for e using legal_decodes [OF assms(1) that] .
  then obtain actions where b: "EvidenceToSignalEntries (es @ [pe, re]) = Inr (List.map_filter (signal_entry actions) (es @ [pe, re]))"
    using Evidence_to_signal [of "es @ [pe, re]"] by blast
  obtain sp sr where sp: "signal_entry actions pe = Some sp" and sr: "signal_entry actions re = Some sr"
    using signal_entry_Some [of pe actions] signal_entry_Some [of re actions] d assms(2,3) by auto
  let ?xs = "List.map_filter (signal_entry actions) es @ [sp]"
  have ses: "List.map_filter (signal_entry actions) (es @ [pe, re]) = ?xs @ [sr]"
    using sp sr by (simp add: map_filter_append map_filter_simps)
  note p = signal_entry_SomeD [OF sp] and r = signal_entry_SomeD [OF sr]
  have f: "enIsPrescription sp" "\<not> enIsReport sp" "\<not> enIsPrescription sr" "enIsReport sr" "enEventID sp = pid"
    "enPrescriptionID sr = pid" "enActorID sp = acID (EActor pe)" "enActorID sr = acID (EActor re)" "enEventID sr = EntryID re"
    using p(1,3,6,7) r(1,3,6,7,9) assms(2-4,7) types_differ by auto
  have old: "\<forall>x\<in>set ?xs. enIsReport x \<longrightarrow> enPrescriptionID x \<noteq> pid"
  proof (intro ballI impI)
    fix x
    assume x: "x \<in> set ?xs" "enIsReport x"
    then obtain e where e: "e \<in> set es" "signal_entry actions e = Some x" using f(2) by (auto simp: map_filter_in)
    note xe = signal_entry_SomeD(7,9) [OF e(2)]
    obtain ys zs where "es = ys @ e # zs" using e(1) by (meson split_list)
    then have "es @ [pe, re] = ys @ e # (zs @ [pe, re])" by simp
    with assms(1) have "wrote ys e" unfolding legal_def by blast
    moreover have "is_report e" using xe(1) x(2) by simp
    ultimately obtain q where "q \<in> set ys" "EntryID q = enPrescriptionID x" using xe(2) by (auto simp: wrote_def)
    moreover have "set ys \<subseteq> set es" using \<open>es = ys @ e # zs\<close> by auto
    ultimately show "enPrescriptionID x \<noteq> pid" using assms(6) by (metis image_eqI subsetD)
  qed
  have "prescriptions_by_id (?xs @ [sr]) pid = Some sp"
    unfolding prescriptions_by_id_def
  proof (rule collect_Some_unique)
    fix x y
    assume "x \<in> set (?xs @ [sr])" "(if enIsPrescription x then Some (enEventID x, x) else None) = Some (pid, y)"
    then show "y = sp" using f(3) assms(6) signal_entry_SomeD(1)
      by (fastforce simp: map_filter_in split: if_splits)
  qed (use f in auto)
  from check_reports_cross [where prescriptions = "prescriptions_by_id (?xs @ [sr])" and first = Map.empty and xs = ?xs
      and e = sr and i = pid and rx = sp] this old assms(5,8-10) f(4,6-8)
  have "violation ''cross_actor_report'' sr (ActorMismatch (enActorID sr) (enActorID sp))
      \<in> set (DetectProtocolViolationEvents (?xs @ [sr]) ttl now)"
    by (simp add: DetectProtocolViolationEvents_def)
  then have "\<exists>v\<in>set (DetectProtocolViolationEvents (?xs @ [sr]) ttl now). seSubSignal v = ''cross_actor_report'' \<and> seEntryRef v = EntryID re"
    by (rule bexI [rotated]) (simp add: violation_def f(9))
  with b ses show ?thesis by simp
qed

text \<open>
  C1. Every mutation that \<open>run_command\<close> records by itself is a protocol violation: the prescription is made in the name
  of the agent and the report in the name of \<open>run_command\<close>, so that the detector calls the report that of another
  actor, and does not take it as the answer.
\<close>

theorem auto_evidence_cross_actor:
  assumes "ready me s st" "rhService h = Some s" "recorded_mutation h command input"
    and "TrimSpace (auto_actor_id h) \<notin> {[], ''run_command''}"
    and "parseCommand command = Inr args" "run args (rhKubeconfigPath h) = (out, err, ended)" "0 \<le> exitCodeFromError ended"
    and "execute me oe run h command st = (st', result)"
  shows "\<exists>p r ses. wlog (mxWorld st') = wlog (mxWorld st) @ [p, r] \<and> is_prescribe p \<and> is_report r \<and>
    EvidenceToSignalEntries (wlog (mxWorld st')) = Inr ses \<and>
    (\<exists>v\<in>set (DetectProtocolViolationEvents ses ttl now). seSubSignal v = ''cross_actor_report'' \<and> seEntryRef v = EntryID r)"
proof -
  have act: "TrimSpace (auto_actor_id h) \<noteq> []" using assms(4) by simp
  let ?env = "meEnv me" and ?code = "exitCodeFromError ended"
  obtain st1 pout w where p: "auto_prescribe me h command st = (st1, Inr (poPrescriptionID pout))" "mxWorld st1 = w" "mxInit st1 = Some None"
    "good ?env w" "wlog w = wlog (mxWorld st) @ [poEntry pout]"
    "prescribed (toLifecyclePrescribeInput (meSkillVersion me) input) (mxWorld st) pout w"
    and pid: "poPrescriptionID pout \<noteq> []" "TrimSpace (poPrescriptionID pout) = poPrescriptionID pout"
      "poPrescriptionID pout \<notin> EntryID ` set (wlog (mxWorld st))"
    by (rule mutation_prescribed [OF assms(1-3) act])
  let ?tin = "toLifecycleReportInput (meSkillVersion me) (auto_report (poPrescriptionID pout) ?code)" and ?s = "newLifecycleService me s"
  have r: "calm ?env" "length (wlog w) + 1 < max_segments" "\<And>n. evFresh ?env n \<noteq> []" "\<And>j. evDigest ?env j \<noteq> None"
    and s: "svEvidencePath ?s \<noteq> []" "svSigner ?s \<noteq> None"
    using assms(1) p(5) by (simp_all add: ready_def newLifecycleService_def)
  have pe: "is_prescribe (poEntry pout)" "EntryID (poEntry pout) = poPrescriptionID pout" "SessionID (poEntry pout) \<noteq> []"
    "acID (EActor (poEntry pout)) = TrimSpace (auto_actor_id h)"
    using p(6) derived_accepted(3) [OF _ act] assms(3)
    by (auto simp: prescribed_def recorded_mutation_def normalizeActor_def toEvidenceActor_def agent_actor_def)
  have tin: "TrimSpace (tiPrescriptionID ?tin) = poPrescriptionID pout" "validateDecisionReportInput ?tin = Inr None"
    "FormatDigest (tiArtifactDigest ?tin) = Inr []" "TrimSpace (tiSessionID ?tin) = []" "tiActor ?tin = toEvidenceActor (meSkillVersion me) (mrActor (auto_report [] 0))"
    using pid(2) assms(7) validate_auto_report [of "meSkillVersion me" "poPrescriptionID pout" ?code]
    by (simp_all add: toLifecycleReportInput_def auto_report_def FormatDigest_def)
  have only: "q = poEntry pout" if "q \<in> set (wlog w)" "EntryID q = poPrescriptionID pout" for q
  proof -
    from that(1) p(5) consider "q \<in> set (wlog (mxWorld st))" | "q = poEntry pout" by auto
    then show ?thesis using that(2) pid(3) by cases (metis image_eqI)+
  qed
  have found: "\<exists>q\<in>set (wlog w). EntryID q = poPrescriptionID pout"
    "\<forall>q\<in>set (wlog w). EntryID q = poPrescriptionID pout \<longrightarrow>
      SessionID q \<noteq> [] \<and> (TrimSpace (tiSessionID ?tin) = [] \<or> TrimSpace (tiSessionID ?tin) = SessionID q)"
  proof -
    show "\<exists>q\<in>set (wlog w). EntryID q = poPrescriptionID pout" using p(5) pe(2) by (intro bexI [of _ "poEntry pout"]) simp_all
  qed (use only pe(3) tin(4) in blast)
  have "\<exists>w' rout q. Report ?env ?s ?tin w = (w', Inr rout) \<and> good ?env w' \<and> wlog w' = wlog w @ [toEntry rout] \<and>
      q \<in> set (wlog w) \<and> EntryID q = poPrescriptionID pout \<and> reported ?tin q rout"
    by (rule Report_run [OF r(1) p(4) r(2) s tin(1) pid(1) tin(2,3) found r(3,4)])
  then obtain w' rout q where rr: "Report ?env ?s ?tin w = (w', Inr rout)" "good ?env w'" "wlog w' = wlog w @ [toEntry rout]"
    "EntryID q = poPrescriptionID pout" "reported ?tin q rout" by blast
  have re: "is_report (toEntry rout)" "acID (EActor (toEntry rout)) = ''run_command''"
    "\<exists>rep. unmarshal_report (Payload (toEntry rout)) = Some rep \<and> rpPrescriptionID rep = poPrescriptionID pout"
    using rr(4,5) tin(5) by (auto simp: reported_def normalizeActor_def toEvidenceActor_def auto_report_def TrimSpace_def is_space_def)
  have "mxWorld (auto_evidence me h (poPrescriptionID pout) ?code st1) = w'"
  proof -
    obtain st2 e where "sessionSnapshot me (toSessionID rout) (written me s (toPersisted rout) (toEntry rout) (st1\<lparr>mxWorld := w'\<rparr>)) = (st2, e)"
      by (cases "sessionSnapshot me (toSessionID rout) (written me s (toPersisted rout) (toEntry rout) (st1\<lparr>mxWorld := w'\<rparr>))")
    moreover from this have "mxWorld st2 = w'"
      using sessionSnapshot_world [of me "toSessionID rout" "written me s (toPersisted rout) (toEntry rout) (st1\<lparr>mxWorld := w'\<rparr>)"] by simp
    ultimately show ?thesis
      using assms(2) p(2,3) pid(1) rr(1) by (auto simp: auto_evidence_def ReportCtx_def ensureInitialized_def Let_def split: sum.split)
  qed
  then have w': "mxWorld st' = w'" "wlog w' = wlog (mxWorld st) @ [poEntry pout, toEntry rout]"
    using assms(3,5,6,8) p(1,5) rr(3) by (auto simp: execute_def recorded_mutation_def Let_def)
  have "legal (wlog (mxWorld st) @ [poEntry pout, toEntry rout])" using rr(2) w'(2) by (simp add: good_def)
  from cross_actor_log [OF this pe(1) re(1) pe(2) pid(1,3) re(3), of ttl now] pe(4) re(2) assms(4) w' pe(1) re(1) show ?thesis
    by auto
qed

theorem auto_evidence_cross_actor_witness:
  "\<exists>p r ses. wlog (mxWorld (fst (execute sample_me sample_output (\<lambda>args kc. ([], [], NoProcessError)) sample_handler ''kubectl delete pod web'' sample_state)))
      = [p, r] \<and> EvidenceToSignalEntries [p, r] = Inr ses \<and>
     ''cross_actor_report'' \<in> seSubSignal ` set (DetectProtocolViolationEvents ses DefaultTTL 0)"
proof -
  obtain input where m: "recorded_mutation sample_handler ''kubectl delete pod web'' input"
    "parseCommand ''kubectl delete pod web'' = Inr [''kubectl'', ''delete'', ''pod'', ''web'']"
    by (rule sample_mutation)
  let ?run = "\<lambda>(args :: string list) (kc :: string). ([] :: string, [] :: string, NoProcessError)"
  obtain st' result where e: "execute sample_me sample_output ?run sample_handler ''kubectl delete pod web'' sample_state = (st', result)"
    by (cases "execute sample_me sample_output ?run sample_handler ''kubectl delete pod web'' sample_state")
  have "0 \<le> exitCodeFromError NoProcessError" by (simp add: exitCodeFromError_def)
  from auto_evidence_cross_actor [OF sample_ready sample_handler_service m(1) sample_actor_id m(2) _ this e, of "[]" "[]" DefaultTTL 0]
  show ?thesis by (force simp: sample_log e)
qed

end
