(* ===== verification/Assessment_Props.thy ===== *)
theory Assessment_Props
  imports Assessment
begin

text \<open>
  The tracker against the log: with one writer the sessions it keeps are those of the log and its
  snapshot is the one computed from the log; with another writer, after a restart, or when time
  passes, it is not.
\<close>

section \<open>Observing a list of entries\<close>

definition observe_all :: "EvidenceEntry list \<Rightarrow> sessionState \<Rightarrow> sessionState" where
  "observe_all es s = fold (\<lambda>e s. fst (observeEntry e s)) es s"

lemma observe_all_simps [simp]:
  "observe_all [] s = s" "observe_all (e # es) s = observe_all es (fst (observeEntry e s))"
  "observe_all (es @ fs) s = observe_all fs (observe_all es s)"
  by (simp_all add: observe_all_def)

text \<open>No prescription comes after a report that names it.\<close>

definition answers_back :: "EvidenceEntry list \<Rightarrow> bool" where
  "answers_back es \<longleftrightarrow> (\<forall>xs e ys r. es = xs @ e # ys \<longrightarrow> is_report e \<longrightarrow> unmarshal_report (Payload e) = Some r \<longrightarrow>
     (\<forall>p\<in>set ys. is_prescribe p \<longrightarrow> EntryID p \<noteq> rpPrescriptionID r))"

lemma answers_back_Cons: "answers_back (e # es) \<longleftrightarrow> answers_back es \<and>
    (\<forall>r. is_report e \<longrightarrow> unmarshal_report (Payload e) = Some r \<longrightarrow> (\<forall>p\<in>set es. is_prescribe p \<longrightarrow> EntryID p \<noteq> rpPrescriptionID r))"
  (is "?l \<longleftrightarrow> ?a \<and> ?b")
proof
  assume l: ?l
  have ?a unfolding answers_back_def using l unfolding answers_back_def by (metis append_Cons)
  moreover have ?b using l unfolding answers_back_def by (metis append_Nil)
  ultimately show "?a \<and> ?b" ..
next
  assume r: "?a \<and> ?b"
  show ?l unfolding answers_back_def
  proof (intro allI impI)
    fix xs x ys r
    assume "e # es = xs @ x # ys" "is_report x" "unmarshal_report (Payload x) = Some r"
    then show "\<forall>p\<in>set ys. is_prescribe p \<longrightarrow> EntryID p \<noteq> rpPrescriptionID r"
      using r unfolding answers_back_def by (cases xs) auto
  qed
qed

definition action_binding :: "EvidenceEntry \<Rightarrow> (string \<times> CanonicalAction) option" where
  "action_binding e = (if is_prescribe e then map_option (\<lambda>a. (EntryID e, a)) (prescribed_action e) else None)"

lemma collect_untouched:
  "\<forall>p\<in>set es. is_prescribe p \<longrightarrow> EntryID p \<noteq> i \<Longrightarrow> collect action_binding m es i = m i"
  by (induction es arbitrary: m) (auto simp: action_binding_def split: option.splits if_splits)

text \<open>One entry that decodes.\<close>

lemma observe_step:
  assumes "decodes e"
  shows "snd (observeEntry e s) = None"
    "ssPrescriptions (fst (observeEntry e s)) = (case action_binding e of None \<Rightarrow> ssPrescriptions s | Some (k, a) \<Rightarrow> (ssPrescriptions s)(k \<mapsto> a))"
    "ssSignalEntries (fst (observeEntry e s)) = ssSignalEntries s @
       (case signal_entry (ssPrescriptions s) e of None \<Rightarrow> [] | Some se \<Rightarrow> [se])"
    "ssTotalOps (fst (observeEntry e s)) = ssTotalOps s + (if is_prescribe e then 1 else 0)"
    "is_prescribe e \<or> is_report e \<Longrightarrow> ssResultsDirty (fst (observeEntry e s))"
    "\<not> is_prescribe e \<Longrightarrow> \<not> is_report e \<Longrightarrow> fst (observeEntry e s) = s"
    "ssSnapshots s = Map.empty \<Longrightarrow> ssSnapshots (fst (observeEntry e s)) = Map.empty"
    "ssResultsDirty s \<Longrightarrow> ssResultsDirty (fst (observeEntry e s))"
  using assms types_differ [of e]
  by (auto simp: observeEntry_def decodes_def action_binding_def prescribed_action_def signal_entry_def bridge_entry_def
      observe_signal_def Let_def split: option.split)

lemma observe_all_bridge:
  assumes "\<forall>e\<in>set es. decodes e" "answers_back es"
  shows "ssPrescriptions (observe_all es s) = collect action_binding (ssPrescriptions s) es \<and>
    ssSignalEntries (observe_all es s) = ssSignalEntries s @
      List.map_filter (signal_entry (collect action_binding (ssPrescriptions s) es)) es \<and>
    ssTotalOps (observe_all es s) = ssTotalOps s + int (length (filter is_prescribe es))"
  using assms
proof (induction es arbitrary: s)
  case Nil
  then show ?case by (simp add: map_filter_simps)
next
  case (Cons e es)
  let ?s = "fst (observeEntry e s)"
  have e: "decodes e" "answers_back es" using Cons.prems by (simp_all add: answers_back_Cons)
  note step = observe_step [OF e(1), of s]
  have c: "collect action_binding (ssPrescriptions s) (e # es) = collect action_binding (ssPrescriptions ?s) es"
    by (simp add: step(2) split: option.split)
  have "signal_entry (collect action_binding (ssPrescriptions s) (e # es)) e = signal_entry (ssPrescriptions s) e"
  proof (cases "is_report e")
    case True
    then obtain r where r: "unmarshal_report (Payload e) = Some r" using e(1) by (auto simp: decodes_def)
    have n: "action_binding e = None" using types_differ [OF True] by (simp add: action_binding_def)
    have "collect action_binding (ssPrescriptions s) es (rpPrescriptionID r) = ssPrescriptions s (rpPrescriptionID r)"
      using Cons.prems(2) True r by (intro collect_untouched) (auto simp: answers_back_Cons)
    then show ?thesis using True r n by (simp add: signal_entry_def bridge_entry_def)
  qed (simp add: signal_entry_def bridge_entry_def)
  with Cons.IH [of ?s] e(2) Cons.prems(1) c show ?case
    by (auto simp: step(3,4) map_filter_simps split: option.split)
qed

lemma observe_all_flags:
  "\<forall>e\<in>set es. decodes e \<Longrightarrow> (ssResultsDirty (observe_all es s) \<longleftrightarrow> ssResultsDirty s \<or> (\<exists>e\<in>set es. is_prescribe e \<or> is_report e)) \<and>
     (ssSnapshots s = Map.empty \<longrightarrow> ssSnapshots (observe_all es s) = Map.empty)"
proof (induction es arbitrary: s)
  case (Cons e es)
  then have e: "decodes e" by simp
  show ?case
    using Cons.IH [of "fst (observeEntry e s)"] Cons.prems observe_step(5-8) [OF e, of s]
    by (cases "is_prescribe e \<or> is_report e") auto
qed simp

lemma bridge_prescriptions:
  "\<forall>e\<in>set es. decodes e \<Longrightarrow>
    count_prescriptions (List.map_filter (signal_entry actions) es) = int (length (filter is_prescribe es))"
proof (induction es)
  case (Cons e es)
  then have "count_prescriptions (List.map_filter (signal_entry actions) es) = int (length (filter is_prescribe es))" by simp
  then show ?case
    using Cons.prems signal_entry_SomeD(6) [of actions e] signal_entry_Some [of e actions] signal_entry_None [of e actions]
    by (cases "signal_entry actions e") (auto simp: map_filter_simps count_prescriptions_def)
qed (simp add: count_prescriptions_def map_filter_simps)

text \<open>The snapshot of a session whose entries were all observed is the one computed from them.\<close>

lemma snapshot_observed:
  assumes "EvidenceToSignalEntries es = Inr ses" "answers_back es" "ses \<noteq> []"
  shows "snd (snapshot rt visit profile (observe_all es newSessionState)) =
    BuildFromResultsWithProfile visit profile (AllSignals rt ses DefaultTTL) (count_prescriptions ses)"
proof -
  have d: "\<forall>e\<in>set es. decodes e" using Evidence_to_signal_Inr [OF assms(1)] .
  then obtain actions where a: "EvidenceToSignalEntries es = Inr (List.map_filter (signal_entry actions) es)"
    "prescribed_actions es = Inr actions"
    using Evidence_to_signal [of es] by blast
  then have ses: "ses = List.map_filter (signal_entry actions) es" using assms(1) by simp
  have "actions = collect action_binding Map.empty es"
    using a(2) by (auto simp: prescribed_actions_def action_binding_def [abs_def] split: option.splits)
  with observe_all_bridge [OF d assms(2), of newSessionState] ses
  have s: "ssSignalEntries (observe_all es newSessionState) = ses"
    "ssTotalOps (observe_all es newSessionState) = count_prescriptions ses"
    by (simp_all add: newSessionState_def bridge_prescriptions [OF d])
  have "\<exists>e\<in>set es. is_prescribe e \<or> is_report e"
    using assms(3) signal_entry_None map_filter_none [of "signal_entry actions" es] unfolding ses list_all_iff by blast
  then have "ssResultsDirty (observe_all es newSessionState)" using observe_all_flags [OF d] by blast
  with s show ?thesis by (simp add: snapshot_def Let_def)
qed

section \<open>One writer\<close>

definition working :: "TrackerEnv \<Rightarrow> bool" where
  "working te \<longleftrightarrow> (\<forall>n. teLock te n = Acquired \<and> teFaults te n = no_faults)"

definition log_fingerprint :: "EvidenceEntry list \<Rightarrow> trackerFingerprint" where
  "log_fingerprint es = \<lparr>tfRecordsTotal = int (length es), tfLastHash = last_hash [] es\<rparr>"

lemma fingerprint_of_store:
  assumes "working te" "store_wf st"
  shows "(loadTrackerFingerprint te i st = (st, Inr None) \<and> store_log st = []) \<or>
    loadTrackerFingerprint te i st = (st, Inr (Some (log_fingerprint (store_log st))))"
proof (cases "manifestFile st")
  case None
  with assms have "loadTrackerFingerprint te i st = (st, Inr None)" "store_log st = []"
    by (auto simp: loadTrackerFingerprint_def LoadManifest_def withStoreLock_def loadOrInitManifest_def working_def
        no_faults_def store_wf_def store_log_def store_lines_def)
  then show ?thesis by simp
next
  case (Some x)
  with assms obtain m n where m: "manifestFile st = Some (ManifestFile m)" "segments_shape st n" "manifest_ok m n (store_log st)"
    by (auto simp: store_wf_def segments_ok_def)
  have "loadOrInitManifest no_faults 0 (teMaxBytes te) False st = (st, Inr m)"
    by (rule load_existing [OF m]) (simp add: no_faults_def)
  with m(3) assms(1) show ?thesis
    by (simp add: loadTrackerFingerprint_def LoadManifest_def withStoreLock_def working_def log_fingerprint_def manifest_ok_def)
qed

text \<open>A tracker that starts with the store and observes every entry right after it was appended.\<close>

inductive written_by :: "TrackerEnv \<Rightarrow> Tracker \<Rightarrow> store \<Rightarrow> bool" for te where
  fresh: "store_wf st \<Longrightarrow> store_log st = [] \<Longrightarrow> written_by te NewTracker st"
| appended: "written_by te t st \<Longrightarrow> store_wf st' \<Longrightarrow> store_log st' = store_log st @ [e] \<Longrightarrow> SessionID e \<noteq> [] \<Longrightarrow>
    Observe te e t st' = (t', st'', None) \<Longrightarrow> written_by te t' st''"

definition sessions_of :: "EvidenceEntry list \<Rightarrow> string \<rightharpoonup> sessionState" where
  "sessions_of es sid = (if session_entries sid es = [] then None else Some (observe_all (session_entries sid es) newSessionState))"

definition tracks :: "Tracker \<Rightarrow> EvidenceEntry list \<Rightarrow> bool" where
  "tracks t es \<longleftrightarrow> (\<forall>sid. sid \<noteq> [] \<longrightarrow> tkSessions t sid = sessions_of es sid) \<and>
     (tkManifestKnown t \<longrightarrow> tkManifest t = log_fingerprint es) \<and> (es \<noteq> [] \<longrightarrow> tkManifestKnown t)"

lemma last_hash_append1: "last_hash h (es @ [e]) = Hash e"
  by (induction es arbitrary: h) simp_all

lemma Observe_tracks:
  assumes "working te" "tracks t es" "store_wf st" "store_log st = es @ [e]" "SessionID e \<noteq> []"
    and "Observe te e t st = (t', st', None)"
  shows "st' = st \<and> tracks t' (es @ [e])"
proof -
  have fp: "loadTrackerFingerprint te 0 st = (st, Inr (Some (log_fingerprint (es @ [e]))))"
    using fingerprint_of_store [OF assms(1,3), of 0] assms(4) by simp
  have old: "(case sessions_of es (SessionID e) of None \<Rightarrow> newSessionState | Some s \<Rightarrow> s) =
      observe_all (session_entries (SessionID e) es) newSessionState"
    by (simp add: sessions_of_def)
  have new: "sessions_of (es @ [e]) sid = (if sid = SessionID e
      then Some (observe_all (session_entries sid es @ [e]) newSessionState) else sessions_of es sid)" if "sid \<noteq> []" for sid
    using that by (simp add: sessions_of_def session_entries_def)
  show ?thesis
    using assms(2,5,6) fp
    by (auto simp: Observe_def old tracks_def new refreshManifestLocked_def known_fingerprint_def log_fingerprint_def
        last_hash_append1 Let_def split: if_splits)
qed

lemma written_by_tracks: "written_by te t st \<Longrightarrow> working te \<Longrightarrow> store_wf st \<and> tracks t (store_log st)"
proof (induction rule: written_by.induct)
  case (fresh st)
  then show ?case by (simp add: tracks_def NewTracker_def sessions_of_def session_entries_def)
next
  case (appended t st st' e t' st'')
  then show ?case using Observe_tracks [of te t "store_log st" st' e t' st''] by simp
qed

text \<open>A scan of the store observes the entries of the session.\<close>

lemma run_rebuild:
  assumes "\<forall>e\<in>set (session_entries sid es). decodes e" "sid \<noteq> []"
  shows "run_entries (rebuild_step sid) (s, None) es = Finished (observe_all (session_entries sid es) s, None)"
  using assms
proof (induction es arbitrary: s)
  case (Cons e es)
  then show ?case
    by (cases "SessionID e = sid"; cases "observeEntry e s")
      (auto simp: session_entries_def rebuild_step_def Let_def dest: observe_step(1) [of e s])
qed (simp add: session_entries_def)

lemma rebuild_result:
  assumes "working te" "store_wf st" "sid \<noteq> []" "EvidenceToSignalEntries (session_entries sid (store_log st)) = Inr ses"
  shows "\<exists>t'. rebuildSession te sid t st = (t', st, Inr (observe_all (session_entries sid (store_log st)) newSessionState)) \<and>
    (\<forall>s. s \<noteq> sid \<longrightarrow> tkSessions t' s = tkSessions t s) \<and>
    (store_log st \<noteq> [] \<longrightarrow> tkManifestKnown t' \<and> tkManifest t' = log_fingerprint (store_log st))"
proof -
  have d: "\<forall>e\<in>set (session_entries sid (store_log st)). decodes e" using Evidence_to_signal_Inr [OF assms(4)] .
  have "scan_session (teLock te 1) sid st = (st, Inr (observe_all (session_entries sid (store_log st)) newSessionState))"
    using assms(1) by (simp add: scan_session_def withStoreLock_def working_def forEach_run [OF assms(2)] run_rebuild [OF d assms(3)])
  with assms(3) show ?thesis
    using fingerprint_of_store [OF assms(1,2), of 2]
    by (auto simp: rebuildSession_def refreshManifestLocked_def known_fingerprint_def)
qed

lemma rebuild_snapshot_result:
  assumes "working te" "store_wf st" "sid \<noteq> []" "EvidenceToSignalEntries (session_entries sid (store_log st)) = Inr ses"
    and "answers_back (session_entries sid (store_log st))" "ses \<noteq> []"
  shows "\<exists>t'. rebuild_snapshot te rt visit sid profile t st = (t', st, buildSnapshotFromEntries rt visit (store_log st) sid profile) \<and>
    (\<forall>s. s \<noteq> sid \<longrightarrow> tkSessions t' s = tkSessions t s) \<and>
    (store_log st \<noteq> [] \<longrightarrow> tkManifestKnown t' \<and> tkManifest t' = log_fingerprint (store_log st))"
proof -
  obtain t' where "rebuildSession te sid t st = (t', st, Inr (observe_all (session_entries sid (store_log st)) newSessionState))"
    "\<forall>s. s \<noteq> sid \<longrightarrow> tkSessions t' s = tkSessions t s"
    "store_log st \<noteq> [] \<longrightarrow> tkManifestKnown t' \<and> tkManifest t' = log_fingerprint (store_log st)"
    using rebuild_result [OF assms(1-4)] by blast
  then show ?thesis
    using snapshot_observed [OF assms(4-6), of rt visit profile] assms(4)
    by (auto simp: rebuild_snapshot_def buildSnapshotFromEntries_def split: prod.split)
qed

section \<open>Sample stores\<close>

definition tracked_entry :: "string \<Rightarrow> string \<Rightarrow> EvidenceEntry" where
  "tracked_entry i sid = \<lparr>EntryID = i, PreviousHash = [], Hash = i, Signature = [], Type = EntryTypePrescribe, TenantID = [],
     SessionID = sid, OperationID = [], Attempt = 0, TraceID = ''t1'', SpanID = [], ParentSpanID = [],
     EActor = \<lparr>acType = ''agent'', acID = ''a1'', acProvenance = ''mcp'', acInstanceID = [], acVersion = [], acSkillVersion = []\<rparr>,
     Timestamp = 0, IntentDigest = [], ArtifactDigest = [], Payload = JObj [], ScopeDimensions = [], SpecVersion = [],
     CanonVersion = [], AdapterVersion = [], ScoringVersion = []\<rparr>"

definition store_of :: "EvidenceEntry list \<Rightarrow> store" where
  "store_of es = fold (\<lambda>e st. fst (appendEntryUnlocked no_faults 0 1 (\<lambda>_. 100) e st)) es empty_store"

definition calm_te :: TrackerEnv where
  "calm_te = \<lparr>teLock = (\<lambda>_. Acquired), teFaults = (\<lambda>_. no_faults), teMaxBytes = 1\<rparr>"

lemma working_calm [simp]: "working calm_te"
  by (simp add: working_def calm_te_def)

lemma store_of_log:
  "list_all (\<lambda>e. SessionID e \<noteq> [] \<and> TraceID e \<noteq> []) es \<Longrightarrow> length es < 100 \<Longrightarrow> store_wf (store_of es) \<and> store_log (store_of es) = es"
proof (induction es rule: rev_induct)
  case Nil
  then show ?case by (simp add: store_of_def)
next
  case (snoc e es)
  then have IH: "store_wf (store_of es)" "store_log (store_of es) = es" by simp_all
  have "entry_fits (\<lambda>_. 100) e (store_of es)"
    using snoc.prems IH by (simp add: entry_fits_def entry_accepted_def max_segments_def MaxScanTokenSize_def)
  from append_ok [OF IH(1) this, of 1 0] IH(2) show ?case by (auto simp: store_of_def)
qed

lemma written_by_ex:
  assumes "list_all (\<lambda>e. SessionID e \<noteq> [] \<and> TraceID e \<noteq> []) es" "length es < 100"
  obtains t where "written_by calm_te t (store_of es)"
  using assms
proof (induction es arbitrary: thesis rule: rev_induct)
  case Nil
  have "written_by calm_te NewTracker (store_of [])" by (rule fresh) (simp_all add: store_of_def)
  with Nil show thesis by blast
next
  case (snoc e es)
  have "list_all (\<lambda>e. SessionID e \<noteq> [] \<and> TraceID e \<noteq> []) es" "length es < 100" using snoc.prems by simp_all
  with snoc.IH obtain t where t: "written_by calm_te t (store_of es)" by blast
  note logs = store_of_log [OF snoc.prems(2,3)] store_of_log [of es]
  obtain t' where "Observe calm_te e t (store_of (es @ [e])) = (t', store_of (es @ [e]), None)"
    using fingerprint_of_store [of calm_te "store_of (es @ [e])" 0] logs(1) snoc.prems(2)
    by (fastforce simp: Observe_def refreshManifestLocked_def Let_def)
  then have "written_by calm_te t' (store_of (es @ [e]))"
    using appended [OF t, of "store_of (es @ [e])" e] logs snoc.prems by simp
  with snoc.prems(1) show thesis by blast
qed

lemma total_operations:
  "buildSnapshotFromEntries rt visit es sid profile = Inr sn \<Longrightarrow> EvidenceToSignalEntries (session_entries sid es) = Inr ses \<Longrightarrow>
    baTotalOperations (snBasis sn) = count_prescriptions ses"
  by (auto simp: buildSnapshotFromEntries_def BuildFromResultsWithProfile_def Let_def)

lemma sample_bridged:
  "\<exists>ses. EvidenceToSignalEntries [tracked_entry i sid] = Inr ses \<and> count_prescriptions ses = 1 \<and> ses \<noteq> []"
  "\<exists>ses. EvidenceToSignalEntries [tracked_entry i sid, tracked_entry j sid] = Inr ses \<and> count_prescriptions ses = 2 \<and> ses \<noteq> []"
proof -
  have p: "is_prescribe (tracked_entry i sid)" "\<not> is_report (tracked_entry i sid)" for i
    by (simp_all add: tracked_entry_def is_prescribe_def is_report_def entry_type_defs)
  then have d: "decodes (tracked_entry i sid)" for i
    by (simp add: decodes_def) (simp add: tracked_entry_def unmarshal_prescription_def decode_str_def decode_list_def
        decode_int_def decode_ptr_def json_simps)
  have c: "\<exists>ses. EvidenceToSignalEntries es = Inr ses \<and> count_prescriptions ses = int (length (filter is_prescribe es))"
    if "\<forall>e\<in>set es. decodes e" for es
    using Evidence_to_signal [of es] bridge_prescriptions [OF that] that by metis
  show "\<exists>ses. EvidenceToSignalEntries [tracked_entry i sid] = Inr ses \<and> count_prescriptions ses = 1 \<and> ses \<noteq> []"
    using c [of "[tracked_entry i sid]"] d p by (force simp: count_prescriptions_def)
  show "\<exists>ses. EvidenceToSignalEntries [tracked_entry i sid, tracked_entry j sid] = Inr ses \<and> count_prescriptions ses = 2 \<and> ses \<noteq> []"
    using c [of "[tracked_entry i sid, tracked_entry j sid]"] d p by (force simp: count_prescriptions_def)
qed

lemma sample_answers_back: "answers_back [tracked_entry i s1]" "answers_back [tracked_entry i s1, tracked_entry j s2]"
  by (auto simp: answers_back_Cons tracked_entry_def is_report_def entry_type_defs) (simp_all add: answers_back_def)

text \<open>Every report names a prescription with a canonical action before it.\<close>

fun all_known :: "(string \<rightharpoonup> CanonicalAction) \<Rightarrow> EvidenceEntry list \<Rightarrow> bool" where
  "all_known m [] = True"
| "all_known m (e # es) \<longleftrightarrow>
     (is_report e \<longrightarrow> (case unmarshal_report (Payload e) of None \<Rightarrow> False | Some r \<Rightarrow> m (rpPrescriptionID r) \<noteq> None)) \<and>
     all_known (case action_binding e of None \<Rightarrow> m | Some (k, a) \<Rightarrow> m(k \<mapsto> a)) es"

lemma observe_valid: "\<forall>e\<in>set es. decodes e \<Longrightarrow> all_known (ssPrescriptions s) es \<Longrightarrow>
    ssInvalid (observe_all es s) = ssInvalid s"
proof (induction es arbitrary: s)
  case (Cons e es)
  then have d: "decodes e" by simp
  have "ssInvalid (fst (observeEntry e s)) = ssInvalid s"
    using d Cons.prems(2) types_differ [of e]
    by (auto simp: observeEntry_def decodes_def observe_signal_def Let_def split: option.splits)
  with Cons observe_step(2) [OF d, of s] show ?case by simp
qed simp

definition two_sessions :: "EvidenceEntry list" where
  "two_sessions = [tracked_entry ''p1'' ''s1'', tracked_entry ''p2'' ''s2'']"

lemma two_sessions_facts [simp]:
  "store_wf (store_of two_sessions)" "store_log (store_of two_sessions) = two_sessions"
  "session_entries ''s1'' two_sessions = [tracked_entry ''p1'' ''s1'']" "session_entries ''s2'' two_sessions = [tracked_entry ''p2'' ''s2'']"
  "list_all (\<lambda>e. SessionID e \<noteq> [] \<and> TraceID e \<noteq> []) two_sessions" "length two_sessions < 100"
  using store_of_log [of two_sessions] by (simp_all add: two_sessions_def tracked_entry_def session_entries_def)

section \<open>What the tracker answers\<close>

text \<open>
  C3. With one writer the tracker answers from its caches what a computation from the whole log would
  answer: for every store that was written entry by entry, each observed right after it was appended, the first
  snapshot of a session is that of the session's entries in the log. No prescription may come after a report
  that names it, the session has a prescription or a report, and the store works.
\<close>

theorem tracker_agrees_with_log:
  assumes "working te" "written_by te t st" "sid \<noteq> []"
    and "EvidenceToSignalEntries (session_entries sid (store_log st)) = Inr ses" "ses \<noteq> []"
    and "answers_back (session_entries sid (store_log st))"
  shows "snd (Tracker_Snapshot te rt visit sid profile t st) =
    (st, buildSnapshotFromEntries rt visit (store_log st) sid profile)"
proof -
  have w: "store_wf st" "tracks t (store_log st)" using written_by_tracks assms(1,2) by blast+
  have ne: "session_entries sid (store_log st) \<noteq> []" "store_log st \<noteq> []"
    using assms(3-5) by (auto simp: EvidenceToSignalEntries_def prescribed_actions_def session_entries_def)
  then have t: "tkSessions t sid = Some (observe_all (session_entries sid (store_log st)) newSessionState)"
    "tkManifestKnown t" "tkManifest t = log_fingerprint (store_log st)"
    using w(2) assms(3) by (simp_all add: tracks_def sessions_of_def)
  have fp: "loadTrackerFingerprint te 0 st = (st, Inr (Some (log_fingerprint (store_log st))))"
    using fingerprint_of_store [OF assms(1) w(1), of 0] ne(2) by simp
  then have r: "refreshAndCheckManifestLocked te 0 t st = (t, st, Inr False)"
    using t by (simp add: refreshAndCheckManifestLocked_def)
  obtain t' where "rebuild_snapshot te rt visit sid profile t st = (t', st, buildSnapshotFromEntries rt visit (store_log st) sid profile)"
    using rebuild_snapshot_result [OF assms(1) w(1) assms(3,4,6,5)] by blast
  then show ?thesis
    using assms(3) r t(1) snapshot_observed [OF assms(4,6,5), of rt visit profile] assms(4)
    by (auto simp: Tracker_Snapshot_def buildSnapshotFromEntries_def split: prod.split)
qed

theorem tracker_agrees_with_log_witness:
  "\<exists>t. written_by calm_te t (store_of two_sessions) \<and>
     snd (Tracker_Snapshot calm_te sample_runtime id ''s1'' default_profile t (store_of two_sessions)) =
       (store_of two_sessions, buildSnapshotFromEntries sample_runtime id two_sessions ''s1'' default_profile)"
proof -
  obtain t where t: "written_by calm_te t (store_of two_sessions)" by (rule written_by_ex [of two_sessions]) simp_all
  obtain ses where "EvidenceToSignalEntries [tracked_entry ''p1'' ''s1''] = Inr ses" "ses \<noteq> []" using sample_bridged(1) by blast
  with tracker_agrees_with_log [OF working_calm t, of "''s1''" ses] t sample_answers_back(1) show ?thesis by auto
qed

section \<open>What the tracker misses\<close>

text \<open>The caches answer: the manifest is the one known, and the state of the session is valid.\<close>

lemma cached_snapshot:
  assumes "working te" "store_wf st" "store_log st \<noteq> []" "sid \<noteq> []"
    and "tkSessions t sid = Some state" "\<not> ssInvalid state"
    and "tkManifestKnown t \<longrightarrow> tkManifest t = log_fingerprint (store_log st)"
  shows "\<exists>t'. Tracker_Snapshot te rt visit sid profile t st = (t', st, Inr (snd (snapshot rt visit profile state))) \<and>
    tkSessions t' sid = Some (fst (snapshot rt visit profile state)) \<and>
    tkManifestKnown t' \<and> tkManifest t' = log_fingerprint (store_log st)"
proof -
  have "loadTrackerFingerprint te 0 st = (st, Inr (Some (log_fingerprint (store_log st))))"
    using fingerprint_of_store [OF assms(1,2), of 0] assms(3) by simp
  with assms(4-7) show ?thesis
    by (auto simp: Tracker_Snapshot_def refreshAndCheckManifestLocked_def split: prod.split)
qed

lemma session_entries_other: "SessionID e \<noteq> sid \<Longrightarrow> sid \<noteq> [] \<Longrightarrow> session_entries sid (es @ [e]) = session_entries sid es"
  by (simp add: session_entries_def)

text \<open>
  C4. An entry that another process wrote is noticed once, for the session that is asked first: after a
  snapshot of one session, the snapshot of the session that the entry belongs to is still
  the one without it.
\<close>

theorem missed_foreign_entry:
  assumes "working te" "written_by te t st" "store_wf st'" "store_log st' = store_log st @ [f]"
    and "SessionID f = sid2" "sid1 \<noteq> sid2" "sid1 \<noteq> []" "sid2 \<noteq> []"
    and "EvidenceToSignalEntries (session_entries sid1 (store_log st)) = Inr ses1" "ses1 \<noteq> []"
    and "EvidenceToSignalEntries (session_entries sid2 (store_log st)) = Inr ses2" "ses2 \<noteq> []"
    and "answers_back (session_entries sid1 (store_log st))" "answers_back (session_entries sid2 (store_log st))"
    and "all_known Map.empty (session_entries sid2 (store_log st))"
  shows "\<exists>t1. Tracker_Snapshot te rt visit sid1 profile t st' = (t1, st', buildSnapshotFromEntries rt visit (store_log st') sid1 profile) \<and>
    snd (Tracker_Snapshot te rt visit sid2 profile t1 st') = (st', buildSnapshotFromEntries rt visit (store_log st) sid2 profile)"
proof -
  have w: "tracks t (store_log st)" using written_by_tracks assms(1,2) by blast
  have "session_entries sid1 (store_log st) \<noteq> []" and ne2: "session_entries sid2 (store_log st) \<noteq> []"
    using assms(9-12) by (auto simp: EvidenceToSignalEntries_def prescribed_actions_def)
  then have ne: "session_entries sid1 (store_log st) \<noteq> []" "store_log st \<noteq> []" by (auto simp: session_entries_def split: if_splits)
  have t: "tkSessions t sid1 \<noteq> None" "tkSessions t sid2 = Some (observe_all (session_entries sid2 (store_log st)) newSessionState)"
    "tkManifestKnown t" "tkManifest t = log_fingerprint (store_log st)"
    using w assms(7,8) ne ne2 by (simp_all add: tracks_def sessions_of_def)
  have valid: "\<not> ssInvalid (observe_all (session_entries sid2 (store_log st)) newSessionState)"
    using observe_valid [OF Evidence_to_signal_Inr [OF assms(11)], of newSessionState] assms(15) by (simp add: newSessionState_def)
  have s1: "session_entries sid1 (store_log st') = session_entries sid1 (store_log st)"
    using assms(4-7) session_entries_other by simp
  have fp: "loadTrackerFingerprint te 0 st' = (st', Inr (Some (log_fingerprint (store_log st'))))"
    using fingerprint_of_store [OF assms(1,3), of 0] assms(4) by simp
  let ?t = "t\<lparr>tkManifest := log_fingerprint (store_log st')\<rparr>"
  have r: "refreshAndCheckManifestLocked te 0 t st' = (?t, st', Inr True)"
    using t(3,4) fp assms(4) by (simp add: refreshAndCheckManifestLocked_def log_fingerprint_def)
  obtain t1 where t1: "rebuild_snapshot te rt visit sid1 profile ?t st' = (t1, st', buildSnapshotFromEntries rt visit (store_log st') sid1 profile)"
    "\<forall>s. s \<noteq> sid1 \<longrightarrow> tkSessions t1 s = tkSessions ?t s" "tkManifest t1 = log_fingerprint (store_log st')"
    using rebuild_snapshot_result [OF assms(1,3,7), of ses1 rt visit profile ?t] assms(4,9,10,13) s1 by auto
  have "Tracker_Snapshot te rt visit sid1 profile t st' = (t1, st', buildSnapshotFromEntries rt visit (store_log st') sid1 profile)"
    using assms(7) r t(1) t1(1) by (auto simp: Tracker_Snapshot_def)
  moreover have "\<exists>t2. Tracker_Snapshot te rt visit sid2 profile t1 st' =
      (t2, st', Inr (snd (snapshot rt visit profile (observe_all (session_entries sid2 (store_log st)) newSessionState))))"
    using cached_snapshot [OF assms(1,3) _ assms(8), of t1 _ rt visit profile] t1(2,3) t(2) assms(4,6) valid by auto
  ultimately show ?thesis
    using snapshot_observed [OF assms(11,14,12), of rt visit profile] assms(11)
    by (auto simp: buildSnapshotFromEntries_def)
qed

text \<open>The totals of a result.\<close>

definition result_total :: "AssessError + Snapshot \<Rightarrow> int" where
  "result_total r = (case r of Inl _ \<Rightarrow> - 1 | Inr sn \<Rightarrow> baTotalOperations (snBasis sn))"

lemma result_total_log: "EvidenceToSignalEntries (session_entries sid es) = Inr ses \<Longrightarrow>
    result_total (buildSnapshotFromEntries rt visit es sid profile) = count_prescriptions ses"
  by (simp add: result_total_def buildSnapshotFromEntries_def BuildFromResultsWithProfile_def Let_def)

theorem missed_foreign_entry_witness:
  "\<exists>st t1. store_log st = two_sessions @ [tracked_entry ''p3'' ''s2''] \<and>
     result_total (snd (snd (Tracker_Snapshot calm_te sample_runtime id ''s2'' default_profile t1 st))) = 1 \<and>
     result_total (buildSnapshotFromEntries sample_runtime id (store_log st) ''s2'' default_profile) = 2"
proof -
  let ?es = "two_sessions @ [tracked_entry ''p3'' ''s2'']"
  obtain t where t: "written_by calm_te t (store_of two_sessions)" by (rule written_by_ex [of two_sessions]) simp_all
  have st: "store_wf (store_of ?es)" "store_log (store_of ?es) = ?es"
    using store_of_log [of ?es] by (simp_all add: two_sessions_def tracked_entry_def)
  have f: "SessionID (tracked_entry ''p3'' ''s2'') = ''s2''" by (simp add: tracked_entry_def)
  obtain ses1 where s1: "EvidenceToSignalEntries [tracked_entry ''p1'' ''s1''] = Inr ses1" "ses1 \<noteq> []"
    using sample_bridged(1) by blast
  obtain ses2 where s2: "EvidenceToSignalEntries [tracked_entry ''p2'' ''s2''] = Inr ses2" "ses2 \<noteq> []" "count_prescriptions ses2 = 1"
    using sample_bridged(1) by blast
  obtain ses3 where s3: "EvidenceToSignalEntries [tracked_entry ''p2'' ''s2'', tracked_entry ''p3'' ''s2''] = Inr ses3"
    "count_prescriptions ses3 = 2" using sample_bridged(2) by blast
  have k: "all_known Map.empty [tracked_entry ''p2'' ''s2'']" by (simp add: tracked_entry_def is_report_def entry_type_defs)
  obtain t1 where "snd (Tracker_Snapshot calm_te sample_runtime id ''s2'' default_profile t1 (store_of ?es)) =
      (store_of ?es, buildSnapshotFromEntries sample_runtime id two_sessions ''s2'' default_profile)"
    using missed_foreign_entry [OF working_calm t st(1), of "tracked_entry ''p3'' ''s2''" "''s2''" "''s1''" ses1 ses2
        sample_runtime id default_profile] st(2) f s1 s2 k sample_answers_back(1) by auto
  moreover have "session_entries ''s2'' ?es = [tracked_entry ''p2'' ''s2'', tracked_entry ''p3'' ''s2'']"
    by (simp add: two_sessions_def session_entries_def tracked_entry_def)
  ultimately have "store_log (store_of ?es) = ?es \<and>
      result_total (snd (snd (Tracker_Snapshot calm_te sample_runtime id ''s2'' default_profile t1 (store_of ?es)))) = 1 \<and>
      result_total (buildSnapshotFromEntries sample_runtime id (store_log (store_of ?es)) ''s2'' default_profile) = 2"
    using st(2) s2 s3 by (simp add: result_total_log)
  then show ?thesis by blast
qed

text \<open>
  After a restart, a new prescription of a session hides everything the session did before: the new
  tracker answers as if the prescription were the whole log.
\<close>

theorem restart_forgets_session:
  assumes "working te" "store_wf st" "store_log st = es @ [e]" "is_prescribe e" "SessionID e \<noteq> []"
    and "EvidenceToSignalEntries [e] = Inr ses"
    and "Observe te e NewTracker st = (t, st', err)"
  shows "snd (Tracker_Snapshot te rt visit (SessionID e) profile t st') = (st, buildSnapshotFromEntries rt visit [e] (SessionID e) profile)"
proof -
  have d: "decodes e" using Evidence_to_signal_Inr [OF assms(6)] by simp
  have fp: "loadTrackerFingerprint te 0 st = (st, Inr (Some (log_fingerprint (store_log st))))"
    using fingerprint_of_store [OF assms(1,2), of 0] assms(3) by simp
  have st: "st' = st" and t: "tkSessions t (SessionID e) = Some (observe_all [e] newSessionState)"
    "tkManifest t = log_fingerprint (store_log st)"
    using assms(5,7) fp
    by (auto simp: Observe_def NewTracker_def refreshManifestLocked_def known_fingerprint_def Let_def)
  have ab: "answers_back [e]"
    using types_differ [of e] assms(4) by (auto simp: answers_back_Cons) (simp add: answers_back_def)
  have ne: "ses \<noteq> []"
    using Evidence_to_signal [of "[e]"] d assms(4,6) signal_entry_Some [OF d]
    by (metis (no_types, lifting) empty_iff list.set(1) list.set_intros(1) map_filter_in set_ConsD sum.inject(2))
  have "\<not> ssInvalid (observe_all [e] newSessionState)"
    using observe_valid [of "[e]" newSessionState] d types_differ [of e] assms(4) by (auto simp: newSessionState_def)
  then show ?thesis
    using cached_snapshot [OF assms(1,2) _ assms(5) t(1), of rt visit profile] t(2) assms(3) st
      snapshot_observed [OF assms(6) ab ne, of rt visit profile] assms(5,6)
    by (auto simp: buildSnapshotFromEntries_def session_entries_def)
qed

theorem restart_forgets_session_witness:
  "\<exists>st t err. store_log st = [tracked_entry ''p1'' ''s1'', tracked_entry ''p2'' ''s1''] \<and>
     Observe calm_te (tracked_entry ''p2'' ''s1'') NewTracker st = (t, st, err) \<and>
     result_total (snd (snd (Tracker_Snapshot calm_te sample_runtime id ''s1'' default_profile t st))) = 1 \<and>
     result_total (buildSnapshotFromEntries sample_runtime id (store_log st) ''s1'' default_profile) = 2"
proof -
  let ?e = "tracked_entry ''p2'' ''s1''" and ?es = "[tracked_entry ''p1'' ''s1'', tracked_entry ''p2'' ''s1'']"
  have st: "store_wf (store_of ?es)" "store_log (store_of ?es) = [tracked_entry ''p1'' ''s1''] @ [?e]"
    using store_of_log [of ?es] by (simp_all add: tracked_entry_def)
  have e: "is_prescribe ?e" "SessionID ?e = ''s1''" by (simp_all add: tracked_entry_def is_prescribe_def)
  obtain ses where s: "EvidenceToSignalEntries [?e] = Inr ses" "count_prescriptions ses = 1" using sample_bridged(1) by blast
  obtain ses2 where s2: "EvidenceToSignalEntries ?es = Inr ses2" "count_prescriptions ses2 = 2" using sample_bridged(2) by blast
  obtain t where t: "Observe calm_te ?e NewTracker (store_of ?es) = (t, store_of ?es, None)"
    using fingerprint_of_store [OF working_calm st(1), of 0] st(2) e(2)
    by (auto simp: Observe_def NewTracker_def refreshManifestLocked_def Let_def)
  have "session_entries ''s1'' ?es = ?es" "session_entries ''s1'' [?e] = [?e]"
    by (simp_all add: session_entries_def tracked_entry_def)
  then show ?thesis
    using restart_forgets_session [OF working_calm st e(1) _ s(1) t, of sample_runtime id default_profile] t st(2) s s2 e(2)
    by (intro exI [of _ "store_of ?es"] exI [of _ t] exI [of _ None]) (simp add: result_total_log)
qed






end
