(* ===== verification/Smart_Output_Props.thy ===== *)
theory Smart_Output_Props
  imports Smart_Output
begin

text \<open>What the summaries show: no managed fields in JSON output, all the pods, and bounds.\<close>

section \<open>Stripped output\<close>

inductive mentions :: "string \<Rightarrow> gval \<Rightarrow> bool" for k where
  "k \<in> fst ` set obj \<Longrightarrow> mentions k (GMap obj)"
| "(j, v) \<in> set obj \<Longrightarrow> mentions k v \<Longrightarrow> mentions k (GMap obj)"
| "v \<in> set l \<Longrightarrow> mentions k v \<Longrightarrow> mentions k (GSlice l)"

inductive_cases mentionsE: "mentions k (GMap obj)" "mentions k (GSlice l)" "mentions k GNil" "mentions k (GBool b)"
  "mentions k (GInt i)" "mentions k (GFloat r)" "mentions k (GStr s)" "mentions k GOther"

lemma keys_gdelete [simp]: "fst ` set (gdelete k m) = fst ` set m - {k}"
  unfolding gdelete_def by (induction m) auto

lemma strip_object_unmanaged: "''managedFields'' \<notin> fst ` set (strip_object obj)"
  by (simp add: strip_object_def)

lemma keys_children: "fst ` set (map (\<lambda>(k, v). (k, f v)) m) = fst ` set m"
  by (induction m) auto

lemma stripped_unmanaged: "\<not> mentions ''managedFields'' (stripNoiseFields v)"
proof (induction v rule: stripNoiseFields.induct)
  case (1 obj)
  show ?case
  proof
    assume "mentions ''managedFields'' (stripNoiseFields (GMap obj))"
    then have "mentions ''managedFields'' (GMap (map (\<lambda>(k, v). (k, stripNoiseFields v)) (strip_object obj)))" by simp
    then consider (key) "''managedFields'' \<in> fst ` set (map (\<lambda>(k, v). (k, stripNoiseFields v)) (strip_object obj))"
      | (child) j v where "(j, v) \<in> set (map (\<lambda>(k, v). (k, stripNoiseFields v)) (strip_object obj))" "mentions ''managedFields'' v"
      by (cases rule: mentionsE(1)) blast+
    then show False
    proof cases
      case key
      then have "''managedFields'' \<in> fst ` set (strip_object obj)" by (simp only: keys_children)
      then show ?thesis using strip_object_unmanaged [of obj] by blast
    next
      case child
      then obtain u where u: "(j, u) \<in> set (strip_object obj)" "v = stripNoiseFields u" by auto
      then show ?thesis using 1 [OF u(1) refl] child(2) by simp
    qed
  qed
next
  case (2 l)
  then show ?case by (auto elim!: mentionsE)
qed (auto elim!: mentionsE)

lemma gval_sizes: "list_all2 (\<lambda>(j, v) (k, u). size v \<le> size u) xs ys \<Longrightarrow> gsize xs \<le> gsize ys"
  by (induction rule: list_all2_induct) auto

lemma stripped_size: "size (stripNoiseFields v) \<le> size v"
proof (induction v rule: stripNoiseFields.induct)
  case (1 obj)
  have "list_all2 (\<lambda>(j, v) (k, u). size v \<le> size u) (map (\<lambda>(k, v). (k, stripNoiseFields v)) (strip_object obj)) (strip_object obj)"
    using 1 by (auto simp: list_all2_conv_all_nth) (metis nth_mem surj_pair)
  from gval_sizes [OF this] gsize_strip [of obj] show ?case by simp
next
  case (2 l)
  then have "size_list size (map stripNoiseFields l) \<le> size_list size l" by (induction l) (auto simp: add_mono)
  then show ?case by simp
qed simp_all

text \<open>
  The JSON summary is what is encoded of a value that mentions no managed fields at any depth and is
  no larger than the decoded output, or the output itself, cut after two thousand bytes.
\<close>

theorem json_summary_clean:
  "stripJSONNoise decode encode rawOutput = truncateString rawOutput maxFallbackLen \<or>
   (\<exists>data v. decode rawOutput = Some data \<and> encode v = Some (stripJSONNoise decode encode rawOutput) \<and>
      \<not> mentions ''managedFields'' v \<and> size v \<le> size data)"
  using stripped_unmanaged stripped_size unfolding stripJSONNoise_def by (auto split: option.split)

text \<open>The counts of the pods add up to the total, in whatever order the statuses are visited.\<close>

lemma sum_status_count: "finite S \<Longrightarrow> pdStatus ` set pods \<subseteq> S \<Longrightarrow> sum (status_count pods) S = length pods"
proof (induction pods)
  case (Cons p pods)
  have "status_count (p # pods) = (\<lambda>s. status_count pods s + (if s = pdStatus p then 1 else 0))"
    by (auto simp: status_count_def)
  with Cons show ?case by (simp add: sum.distrib)
qed (simp add: status_count_def)

lemma status_counts_total:
  assumes "visits visit"
  shows "sum_list (map (status_count pods) (visit (keys_of (map pdStatus pods)))) = length pods"
proof -
  have m: "mset (visit (keys_of (map pdStatus pods))) = mset (keys_of (map pdStatus pods))"
    using assms by (simp add: visits_def)
  have "sum_list (map (status_count pods) (visit (keys_of (map pdStatus pods)))) =
      sum_list (map (status_count pods) (keys_of (map pdStatus pods)))"
    using m by (metis mset_map sum_mset_sum_list)
  also have "\<dots> = sum (status_count pods) (set (keys_of (map pdStatus pods)))"
    by (simp add: sum_list_distinct_conv_sum_set)
  also have "\<dots> = length pods" by (rule sum_status_count) auto
  finally show ?thesis .
qed

end
