(* ===== verification/Anonymize.thy ===== *)
theory Anonymize
  imports Bridge Entry_Json Store "HOL-Library.State_Monad"
begin

text \<open>
  Exported bundles (\<^verbatim>\<open>pkg/export/anonymize.go\<close>, \<^verbatim>\<open>bundle.go\<close>): identifiers are replaced by a
  salted hash that is kept in a cache, signatures and hashes are dropped, and the payload of every
  type of entry has its own treatment. The cache is the state of a state monad, threaded through
  the calls in the order the code makes them. The digest is an argument, the hexadecimal text of
  SHA-256.
\<close>

section \<open>The hash and its cache\<close>

type_synonym cache = "string \<rightharpoonup> string"
type_synonym 'a anon = "(cache, 'a) state"

record Anonymizer =
  anDigest :: "string \<Rightarrow> string"
  anSalt :: string

definition hash_key :: "string \<Rightarrow> string \<Rightarrow> string" where
  "hash_key prefix original = prefix @ '':'' @ original"

definition Anon_Hash :: "Anonymizer \<Rightarrow> string \<Rightarrow> string \<Rightarrow> string anon" where
  "Anon_Hash a prefix original =
     (if original = [] then State_Monad.return []
      else do {
        c \<leftarrow> State_Monad.get;
        (case c (hash_key prefix original) of
           Some cached \<Rightarrow> State_Monad.return cached
         | None \<Rightarrow> do {
             let result = prefix @ ''-'' @ take 8 (anDigest a (anSalt a @ hash_key prefix original));
             State_Monad.set (c(hash_key prefix original \<mapsto> result));
             State_Monad.return result }) })"

definition SaltHint :: "Anonymizer \<Rightarrow> string" where
  "SaltHint a = take 8 (anDigest a (anSalt a))"

definition Anon_EntryID :: "Anonymizer \<Rightarrow> string \<Rightarrow> string anon" where
  "Anon_EntryID a i = Anon_Hash a ''eid'' i"

section \<open>Payloads\<close>

text \<open>An object as a map of raw values: the last of several values for a key stands.\<close>

definition raw_map :: "fields \<Rightarrow> fields" where
  "raw_map fs = AList.clearjunk (rev fs)"

definition marshal_raw :: "fields \<Rightarrow> json" where
  "marshal_raw raw = JObj (sort_key fst raw)"

text \<open>\<open>json.Unmarshal\<close> of a raw value into a string: \<open>null\<close> leaves it empty.\<close>

fun unmarshal_string :: "json \<Rightarrow> string option" where
  "unmarshal_string (JStr s) = Some s"
| "unmarshal_string JNull = Some []"
| "unmarshal_string _ = None"

text \<open>The key \<open>name\<close>, if it holds a string, is overwritten with its hash.\<close>

definition hash_field :: "Anonymizer \<Rightarrow> string \<Rightarrow> string \<Rightarrow> fields \<Rightarrow> fields anon" where
  "hash_field a name prefix raw =
     (case map_of raw name of
        None \<Rightarrow> State_Monad.return raw
      | Some v \<Rightarrow>
          (case unmarshal_string v of
             None \<Rightarrow> State_Monad.return raw
           | Some s \<Rightarrow> do {
               h \<leftarrow> Anon_Hash a prefix s;
               State_Monad.return (AList.update name (JStr h) raw) }))"

definition anonymizeResource :: "Anonymizer \<Rightarrow> ResourceID \<Rightarrow> ResourceID anon" where
  "anonymizeResource a r = do {
     n \<leftarrow> Anon_Hash a ''res'' (ridName r);
     ns \<leftarrow> Anon_Hash a ''ns'' (ridNamespace r);
     State_Monad.return (r\<lparr>ridName := n, ridNamespace := ns\<rparr>) }"

definition anonymizeCanonicalAction :: "Anonymizer \<Rightarrow> CanonicalAction \<Rightarrow> CanonicalAction anon" where
  "anonymizeCanonicalAction a ca = do {
     ids \<leftarrow> State_Monad.traverse_list (anonymizeResource a) (caResourceIdentity ca);
     State_Monad.return (ca\<lparr>caResourceIdentity := ids\<rparr>) }"

definition anonymizePrescribePayload :: "Anonymizer \<Rightarrow> fields \<Rightarrow> fields anon" where
  "anonymizePrescribePayload a raw = do {
     raw' \<leftarrow> (case map_of raw ''canonical_action'' of
        None \<Rightarrow> State_Monad.return raw
      | Some v \<Rightarrow>
          (case action_of v of
             None \<Rightarrow> State_Monad.return raw
           | Some ca \<Rightarrow> do {
               ca' \<leftarrow> anonymizeCanonicalAction a ca;
               State_Monad.return (AList.update ''canonical_action'' (action_json ca') raw) }));
     hash_field a ''prescription_id'' ''rx'' raw' }"

definition anonymizeReportPayload :: "Anonymizer \<Rightarrow> fields \<Rightarrow> fields anon" where
  "anonymizeReportPayload a raw = do {
     raw' \<leftarrow> hash_field a ''prescription_id'' ''rx'' raw;
     hash_field a ''report_id'' ''rpt'' raw' }"

definition anonymizeSignalPayload :: "Anonymizer \<Rightarrow> fields \<Rightarrow> fields anon" where
  "anonymizeSignalPayload a raw = do {
     raw' \<leftarrow> hash_field a ''entry_ref'' ''ref'' raw;
     State_Monad.return (if map_of raw' ''details'' = None then raw'
       else AList.update ''details'' (JStr ''[anonymized]'') raw') }"

text \<open>A payload without text is not a value of the model. \<open>null\<close> is the nil map, written as \<open>null\<close>.\<close>

definition anonymizePayload :: "Anonymizer \<Rightarrow> EntryType \<Rightarrow> json \<Rightarrow> json anon" where
  "anonymizePayload a entryType payload =
     (let known = entryType \<in> {EntryTypePrescribe, EntryTypeReport, EntryTypeSignal} in
      case payload of
        JObj fs \<Rightarrow>
          (if entryType = EntryTypePrescribe then
             do { raw \<leftarrow> anonymizePrescribePayload a (raw_map fs); State_Monad.return (marshal_raw raw) }
           else if entryType = EntryTypeReport then
             do { raw \<leftarrow> anonymizeReportPayload a (raw_map fs); State_Monad.return (marshal_raw raw) }
           else if entryType = EntryTypeSignal then
             do { raw \<leftarrow> anonymizeSignalPayload a (raw_map fs); State_Monad.return (marshal_raw raw) }
           else State_Monad.return (JObj []))
      | JNull \<Rightarrow> State_Monad.return (if known then JNull else JObj [])
      | _ \<Rightarrow> State_Monad.return (JObj []))"

section \<open>Entries\<close>

definition anonymizeActor :: "Anonymizer \<Rightarrow> Actor \<Rightarrow> Actor anon" where
  "anonymizeActor a x = do {
     i \<leftarrow> Anon_Hash a ''actor'' (acID x);
     p \<leftarrow> Anon_Hash a ''origin'' (acProvenance x);
     n \<leftarrow> Anon_Hash a ''inst'' (acInstanceID x);
     State_Monad.return \<lparr>acType = acType x, acID = i, acProvenance = p, acInstanceID = n,
       acVersion = acVersion x, acSkillVersion = acSkillVersion x\<rparr> }"

definition anonymizeDimension :: "Anonymizer \<Rightarrow> string \<times> string \<Rightarrow> (string \<times> string) anon" where
  "anonymizeDimension a kv = do {
     v \<leftarrow> Anon_Hash a ''dim'' (snd kv);
     State_Monad.return (fst kv, v) }"

definition AnonymizeEntry :: "Anonymizer \<Rightarrow> EvidenceEntry \<Rightarrow> EvidenceEntry anon" where
  "AnonymizeEntry a e = do {
     eid \<leftarrow> Anon_Hash a ''eid'' (EntryID e);
     actor \<leftarrow> anonymizeActor a (EActor e);
     session \<leftarrow> Anon_Hash a ''sess'' (SessionID e);
     oper \<leftarrow> Anon_Hash a ''op'' (OperationID e);
     trace \<leftarrow> Anon_Hash a ''trace'' (TraceID e);
     span \<leftarrow> Anon_Hash a ''span'' (SpanID e);
     parent \<leftarrow> Anon_Hash a ''span'' (ParentSpanID e);
     tenant \<leftarrow> Anon_Hash a ''tenant'' (TenantID e);
     dims \<leftarrow> State_Monad.traverse_list (anonymizeDimension a) (ScopeDimensions e);
     payload \<leftarrow> anonymizePayload a (Type e) (Payload e);
     State_Monad.return (e\<lparr>EntryID := eid, EActor := actor, SessionID := session, OperationID := oper,
       TraceID := trace, SpanID := span, ParentSpanID := parent, TenantID := tenant,
       Signature := [], PreviousHash := [], Hash := [], ScopeDimensions := dims, Payload := payload\<rparr>) }"

section \<open>The bundle\<close>

text \<open>The files of the directory, in the order of the walk: their names and lines.\<close>

definition ExportTokenSize :: nat where
  "ExportTokenSize = 1024 * 1024"

fun parseJSONLFile :: "line list \<Rightarrow> EvidenceEntry list option" where
  "parseJSONLFile [] = Some []"
| "parseJSONLFile ((n, body) # ls) =
     (if ExportTokenSize < n then None
      else case body of
        EntryText e \<Rightarrow> map_option (\<lambda>es. e # es) (parseJSONLFile ls)
      | BlankText \<Rightarrow> parseJSONLFile ls
      | GarbageText \<Rightarrow> parseJSONLFile ls)"

fun loadAllEntries :: "(string \<times> line list) list \<Rightarrow> EvidenceEntry list option" where
  "loadAllEntries [] = Some []"
| "loadAllEntries ((name, ls) # files) =
     (if \<not> HasSuffix name ''.jsonl'' then loadAllEntries files
      else do {
        es \<leftarrow> parseJSONLFile ls;
        rest \<leftarrow> loadAllEntries files;
        Some (es @ rest) })"

record BundleMetadata =
  bmTotalOperations :: int
  bmSignalSummary :: "string \<rightharpoonup> int"
  bmActors :: "string list"
  bmActorVersions :: "string list"
  bmSkillVersions :: "string list"
  bmTools :: "string list"
  bmScopeClasses :: "string list"
  bmTimeRange :: "(string \<times> string) option"

record Metas =
  msTotal :: int
  msSignals :: "string \<rightharpoonup> int"
  msActors :: "string list"
  msVersions :: "string list"
  msSkills :: "string list"
  msTools :: "string list"
  msScopes :: "string list"
  msFirst :: time
  msLast :: time

text \<open>\<open>set[k] = true\<close> for a key that is not empty.\<close>

definition add_key :: "string \<Rightarrow> string list \<Rightarrow> string list" where
  "add_key k ks = (if k = [] then ks else List.insert k ks)"

definition tool_and_scope :: "fields \<Rightarrow> (string \<times> string) option" where
  "tool_and_scope fs = do {
     t \<leftarrow> decode_str ''tool'' fs;
     s \<leftarrow> decode_str ''scope_class'' fs;
     Some (t, s) }"

definition extractToolAndScope :: "json \<Rightarrow> (string \<times> string) option" where
  "extractToolAndScope payload = do {
     fs \<leftarrow> fields_of payload;
     decode_struct tool_and_scope ''canonical_action'' fs }"

definition signal_name_of :: "json \<Rightarrow> string option" where
  "signal_name_of payload = do { fs \<leftarrow> fields_of payload; decode_str ''signal_name'' fs }"

definition meta_entry :: "EvidenceEntry \<Rightarrow> Metas \<Rightarrow> Metas" where
  "meta_entry e m =
     (let m1 = m\<lparr>msFirst := (if msFirst m = zero_time \<or> Timestamp e < msFirst m then Timestamp e else msFirst m),
            msLast := (if msLast m < Timestamp e then Timestamp e else msLast m),
            msActors := add_key (acID (EActor e)) (msActors m),
            msVersions := add_key (acVersion (EActor e)) (msVersions m),
            msSkills := add_key (acSkillVersion (EActor e)) (msSkills m)\<rparr> in
      if Type e = EntryTypePrescribe then
        (case extractToolAndScope (Payload e) of
           None \<Rightarrow> m1\<lparr>msTotal := msTotal m1 + 1\<rparr>
         | Some (t, s) \<Rightarrow> m1\<lparr>msTotal := msTotal m1 + 1, msTools := add_key t (msTools m1),
             msScopes := add_key s (msScopes m1)\<rparr>)
      else if Type e = EntryTypeSignal then
        (case signal_name_of (Payload e) of
           None \<Rightarrow> m1
         | Some n \<Rightarrow> if n = [] then m1
             else m1\<lparr>msSignals := (msSignals m1)(n \<mapsto> (case msSignals m1 n of None \<Rightarrow> 0 | Some k \<Rightarrow> k) + 1)\<rparr>)
      else m1)"

definition no_metas :: Metas where
  "no_metas = \<lparr>msTotal = 0, msSignals = Map.empty, msActors = [], msVersions = [], msSkills = [],
     msTools = [], msScopes = [], msFirst = zero_time, msLast = zero_time\<rparr>"

text \<open>The sets are written in the order \<open>visit\<close> of the run.\<close>

definition buildMetadata :: "(string list \<Rightarrow> string list) \<Rightarrow> (time \<Rightarrow> string) \<Rightarrow> EvidenceEntry list \<Rightarrow> BundleMetadata" where
  "buildMetadata visit fmt entries =
     (let m = fold meta_entry entries no_metas in
      \<lparr>bmTotalOperations = msTotal m, bmSignalSummary = msSignals m, bmActors = visit (msActors m),
       bmActorVersions = visit (msVersions m), bmSkillVersions = visit (msSkills m),
       bmTools = visit (msTools m), bmScopeClasses = visit (msScopes m),
       bmTimeRange = (if msFirst m = zero_time then None else Some (fmt (msFirst m), fmt (msLast m)))\<rparr>)"

record BundleManifest =
  bdAnonymized :: bool
  bdSaltHint :: string
  bdEntryCount :: int
  bdExportedAt :: string

record Bundle =
  buLines :: "EvidenceEntry list"
  buManifest :: BundleManifest
  buMetadata :: BundleMetadata

datatype ExportError = LoadEvidence | NoEntries

text \<open>
  \<open>Export\<close> on a file system whose writes succeed; \<open>NewAnonymizer\<close> starts with an empty cache. The
  constant versions of the manifest are left out.
\<close>

definition Export ::
  "Anonymizer option \<Rightarrow> (string list \<Rightarrow> string list) \<Rightarrow> (time \<Rightarrow> string) \<Rightarrow> time
     \<Rightarrow> (string \<times> line list) list \<Rightarrow> ExportError + Bundle" where
  "Export anon visit fmt now files =
     (case loadAllEntries files of
        None \<Rightarrow> Inl LoadEvidence
      | Some entries \<Rightarrow>
          if entries = [] then Inl NoEntries
          else let processed = (case anon of
                 None \<Rightarrow> entries
               | Some a \<Rightarrow> fst (run_state (State_Monad.traverse_list (AnonymizeEntry a) entries) Map.empty))
          in Inr \<lparr>buLines = processed,
               buManifest = \<lparr>bdAnonymized = (anon \<noteq> None),
                 bdSaltHint = (case anon of None \<Rightarrow> [] | Some a \<Rightarrow> SaltHint a),
                 bdEntryCount = int (length processed), bdExportedAt = fmt now\<rparr>,
               buMetadata = buildMetadata visit fmt processed\<rparr>)"

end
