(* ===== verification/Anonymize_Props.thy ===== *)
theory Anonymize_Props
  imports Anonymize Analytics_Props "HOL-Library.Sublist"
begin

text \<open>
  What an export keeps: the cache is invisible (every identifier is replaced as a pure function of
  its prefix and text would replace it), the decoded payloads, and what becomes of the link from a
  report to its prescription.
\<close>

section \<open>The cache\<close>

definition hash_of :: "Anonymizer \<Rightarrow> string \<Rightarrow> string \<Rightarrow> string" where
  "hash_of a pre original = (if original = [] then []
     else pre @ ''-'' @ take 8 (anDigest a (anSalt a @ hash_key pre original)))"

text \<open>Two keys are equal only for the same prefix and text, since no prefix has a colon.\<close>

lemma hash_key_inj:
  "CHR '':'' \<notin> set p \<Longrightarrow> CHR '':'' \<notin> set q \<Longrightarrow> hash_key p s = hash_key q t \<longleftrightarrow> p = q \<and> s = t"
proof
  assume a: "CHR '':'' \<notin> set p" "CHR '':'' \<notin> set q" "hash_key p s = hash_key q t"
  have "takeWhile (\<lambda>c. c \<noteq> CHR '':'') (hash_key x y) = x" if "CHR '':'' \<notin> set x" for x y
    using that by (induction x) (auto simp: hash_key_def)
  with a have "p = q" by metis
  with a(3) show "p = q \<and> s = t" by (simp add: hash_key_def)
qed simp

definition coherent :: "Anonymizer \<Rightarrow> cache \<Rightarrow> bool" where
  "coherent a c \<longleftrightarrow> (\<forall>p s v. CHR '':'' \<notin> set p \<longrightarrow> c (hash_key p s) = Some v \<longrightarrow> v = hash_of a p s)"

lemma coherent_empty [simp]: "coherent a Map.empty"
  by (simp add: coherent_def)

text \<open>A computation over the cache that yields a value whatever coherent cache it starts from.\<close>

definition yields :: "Anonymizer \<Rightarrow> 'a anon \<Rightarrow> 'a \<Rightarrow> bool" where
  "yields a m v \<longleftrightarrow> (\<forall>c. coherent a c \<longrightarrow> (\<exists>c'. run_state m c = (v, c') \<and> coherent a c'))"

lemma yields_return: "v = w \<Longrightarrow> yields a (State_Monad.return v) w"
  by (simp add: yields_def)

lemma yields_bind: "yields a m v \<Longrightarrow> yields a (f v) w \<Longrightarrow> yields a (State_Monad.bind m f) w"
  unfolding yields_def run_state_bind by (metis (mono_tags, lifting) case_prod_conv)

lemma yields_traverse: "(\<And>x. x \<in> set xs \<Longrightarrow> yields a (f x) (g x)) \<Longrightarrow> yields a (State_Monad.traverse_list f xs) (map g xs)"
proof (induction xs)
  case (Cons x xs)
  then have "yields a (f x) (g x)" "yields a (State_Monad.traverse_list f xs) (map g xs)" by simp_all
  then show ?case by (auto intro!: yields_bind [where v = "g x"] yields_bind [where v = "map g xs"] yields_return)
qed (simp add: yields_return)

lemma yields_hash: 
  assumes "CHR '':'' \<notin> set p"
  shows "yields a (Anon_Hash a p s) (hash_of a p s)"
proof (cases "s = []")
  case True
  then show ?thesis by (simp add: Anon_Hash_def hash_of_def yields_return)
next
  case False
  show ?thesis unfolding yields_def
  proof (intro allI impI)
    fix c assume c: "coherent a c"
    show "\<exists>c'. run_state (Anon_Hash a p s) c = (hash_of a p s, c') \<and> coherent a c'"
    proof (cases "c (hash_key p s)")
      case None
      have "coherent a (c(hash_key p s \<mapsto> hash_of a p s))"
        using c assms hash_key_inj [of _ p _ s] by (auto simp: coherent_def)
      with None False show ?thesis by (simp add: Anon_Hash_def hash_of_def Let_def)
    next
      case (Some v)
      with c assms have "v = hash_of a p s" by (auto simp: coherent_def)
      with Some False c show ?thesis by (simp add: Anon_Hash_def)
    qed
  qed
qed

section \<open>What the bundle holds\<close>

definition hashed_field :: "Anonymizer \<Rightarrow> string \<Rightarrow> string \<Rightarrow> fields \<Rightarrow> fields" where
  "hashed_field a name pre raw =
     (case Option.bind (map_of raw name) unmarshal_string of
        None \<Rightarrow> raw | Some s \<Rightarrow> AList.update name (JStr (hash_of a pre s)) raw)"

definition hashed_resource :: "Anonymizer \<Rightarrow> ResourceID \<Rightarrow> ResourceID" where
  "hashed_resource a r = r\<lparr>ridName := hash_of a ''res'' (ridName r), ridNamespace := hash_of a ''ns'' (ridNamespace r)\<rparr>"

definition hashed_action :: "Anonymizer \<Rightarrow> CanonicalAction \<Rightarrow> CanonicalAction" where
  "hashed_action a ca = ca\<lparr>caResourceIdentity := map (hashed_resource a) (caResourceIdentity ca)\<rparr>"

definition hashed_prescription :: "Anonymizer \<Rightarrow> fields \<Rightarrow> fields" where
  "hashed_prescription a raw = hashed_field a ''prescription_id'' ''rx''
     (case Option.bind (map_of raw ''canonical_action'') action_of of
        None \<Rightarrow> raw | Some ca \<Rightarrow> AList.update ''canonical_action'' (action_json (hashed_action a ca)) raw)"

definition hashed_report :: "Anonymizer \<Rightarrow> fields \<Rightarrow> fields" where
  "hashed_report a raw = hashed_field a ''report_id'' ''rpt'' (hashed_field a ''prescription_id'' ''rx'' raw)"

definition hashed_signal :: "Anonymizer \<Rightarrow> fields \<Rightarrow> fields" where
  "hashed_signal a raw = (let raw' = hashed_field a ''entry_ref'' ''ref'' raw in
     if map_of raw' ''details'' = None then raw' else AList.update ''details'' (JStr ''[anonymized]'') raw')"

definition hashed_payload :: "Anonymizer \<Rightarrow> EntryType \<Rightarrow> json \<Rightarrow> json" where
  "hashed_payload a t payload =
     (if t \<notin> {EntryTypePrescribe, EntryTypeReport, EntryTypeSignal} then JObj []
      else case payload of
        JObj fs \<Rightarrow> marshal_raw ((if t = EntryTypePrescribe then hashed_prescription a
          else if t = EntryTypeReport then hashed_report a else hashed_signal a) (raw_map fs))
      | JNull \<Rightarrow> JNull
      | _ \<Rightarrow> JObj [])"

definition hashed_actor :: "Anonymizer \<Rightarrow> Actor \<Rightarrow> Actor" where
  "hashed_actor a x = x\<lparr>acID := hash_of a ''actor'' (acID x), acProvenance := hash_of a ''origin'' (acProvenance x),
     acInstanceID := hash_of a ''inst'' (acInstanceID x)\<rparr>"

definition hashed_entry :: "Anonymizer \<Rightarrow> EvidenceEntry \<Rightarrow> EvidenceEntry" where
  "hashed_entry a e = e\<lparr>EntryID := hash_of a ''eid'' (EntryID e), EActor := hashed_actor a (EActor e),
     SessionID := hash_of a ''sess'' (SessionID e), OperationID := hash_of a ''op'' (OperationID e),
     TraceID := hash_of a ''trace'' (TraceID e), SpanID := hash_of a ''span'' (SpanID e),
     ParentSpanID := hash_of a ''span'' (ParentSpanID e), TenantID := hash_of a ''tenant'' (TenantID e),
     Signature := [], PreviousHash := [], Hash := [],
     ScopeDimensions := map (\<lambda>(k, v). (k, hash_of a ''dim'' v)) (ScopeDimensions e),
     Payload := hashed_payload a (Type e) (Payload e)\<rparr>"

lemma yields_field: "CHR '':'' \<notin> set p \<Longrightarrow> yields a (hash_field a n p raw) (hashed_field a n p raw)"
  unfolding hash_field_def hashed_field_def
  by (auto split: option.split intro!: yields_return yields_bind [OF yields_hash])

lemma yields_bind_field:
  "CHR '':'' \<notin> set p \<Longrightarrow> yields a (f (hashed_field a n p raw)) w \<Longrightarrow> yields a (State_Monad.bind (hash_field a n p raw) f) w"
  by (rule yields_bind [where v = "hashed_field a n p raw"]) (rule yields_field)

lemma yields_bind_traverse:
  "(\<And>x. yields a (f x) (g x)) \<Longrightarrow> yields a (h (map g xs)) w \<Longrightarrow> yields a (State_Monad.bind (State_Monad.traverse_list f xs) h) w"
  by (rule yields_bind [where v = "map g xs"]) (rule yields_traverse)

lemma yields_action: "yields a (anonymizeCanonicalAction a ca) (hashed_action a ca)"
proof -
  have "yields a (anonymizeResource a r) (hashed_resource a r)" for r
    unfolding anonymizeResource_def hashed_resource_def
    by (intro yields_bind [OF yields_hash] yields_return) simp_all
  then show ?thesis unfolding anonymizeCanonicalAction_def hashed_action_def
    by (rule yields_bind_traverse) (auto intro: yields_return)
qed

lemma yields_payload: "yields a (anonymizePayload a t payload) (hashed_payload a t payload)"
proof -
  have "yields a (anonymizePrescribePayload a raw) (hashed_prescription a raw)" for raw
    unfolding anonymizePrescribePayload_def hashed_prescription_def
    by (rule yields_bind [rotated], rule yields_field) (auto split: option.split intro!: yields_return yields_bind [OF yields_action])
  moreover have "yields a (anonymizeReportPayload a raw) (hashed_report a raw)" for raw
    unfolding anonymizeReportPayload_def hashed_report_def
    by (intro yields_bind_field yields_field) simp_all
  moreover have "yields a (anonymizeSignalPayload a raw) (hashed_signal a raw)" for raw
    unfolding anonymizeSignalPayload_def hashed_signal_def Let_def
    by (intro yields_bind_field yields_return) simp_all
  ultimately show ?thesis
    by (auto simp: anonymizePayload_def hashed_payload_def Let_def split: json.split
        intro!: yields_return yields_bind [where f = "\<lambda>raw. State_Monad.return (marshal_raw raw)"])
qed

lemma yields_entry: "yields a (AnonymizeEntry a e) (hashed_entry a e)"
proof -
  have actor: "yields a (anonymizeActor a x) (hashed_actor a x)" for x
    unfolding anonymizeActor_def by (intro yields_bind [OF yields_hash]) (auto simp: hashed_actor_def intro: yields_return)
  have dim: "yields a (anonymizeDimension a kv) (case kv of (k, v) \<Rightarrow> (k, hash_of a ''dim'' v))" for kv
    unfolding anonymizeDimension_def by (intro yields_bind [OF yields_hash]) (auto intro: yields_return split: prod.split)
  show ?thesis unfolding AnonymizeEntry_def hashed_entry_def
    by (intro yields_bind [OF yields_hash] yields_bind [OF actor] yields_bind_traverse [OF dim]
        yields_bind [OF yields_payload] yields_return) simp_all
qed

lemma bundle_lines:
  assumes "loadAllEntries files = Some entries" "entries \<noteq> []"
  shows "\<exists>b. Export (Some a) visit fmt now files = Inr b \<and> buLines b = map (hashed_entry a) entries"
proof -
  obtain c where "run_state (State_Monad.traverse_list (AnonymizeEntry a) entries) Map.empty = (map (hashed_entry a) entries, c)"
    using yields_traverse [of entries a "AnonymizeEntry a" "hashed_entry a"] yields_entry [of a] coherent_empty [of a]
    unfolding yields_def by blast
  with assms show ?thesis by (simp add: Export_def Let_def)
qed

section \<open>Reading an exported payload\<close>

text \<open>An object with distinct lower-case names decodes by what its names map to.\<close>

definition plain_fields :: "fields \<Rightarrow> bool" where
  "plain_fields fs \<longleftrightarrow> distinct (map fst fs) \<and> (\<forall>k\<in>fst ` set fs. lower_name k)"

lemma values_for_plain:
  "plain_fields fs \<Longrightarrow> values_for n fs = (case map_of fs (ToLower n) of None \<Rightarrow> [] | Some v \<Rightarrow> [v])"
proof (induction fs)
  case (Cons f fs)
  obtain k v where f: "f = (k, v)" by (cases f)
  have k: "EqualFold k n \<longleftrightarrow> k = ToLower n" using Cons.prems by (simp add: f plain_fields_def EqualFold_def lower_name_def)
  have rest: "values_for n fs = (case map_of fs (ToLower n) of None \<Rightarrow> [] | Some v \<Rightarrow> [v])"
    using Cons by (simp add: plain_fields_def)
  show ?case
  proof (cases "k = ToLower n")
    case True
    then have "map_of fs (ToLower n) = None" using Cons.prems by (auto simp: f plain_fields_def map_of_eq_None_iff)
    with True rest k show ?thesis by (simp add: f values_for_Cons)
  qed (use rest k in \<open>simp add: f values_for_Cons\<close>)
qed (simp add: values_for_def)

lemma distinct_sorted [simp]: "distinct (map fst (sort_key fst fs)) = distinct (map fst (fs :: fields))"
  by (rule mset_eq_imp_distinct_iff) simp

lemma plain_sorted: "plain_fields fs \<Longrightarrow> plain_fields (sort_key fst fs)"
  by (simp add: plain_fields_def)

lemma map_of_sorted: "distinct (map fst fs) \<Longrightarrow> map_of (sort_key fst fs) = map_of (fs :: fields)"
  by (simp add: map_of_inject_set)

lemma raw_map_plain: "plain_fields fs \<Longrightarrow> raw_map fs = rev fs"
  by (simp add: plain_fields_def raw_map_def rev_map [symmetric])

lemma plain_rev: "plain_fields fs \<Longrightarrow> plain_fields (rev fs) \<and> map_of (rev fs) = map_of fs"
  by (simp add: plain_fields_def rev_map [symmetric] map_of_inject_set)

lemma plain_update: "plain_fields fs \<Longrightarrow> lower_name k \<Longrightarrow> plain_fields (AList.update k v fs)"
  by (simp add: plain_fields_def distinct_update dom_update)

text \<open>The names of a written object are some of the names of its struct, in their order.\<close>

lemma names_within:
  assumes "subseq (map fst fs) names"
  shows "subseq (map fst ((k, v) # fs)) (k # names)" "subseq (map fst (omit_str k s @ fs)) (k # names)"
    "subseq (map fst (omit_list k l @ fs)) (k # names)" "subseq (map fst (omit_ptr k q @ fs)) (k # names)"
  using assms by (auto simp: omit_defs split: option.split)

lemma names_last: "subseq (map fst (omit_ptr k q)) [k]"
  by (simp add: omit_ptr_def split: option.split)

lemma plain_within:
  "subseq (map fst fs) names \<Longrightarrow> distinct names \<Longrightarrow> \<forall>n\<in>set names. lower_name n \<Longrightarrow> plain_fields fs"
  unfolding plain_fields_def subseq_conv_nths set_map [symmetric] by (auto simp: distinct_nthsI dest: in_set_nthsD simp del: set_map)

lemma plain_report: "report_json r = JObj fs \<Longrightarrow> plain_fields fs"
proof (rule plain_within [where names = "[''report_id'', ''prescription_id'', ''exit_code'', ''verdict'', ''decision_context'', ''external_refs'', ''flavor'', ''evidence'', ''source'']"])
  assume "report_json r = JObj fs"
  then show "subseq (map fst fs) [''report_id'', ''prescription_id'', ''exit_code'', ''verdict'', ''decision_context'', ''external_refs'', ''flavor'', ''evidence'', ''source'']"
    unfolding report_json_def append.simps json.inject by (auto simp only: intro!: names_within names_last)
qed (simp_all add: json_simps)

lemma plain_prescription: "prescription_json p = JObj fs \<Longrightarrow> plain_fields fs"
proof (rule plain_within [where names = "[''prescription_id'', ''canonical_action'', ''risk_inputs'', ''effective_risk'', ''risk_level'', ''risk_details'', ''risk_tags'', ''ttl_ms'', ''canon_source'', ''flavor'', ''evidence'', ''source'']"])
  assume "prescription_json p = JObj fs"
  then show "subseq (map fst fs) [''prescription_id'', ''canonical_action'', ''risk_inputs'', ''effective_risk'', ''risk_level'', ''risk_details'', ''risk_tags'', ''ttl_ms'', ''canon_source'', ''flavor'', ''evidence'', ''source'']"
    unfolding prescription_json_def append.simps json.inject by (auto simp only: intro!: names_within names_last)
qed (simp_all add: json_simps)

lemma unmarshal_report_cong:
  assumes "\<And>n. values_for n fs = values_for n gs"
  shows "unmarshal_report (JObj fs) = unmarshal_report (JObj gs)"
  by (simp only: unmarshal_report_def decode_str_def decode_ptr_def decode_list_def fields_of.simps option.case assms)

lemma unmarshal_prescription_cong:
  assumes "\<And>n. values_for n fs = values_for n gs"
  shows "unmarshal_prescription (JObj fs) = unmarshal_prescription (JObj gs)"
  by (simp only: unmarshal_prescription_def decode_str_def decode_int_def decode_ptr_def decode_list_def decode_raw_def
      fields_of.simps option.case assms)

text \<open>A written report is exported as the report with its two identifiers hashed.\<close>

lemma map_of_hashed_field:
  "map_of raw n = Some (JStr s) \<Longrightarrow> map_of (hashed_field a n p raw) = (map_of raw)(n \<mapsto> JStr (hash_of a p s))"
  by (simp add: hashed_field_def update_conv')

lemma plain_hashed_field: "plain_fields raw \<Longrightarrow> lower_name n \<Longrightarrow> plain_fields (hashed_field a n p raw)"
  by (simp add: hashed_field_def plain_update split: option.split)

lemma values_for_eq:
  "plain_fields fs \<Longrightarrow> plain_fields gs \<Longrightarrow> map_of fs = map_of gs \<Longrightarrow> values_for n (sort_key fst fs) = values_for n gs"
  by (simp add: values_for_plain plain_sorted map_of_sorted plain_fields_def [of fs])

lemma hashed_report_payload:
  "unmarshal_report (hashed_payload a EntryTypeReport (report_json r))
     = Some (r\<lparr>rpReportID := hash_of a ''rpt'' (rpReportID r), rpPrescriptionID := hash_of a ''rx'' (rpPrescriptionID r)\<rparr>)"
proof -
  let ?r = "r\<lparr>rpReportID := hash_of a ''rpt'' (rpReportID r), rpPrescriptionID := hash_of a ''rx'' (rpPrescriptionID r)\<rparr>"
  obtain fs gs where fs: "report_json r = JObj fs" and gs: "report_json ?r = JObj gs" by (simp add: report_json_def)
  have p: "plain_fields fs" "plain_fields gs" using plain_report fs gs by blast+
  let ?raw = "hashed_report a (rev fs)"
  have plain: "plain_fields ?raw" using plain_rev [OF p(1)] by (simp add: hashed_report_def plain_hashed_field json_simps)
  have ids: "map_of fs ''prescription_id'' = Some (JStr (rpPrescriptionID r))" "map_of fs ''report_id'' = Some (JStr (rpReportID r))"
    using fs by (auto simp: report_json_def)
  have "map_of ?raw = (map_of fs)(''prescription_id'' \<mapsto> JStr (rpPrescriptionID ?r), ''report_id'' \<mapsto> JStr (rpReportID ?r))"
    using plain_rev [OF p(1)] ids by (simp add: hashed_report_def map_of_hashed_field)
  also have "\<dots> = map_of gs" using fs gs by (auto simp: report_json_def fun_eq_iff)
  finally have "unmarshal_report (JObj (sort_key fst ?raw)) = unmarshal_report (JObj gs)"
    by (intro unmarshal_report_cong values_for_eq plain p(2))
  then show ?thesis using fs gs [symmetric]
    by (simp add: hashed_payload_def marshal_raw_def raw_map_plain [OF p(1)] entry_type_defs)
qed

lemma hashed_prescription_payload:
  fixes p :: PrescriptionPayload
  defines "j \<equiv> (case ppCanonicalAction p of None \<Rightarrow> JNull | Some j \<Rightarrow> j)"
  shows "unmarshal_prescription (hashed_payload a EntryTypePrescribe (prescription_json p))
     = Some (p\<lparr>ppPrescriptionID := hash_of a ''rx'' (ppPrescriptionID p),
         ppCanonicalAction := Some (case action_of j of None \<Rightarrow> j | Some ca \<Rightarrow> action_json (hashed_action a ca))\<rparr>)"
proof -
  let ?j = "case action_of j of None \<Rightarrow> j | Some ca \<Rightarrow> action_json (hashed_action a ca)"
  let ?p = "p\<lparr>ppPrescriptionID := hash_of a ''rx'' (ppPrescriptionID p), ppCanonicalAction := Some ?j\<rparr>"
  obtain fs gs where fs: "prescription_json p = JObj fs" and gs: "prescription_json ?p = JObj gs" by (simp add: prescription_json_def)
  have p: "plain_fields fs" "plain_fields gs" using plain_prescription fs gs by blast+
  have r: "plain_fields (rev fs)" "map_of (rev fs) = map_of fs" using plain_rev [OF p(1)] by simp_all
  have ids: "map_of fs ''prescription_id'' = Some (JStr (ppPrescriptionID p))" "map_of fs ''canonical_action'' = Some j"
    using fs by (auto simp: prescription_json_def j_def)
  let ?raw1 = "case action_of j of None \<Rightarrow> rev fs | Some ca \<Rightarrow> AList.update ''canonical_action'' (action_json (hashed_action a ca)) (rev fs)"
  have raw1: "plain_fields ?raw1" "map_of ?raw1 = (map_of fs)(''canonical_action'' \<mapsto> ?j)"
    using r ids(2) by (auto simp: plain_update update_conv' json_simps split: option.split)
  let ?raw = "hashed_prescription a (rev fs)"
  have raw: "?raw = hashed_field a ''prescription_id'' ''rx'' ?raw1" using r(2) ids(2) by (simp add: hashed_prescription_def)
  have plain: "plain_fields ?raw" unfolding raw by (rule plain_hashed_field [OF raw1(1)]) (simp add: json_simps)
  have "map_of ?raw = (map_of fs)(''canonical_action'' \<mapsto> ?j, ''prescription_id'' \<mapsto> JStr (ppPrescriptionID ?p))"
    unfolding raw using map_of_hashed_field [of ?raw1 "''prescription_id''" "ppPrescriptionID p" a "''rx''"] raw1(2) ids(1) by simp
  also have "\<dots> = map_of gs" using fs gs by (auto simp: prescription_json_def fun_eq_iff)
  finally have "unmarshal_prescription (JObj (sort_key fst ?raw)) = unmarshal_prescription (JObj gs)"
    by (intro unmarshal_prescription_cong values_for_eq plain p(2))
  then show ?thesis using fs gs [symmetric]
    by (simp add: hashed_payload_def marshal_raw_def raw_map_plain [OF p(1)])
qed

section \<open>The links of a report\<close>

text \<open>Prescriptions and reports whose payloads are as the code writes them.\<close>

definition written_payload :: "EvidenceEntry \<Rightarrow> bool" where
  "written_payload e \<longleftrightarrow> (is_prescribe e \<longrightarrow> Payload e \<in> range prescription_json) \<and> (is_report e \<longrightarrow> Payload e \<in> range report_json)"

lemma hashed_entry_fields [simp]:
  "is_prescribe (hashed_entry a e) = is_prescribe e" "is_report (hashed_entry a e) = is_report e"
  "EntryID (hashed_entry a e) = hash_of a ''eid'' (EntryID e)" "Timestamp (hashed_entry a e) = Timestamp e"
  by (simp_all add: hashed_entry_def is_prescribe_def is_report_def)

lemma hashed_payload_of [simp]: "Payload (hashed_entry a e) = hashed_payload a (Type e) (Payload e)"
  by (simp add: hashed_entry_def)

lemma hashed_decodes: "written_payload e \<Longrightarrow> decodes (hashed_entry a e)"
proof -
  assume w: "written_payload e"
  have "unmarshal_prescription (hashed_payload a (Type e) (Payload e)) \<noteq> None" if "is_prescribe e"
    using w that by (auto simp: written_payload_def is_prescribe_def hashed_prescription_payload)
  moreover have "unmarshal_report (hashed_payload a (Type e) (Payload e)) \<noteq> None" if r: "is_report e"
  proof -
    obtain r where "Payload e = report_json r" using w r by (auto simp: written_payload_def)
    then show ?thesis using r by (simp add: is_report_def hashed_report_payload)
  qed
  ultimately show ?thesis by (simp add: decodes_def)
qed

lemma eid_not_rx: "hash_of a ''eid'' s = hash_of a ''rx'' t \<longleftrightarrow> s = [] \<and> t = []"
  by (simp add: hash_of_def)

text \<open>
  C8. The bundle of an anonymised export holds, for every entry in order, a pure function of that entry alone: the cache that the
  anonymiser keeps through the run never shows, so equal identifiers of one kind get equal texts.
\<close>

theorem export_without_cache:
  assumes "loadAllEntries files = Some entries" "entries \<noteq> []"
  shows "\<exists>b. Export (Some a) visit fmt now files = Inr b \<and> buLines b = map (hashed_entry a) entries
    \<and> bdEntryCount (buManifest b) = int (length entries)"
proof -
  obtain b where b: "Export (Some a) visit fmt now files = Inr b" "buLines b = map (hashed_entry a) entries"
    using bundle_lines [OF assms] by blast
  moreover have "bdEntryCount (buManifest b) = int (length (buLines b))"
    using b(1) assms by (auto simp: Export_def Let_def)
  ultimately show ?thesis by simp
qed

text \<open>
  C7. An anonymised bundle has lost every link from a report to its prescription: entry ids and prescription ids are hashed
  with different prefixes. Whatever the log was, each of its reports becomes an unprescribed action and each
  prescription older than the time to live an unreported one.
\<close>

theorem export_unlinks_reports:
  assumes "loadAllEntries files = Some entries" "entries \<noteq> []" "\<forall>e\<in>set entries. written_payload e"
  shows "\<exists>b ses. Export (Some a) visit fmt now files = Inr b \<and> EvidenceToSignalEntries (buLines b) = Inr ses \<and>
    (\<forall>e\<in>set entries. \<forall>r. is_report e \<and> Payload e = report_json r \<and> rpPrescriptionID r \<noteq> [] \<longrightarrow>
       (\<exists>v\<in>set (DetectProtocolViolationEvents ses ttl t).
          seSubSignal v = ''unprescribed_action'' \<and> seEntryRef v = hash_of a ''eid'' (EntryID e))) \<and>
    (\<forall>e\<in>set entries. is_prescribe e \<and> EntryID e \<noteq> [] \<and> ttl < TimeSub t (Timestamp e) \<longrightarrow>
       (\<exists>v\<in>set (DetectProtocolViolationEvents ses ttl t). seDetails v = Unreported (hash_of a ''eid'' (EntryID e)) ttl))"
proof -
  obtain b where b: "Export (Some a) visit fmt now files = Inr b" "buLines b = map (hashed_entry a) entries"
    using bundle_lines [OF assms(1,2)] by blast
  have dec: "\<And>e. e \<in> set (buLines b) \<Longrightarrow> decodes e" using assms(3) hashed_decodes by (auto simp: b(2))
  obtain actions where s: "EvidenceToSignalEntries (buLines b) = Inr (List.map_filter (signal_entry actions) (buLines b))"
    using Evidence_to_signal [OF dec] by metis
  let ?ses = "List.map_filter (signal_entry actions) (buLines b)"
  have into: "\<exists>se\<in>set ?ses. signal_entry actions (hashed_entry a e) = Some se" if "e \<in> set entries" "is_prescribe e \<or> is_report e" for e
    using signal_entry_Some [of "hashed_entry a e" actions] that dec by (auto simp: b(2) map_filter_in)
  have from_log: "\<exists>e\<in>set entries. signal_entry actions (hashed_entry a e) = Some se" if "se \<in> set ?ses" for se
    using that by (auto simp: b(2) map_filter_in)
  have rx: "\<exists>i. enPrescriptionID se = hash_of a ''rx'' i" if se: "se \<in> set ?ses" "enIsReport se" for se
  proof -
    obtain e where e: "e \<in> set entries" "signal_entry actions (hashed_entry a e) = Some se" using from_log [OF se(1)] by blast
    have "is_report e" using signal_entry_SomeD(7) [OF e(2)] se(2) by simp
    with e(1) assms(3) obtain r where "Payload e = report_json r" "Type e = EntryTypeReport"
      by (auto simp: written_payload_def is_report_def)
    then show ?thesis using signal_entry_SomeD(9) [OF e(2)] \<open>is_report e\<close> by (auto simp: hashed_report_payload)
  qed
  have "\<exists>v\<in>set (DetectProtocolViolationEvents ?ses ttl t). seSubSignal v = ''unprescribed_action'' \<and> seEntryRef v = hash_of a ''eid'' (EntryID e)"
    if e: "e \<in> set entries" "is_report e" "Payload e = report_json r" "rpPrescriptionID r \<noteq> []" for e r
  proof -
    obtain se where se: "se \<in> set ?ses" "signal_entry actions (hashed_entry a e) = Some se" using into [OF e(1)] e(2) by blast
    have f: "enIsReport se" "enEventID se = hash_of a ''eid'' (EntryID e)" "enPrescriptionID se = hash_of a ''rx'' (rpPrescriptionID r)"
      using signal_entry_SomeD(1,7,9) [OF se(2)] e(2,3) e(2) [unfolded is_report_def] by (auto simp: hashed_report_payload)
    have ne: "enPrescriptionID se \<noteq> []" using f(3) e(4) by (simp add: hash_of_def)
    have "enEventID q \<noteq> enPrescriptionID se" if q: "q \<in> set ?ses" "enIsPrescription q" for q
    proof -
      obtain x where "signal_entry actions (hashed_entry a x) = Some q" using from_log [OF q(1)] by blast
      from signal_entry_SomeD(1) [OF this] show ?thesis using f(3) e(4) eid_not_rx [of a "EntryID x" "rpPrescriptionID r"] by auto
    qed
    then have "prescriptions_by_id ?ses (enPrescriptionID se) = None"
      by (auto simp: prescriptions_by_id_def collect_None_iff split: if_splits)
    from check_reports_unknown [where prescriptions = "prescriptions_by_id ?ses" and first = Map.empty, OF se(1) f(1) ne this] show ?thesis
      by (auto simp: DetectProtocolViolationEvents_def violation_def f(2) intro!: bexI)
  qed
  moreover have "\<exists>v\<in>set (DetectProtocolViolationEvents ?ses ttl t). seDetails v = Unreported (hash_of a ''eid'' (EntryID e)) ttl"
    if e: "e \<in> set entries" "is_prescribe e" "EntryID e \<noteq> []" "ttl < TimeSub t (Timestamp e)" for e
  proof -
    obtain se where se: "se \<in> set ?ses" "signal_entry actions (hashed_entry a e) = Some se" using into [OF e(1)] e(2) by blast
    have f: "enIsPrescription se" "enEventID se = hash_of a ''eid'' (EntryID e)" "enTimestamp se = Timestamp e"
      using signal_entry_SomeD(1,2,6) [OF se(2)] e(2) by auto
    have "enEventID se \<notin> reported_ids ?ses"
    proof
      assume "enEventID se \<in> reported_ids ?ses"
      then obtain q where "q \<in> set ?ses" "enIsReport q" "enPrescriptionID q = enEventID se" by (auto simp: reported_ids_def)
      then show False using rx [of q] f(2) e(3) eid_not_rx [of a "EntryID e"] by auto
    qed
    then show ?thesis using se(1) f e(4) by (force simp: DetectProtocolViolationEvents_def DetectUnreported_def)
  qed
  ultimately show ?thesis using b(1) s by blast
qed

text \<open>
  The anonymiser looks for \<open>entry_ref\<close>, while a signal is written with \<open>entry_refs\<close>: the ids of
  its entries stay as they were.
\<close>

lemma plain_signal: "signal_json sp = JObj fs \<Longrightarrow> plain_fields fs"
proof (rule plain_within [where names = "[''signal_name'', ''sub_signal'', ''entry_refs'', ''details'']"])
  assume "signal_json sp = JObj fs"
  then show "subseq (map fst fs) [''signal_name'', ''sub_signal'', ''entry_refs'', ''details'']"
    unfolding signal_json_def append.simps json.inject by (auto simp: omit_defs)
qed code_simp+

lemma signal_refs_exported:
  "\<exists>fs. hashed_payload a EntryTypeSignal (signal_json sp) = JObj fs \<and>
     decode_raw ''entry_refs'' fs = Some (JArr (map JStr (spEntryRefs sp)))"
proof -
  obtain fs where fs: "signal_json sp = JObj fs" by (simp add: signal_json_def)
  note p = plain_signal [OF fs]
  have r: "plain_fields (rev fs)" "map_of (rev fs) = map_of fs" using plain_rev [OF p] by simp_all
  have refs: "map_of fs ''entry_refs'' = Some (JArr (map JStr (spEntryRefs sp)))" "map_of fs ''entry_ref'' = None"
    using fs by (auto simp: signal_json_def omit_defs)
  have names: "lower_name ''details''" "lower_name ''entry_refs''" by code_simp+
  let ?raw = "hashed_signal a (rev fs)"
  have raw: "plain_fields ?raw" "map_of ?raw ''entry_refs'' = Some (JArr (map JStr (spEntryRefs sp)))"
    using r refs names(1) by (auto simp: hashed_signal_def hashed_field_def update_conv' Let_def intro!: plain_update)
  have "values_for ''entry_refs'' (sort_key fst ?raw) = [JArr (map JStr (spEntryRefs sp))]"
    using raw names(2) by (simp add: values_for_plain plain_sorted map_of_sorted plain_fields_def [of ?raw] lower_name_def)
  then show ?thesis
    by (simp add: fs hashed_payload_def marshal_raw_def raw_map_plain [OF p] entry_type_defs decode_raw_def)
qed

definition sample_anonymizer :: Anonymizer where
  "sample_anonymizer = \<lparr>anDigest = (\<lambda>s. ''0123456789abcdef''), anSalt = ''salt''\<rparr>"

definition sample_round :: "EvidenceEntry list" where
  "sample_round = [sample_prescribe_entry ''p'' 0, sample_lone_report ''p'' Hour]"

theorem export_without_cache_witness:
  "\<exists>b. Export (Some sample_anonymizer) id (\<lambda>t. []) 0 [(''s.jsonl'', [(9, EntryText sample_wire_entry)])] = Inr b \<and>
     bdEntryCount (buManifest b) = 1"
  using export_without_cache [of "[(''s.jsonl'', [(9, EntryText sample_wire_entry)])]" "[sample_wire_entry]" sample_anonymizer id "\<lambda>t. []" 0]
  by (auto simp: ExportTokenSize_def HasSuffix_def)

theorem export_unlinks_reports_witness:
  "\<exists>all b ses. EvidenceToSignalEntries sample_round = Inr all \<and> DetectProtocolViolationEvents all DefaultTTL (2 * Hour) = [] \<and>
     Export (Some sample_anonymizer) id (\<lambda>t. []) 0 [(''s.jsonl'', map (\<lambda>e. (9, EntryText e)) sample_round)] = Inr b \<and>
     EvidenceToSignalEntries (buLines b) = Inr ses \<and>
     ''unprescribed_action'' \<in> seSubSignal ` set (DetectProtocolViolationEvents ses DefaultTTL (2 * Hour))"
proof -
  let ?p = "sample_prescribe_entry ''p'' 0" and ?r = "sample_lone_report ''p'' Hour"
  obtain all where all: "EvidenceToSignalEntries [?p, ?r] = Inr all" "DetectProtocolViolationEvents all DefaultTTL (2 * Hour) = []"
    using round_clean [of "[?p, ?r]" ?p "[]" ?r "''p''" "[]" "[]" undefined "''d1''" "Some 0" DefaultTTL "2 * Hour"] by auto
  have load: "loadAllEntries [(''s.jsonl'', map (\<lambda>e. (9, EntryText e)) sample_round)] = Some sample_round"
    by (simp add: sample_round_def ExportTokenSize_def HasSuffix_def)
  have w: "\<forall>e\<in>set sample_round. written_payload e"
    by (auto simp: sample_round_def written_payload_def sample_prescribe_entry_def [THEN arg_cong [of _ _ Payload]]
       sample_lone_report_def [THEN arg_cong [of _ _ Payload]])
  have ne: "sample_round \<noteq> []" "?r \<in> set sample_round" by (simp_all add: sample_round_def)
  obtain r where r: "Payload ?r = report_json r" "rpPrescriptionID r = ''p''" by (simp add: sample_lone_report_def)
  from export_unlinks_reports [OF load ne(1) w, of sample_anonymizer id "\<lambda>t. []" 0 DefaultTTL "2 * Hour"] obtain b ses where
    x: "Export (Some sample_anonymizer) id (\<lambda>t. []) 0 [(''s.jsonl'', map (\<lambda>e. (9, EntryText e)) sample_round)] = Inr b"
    "EvidenceToSignalEntries (buLines b) = Inr ses"
    "\<exists>v\<in>set (DetectProtocolViolationEvents ses DefaultTTL (2 * Hour)). seSubSignal v = ''unprescribed_action''"
    using ne(2) r by (auto dest!: bspec [of _ _ ?r])
  obtain v where "v \<in> set (DetectProtocolViolationEvents ses DefaultTTL (2 * Hour))" "seSubSignal v = ''unprescribed_action''"
    using x(3) by blast
  then have "''unprescribed_action'' \<in> seSubSignal ` set (DetectProtocolViolationEvents ses DefaultTTL (2 * Hour))"
    using image_eqI [of _ seSubSignal v] by metis
  then show ?thesis using all x(1,2) unfolding sample_round_def by blast
qed

end
