(* ===== verification/Spec2Isabelle.thy ===== *)
theory Spec2Isabelle
  imports Evidence_Props Canon_Facts Risk Signals Score_Props Lifecycle_Props Lock Entry_Json
    Analytics_Props Entry_Table_Props Ingest_Reports Command_Props Mcp_Props
    Assessment_Props Smart_Output_Props Anonymize_Props
begin

text \<open>
  A model of Evidra.
\<close>

end
